(* ===== verification/Prelude.thy ===== *)
theory Prelude
  imports Complex_Main "HOL-Library.AList"
begin

text \<open>
  Prelude of the development: the collections of rewrite rules the component theories
  fill, the umlauts of the German messages (the sources are UTF-8; a character outside
  ASCII is written as its bytes), and generic facts on lists, association lists and
  decimal numerals that several components use.
\<close>

named_theorems js_simps "evaluation of JavaScript values: truthiness, property reads, coercions"
named_theorems reducer_simps "equations of the slice reducers and of the root reducer"
named_theorems prog_simps "evaluation of effect programs"
named_theorems thunk_defs "definitions of thunks and payload creators"

section \<open>Characters outside ASCII\<close>

abbreviation s_ae :: string where "s_ae \<equiv> [CHR 0xC3, CHR 0xA4]"
abbreviation s_oe :: string where "s_oe \<equiv> [CHR 0xC3, CHR 0xB6]"
abbreviation s_ue :: string where "s_ue \<equiv> [CHR 0xC3, CHR 0xBC]"
abbreviation s_AE :: string where "s_AE \<equiv> [CHR 0xC3, CHR 0x84]"
abbreviation s_UE :: string where "s_UE \<equiv> [CHR 0xC3, CHR 0x9C]"
abbreviation s_ss :: string where "s_ss \<equiv> [CHR 0xC3, CHR 0x9F]"
abbreviation s_endash :: string where "s_endash \<equiv> [CHR 0xE2, CHR 0x80, CHR 0x93]"
abbreviation s_emdash :: string where "s_emdash \<equiv> [CHR 0xE2, CHR 0x80, CHR 0x94]"
abbreviation s_dots :: string where "s_dots \<equiv> [CHR 0xE2, CHR 0x80, CHR 0xA6]"
abbreviation s_lquote :: string where "s_lquote \<equiv> [CHR 0xE2, CHR 0x80, CHR 0x9E]"
abbreviation s_rquote :: string where "s_rquote \<equiv> [CHR 0xE2, CHR 0x80, CHR 0x9C]"

section \<open>Lists\<close>

lemma filter_neq_idle: "x \<notin> f ` set xs \<Longrightarrow> filter (\<lambda>y. f y \<noteq> x) xs = xs"
  by (induction xs) auto

lemma filter_neq_append_single:
  "f y = x \<Longrightarrow> filter (\<lambda>z. f z \<noteq> x) (xs @ [y]) = filter (\<lambda>z. f z \<noteq> x) xs"
  by simp

text \<open>The last \<open>n\<close> elements of a list.\<close>

definition last_n :: "nat \<Rightarrow> 'a list \<Rightarrow> 'a list" where
  "last_n n xs = drop (length xs - n) xs"

lemma length_last_n [simp]: "length (last_n n xs) = min n (length xs)"
  by (simp add: last_n_def)

lemma last_n_short: "length xs \<le> n \<Longrightarrow> last_n n xs = xs"
  by (simp add: last_n_def)

lemma last_n_snoc: "0 < n \<Longrightarrow> last_n n (xs @ [x]) = last_n (n - 1) xs @ [x]"
  by (cases "length xs < n") (auto simp: last_n_def Suc_diff_le not_less)

lemma last_n_tl: "length xs = n \<Longrightarrow> 0 < n \<Longrightarrow> last_n (n - 1) xs = tl xs"
  by (cases xs) (auto simp: last_n_def)

lemma last_n_last_n:
  assumes "m \<le> n"
  shows "last_n m (last_n n xs) = last_n m xs"
proof -
  from assms have "length xs - (length xs - n + m) + (length xs - n) = length xs - m" by arith
  then show ?thesis using assms by (simp add: last_n_def)
qed

section \<open>Association lists with the key order of a JavaScript object\<close>

text \<open>
  A JavaScript object used as a dictionary keeps its (string) keys in insertion order,
  an assignment to a key that is present leaves the order alone: \<open>AList.update\<close>. The
  keys of an object are distinct; \<open>AList.delete\<close> removes one.
\<close>

definition wf_alist :: "('k \<times> 'v) list \<Rightarrow> bool" where
  "wf_alist xs \<longleftrightarrow> distinct (map fst xs)"

lemma wf_alist_Nil [simp, intro]: "wf_alist []"
  by (simp add: wf_alist_def)

lemma wf_alist_update [simp, intro]: "wf_alist xs \<Longrightarrow> wf_alist (AList.update k v xs)"
  by (simp add: wf_alist_def distinct_update)

lemma wf_alist_delete [simp, intro]: "wf_alist xs \<Longrightarrow> wf_alist (AList.delete k xs)"
  by (simp add: wf_alist_def distinct_delete)

lemma wf_alist_map_vals: "wf_alist (map (\<lambda>(k, v). (k, f v)) xs) \<longleftrightarrow> wf_alist xs"
  by (simp add: wf_alist_def case_prod_beta comp_def)

lemma wf_alist_map_of:
  "wf_alist xs \<Longrightarrow> (k, v) \<in> set xs \<longleftrightarrow> map_of xs k = Some v"
  by (simp add: wf_alist_def)

lemma map_of_map_vals: "map_of (map (\<lambda>(k, v). (k, f v)) xs) k = map_option f (map_of xs k)"
  by (induction xs) auto

section \<open>Decimal numerals\<close>

definition digit_char :: "nat \<Rightarrow> char" where
  "digit_char d = char_of (48 + d)"

fun nat_str :: "nat \<Rightarrow> string" where
  "nat_str n = (if n < 10 then [digit_char n] else nat_str (n div 10) @ [digit_char (n mod 10)])"

declare nat_str.simps [simp del]

definition int_str :: "int \<Rightarrow> string" where
  "int_str i = (if i < 0 then ''-'' @ nat_str (nat (- i)) else nat_str (nat i))"

definition digit_val :: "char \<Rightarrow> nat" where
  "digit_val ch = of_char ch - 48"

definition is_digit :: "char \<Rightarrow> bool" where
  "is_digit ch \<longleftrightarrow> 48 \<le> (of_char ch :: nat) \<and> (of_char ch :: nat) \<le> 57"

definition parse_digits :: "string \<Rightarrow> nat" where
  "parse_digits ds = foldl (\<lambda>n d. 10 * n + digit_val d) 0 ds"

lemma of_char_digit: "d < 10 \<Longrightarrow> (of_char (digit_char d) :: nat) = 48 + d"
  by (simp add: digit_char_def)

lemma digit_val_digit [simp]: "d < 10 \<Longrightarrow> digit_val (digit_char d) = d"
  by (simp add: digit_val_def of_char_digit)

lemma parse_digits_nat_str [simp]: "parse_digits (nat_str n) = n"
proof (induction n rule: nat_str.induct)
  case (1 n)
  show ?case
  proof (cases "n < 10")
    case True
    then show ?thesis by (simp add: nat_str.simps [of n] parse_digits_def)
  next
    case False
    have "parse_digits (nat_str n) = 10 * parse_digits (nat_str (n div 10)) + n mod 10"
      using False by (subst nat_str.simps) (simp add: parse_digits_def)
    with "1.IH" False show ?thesis by simp
  qed
qed

lemma nat_str_inject [simp]: "nat_str m = nat_str n \<longleftrightarrow> m = n"
  by (metis parse_digits_nat_str)

lemma nat_str_nonempty [simp]: "nat_str n \<noteq> []"
  by (subst nat_str.simps) simp

lemma length_nat_str_less_10: "n < 10 \<Longrightarrow> length (nat_str n) = 1"
  by (subst nat_str.simps) simp

lemma length_nat_str_less_100: "10 \<le> n \<Longrightarrow> n < 100 \<Longrightarrow> length (nat_str n) = 2"
  by (subst nat_str.simps) (simp add: length_nat_str_less_10)

lemma digit_chars_nat_str: "set (nat_str n) \<subseteq> digit_char ` {..<10}"
proof (induction n rule: nat_str.induct)
  case (1 n)
  then show ?case
    by (subst nat_str.simps) (auto split: if_splits)
qed

lemma digit_char_inj: "d < 10 \<Longrightarrow> e < 10 \<Longrightarrow> digit_char d = digit_char e \<longleftrightarrow> d = e"
  by (metis digit_val_digit)

text \<open>\<open>String.prototype.padStart (n, p)\<close> for a pad of one character.\<close>

definition padStart :: "nat \<Rightarrow> char \<Rightarrow> string \<Rightarrow> string" where
  "padStart n p s = replicate (n - length s) p @ s"

lemma length_padStart [simp]: "length (padStart n p s) = max n (length s)"
  by (simp add: padStart_def)

lemma parse_digits_padStart [simp]: "parse_digits (padStart n (CHR ''0'') s) = parse_digits s"
proof -
  have "foldl (\<lambda>n d. 10 * n + digit_val d) 0 (replicate k (CHR ''0'')) = 0" for k
    by (induction k) (auto simp: digit_val_def)
  then show ?thesis by (simp add: padStart_def parse_digits_def)
qed

end
