(* ===== verification/JsValue.thy ===== *)
theory JsValue
  imports Prelude
begin

text \<open>
  The part of JavaScript the dashboard's code computes with: dynamic values (what
  \<open>response.json()\<close> yields is untyped, the TypeScript annotations are not checked at run
  time), truthiness, property reads that throw on \<open>null\<close> and \<open>undefined\<close>, optional
  chaining, \<open>??\<close>, \<open>||\<close>, number coercion, and what a \<open>catch\<close> clause can see.

  Numbers are exact rationals and NaN: the code only scales by small constants, rounds,
  compares and prints. Objects hold their own properties; inherited ones (of
  \<open>Object.prototype\<close>) are left out. A TypeError's text, which ECMAScript leaves to the
  engine, is V8's.
\<close>

section \<open>Values\<close>

datatype jsval =
    JUndefined
  | JNull
  | JBool bool
  | JNaN
  | JNum rat
  | JStr string
  | JArr "jsval list"
  | JObj "(string \<times> jsval) list"

text \<open>What \<open>throw\<close> throws: an \<open>Error\<close> with its message, or another value with its text.\<close>

datatype thrown = ErrorObj string | OtherThrown string

text \<open>\<open>error instanceof Error ? error.message : fallback\<close>\<close>

fun error_message_or :: "string \<Rightarrow> thrown \<Rightarrow> string" where
  "error_message_or fb (ErrorObj m) = m"
| "error_message_or fb (OtherThrown t) = fb"

fun thrown_text :: "thrown \<Rightarrow> string" where
  "thrown_text (ErrorObj m) = m"
| "thrown_text (OtherThrown t) = t"

section \<open>Operators\<close>

fun truthy :: "jsval \<Rightarrow> bool" where
  "truthy JUndefined = False"
| "truthy JNull = False"
| "truthy (JBool b) = b"
| "truthy JNaN = False"
| "truthy (JNum x) = (x \<noteq> 0)"
| "truthy (JStr s) = (s \<noteq> [])"
| "truthy (JArr xs) = True"
| "truthy (JObj fs) = True"

fun nullish :: "jsval \<Rightarrow> bool" where
  "nullish JUndefined = True"
| "nullish JNull = True"
| "nullish _ = False"

text \<open>\<open>a || b\<close>, \<open>a && b\<close> and \<open>a ?? b\<close>\<close>

definition js_or :: "jsval \<Rightarrow> jsval \<Rightarrow> jsval" where
  "js_or a b = (if truthy a then a else b)"

definition js_and :: "jsval \<Rightarrow> jsval \<Rightarrow> jsval" where
  "js_and a b = (if truthy a then b else a)"

definition js_coalesce :: "jsval \<Rightarrow> jsval \<Rightarrow> jsval" where
  "js_coalesce a b = (if nullish a then b else a)"

definition nullish_name :: "jsval \<Rightarrow> string" where
  "nullish_name v = (case v of JNull \<Rightarrow> ''null'' | _ \<Rightarrow> ''undefined'')"

definition type_error :: "jsval \<Rightarrow> string \<Rightarrow> thrown" where
  "type_error v k =
     ErrorObj (''Cannot read properties of '' @ nullish_name v @ '' (reading '' @
       [CHR 0x27] @ k @ [CHR 0x27] @ '')'')"

text \<open>\<open>x.f is not a function\<close>, with the callee as the engine prints it.\<close>

definition not_a_function :: "string \<Rightarrow> thrown" where
  "not_a_function callee = ErrorObj (callee @ '' is not a function'')"

text \<open>\<open>a === b\<close> for two values that share no object (each from a parse of its own).\<close>

fun js_same :: "jsval \<Rightarrow> jsval \<Rightarrow> bool" where
  "js_same (JArr xs) b = False"
| "js_same (JObj fs) b = False"
| "js_same JNaN b = False"
| "js_same a b = (a = b)"

text \<open>\<open>xs.map(f)\<close> for an \<open>f\<close> that may throw: the first throw ends it.\<close>

fun map_throwing :: "('a \<Rightarrow> thrown + 'b) \<Rightarrow> 'a list \<Rightarrow> thrown + 'b list" where
  "map_throwing f [] = Inr []"
| "map_throwing f (x # xs) =
     (case f x of
        Inl e \<Rightarrow> Inl e
      | Inr y \<Rightarrow> (case map_throwing f xs of Inl e \<Rightarrow> Inl e | Inr ys \<Rightarrow> Inr (y # ys)))"

text \<open>The own property \<open>k\<close> of a value that is not null or undefined.\<close>

fun own_prop :: "jsval \<Rightarrow> string \<Rightarrow> jsval" where
  "own_prop (JObj fs) k = (case map_of fs k of None \<Rightarrow> JUndefined | Some v \<Rightarrow> v)"
| "own_prop (JArr xs) k = (if k = ''length'' then JNum (of_nat (length xs)) else JUndefined)"
| "own_prop (JStr s) k = (if k = ''length'' then JNum (of_nat (length s)) else JUndefined)"
| "own_prop _ k = JUndefined"

text \<open>\<open>v.k\<close> and \<open>v?.k\<close>\<close>

definition js_get :: "jsval \<Rightarrow> string \<Rightarrow> thrown + jsval" where
  "js_get v k = (if nullish v then Inl (type_error v k) else Inr (own_prop v k))"

definition js_opt_get :: "jsval \<Rightarrow> string \<Rightarrow> jsval" where
  "js_opt_get v k = (if nullish v then JUndefined else own_prop v k)"

section \<open>Numbers\<close>

definition all_digits :: "string \<Rightarrow> bool" where
  "all_digits s \<longleftrightarrow> s \<noteq> [] \<and> list_all is_digit s"

text \<open>
  ECMAScript's ToNumber; \<open>None\<close> is NaN. Of the strings only the empty one and plain digit
  strings are read as numbers, and no array or object is.
\<close>

fun js_to_number :: "jsval \<Rightarrow> rat option" where
  "js_to_number JUndefined = None"
| "js_to_number JNull = Some 0"
| "js_to_number (JBool b) = Some (if b then 1 else 0)"
| "js_to_number JNaN = None"
| "js_to_number (JNum x) = Some x"
| "js_to_number (JStr s) =
     (if s = [] then Some 0 else if all_digits s then Some (of_nat (parse_digits s)) else None)"
| "js_to_number (JArr xs) = None"
| "js_to_number (JObj fs) = None"

definition of_number :: "rat option \<Rightarrow> jsval" where
  "of_number x = (case x of None \<Rightarrow> JNaN | Some q \<Rightarrow> JNum q)"

definition js_div :: "jsval \<Rightarrow> rat \<Rightarrow> jsval" where
  "js_div v q = of_number (map_option (\<lambda>x. x / q) (js_to_number v))"

definition js_mult :: "jsval \<Rightarrow> rat \<Rightarrow> jsval" where
  "js_mult v q = of_number (map_option (\<lambda>x. x * q) (js_to_number v))"

definition js_rsub :: "rat \<Rightarrow> jsval \<Rightarrow> jsval" where
  "js_rsub q v = of_number (map_option (\<lambda>x. q - x) (js_to_number v))"

text \<open>\<open>Math.round\<close>: halves go up, which is what HOL's \<open>round\<close> does.\<close>

definition js_round :: "jsval \<Rightarrow> jsval" where
  "js_round v = of_number (map_option (\<lambda>x. of_int (round x)) (js_to_number v))"

definition js_gt :: "jsval \<Rightarrow> rat \<Rightarrow> bool" where
  "js_gt v q = (case js_to_number v of None \<Rightarrow> False | Some x \<Rightarrow> q < x)"

definition js_ge :: "jsval \<Rightarrow> rat \<Rightarrow> bool" where
  "js_ge v q = (case js_to_number v of None \<Rightarrow> False | Some x \<Rightarrow> q \<le> x)"

fun is_number :: "jsval \<Rightarrow> bool" where
  "is_number (JNum x) = True"
| "is_number JNaN = True"
| "is_number _ = False"

text \<open>
  \<open>String (x)\<close> for a number: an integer prints exactly, another number with its decimal
  digits, at most 17 of them.
\<close>

fun frac_digits :: "nat \<Rightarrow> rat \<Rightarrow> string" where
  "frac_digits 0 f = []"
| "frac_digits (Suc n) f =
     (if f = 0 then [] else digit_char (nat \<lfloor>10 * f\<rfloor>) # frac_digits n (10 * f - of_int \<lfloor>10 * f\<rfloor>))"

definition rat_str :: "rat \<Rightarrow> string" where
  "rat_str x =
     (let a = \<bar>x\<bar>; s = nat_str (nat \<lfloor>a\<rfloor>); f = a - of_int \<lfloor>a\<rfloor>
      in (if x < 0 then ''-'' else []) @ (if f = 0 then s else s @ ''.'' @ frac_digits 17 f))"

lemma rat_str_of_nat: "rat_str (of_nat n) = nat_str n"
  by (simp add: rat_str_def Let_def)

lemma rat_str_of_int: "rat_str (of_int i) = int_str i"
  by (simp add: rat_str_def Let_def int_str_def)

section \<open>Rules\<close>

lemmas js_defs [js_simps] =
  js_or_def js_and_def js_coalesce_def js_get_def js_opt_get_def of_number_def
  js_div_def js_mult_def js_rsub_def js_round_def js_gt_def js_ge_def

lemma nullish_iff: "nullish v \<longleftrightarrow> v = JUndefined \<or> v = JNull"
  by (cases v) auto

lemma truthy_not_nullish: "truthy v \<Longrightarrow> \<not> nullish v"
  by (cases v) auto

lemma js_coalesce_not_nullish: "\<not> nullish b \<Longrightarrow> \<not> nullish (js_coalesce a b)"
  by (simp add: js_coalesce_def)

lemma js_get_total: "\<not> nullish v \<Longrightarrow> js_get v k = Inr (own_prop v k)"
  by (simp add: js_get_def)

lemma js_get_null: "js_get JNull k = Inl (type_error JNull k)"
  by (simp add: js_get_def)

end
