(* ===== verification/Prog.thy ===== *)
theory Prog
  imports JsValue
begin

text \<open>
  Effect programs. A thunk of the store (an \<open>async\<close> function that dispatches actions, reads
  the state, awaits requests) is a value of the datatype \<open>prog\<close>: a tree whose inner nodes
  are the effects of the code in the order the code has them and whose leaves are its
  \<open>return\<close> and \<open>throw\<close>. The tree does not fix what the outside answers, so one tree has
  two readings, both executable:
  \<^item> \<open>run\<close>: the thunk alone, from its first statement to its last, against a \<open>world\<close> that
    answers its requests, numbers its uuids and lets time pass;
  \<^item> \<open>seg\<close> of the theory EventLoop: one run-to-completion segment, up to the next \<open>await\<close>;
    EventLoop interleaves the segments of any number of thunks.

  A loop of the code whose number of rounds depends on the outside gets fuel; running out is
  the leaf \<open>OutOfFuel\<close>, never a result.

  Redux Toolkit, react-uuid and the browser are not part of the repository. A uuid is
  whatever the world answers. \<open>createAsyncThunk\<close> is an argument of the thunks that use it;
  \<open>rtk_lifecycle\<close> states its documented behaviour.
\<close>

section \<open>Requests and what may come back\<close>

record request =
  rq_method :: string
  rq_url :: string
  rq_headers :: "(string \<times> string) list"
  rq_body :: "jsval option"

text \<open>
  \<open>rs_body\<close> is what \<open>response.json()\<close> settles to: the parsed value, or the error of a
  body that is no JSON. A request is answered after \<open>ne_latency\<close> milliseconds, by a response
  or by the network's error.
\<close>

record response =
  rs_status :: nat
  rs_body :: "thrown + jsval"

record net_event =
  ne_latency :: int
  ne_answer :: "thrown + response"

definition rs_ok :: "response \<Rightarrow> bool" where
  "rs_ok r \<longleftrightarrow> 200 \<le> rs_status r \<and> rs_status r \<le> 299"

datatype browser_call = NavigateTo string | ReloadPage | ConsoleError

section \<open>Programs\<close>

datatype (dead 's, dead 'a, dead 't, 'r) prog =
    Return 'r
  | Throw thrown
  | Dispatch 'a "('s, 'a, 't, 'r) prog"
  | GetState "'s \<Rightarrow> ('s, 'a, 't, 'r) prog"
  | DateNow "int \<Rightarrow> ('s, 'a, 't, 'r) prog"
  | Uuid "string \<Rightarrow> ('s, 'a, 't, 'r) prog"
  | OnLine "bool \<Rightarrow> ('s, 'a, 't, 'r) prog"
  | Await request "net_event \<Rightarrow> ('s, 'a, 't, 'r) prog"
  | Yield "('s, 'a, 't, 'r) prog"
  | Sleep int "('s, 'a, 't, 'r) prog"
  | Spawn 't "('s, 'a, 't, 'r) prog"
  | Browser browser_call "('s, 'a, 't, 'r) prog"
  | OutOfFuel

text \<open>
  \<open>Spawn t\<close> is \<open>dispatch(t())\<close> of another thunk that is not awaited. \<open>Yield\<close> is an
  \<open>await\<close> that needs nothing from outside but lets other code run (reading a body).
\<close>

primrec bindP :: "('s, 'a, 't, 'q) prog \<Rightarrow> ('q \<Rightarrow> ('s, 'a, 't, 'r) prog) \<Rightarrow> ('s, 'a, 't, 'r) prog" where
  "bindP (Return x) f = f x"
| "bindP (Throw e) f = Throw e"
| "bindP (Dispatch a p) f = Dispatch a (bindP p f)"
| "bindP (GetState k) f = GetState (\<lambda>x. bindP (k x) f)"
| "bindP (DateNow k) f = DateNow (\<lambda>x. bindP (k x) f)"
| "bindP (Uuid k) f = Uuid (\<lambda>x. bindP (k x) f)"
| "bindP (OnLine k) f = OnLine (\<lambda>x. bindP (k x) f)"
| "bindP (Await rq k) f = Await rq (\<lambda>x. bindP (k x) f)"
| "bindP (Yield p) f = Yield (bindP p f)"
| "bindP (Sleep d p) f = Sleep d (bindP p f)"
| "bindP (Spawn t p) f = Spawn t (bindP p f)"
| "bindP (Browser b p) f = Browser b (bindP p f)"
| "bindP OutOfFuel f = OutOfFuel"

text \<open>\<open>try { p } catch (e) { h e }\<close>\<close>

primrec tryP :: "('s, 'a, 't, 'r) prog \<Rightarrow> (thrown \<Rightarrow> ('s, 'a, 't, 'r) prog) \<Rightarrow> ('s, 'a, 't, 'r) prog" where
  "tryP (Return x) h = Return x"
| "tryP (Throw e) h = h e"
| "tryP (Dispatch a p) h = Dispatch a (tryP p h)"
| "tryP (GetState k) h = GetState (\<lambda>x. tryP (k x) h)"
| "tryP (DateNow k) h = DateNow (\<lambda>x. tryP (k x) h)"
| "tryP (Uuid k) h = Uuid (\<lambda>x. tryP (k x) h)"
| "tryP (OnLine k) h = OnLine (\<lambda>x. tryP (k x) h)"
| "tryP (Await rq k) h = Await rq (\<lambda>x. tryP (k x) h)"
| "tryP (Yield p) h = Yield (tryP p h)"
| "tryP (Sleep d p) h = Sleep d (tryP p h)"
| "tryP (Spawn t p) h = Spawn t (tryP p h)"
| "tryP (Browser b p) h = Browser b (tryP p h)"
| "tryP OutOfFuel h = OutOfFuel"

text \<open>\<open>try { p } finally { f }\<close>\<close>

primrec finallyP :: "('s, 'a, 't, 'r) prog \<Rightarrow> ('s, 'a, 't, unit) prog \<Rightarrow> ('s, 'a, 't, 'r) prog" where
  "finallyP (Return x) f = bindP f (\<lambda>_. Return x)"
| "finallyP (Throw e) f = bindP f (\<lambda>_. Throw e)"
| "finallyP (Dispatch a p) f = Dispatch a (finallyP p f)"
| "finallyP (GetState k) f = GetState (\<lambda>x. finallyP (k x) f)"
| "finallyP (DateNow k) f = DateNow (\<lambda>x. finallyP (k x) f)"
| "finallyP (Uuid k) f = Uuid (\<lambda>x. finallyP (k x) f)"
| "finallyP (OnLine k) f = OnLine (\<lambda>x. finallyP (k x) f)"
| "finallyP (Await rq k) f = Await rq (\<lambda>x. finallyP (k x) f)"
| "finallyP (Yield p) f = Yield (finallyP p f)"
| "finallyP (Sleep d p) f = Sleep d (finallyP p f)"
| "finallyP (Spawn t p) f = Spawn t (finallyP p f)"
| "finallyP (Browser b p) f = Browser b (finallyP p f)"
| "finallyP OutOfFuel f = OutOfFuel"

text \<open>\<open>const x = v.k; f x\<close>: the read throws on null and undefined.\<close>

definition getP :: "jsval \<Rightarrow> string \<Rightarrow> (jsval \<Rightarrow> ('s, 'a, 't, 'r) prog) \<Rightarrow> ('s, 'a, 't, 'r) prog" where
  "getP v k f = (case js_get v k of Inl e \<Rightarrow> Throw e | Inr x \<Rightarrow> f x)"

text \<open>\<open>const v = await response.json(); f v\<close>\<close>

definition jsonP :: "response \<Rightarrow> (jsval \<Rightarrow> ('s, 'a, 't, 'r) prog) \<Rightarrow> ('s, 'a, 't, 'r) prog" where
  "jsonP r f = Yield (case rs_body r of Inl e \<Rightarrow> Throw e | Inr v \<Rightarrow> f v)"

section \<open>Running one program\<close>

text \<open>
  The outside: \<open>w_lag n\<close> milliseconds pass with the \<open>n\<close>-th effect, \<open>w_ids n\<close> is the uuid,
  \<open>w_online n\<close> what \<open>navigator.onLine\<close> is and \<open>w_net n\<close> the network's answer if the
  \<open>n\<close>-th effect asks for one. A sleep of \<open>d\<close>
  milliseconds takes \<open>d\<close> and the lag.
\<close>

record world =
  w_lag :: "nat \<Rightarrow> int"
  w_ids :: "nat \<Rightarrow> string"
  w_online :: "nat \<Rightarrow> bool"
  w_net :: "nat \<Rightarrow> request \<Rightarrow> net_event"

datatype ('a, 't) event =
    Dispatched 'a
  | Requested request
  | Spawned 't
  | Called browser_call

record ('s, 'a, 't) cfg =
  cf_steps :: nat
  cf_time :: int
  cf_store :: 's
  cf_trace :: "('a, 't) event list"

datatype 'r outcome = Returned 'r | Raised thrown | Exhausted

definition tick :: "world \<Rightarrow> ('s, 'a, 't) cfg \<Rightarrow> ('s, 'a, 't) cfg" where
  "tick w c = c\<lparr>cf_steps := Suc (cf_steps c), cf_time := cf_time c + w_lag w (cf_steps c)\<rparr>"

definition emit :: "('a, 't) event \<Rightarrow> ('s, 'a, 't) cfg \<Rightarrow> ('s, 'a, 't) cfg" where
  "emit ev c = c\<lparr>cf_trace := cf_trace c @ [ev]\<rparr>"

type_synonym ('s, 'a) reducer = "int \<Rightarrow> 's \<Rightarrow> 'a \<Rightarrow> 's"

definition dispatch :: "('s, 'a) reducer \<Rightarrow> 'a \<Rightarrow> ('s, 'a, 't) cfg \<Rightarrow> ('s, 'a, 't) cfg" where
  "dispatch red a c = emit (Dispatched a) (c\<lparr>cf_store := red (cf_time c) (cf_store c) a\<rparr>)"

primrec run ::
  "('s, 'a) reducer \<Rightarrow> world \<Rightarrow> ('s, 'a, 't, 'r) prog \<Rightarrow> ('s, 'a, 't) cfg
    \<Rightarrow> 'r outcome \<times> ('s, 'a, 't) cfg" where
  "run red w (Return x) c = (Returned x, c)"
| "run red w (Throw e) c = (Raised e, c)"
| "run red w (Dispatch a p) c = run red w p (tick w (dispatch red a c))"
| "run red w (GetState k) c = run red w (k (cf_store c)) c"
| "run red w (DateNow k) c = run red w (k (cf_time c)) (tick w c)"
| "run red w (Uuid k) c = run red w (k (w_ids w (cf_steps c))) (tick w c)"
| "run red w (OnLine k) c = run red w (k (w_online w (cf_steps c))) (tick w c)"
| "run red w (Await rq k) c =
     run red w (k (w_net w (cf_steps c) rq)) (tick w (emit (Requested rq) c))"
| "run red w (Yield p) c = run red w p (tick w c)"
| "run red w (Sleep d p) c = run red w p (tick w (c\<lparr>cf_time := cf_time c + d\<rparr>))"
| "run red w (Spawn t p) c = run red w p (tick w (emit (Spawned t) c))"
| "run red w (Browser b p) c = run red w p (tick w (emit (Called b) c))"
| "run red w OutOfFuel c = (Exhausted, c)"

text \<open>The requests of a trace.\<close>

fun requests_of :: "('a, 't) event list \<Rightarrow> request list" where
  "requests_of [] = []"
| "requests_of (Requested rq # evs) = rq # requests_of evs"
| "requests_of (_ # evs) = requests_of evs"

lemma requests_of_append [simp]: "requests_of (xs @ ys) = requests_of xs @ requests_of ys"
  by (induction xs rule: requests_of.induct) simp_all

lemma tick_simps [simp]:
  "cf_steps (tick w c) = Suc (cf_steps c)"
  "cf_time (tick w c) = cf_time c + w_lag w (cf_steps c)"
  "cf_store (tick w c) = cf_store c"
  "cf_trace (tick w c) = cf_trace c"
  by (simp_all add: tick_def)

lemma emit_simps [simp]:
  "cf_steps (emit ev c) = cf_steps c"
  "cf_time (emit ev c) = cf_time c"
  "cf_store (emit ev c) = cf_store c"
  "cf_trace (emit ev c) = cf_trace c @ [ev]"
  by (simp_all add: emit_def)

lemma dispatch_simps [simp]:
  "cf_steps (dispatch red a c) = cf_steps c"
  "cf_time (dispatch red a c) = cf_time c"
  "cf_store (dispatch red a c) = red (cf_time c) (cf_store c) a"
  "cf_trace (dispatch red a c) = cf_trace c @ [Dispatched a]"
  by (simp_all add: dispatch_def)

lemma run_bindP:
  "run red w (bindP p f) c =
     (case run red w p c of
        (Returned x, c') \<Rightarrow> run red w (f x) c'
      | (Raised e, c') \<Rightarrow> (Raised e, c')
      | (Exhausted, c') \<Rightarrow> (Exhausted, c'))"
  by (induction p arbitrary: c) auto

lemma run_tryP:
  "run red w (tryP p h) c =
     (case run red w p c of
        (Raised e, c') \<Rightarrow> run red w (h e) c'
      | (o', c') \<Rightarrow> (o', c'))"
  by (induction p arbitrary: c) auto

lemma run_finallyP:
  "run red w (finallyP p f) c =
     (case run red w p c of
        (Returned x, c') \<Rightarrow> run red w (bindP f (\<lambda>_. Return x)) c'
      | (Raised e, c') \<Rightarrow> run red w (bindP f (\<lambda>_. Throw e)) c'
      | (Exhausted, c') \<Rightarrow> (Exhausted, c'))"
  by (induction p arbitrary: c) auto

lemma run_getP [simp]:
  "run red w (getP v k f) c =
     (if nullish v then (Raised (type_error v k), c) else run red w (f (own_prop v k)) c)"
  by (simp add: getP_def js_get_def)

lemma run_jsonP [simp]:
  "run red w (jsonP r f) c =
     (case rs_body r of Inl e \<Rightarrow> (Raised e, tick w c) | Inr v \<Rightarrow> run red w (f v) (tick w c))"
  by (simp add: jsonP_def split: sum.splits)

text \<open>The combinators push through \<open>getP\<close> and \<open>jsonP\<close> as through the constructors.\<close>

lemma bindP_getP [simp]: "bindP (getP v k f) g = getP v k (\<lambda>x. bindP (f x) g)"
  by (simp add: getP_def split: sum.splits)

lemma bindP_jsonP [simp]: "bindP (jsonP r f) g = jsonP r (\<lambda>x. bindP (f x) g)"
  by (simp add: jsonP_def split: sum.splits)

lemma tryP_getP [simp]:
  "tryP (getP v k f) h =
     (if nullish v then h (type_error v k) else tryP (f (own_prop v k)) h)"
  by (simp add: getP_def js_get_def)

lemma tryP_jsonP [simp]:
  "tryP (jsonP r f) h = Yield (case rs_body r of Inl e \<Rightarrow> h e | Inr v \<Rightarrow> tryP (f v) h)"
  by (simp add: jsonP_def split: sum.splits)

lemma finallyP_getP [simp]:
  "finallyP (getP v k f) g =
     (if nullish v then bindP g (\<lambda>_. Throw (type_error v k)) else finallyP (f (own_prop v k)) g)"
  by (simp add: getP_def js_get_def)

lemma finallyP_jsonP [simp]:
  "finallyP (jsonP r f) g =
     Yield (case rs_body r of Inl e \<Rightarrow> bindP g (\<lambda>_. Throw e) | Inr v \<Rightarrow> finallyP (f v) g)"
  by (simp add: jsonP_def split: sum.splits)

text \<open>They push into the branches of a conditional.\<close>

lemma prog_if [simp]:
  "bindP (if b then p else q) f = (if b then bindP p f else bindP q f)"
  "tryP (if b then p else q) h = (if b then tryP p h else tryP q h)"
  "finallyP (if b then p else q) g = (if b then finallyP p g else finallyP q g)"
  by simp_all

lemma prog_case_sum [simp]:
  "bindP (case x of Inl e \<Rightarrow> pl e | Inr r \<Rightarrow> pr r) f = (case x of Inl e \<Rightarrow> bindP (pl e) f | Inr r \<Rightarrow> bindP (pr r) f)"
  "tryP (case x of Inl e \<Rightarrow> pl e | Inr r \<Rightarrow> pr r) h = (case x of Inl e \<Rightarrow> tryP (pl e) h | Inr r \<Rightarrow> tryP (pr r) h)"
  "finallyP (case x of Inl e \<Rightarrow> pl e | Inr r \<Rightarrow> pr r) g =
     (case x of Inl e \<Rightarrow> finallyP (pl e) g | Inr r \<Rightarrow> finallyP (pr r) g)"
  "run red w (case x of Inl e \<Rightarrow> pl e | Inr r \<Rightarrow> pr r) c =
     (case x of Inl e \<Rightarrow> run red w (pl e) c | Inr r \<Rightarrow> run red w (pr r) c)"
  by (simp_all split: sum.splits)

lemma bindP_assoc: "bindP (bindP p f) g = bindP p (\<lambda>x. bindP (f x) g)"
  by (induction p) auto

lemma bindP_Return [simp]: "bindP p Return = p"
  by (induction p) auto

section \<open>The lifecycle of \<open>createAsyncThunk\<close>\<close>

text \<open>
  A payload creator returns a value or \<open>rejectWithValue(x)\<close>, or throws. Redux Toolkit
  documents: the thunk dispatches its \<open>pending\<close> action, runs the creator, and then dispatches
  \<open>fulfilled\<close> with the value, or \<open>rejected\<close> with the payload of \<open>rejectWithValue\<close> (and the
  error message ''Rejected''), or, for a throw, \<open>rejected\<close> without a payload and with the
  serialised error. The three action makers are arguments.
\<close>

datatype 'v creator_result = Value 'v | RejectWithValue jsval

type_synonym ('s, 'a, 't, 'v) create_async_thunk =
  "'a \<Rightarrow> ('v \<Rightarrow> 'a) \<Rightarrow> (jsval \<Rightarrow> string \<Rightarrow> 'a) \<Rightarrow> ('s, 'a, 't, 'v creator_result) prog
    \<Rightarrow> ('s, 'a, 't, unit) prog"

definition settled_action ::
  "('v \<Rightarrow> 'a) \<Rightarrow> (jsval \<Rightarrow> string \<Rightarrow> 'a) \<Rightarrow> 'v creator_result outcome \<Rightarrow> 'a option" where
  "settled_action ful rej r =
     (case r of
        Returned (Value v) \<Rightarrow> Some (ful v)
      | Returned (RejectWithValue x) \<Rightarrow> Some (rej x ''Rejected'')
      | Raised e \<Rightarrow> Some (rej JUndefined (thrown_text e))
      | Exhausted \<Rightarrow> None)"

definition standard_async_thunk :: "('s, 'a, 't, 'v) create_async_thunk" where
  "standard_async_thunk pend ful rej p =
     Dispatch pend
       (bindP
         (tryP
           (bindP p (\<lambda>r. Return (case r of Value v \<Rightarrow> ful v | RejectWithValue x \<Rightarrow> rej x ''Rejected'')))
           (\<lambda>e. Return (rej JUndefined (thrown_text e))))
         (\<lambda>a. Dispatch a (Return ())))"

definition rtk_lifecycle :: "('s, 'a, 't, 'v) create_async_thunk \<Rightarrow> bool" where
  "rtk_lifecycle cat \<longleftrightarrow>
     (\<forall>red w pend ful rej p c.
        run red w (cat pend ful rej p) c =
          (case run red w p (tick w (dispatch red pend c)) of
             (r, c') \<Rightarrow>
               (case settled_action ful rej r of
                  None \<Rightarrow> (Exhausted, c')
                | Some a \<Rightarrow> (Returned (), tick w (dispatch red a c')))))"

lemma rtk_lifecycle_run:
  "rtk_lifecycle cat \<Longrightarrow> run red w (cat pend ful rej p) c =
     (case run red w p (tick w (dispatch red pend c)) of
        (r, c') \<Rightarrow>
          (case settled_action ful rej r of
             None \<Rightarrow> (Exhausted, c')
           | Some a \<Rightarrow> (Returned (), tick w (dispatch red a c'))))"
  by (simp add: rtk_lifecycle_def)

text \<open>The documented behaviour can be had: an instance, for the witnesses.\<close>

lemma rtk_lifecycle_standard: "rtk_lifecycle standard_async_thunk"
  by (auto simp: rtk_lifecycle_def standard_async_thunk_def settled_action_def run_bindP run_tryP
      split: prod.splits outcome.splits creator_result.splits)

end
