(* ===== verification/Snackbars.thy ===== *)
theory Snackbars
  imports JsValue
begin

text \<open>
  The snackbars slice (store/snackbars/snackbars.Slice.tsx): the alerts and the loading
  notices on screen. Alerts are a queue of at most \<open>MAX_ALERT_SNACKBARS\<close>: a new one pushes
  the oldest out. Loading notices are added when a request starts and removed by their id
  when it ends. A message is a dynamic value, because one of its sources
  (\<open>boardErrorMessage\<close>) can return what the board sent.
\<close>

section \<open>State and actions\<close>

datatype AlertColor = Success | Info | Warning | Error

(* src: store/snackbars/snackbars.Slice.tsx 5-9: SnackbarItem *)
record snackbar_item =
  sb_id :: string
  sb_message :: jsval
  sb_autoHideDuration :: "int option"

(* src: store/snackbars/snackbars.Slice.tsx 11-13: AlertSnackbarItem *)
record alert_item = snackbar_item +
  sb_severity :: AlertColor

(* src: store/snackbars/snackbars.Slice.tsx 15-20: SnackbarsState *)
record snackbars_state =
  sn_alerts :: "alert_item list"
  sn_loading :: "snackbar_item list"

(* src: store/snackbars/snackbars.Slice.tsx 22-27: initialState *)
definition snackbars_initial :: snackbars_state where
  "snackbars_initial = \<lparr>sn_alerts = [], sn_loading = []\<rparr>"

(* src: store/snackbars/snackbars.Slice.tsx 29-29: MAX_ALERT_SNACKBARS *)
definition MAX_ALERT_SNACKBARS :: nat where
  "MAX_ALERT_SNACKBARS = 5"

(* src: store/snackbars/snackbars.Slice.tsx 101-108: snackbarsSlice.actions *)
datatype snackbars_action =
    AlertSnackbarAdded alert_item
  | AlertSnackbarRemoved string
  | LoadingSnackbarAdded snackbar_item
  | LoadingSnackbarRemoved string
  | ClearAllSnackbars
  | ClearAllLoadingSnackbars

section \<open>Reducer\<close>

(* src: store/snackbars/snackbars.Slice.tsx 31-62: snackbarsSlice *)
fun snackbarsReducer :: "snackbars_state \<Rightarrow> snackbars_action \<Rightarrow> snackbars_state" where
  "snackbarsReducer st (AlertSnackbarAdded item) =
     (let shifted = (if MAX_ALERT_SNACKBARS \<le> length (sn_alerts st)
                     then tl (sn_alerts st) else sn_alerts st)
      in st\<lparr>sn_alerts := shifted @ [item]\<rparr>)"
| "snackbarsReducer st (AlertSnackbarRemoved i) =
     st\<lparr>sn_alerts := filter (\<lambda>snackbar. sb_id snackbar \<noteq> i) (sn_alerts st)\<rparr>"
| "snackbarsReducer st (LoadingSnackbarAdded item) =
     st\<lparr>sn_loading := sn_loading st @ [item]\<rparr>"
| "snackbarsReducer st (LoadingSnackbarRemoved i) =
     st\<lparr>sn_loading := filter (\<lambda>snackbar. sb_id snackbar \<noteq> i) (sn_loading st)\<rparr>"
| "snackbarsReducer st ClearAllSnackbars = st\<lparr>sn_alerts := [], sn_loading := []\<rparr>"
| "snackbarsReducer st ClearAllLoadingSnackbars = st\<lparr>sn_loading := []\<rparr>"

section \<open>Action creators\<close>

text \<open>An optional argument the callers leave out is \<open>undefined\<close>: \<open>None\<close>.\<close>

(* src: store/snackbars/snackbars.Slice.tsx 64-72: addAlertSnackbar *)
definition addAlertSnackbar ::
  "string \<Rightarrow> jsval \<Rightarrow> AlertColor \<Rightarrow> int option \<Rightarrow> snackbars_action" where
  "addAlertSnackbar i message severity autoHideDuration =
     AlertSnackbarAdded \<lparr>sb_id = i, sb_message = message, sb_autoHideDuration = autoHideDuration,
       sb_severity = severity\<rparr>"

(* src: store/snackbars/snackbars.Slice.tsx 74-77: removeAlertSnackbar *)
definition removeAlertSnackbar :: "string \<Rightarrow> snackbars_action" where
  "removeAlertSnackbar i = AlertSnackbarRemoved i"

(* src: store/snackbars/snackbars.Slice.tsx 79-86: addLoadingSnackbar *)
definition addLoadingSnackbar :: "string \<Rightarrow> jsval \<Rightarrow> int option \<Rightarrow> snackbars_action" where
  "addLoadingSnackbar i message autoHideDuration =
     LoadingSnackbarAdded \<lparr>sb_id = i, sb_message = message, sb_autoHideDuration = autoHideDuration\<rparr>"

(* src: store/snackbars/snackbars.Slice.tsx 88-91: removeLoadingSnackbar *)
definition removeLoadingSnackbar :: "string \<Rightarrow> snackbars_action" where
  "removeLoadingSnackbar i = LoadingSnackbarRemoved i"

(* src: store/snackbars/snackbars.Slice.tsx 93-95: removeAllLoadingSnackbars *)
definition removeAllLoadingSnackbars :: snackbars_action where
  "removeAllLoadingSnackbars = ClearAllLoadingSnackbars"

(* src: store/snackbars/snackbars.Slice.tsx 97-99: removeAllSnackbars *)
definition removeAllSnackbars :: snackbars_action where
  "removeAllSnackbars = ClearAllSnackbars"

lemmas snackbar_creators [reducer_simps] =
  addAlertSnackbar_def removeAlertSnackbar_def addLoadingSnackbar_def removeLoadingSnackbar_def
  removeAllLoadingSnackbars_def removeAllSnackbars_def

section \<open>The alert queue\<close>

text \<open>
  The abstract contract: the alerts shown are the most recent ones. Running the additions
  one by one leaves the last five of everything that was added.
\<close>

definition alerts_wf :: "snackbars_state \<Rightarrow> bool" where
  "alerts_wf st \<longleftrightarrow> length (sn_alerts st) \<le> MAX_ALERT_SNACKBARS"

lemma alerts_wf_initial: "alerts_wf snackbars_initial"
  by (simp add: alerts_wf_def snackbars_initial_def)

lemma alerts_wf_step: "alerts_wf st \<Longrightarrow> alerts_wf (snackbarsReducer st a)"
  by (cases a) (auto simp: alerts_wf_def MAX_ALERT_SNACKBARS_def Let_def
      intro: le_trans [OF length_filter_le])

lemma alert_added_last_n:
  assumes "alerts_wf st"
  shows "sn_alerts (snackbarsReducer st (AlertSnackbarAdded x)) =
    last_n MAX_ALERT_SNACKBARS (sn_alerts st @ [x])"
proof (cases "MAX_ALERT_SNACKBARS \<le> length (sn_alerts st)")
  case True
  with assms have "length (sn_alerts st) = MAX_ALERT_SNACKBARS" by (simp add: alerts_wf_def)
  then show ?thesis
    using last_n_tl [of "sn_alerts st" MAX_ALERT_SNACKBARS]
    by (simp add: last_n_snoc MAX_ALERT_SNACKBARS_def)
next
  case False
  then show ?thesis by (simp add: last_n_short)
qed

lemma last_n_snoc_last_n: "last_n n (last_n n xs @ [x]) = last_n n (xs @ [x])"
proof (cases n)
  case 0
  then show ?thesis by (simp add: last_n_def)
next
  case (Suc m)
  then show ?thesis by (simp add: last_n_snoc last_n_last_n)
qed

lemma alerts_added_last_n:
  "alerts_wf st \<Longrightarrow>
     sn_alerts (foldl snackbarsReducer st (map AlertSnackbarAdded xs)) =
     last_n MAX_ALERT_SNACKBARS (sn_alerts st @ xs)"
proof (induction xs rule: rev_induct)
  case Nil
  then show ?case by (simp add: alerts_wf_def last_n_short)
next
  case (snoc x xs)
  let ?st = "foldl snackbarsReducer st (map AlertSnackbarAdded xs)"
  have "alerts_wf ?st"
    using snoc.IH [OF snoc.prems] by (simp add: alerts_wf_def)
  then show ?case
    using snoc.IH [OF snoc.prems] by (simp add: alert_added_last_n last_n_snoc_last_n
        del: append_assoc snackbarsReducer.simps flip: append_assoc)
qed

section \<open>The loading notices\<close>

definition loading_ids :: "snackbars_state \<Rightarrow> string set" where
  "loading_ids st = sb_id ` set (sn_loading st)"

lemma loading_ids_add:
  "loading_ids (snackbarsReducer st (LoadingSnackbarAdded x)) = insert (sb_id x) (loading_ids st)"
  by (simp add: loading_ids_def)

lemma loading_ids_remove:
  "loading_ids (snackbarsReducer st (LoadingSnackbarRemoved i)) = loading_ids st - {i}"
  by (auto simp: loading_ids_def)

text \<open>
  A notice added under a fresh id and removed again leaves the notices as they were; what
  happened to others in between stays.
\<close>

lemma loading_add_remove:
  "i \<notin> loading_ids st \<Longrightarrow>
     filter (\<lambda>x. sb_id x \<noteq> i) (sn_loading (snackbarsReducer st (addLoadingSnackbar i m d))) = sn_loading st"
  by (simp add: reducer_simps loading_ids_def filter_neq_idle)

section \<open>Property\<close>

text \<open>However many alerts are added, the queue shows exactly the five newest ones, in the
  order in which they came.\<close>

lemma alerts_show_newest:
  assumes "alerts_wf st"
  shows "sn_alerts (foldl snackbarsReducer st
      (map (\<lambda>(i, m, sev). addAlertSnackbar i m sev d) xs)) =
    last_n MAX_ALERT_SNACKBARS (sn_alerts st @
      map (\<lambda>(i, m, sev). \<lparr>sb_id = i, sb_message = m, sb_autoHideDuration = d, sb_severity = sev\<rparr>) xs)"
proof -
  have "map (\<lambda>(i, m, sev). addAlertSnackbar i m sev d) xs = map AlertSnackbarAdded
      (map (\<lambda>(i, m, sev). \<lparr>sb_id = i, sb_message = m, sb_autoHideDuration = d, sb_severity = sev\<rparr>) xs)"
    by (auto simp: addAlertSnackbar_def)
  with alerts_added_last_n [OF assms] show ?thesis by metis
qed

lemma alerts_show_newest_witness:
  "map sb_id (sn_alerts (foldl snackbarsReducer snackbars_initial
      (map (\<lambda>(i, m, sev). addAlertSnackbar i m sev None)
        [(''a'', JNull, Success), (''b'', JNull, Error), (''c'', JNull, Info),
         (''d'', JNull, Info), (''e'', JNull, Info), (''f'', JNull, Info)]))) =
    [''b'', ''c'', ''d'', ''e'', ''f'']"
  by (subst alerts_show_newest [OF alerts_wf_initial])
    (simp add: snackbars_initial_def last_n_def MAX_ALERT_SNACKBARS_def)

end
