(* ===== verification/Timers.thy ===== *)
theory Timers
  imports JsValue
begin

text \<open>
  The timers slice (store/timers/timers.Slice.tsx): named countdowns in whole seconds. A
  running timer is driven by the time of its start, not by ticks: a sync recomputes what
  remains. The state is the object \<open>timers\<close> (an association list in insertion order) and
  the time of the last sync. \<open>Date.now()\<close> is the argument \<open>now\<close> of the reducer.

  Durations are whole seconds, as at every place that makes a timer; time stamps are whole
  milliseconds.
\<close>

section \<open>State and actions\<close>

(* src: store/timers/timers.Slice.tsx 5-5: DEFAULT_DURATION *)
definition DEFAULT_DURATION :: int where
  "DEFAULT_DURATION = 180"

(* src: store/timers/timers.Slice.tsx 8-14: Timer *)
record timer =
  tm_id :: string
  tm_duration :: int
  tm_remaining :: int
  tm_isActive :: bool
  tm_startTimestamp :: "int option"

(* src: store/timers/timers.Slice.tsx 16-19: TimerState *)
record timers_state =
  ts_timers :: "(string \<times> timer) list"
  ts_lastSyncTime :: int

(* src: store/timers/timers.Slice.tsx 22-25: initialState *)
definition timers_initial :: "int \<Rightarrow> timers_state" where
  "timers_initial now = \<lparr>ts_timers = [], ts_lastSyncTime = now\<rparr>"

(* src: store/timers/timers.Slice.tsx 189-197: timerSlice.actions *)
datatype timers_action =
    AddTimer string "int option"
  | StartTimer string
  | StopTimer string
  | ResetTimer string
  | UpdateTimer string "int option"
  | RemoveTimer string
  | ResetAllTimers
  | SyncTimersPending
  | SyncTimersFulfilled int
  | SyncTimersRejected jsval string
  | SyncSpecificPending
  | SyncSpecificFulfilled string "int option"
  | SyncSpecificRejected jsval string

section \<open>Reducer\<close>

text \<open>\<open>timer.isActive = false; timer.startTimestamp = undefined\<close>\<close>

definition halted :: "timer \<Rightarrow> timer" where
  "halted t = t\<lparr>tm_isActive := False, tm_startTimestamp := None\<rparr>"

text \<open>\<open>timer.remaining = timer.duration\<close>, and halted\<close>

definition rewound :: "timer \<Rightarrow> timer" where
  "rewound t = halted (t\<lparr>tm_remaining := tm_duration t\<rparr>)"

text \<open>\<open>const timer = state.timers[id]; if (timer) ...\<close>: the timer is changed in place.\<close>

definition modify_timer :: "string \<Rightarrow> (timer \<Rightarrow> timer) \<Rightarrow> timers_state \<Rightarrow> timers_state" where
  "modify_timer i f st =
     (case map_of (ts_timers st) i of
        None \<Rightarrow> st
      | Some t \<Rightarrow> st\<lparr>ts_timers := AList.update i (f t) (ts_timers st)\<rparr>)"

definition remaining_set :: "int \<Rightarrow> timer \<Rightarrow> timer" where
  "remaining_set r t =
     (let t' = t\<lparr>tm_remaining := r\<rparr>
      in if r \<le> 0 then halted (t'\<lparr>tm_remaining := 0\<rparr>) else t')"

(* src: store/timers/timers.Slice.tsx 84-168: timerSlice *)
fun timersReducer :: "int \<Rightarrow> timers_state \<Rightarrow> timers_action \<Rightarrow> timers_state" where
  "timersReducer now st (AddTimer i d) =
     (let duration = (case d of None \<Rightarrow> DEFAULT_DURATION | Some n \<Rightarrow> n)
      in case map_of (ts_timers st) i of
           Some t \<Rightarrow> st
         | None \<Rightarrow> st\<lparr>ts_timers := AList.update i
             \<lparr>tm_id = i, tm_duration = duration, tm_remaining = duration, tm_isActive = False,
              tm_startTimestamp = None\<rparr> (ts_timers st)\<rparr>)"
| "timersReducer now st (StartTimer i) =
     (case map_of (ts_timers st) i of
        None \<Rightarrow> st
      | Some t \<Rightarrow>
          (if \<not> tm_isActive t
           then (modify_timer i (\<lambda>t. t\<lparr>tm_isActive := True, tm_startTimestamp := Some now\<rparr>) st)
                  \<lparr>ts_lastSyncTime := now\<rparr>
           else st))"
| "timersReducer now st (StopTimer i) = modify_timer i halted st"
| "timersReducer now st (ResetTimer i) = modify_timer i rewound st"
| "timersReducer now st (UpdateTimer i r) =
     (case r of None \<Rightarrow> st | Some n \<Rightarrow> modify_timer i (remaining_set n) st)"
| "timersReducer now st (RemoveTimer i) = st\<lparr>ts_timers := AList.delete i (ts_timers st)\<rparr>"
| "timersReducer now st ResetAllTimers =
     st\<lparr>ts_timers := map (\<lambda>(i, t). (i, rewound t)) (ts_timers st)\<rparr>"
| "timersReducer now st (SyncTimersFulfilled t) = st\<lparr>ts_lastSyncTime := t\<rparr>"
| "timersReducer now st _ = st"

section \<open>Selectors and the clock face\<close>

(* src: store/timers/timers.Slice.tsx 171-172: selectTimer *)
definition selectTimer :: "timers_state \<Rightarrow> string \<Rightarrow> timer option" where
  "selectTimer st i = map_of (ts_timers st) i"

(* src: store/timers/timers.Slice.tsx 174-175: selectAllTimers *)
definition selectAllTimers :: "timers_state \<Rightarrow> (string \<times> timer) list" where
  "selectAllTimers st = ts_timers st"

(* src: store/timers/timers.Slice.tsx 177-179: selectActiveTimers *)
definition selectActiveTimers :: "timers_state \<Rightarrow> timer list" where
  "selectActiveTimers st = filter tm_isActive (map snd (ts_timers st))"

(* src: store/timers/timers.Slice.tsx 182-186: formatTime *)
definition formatTime :: "int \<Rightarrow> string" where
  "formatTime seconds =
     (let mins = seconds div 60; secs = (if 0 \<le> seconds then seconds mod 60 else - ((- seconds) mod 60))
      in padStart 2 (CHR ''0'') (int_str mins) @ '':'' @ padStart 2 (CHR ''0'') (int_str secs))"

section \<open>What a sync computes\<close>

text \<open>
  \<open>Math.max(0, timer.duration - Math.floor(elapsedMs / 1000))\<close>
\<close>

definition remaining_at :: "int \<Rightarrow> timer \<Rightarrow> int" where
  "remaining_at now t =
     (case tm_startTimestamp t of
        None \<Rightarrow> tm_remaining t
      | Some s \<Rightarrow> max 0 (tm_duration t - (now - s) div 1000))"

section \<open>Invariant\<close>

text \<open>
  The keys are distinct and name their timers, a countdown is never below zero or above its
  duration, and a timer has a start time exactly when it runs.
\<close>

definition timer_wf :: "timer \<Rightarrow> bool" where
  "timer_wf t \<longleftrightarrow> 0 \<le> tm_duration t \<and> 0 \<le> tm_remaining t \<and> tm_remaining t \<le> tm_duration t \<and>
     (tm_isActive t \<longleftrightarrow> tm_startTimestamp t \<noteq> None)"

definition timers_wf :: "timers_state \<Rightarrow> bool" where
  "timers_wf st \<longleftrightarrow> wf_alist (ts_timers st) \<and>
     (\<forall>i t. map_of (ts_timers st) i = Some t \<longrightarrow> timer_wf t \<and> tm_id t = i)"

text \<open>What the actions must carry for that: a duration that is not negative, and a remaining
  time no larger than the timer's duration.\<close>

fun action_ok :: "timers_state \<Rightarrow> timers_action \<Rightarrow> bool" where
  "action_ok st (AddTimer i (Some d)) = (0 \<le> d)"
| "action_ok st (UpdateTimer i (Some r)) =
     (case map_of (ts_timers st) i of None \<Rightarrow> True | Some t \<Rightarrow> r \<le> tm_duration t)"
| "action_ok st _ = True"

lemma timer_wf_halted [simp]: "timer_wf t \<Longrightarrow> timer_wf (halted t)"
  by (simp add: timer_wf_def halted_def)

lemma timer_wf_rewound [simp]: "timer_wf t \<Longrightarrow> timer_wf (rewound t)"
  by (simp add: timer_wf_def halted_def rewound_def)

lemma timer_wf_remaining_set:
  "timer_wf t \<Longrightarrow> r \<le> tm_duration t \<Longrightarrow> timer_wf (remaining_set r t)"
  by (simp add: timer_wf_def halted_def remaining_set_def Let_def)

lemma tm_id_preserved [simp]:
  "tm_id (halted t) = tm_id t" "tm_id (rewound t) = tm_id t" "tm_id (remaining_set r t) = tm_id t"
  by (simp_all add: halted_def rewound_def remaining_set_def Let_def)

lemma tm_duration_preserved [simp]:
  "tm_duration (halted t) = tm_duration t" "tm_duration (rewound t) = tm_duration t"
  "tm_duration (remaining_set r t) = tm_duration t"
  by (simp_all add: halted_def rewound_def remaining_set_def Let_def)

lemma map_of_modify_timer:
  "map_of (ts_timers (modify_timer i f st)) k =
     (if k = i then map_option f (map_of (ts_timers st) i) else map_of (ts_timers st) k)"
  by (auto simp: modify_timer_def update_conv' split: option.splits)

lemma ts_lastSyncTime_modify [simp]: "ts_lastSyncTime (modify_timer i f st) = ts_lastSyncTime st"
  by (simp add: modify_timer_def split: option.splits)

lemma wf_alist_modify_timer: "wf_alist (ts_timers st) \<Longrightarrow> wf_alist (ts_timers (modify_timer i f st))"
  by (auto simp: modify_timer_def split: option.splits)

lemma timers_wf_modify:
  assumes "timers_wf st"
    and "\<And>t. map_of (ts_timers st) i = Some t \<Longrightarrow> timer_wf t \<Longrightarrow> timer_wf (f t) \<and> tm_id (f t) = tm_id t"
  shows "timers_wf (modify_timer i f st)"
  using assms by (auto simp: timers_wf_def wf_alist_modify_timer map_of_modify_timer split: if_splits)

lemma timers_wf_lastSync [simp]: "timers_wf (st\<lparr>ts_lastSyncTime := t\<rparr>) = timers_wf st"
  by (simp add: timers_wf_def)

lemma timers_wf_initial: "timers_wf (timers_initial now)"
  by (simp add: timers_wf_def timers_initial_def)

lemma timers_wf_step:
  assumes "timers_wf st" and "action_ok st a"
  shows "timers_wf (timersReducer now st a)"
proof (cases a)
  case (AddTimer i d)
  have "0 \<le> (case d of None \<Rightarrow> DEFAULT_DURATION | Some n \<Rightarrow> n)"
    using assms(2) AddTimer by (cases d) (auto simp: DEFAULT_DURATION_def)
  with assms(1) AddTimer show ?thesis
    by (auto simp: timers_wf_def timer_wf_def Let_def update_conv' split: option.splits)
next
  case (StartTimer i)
  with assms(1) show ?thesis
    by (auto simp: timer_wf_def intro!: timers_wf_modify split: option.splits)
next
  case (StopTimer i)
  with assms(1) show ?thesis by (auto intro!: timers_wf_modify)
next
  case (ResetTimer i)
  with assms(1) show ?thesis by (auto intro!: timers_wf_modify)
next
  case (UpdateTimer i r)
  with assms show ?thesis
    by (auto intro!: timers_wf_modify timer_wf_remaining_set split: option.splits)
next
  case (RemoveTimer i)
  with assms(1) show ?thesis by (auto simp: timers_wf_def delete_conv' split: if_splits)
next
  case ResetAllTimers
  with assms(1) show ?thesis
    by (auto simp: timers_wf_def wf_alist_map_vals map_of_map_vals)
qed (use assms(1) in simp_all)

section \<open>The clock face\<close>

text \<open>Reading a clock face back: the minutes before the colon, the seconds after it.\<close>

definition parse_clock :: "string \<Rightarrow> nat" where
  "parse_clock s =
     60 * parse_digits (takeWhile (\<lambda>ch. ch \<noteq> CHR '':'') s) +
       parse_digits (tl (dropWhile (\<lambda>ch. ch \<noteq> CHR '':'') s))"

lemma colon_notin_digits: "CHR '':'' \<notin> set (nat_str n)"
proof
  assume "CHR '':'' \<in> set (nat_str n)"
  with digit_chars_nat_str [of n] obtain d where d: "d < 10" "CHR '':'' = digit_char d" by blast
  from d have "(of_char (CHR '':'') :: nat) = 48 + d" by (simp add: of_char_digit)
  with d(1) show False by simp
qed

lemma colon_notin_pad: "CHR '':'' \<notin> set (padStart n (CHR ''0'') (nat_str m))"
  by (simp add: padStart_def colon_notin_digits)

lemma formatTime_nat:
  "formatTime (int n) =
     padStart 2 (CHR ''0'') (nat_str (n div 60)) @ '':'' @ padStart 2 (CHR ''0'') (nat_str (n mod 60))"
proof -
  have "\<not> int n div 60 < 0" and "\<not> int n mod 60 < 0" by (simp_all add: not_less)
  then show ?thesis
    by (simp add: formatTime_def int_str_def Let_def nat_div_distrib nat_mod_distrib)
qed

lemma parse_formatTime: "parse_clock (formatTime (int n)) = n"
proof -
  let ?m = "padStart 2 (CHR ''0'') (nat_str (n div 60))"
  let ?s = "padStart 2 (CHR ''0'') (nat_str (n mod 60))"
  have no: "\<forall>ch \<in> set ?m. ch \<noteq> CHR '':''"
    using colon_notin_pad by metis
  have "takeWhile (\<lambda>ch. ch \<noteq> CHR '':'') (?m @ '':'' @ ?s) = ?m"
    and "dropWhile (\<lambda>ch. ch \<noteq> CHR '':'') (?m @ '':'' @ ?s) = '':'' @ ?s"
    using no by (simp_all add: takeWhile_append2 dropWhile_append2)
  then show ?thesis by (simp add: formatTime_nat parse_clock_def)
qed

section \<open>Property\<close>

text \<open>The clock face shows the whole time: for every number of seconds that is not negative,
  reading minutes and seconds back gives the number of seconds.\<close>

lemma clock_face_roundtrip: "parse_clock (formatTime (int n)) = n"
  by (rule parse_formatTime)

end
