(* ===== verification/Interface.thy ===== *)
theory Interface
  imports JsValue
begin

text \<open>
  The slices that are only layout: the loading wall (store/loadingWall), the navigation
  (store/navigation) and the dialogs (store/dialogs), which a route change closes.
\<close>

section \<open>Loading wall\<close>

(* src: store/loadingWall/loadingWall.Slice.tsx 4-8: LoadingWallState *)
record loading_wall_state =
  lw_isLoadingWallVisible :: bool
  lw_message :: string
  lw_hideAfter :: "int option"

(* src: store/loadingWall/loadingWall.Slice.tsx 10-14: initialState *)
definition loadingWall_initial :: loading_wall_state where
  "loadingWall_initial = \<lparr>lw_isLoadingWallVisible = False, lw_message = [], lw_hideAfter = None\<rparr>"

(* src: store/loadingWall/loadingWall.Slice.tsx 44-47: loadingWallSlice.actions *)
datatype loading_wall_action = LoadingWallVisible string | LoadingWallHidden

(* src: store/loadingWall/loadingWall.Slice.tsx 16-31: loadingWallSlice *)
fun loadingWallReducer :: "int \<Rightarrow> loading_wall_state \<Rightarrow> loading_wall_action \<Rightarrow> loading_wall_state" where
  "loadingWallReducer now st (LoadingWallVisible m) =
     st\<lparr>lw_isLoadingWallVisible := True, lw_message := m, lw_hideAfter := Some (now + 3 * 60 * 1000)\<rparr>"
| "loadingWallReducer now st LoadingWallHidden =
     st\<lparr>lw_isLoadingWallVisible := False, lw_message := [], lw_hideAfter := None\<rparr>"

(* src: store/loadingWall/loadingWall.Slice.tsx 33-38: showLoadingWall *)
definition showLoadingWall :: "string \<Rightarrow> loading_wall_action" where
  "showLoadingWall message = LoadingWallVisible message"

(* src: store/loadingWall/loadingWall.Slice.tsx 40-42: hideLoadingWall *)
definition hideLoadingWall :: loading_wall_action where
  "hideLoadingWall = LoadingWallHidden"

text \<open>The wall has a deadline exactly while it is up.\<close>

definition wall_wf :: "loading_wall_state \<Rightarrow> bool" where
  "wall_wf st \<longleftrightarrow> (lw_isLoadingWallVisible st \<longleftrightarrow> lw_hideAfter st \<noteq> None)"

lemma wall_wf_initial: "wall_wf loadingWall_initial"
  by (simp add: wall_wf_def loadingWall_initial_def)

lemma wall_wf_step: "wall_wf st \<Longrightarrow> wall_wf (loadingWallReducer now st a)"
  by (cases a) (simp_all add: wall_wf_def)

section \<open>Navigation\<close>

(* src: store/navigation/navigation.Slice.tsx 4-8: SliceState *)
record navigation_state =
  nv_sidebar_open :: bool
  nv_currentPath :: string
  nv_advancedMode :: bool

(* src: store/navigation/navigation.Slice.tsx 10-14: initialState *)
definition navigation_initial :: navigation_state where
  "navigation_initial = \<lparr>nv_sidebar_open = False, nv_currentPath = [], nv_advancedMode = False\<rparr>"

(* src: store/navigation/navigation.Slice.tsx 53-59: navigationSlice.actions *)
datatype navigation_action =
    SidebarOpened
  | SidebarClosed
  | CurrentPathSet string
  | AdvancedModeToggled
  | RouteChanged

(* src: store/navigation/navigation.Slice.tsx 16-34: navigationSlice *)
fun navigationReducer :: "navigation_state \<Rightarrow> navigation_action \<Rightarrow> navigation_state" where
  "navigationReducer st SidebarOpened = st\<lparr>nv_sidebar_open := True\<rparr>"
| "navigationReducer st SidebarClosed = st\<lparr>nv_sidebar_open := False\<rparr>"
| "navigationReducer st (CurrentPathSet p) = st\<lparr>nv_currentPath := p\<rparr>"
| "navigationReducer st AdvancedModeToggled = st\<lparr>nv_advancedMode := \<not> nv_advancedMode st\<rparr>"
| "navigationReducer st RouteChanged = st"

(* src: store/navigation/navigation.Slice.tsx 36-38: openSidedbar *)
definition openSidedbar :: navigation_action where
  "openSidedbar = SidebarOpened"

(* src: store/navigation/navigation.Slice.tsx 40-42: closeSidebar *)
definition closeSidebar :: navigation_action where
  "closeSidebar = SidebarClosed"

(* src: store/navigation/navigation.Slice.tsx 44-47: setCurrentPath *)
definition setCurrentPath :: "string \<Rightarrow> navigation_action" where
  "setCurrentPath path = CurrentPathSet path"

(* src: store/navigation/navigation.Slice.tsx 49-51: toggleAdvancedMode *)
definition toggleAdvancedMode :: navigation_action where
  "toggleAdvancedMode = AdvancedModeToggled"

section \<open>Dialogs\<close>

text \<open>
  One flag per dialog of the nested state (general, updates, network), and the network the
  forget dialog asks about.
\<close>

(* src: store/dialogs/dialogs.Slice.tsx 5-21: SliceState *)
record dialogs_state =
  dg_shutdown :: bool
  dg_restart :: bool
  dg_changePassword :: bool
  dg_factoryReset :: bool
  dg_confirmUpdate :: bool
  dg_addNetwork :: bool
  dg_forgetNetwork :: bool
  dg_forgetNetwork_ssid :: string
  dg_changeApPassword :: bool
  dg_connect :: bool

(* src: store/dialogs/dialogs.Slice.tsx 23-39: initialState *)
definition dialogs_initial :: dialogs_state where
  "dialogs_initial =
    \<lparr>dg_shutdown = False, dg_restart = False, dg_changePassword = False, dg_factoryReset = False,
     dg_confirmUpdate = False,
     dg_addNetwork = False, dg_forgetNetwork = False, dg_forgetNetwork_ssid = [],
     dg_changeApPassword = False, dg_connect = False\<rparr>"

(* src: store/dialogs/dialogs.Slice.tsx 181-200: dialogsSlice.actions *)
datatype dialogs_action =
    ShutdownDialogOpened | ShutdownDialogClosed
  | RestartDialogOpened | RestartDialogClosed
  | UpdatesConfirmUpdateDialogOpened | UpdatesConfirmUpdateDialogClosed
  | NetworkAddNetworkDialogOpened | NetworkAddNetworkDialogClosed
  | NetworkForgetNetworkDialogOpened string | NetworkForgetNetworkDialogClosed
  | GeneralChangePasswordDialogOpened | GeneralChangePasswordDialogClosed
  | GeneralFactoryResetDialogOpened | GeneralFactoryResetDialogClosed
  | NetworkChangeApPasswordDialogOpened | NetworkChangeApPasswordDialogClosed
  | NetworkConnectDialogOpened | NetworkConnectDialogClosed

(* src: store/dialogs/dialogs.Slice.tsx 41-101: dialogsSlice *)
fun dialogsReducer :: "dialogs_state \<Rightarrow> dialogs_action \<Rightarrow> dialogs_state" where
  "dialogsReducer st ShutdownDialogOpened = st\<lparr>dg_shutdown := True\<rparr>"
| "dialogsReducer st ShutdownDialogClosed = st\<lparr>dg_shutdown := False\<rparr>"
| "dialogsReducer st RestartDialogOpened = st\<lparr>dg_restart := True\<rparr>"
| "dialogsReducer st RestartDialogClosed = st\<lparr>dg_restart := False\<rparr>"
| "dialogsReducer st UpdatesConfirmUpdateDialogOpened = st\<lparr>dg_confirmUpdate := True\<rparr>"
| "dialogsReducer st UpdatesConfirmUpdateDialogClosed = st\<lparr>dg_confirmUpdate := False\<rparr>"
| "dialogsReducer st NetworkAddNetworkDialogOpened = st\<lparr>dg_addNetwork := True\<rparr>"
| "dialogsReducer st NetworkAddNetworkDialogClosed = st\<lparr>dg_addNetwork := False\<rparr>"
| "dialogsReducer st (NetworkForgetNetworkDialogOpened ssid) =
     st\<lparr>dg_forgetNetwork := True, dg_forgetNetwork_ssid := ssid\<rparr>"
| "dialogsReducer st NetworkForgetNetworkDialogClosed =
     st\<lparr>dg_forgetNetwork := False, dg_forgetNetwork_ssid := []\<rparr>"
| "dialogsReducer st GeneralChangePasswordDialogOpened = st\<lparr>dg_changePassword := True\<rparr>"
| "dialogsReducer st GeneralChangePasswordDialogClosed = st\<lparr>dg_changePassword := False\<rparr>"
| "dialogsReducer st GeneralFactoryResetDialogOpened = st\<lparr>dg_factoryReset := True\<rparr>"
| "dialogsReducer st GeneralFactoryResetDialogClosed = st\<lparr>dg_factoryReset := False\<rparr>"
| "dialogsReducer st NetworkChangeApPasswordDialogOpened = st\<lparr>dg_changeApPassword := True\<rparr>"
| "dialogsReducer st NetworkChangeApPasswordDialogClosed = st\<lparr>dg_changeApPassword := False\<rparr>"
| "dialogsReducer st NetworkConnectDialogOpened = st\<lparr>dg_connect := True\<rparr>"
| "dialogsReducer st NetworkConnectDialogClosed = st\<lparr>dg_connect := False\<rparr>"

(* src: store/dialogs/dialogs.Slice.tsx 103-105: extraReducers *)
fun dialogsExtraReducer :: "dialogs_state \<Rightarrow> navigation_action \<Rightarrow> dialogs_state" where
  "dialogsExtraReducer st RouteChanged = dialogs_initial"
| "dialogsExtraReducer st _ = st"

text \<open>The action creators.\<close>

(* src: store/dialogs/dialogs.Slice.tsx 108-110: openShutdownDialog *)
definition openShutdownDialog :: dialogs_action where
  "openShutdownDialog = ShutdownDialogOpened"

(* src: store/dialogs/dialogs.Slice.tsx 112-114: closeShutdownDialog *)
definition closeShutdownDialog :: dialogs_action where
  "closeShutdownDialog = ShutdownDialogClosed"

(* src: store/dialogs/dialogs.Slice.tsx 116-118: openRestartDialog *)
definition openRestartDialog :: dialogs_action where
  "openRestartDialog = RestartDialogOpened"

(* src: store/dialogs/dialogs.Slice.tsx 120-122: closeRestartDialog *)
definition closeRestartDialog :: dialogs_action where
  "closeRestartDialog = RestartDialogClosed"

(* src: store/dialogs/dialogs.Slice.tsx 124-126: openUpdatesConfirmUpdateDialog *)
definition openUpdatesConfirmUpdateDialog :: dialogs_action where
  "openUpdatesConfirmUpdateDialog = UpdatesConfirmUpdateDialogOpened"

(* src: store/dialogs/dialogs.Slice.tsx 128-130: closeUpdatesConfirmUpdateDialog *)
definition closeUpdatesConfirmUpdateDialog :: dialogs_action where
  "closeUpdatesConfirmUpdateDialog = UpdatesConfirmUpdateDialogClosed"

(* src: store/dialogs/dialogs.Slice.tsx 132-134: openNetworkAddNetworkDialog *)
definition openNetworkAddNetworkDialog :: dialogs_action where
  "openNetworkAddNetworkDialog = NetworkAddNetworkDialogOpened"

(* src: store/dialogs/dialogs.Slice.tsx 136-138: closeNetworkAddNetworkDialog *)
definition closeNetworkAddNetworkDialog :: dialogs_action where
  "closeNetworkAddNetworkDialog = NetworkAddNetworkDialogClosed"

(* src: store/dialogs/dialogs.Slice.tsx 140-143: openNetworkForgetNetworkDialog *)
definition openNetworkForgetNetworkDialog :: "string \<Rightarrow> dialogs_action" where
  "openNetworkForgetNetworkDialog ssid = NetworkForgetNetworkDialogOpened ssid"

(* src: store/dialogs/dialogs.Slice.tsx 145-147: closeNetworkForgetNetworkDialog *)
definition closeNetworkForgetNetworkDialog :: dialogs_action where
  "closeNetworkForgetNetworkDialog = NetworkForgetNetworkDialogClosed"

(* src: store/dialogs/dialogs.Slice.tsx 149-151: openGeneralChangePasswordDialog *)
definition openGeneralChangePasswordDialog :: dialogs_action where
  "openGeneralChangePasswordDialog = GeneralChangePasswordDialogOpened"

(* src: store/dialogs/dialogs.Slice.tsx 153-155: closeGeneralChangePasswordDialog *)
definition closeGeneralChangePasswordDialog :: dialogs_action where
  "closeGeneralChangePasswordDialog = GeneralChangePasswordDialogClosed"

(* src: store/dialogs/dialogs.Slice.tsx 157-159: openGeneralFactoryResetDialog *)
definition openGeneralFactoryResetDialog :: dialogs_action where
  "openGeneralFactoryResetDialog = GeneralFactoryResetDialogOpened"

(* src: store/dialogs/dialogs.Slice.tsx 161-163: closeGeneralFactoryResetDialog *)
definition closeGeneralFactoryResetDialog :: dialogs_action where
  "closeGeneralFactoryResetDialog = GeneralFactoryResetDialogClosed"

(* src: store/dialogs/dialogs.Slice.tsx 165-167: openNetworkChangeApPasswordDialog *)
definition openNetworkChangeApPasswordDialog :: dialogs_action where
  "openNetworkChangeApPasswordDialog = NetworkChangeApPasswordDialogOpened"

(* src: store/dialogs/dialogs.Slice.tsx 169-171: closeNetworkChangeApPasswordDialog *)
definition closeNetworkChangeApPasswordDialog :: dialogs_action where
  "closeNetworkChangeApPasswordDialog = NetworkChangeApPasswordDialogClosed"

(* src: store/dialogs/dialogs.Slice.tsx 173-175: openNetworkConnectDialog *)
definition openNetworkConnectDialog :: dialogs_action where
  "openNetworkConnectDialog = NetworkConnectDialogOpened"

(* src: store/dialogs/dialogs.Slice.tsx 177-179: closeNetworkConnectDialog *)
definition closeNetworkConnectDialog :: dialogs_action where
  "closeNetworkConnectDialog = NetworkConnectDialogClosed"

lemmas dialog_creators [reducer_simps] =
  openShutdownDialog_def
  closeShutdownDialog_def
  openRestartDialog_def
  closeRestartDialog_def
  openUpdatesConfirmUpdateDialog_def
  closeUpdatesConfirmUpdateDialog_def
  openNetworkAddNetworkDialog_def
  closeNetworkAddNetworkDialog_def
  openNetworkForgetNetworkDialog_def
  closeNetworkForgetNetworkDialog_def
  openGeneralChangePasswordDialog_def
  closeGeneralChangePasswordDialog_def
  openGeneralFactoryResetDialog_def
  closeGeneralFactoryResetDialog_def
  openNetworkChangeApPasswordDialog_def
  closeNetworkChangeApPasswordDialog_def
  openNetworkConnectDialog_def
  closeNetworkConnectDialog_def

text \<open>The network named by the forget dialog is empty unless the dialog is open.\<close>

definition dialogs_wf :: "dialogs_state \<Rightarrow> bool" where
  "dialogs_wf st \<longleftrightarrow> (dg_forgetNetwork st \<or> dg_forgetNetwork_ssid st = [])"

lemma dialogs_wf_initial: "dialogs_wf dialogs_initial"
  by (simp add: dialogs_wf_def dialogs_initial_def)

lemma dialogs_wf_step: "dialogs_wf st \<Longrightarrow> dialogs_wf (dialogsReducer st a)"
  by (cases a) (simp_all add: dialogs_wf_def)

lemma dialogs_wf_extra: "dialogs_wf st \<Longrightarrow> dialogs_wf (dialogsExtraReducer st a)"
  by (cases a) (simp_all add: dialogs_wf_initial)

lemma dialogsExtra_cases: "dialogsExtraReducer st a = st \<or> dialogsExtraReducer st a = dialogs_initial"
  by (cases a) simp_all

text \<open>The dialogs that are open, by name.\<close>

definition open_dialogs :: "dialogs_state \<Rightarrow> bool list" where
  "open_dialogs st =
    [dg_shutdown st, dg_restart st, dg_changePassword st, dg_factoryReset st, dg_confirmUpdate st,
     dg_addNetwork st, dg_forgetNetwork st, dg_changeApPassword st, dg_connect st]"

lemma no_open_dialog_initial: "True \<notin> set (open_dialogs dialogs_initial)"
  by (simp add: open_dialogs_def dialogs_initial_def)

end
