(* ===== verification/Auth.thy ===== *)
theory Auth
  imports JsValue
begin

text \<open>
  The state of the session (store/auth/auth.Slice.tsx) and its reducer; the thunks that drive
  it are in AuthThunks. A field that takes over what the board sent (\<open>isAuthenticated\<close>,
  \<open>error\<close>) holds a dynamic value.
\<close>

(* src: store/auth/auth.Slice.tsx 11-15: AuthState *)
record auth_state =
  au_isAuthenticated :: jsval
  au_isLoading :: bool
  au_error :: jsval

(* src: store/auth/auth.Slice.tsx 18-22: initialState *)
definition auth_initial :: auth_state where
  "auth_initial = \<lparr>au_isAuthenticated = JBool False, au_isLoading = False, au_error = JNull\<rparr>"

text \<open>
  The actions of the four async thunks. A rejected action has the payload of
  \<open>rejectWithValue\<close> (or undefined) and the error's message.
\<close>

datatype auth_action =
    ResetAuthState
  | CheckStatusPending | CheckStatusFulfilled jsval | CheckStatusRejected jsval string
  | LoginPending | LoginFulfilled bool | LoginRejected jsval string
  | ChangePasswordPending | ChangePasswordFulfilled bool | ChangePasswordRejected jsval string
  | LogoutPending | LogoutFulfilled bool | LogoutRejected jsval string

text \<open>\<open>action.error.message || fallback\<close>\<close>

definition message_or :: "string \<Rightarrow> string \<Rightarrow> jsval" where
  "message_or m fb = (if m \<noteq> [] then JStr m else JStr fb)"

(* src: store/auth/auth.Slice.tsx 159-215: authSlice *)
fun authReducer :: "auth_state \<Rightarrow> auth_action \<Rightarrow> auth_state" where
  "authReducer st ResetAuthState =
     st\<lparr>au_isAuthenticated := JBool False, au_isLoading := False, au_error := JNull\<rparr>"
| "authReducer st CheckStatusPending = st\<lparr>au_isLoading := True\<rparr>"
| "authReducer st (CheckStatusFulfilled v) =
     st\<lparr>au_isAuthenticated := v, au_isLoading := False, au_error := JNull\<rparr>"
| "authReducer st (CheckStatusRejected p m) =
     st\<lparr>au_isAuthenticated := JBool False, au_isLoading := False,
        au_error := message_or m ''Authentication check failed''\<rparr>"
| "authReducer st LoginPending = st\<lparr>au_isLoading := True, au_error := JNull\<rparr>"
| "authReducer st (LoginFulfilled b) =
     st\<lparr>au_isAuthenticated := JBool True, au_isLoading := False, au_error := JNull\<rparr>"
| "authReducer st (LoginRejected p m) =
     st\<lparr>au_isAuthenticated := JBool False, au_isLoading := False, au_error := p\<rparr>"
| "authReducer st LogoutPending = st\<lparr>au_isLoading := True\<rparr>"
| "authReducer st (LogoutFulfilled b) =
     st\<lparr>au_isAuthenticated := JBool False, au_isLoading := False, au_error := JNull\<rparr>"
| "authReducer st (LogoutRejected p m) =
     st\<lparr>au_isLoading := False, au_error := message_or m ''Logout failed''\<rparr>"
| "authReducer st _ = st"

end
