(* ===== verification/Connection.thy ===== *)
theory Connection
  imports JsValue
begin

text \<open>
  The two slices about the board's network: the mode its Wi-Fi daemon publishes
  (store/connectionMode/connectionMode.Slice.tsx) and the saved networks
  (store/network/network.Slice.tsx). The thunks are in NetworkThunks.
\<close>

section \<open>Connection mode\<close>

text \<open>
  The fields hold what the board sent or the default the code puts in its place; only
  \<open>internet\<close> is forced to a boolean.
\<close>

(* src: store/connectionMode/connectionMode.Slice.tsx 11-26: ConnectionModeState *)
record connection_mode_state =
  cm_mode :: jsval
  cm_ssid :: jsval
  cm_internet :: bool
  cm_ap_ssid :: jsval
  cm_ap_password :: jsval
  cm_server_connected :: jsval
  cm_server_offline_secs :: jsval
  cm_server_last_contact_at :: jsval
  cm_last_failed_secs_ago :: jsval
  cm_last_failed_at :: jsval
  cm_loaded :: bool

(* src: store/connectionMode/connectionMode.Slice.tsx 28-40: initialState *)
definition connectionMode_initial :: connection_mode_state where
  "connectionMode_initial =
    \<lparr>cm_mode = JStr ''connecting'', cm_ssid = JStr [], cm_internet = False, cm_ap_ssid = JStr [],
     cm_ap_password = JStr [], cm_server_connected = JNull, cm_server_offline_secs = JNum 0,
     cm_server_last_contact_at = JNum 0, cm_last_failed_secs_ago = JNull, cm_last_failed_at = JNull,
     cm_loaded = False\<rparr>"

datatype connection_mode_action =
    FetchConnectionModePending
  | FetchConnectionModeFulfilled jsval
  | FetchConnectionModeRejected jsval string

text \<open>\<open>const d = action.payload ?? {}\<close>, then field by field \<open>d.x ?? default\<close>.\<close>

(* src: store/connectionMode/connectionMode.Slice.tsx 64-78: fetchConnectionMode.fulfilled *)
definition connection_mode_of :: "int \<Rightarrow> jsval \<Rightarrow> connection_mode_state" where
  "connection_mode_of now payload =
     (let d = js_coalesce payload (JObj []);
          failed = js_coalesce (own_prop d ''last_failed_secs_ago'') JNull
      in \<lparr>cm_mode = js_coalesce (own_prop d ''mode'') (JStr ''connecting''),
          cm_ssid = js_coalesce (own_prop d ''ssid'') (JStr []),
          cm_internet = truthy (own_prop d ''internet''),
          cm_ap_ssid = js_coalesce (own_prop d ''ap_ssid'') (JStr []),
          cm_ap_password = js_coalesce (own_prop d ''ap_password'') (JStr []),
          cm_server_connected = js_coalesce (own_prop d ''server_connected'') JNull,
          cm_server_offline_secs = js_coalesce (own_prop d ''server_offline_secs'') (JNum 0),
          cm_server_last_contact_at = js_coalesce (own_prop d ''server_last_contact_at'') (JNum 0),
          cm_last_failed_secs_ago = failed,
          cm_last_failed_at =
            (if failed = JNull then JNull else js_rsub (of_int now) (js_mult failed 1000)),
          cm_loaded = True\<rparr>)"

(* src: store/connectionMode/connectionMode.Slice.tsx 59-80: connectionModeSlice *)
fun connectionModeReducer ::
  "int \<Rightarrow> connection_mode_state \<Rightarrow> connection_mode_action \<Rightarrow> connection_mode_state" where
  "connectionModeReducer now st (FetchConnectionModeFulfilled payload) = connection_mode_of now payload"
| "connectionModeReducer now st _ = st"

text \<open>
  After an answer no field but the three that may say \<open>null\<close> (not known) is null or
  undefined, whatever the board left out; and the moment of the last failed try is known
  exactly when its age is.
\<close>

definition connection_mode_wf :: "connection_mode_state \<Rightarrow> bool" where
  "connection_mode_wf st \<longleftrightarrow>
     \<not> nullish (cm_mode st) \<and> \<not> nullish (cm_ssid st) \<and> \<not> nullish (cm_ap_ssid st) \<and>
     \<not> nullish (cm_ap_password st) \<and> \<not> nullish (cm_server_offline_secs st) \<and>
     \<not> nullish (cm_server_last_contact_at st) \<and>
     cm_server_connected st \<noteq> JUndefined \<and> cm_last_failed_secs_ago st \<noteq> JUndefined \<and>
     (cm_last_failed_at st = JNull \<longleftrightarrow> cm_last_failed_secs_ago st = JNull)"

lemma js_coalesce_JNull [simp]: "js_coalesce v JNull \<noteq> JUndefined"
  by (cases v) (simp_all add: js_simps)

lemma of_number_not_null [simp]: "of_number x \<noteq> JNull"
  by (cases x) (simp_all add: of_number_def)

lemma connection_mode_wf_of: "connection_mode_wf (connection_mode_of now payload)"
  by (simp add: connection_mode_wf_def connection_mode_of_def Let_def js_coalesce_not_nullish
      js_rsub_def)

lemma connection_mode_wf_initial: "connection_mode_wf connectionMode_initial"
  by (simp add: connection_mode_wf_def connectionMode_initial_def)

lemma connection_mode_wf_step:
  "connection_mode_wf st \<Longrightarrow> connection_mode_wf (connectionModeReducer now st a)"
  by (cases a) (simp_all add: connection_mode_wf_of)

section \<open>Saved networks\<close>

(* src: store/network/network.Slice.tsx 11-14: NetworkCredentials *)
record network_credentials =
  nc_ssid :: string
  nc_password :: string

(* src: store/network/network.Slice.tsx 16-23: NetworkState *)
record network_state =
  nw_currentConnection :: jsval
  nw_savedNetworks :: jsval
  nw_loading :: bool
  nw_error :: jsval
  nw_connectRequestedAt :: "int option"

(* src: store/network/network.Slice.tsx 26-32: initialState *)
definition network_initial :: network_state where
  "network_initial =
    \<lparr>nw_currentConnection = JStr (''Wird geladen '' @ s_dots), nw_savedNetworks = JArr [],
     nw_loading = False, nw_error = JNull, nw_connectRequestedAt = None\<rparr>"

datatype network_action =
    FetchNetworkDataPending | FetchNetworkDataFulfilled jsval jsval | FetchNetworkDataRejected jsval string
  | AddNetworkPending | AddNetworkFulfilled string | AddNetworkRejected jsval string
  | ForgetNetworkPending | ForgetNetworkFulfilled string | ForgetNetworkRejected jsval string
  | ChangeApPasswordPending | ChangeApPasswordFulfilled bool | ChangeApPasswordRejected jsval string
  | ConnectToSavedPending | ConnectToSavedFulfilled bool | ConnectToSavedRejected jsval string

(* src: store/network/network.Slice.tsx 205-255: networkSlice *)
fun networkReducer :: "int \<Rightarrow> network_state \<Rightarrow> network_action \<Rightarrow> network_state" where
  "networkReducer now st FetchNetworkDataPending = st\<lparr>nw_loading := True, nw_error := JNull\<rparr>"
| "networkReducer now st (FetchNetworkDataFulfilled current saved) =
     st\<lparr>nw_loading := False, nw_currentConnection := current, nw_savedNetworks := saved\<rparr>"
| "networkReducer now st (FetchNetworkDataRejected p m) = st\<lparr>nw_loading := False, nw_error := p\<rparr>"
| "networkReducer now st AddNetworkPending = st\<lparr>nw_loading := True, nw_error := JNull\<rparr>"
| "networkReducer now st (AddNetworkFulfilled ssid) = st\<lparr>nw_loading := False\<rparr>"
| "networkReducer now st (AddNetworkRejected p m) = st\<lparr>nw_loading := False, nw_error := p\<rparr>"
| "networkReducer now st (ConnectToSavedFulfilled b) = st\<lparr>nw_connectRequestedAt := Some now\<rparr>"
| "networkReducer now st ForgetNetworkPending = st\<lparr>nw_loading := True, nw_error := JNull\<rparr>"
| "networkReducer now st (ForgetNetworkFulfilled ssid) = st\<lparr>nw_loading := False\<rparr>"
| "networkReducer now st (ForgetNetworkRejected p m) = st\<lparr>nw_loading := False, nw_error := p\<rparr>"
| "networkReducer now st _ = st"

section \<open>Property\<close>

text \<open>Whatever the board answers to the question for its connection mode (fields missing,
  null, or no data at all), no field that the pages read as text or number is left null or
  undefined, and the moment of the last failed try is known exactly when its age is.\<close>

lemma connection_mode_complete:
  "connection_mode_wf (connectionModeReducer now st (FetchConnectionModeFulfilled payload))"
  by (simp add: connection_mode_wf_of)

end
