(* ===== verification/TsTypes.thy ===== *)
theory TsTypes
  imports JsValue
begin

text \<open>
  TypeScript interfaces of data that comes from the board. Their annotations are erased at
  run time, so an interface is a description, and \<open>conforms\<close> says that a dynamic value
  answers to it: every required property is there with its type, every optional one is
  absent (or undefined) or has its type. Other properties do not matter.
\<close>

datatype ts_type =
    TString
  | TNumber
  | TBoolean
  | TOneOf "string list"
  | TNullable ts_type
  | TArray ts_type
  | TInterface "(string \<times> bool \<times> ts_type) list"

text \<open>In \<open>TInterface\<close> the flag says that the property is required.\<close>

abbreviation required :: "string \<Rightarrow> ts_type \<Rightarrow> string \<times> bool \<times> ts_type" where
  "required k t \<equiv> (k, True, t)"

abbreviation optional :: "string \<Rightarrow> ts_type \<Rightarrow> string \<times> bool \<times> ts_type" where
  "optional k t \<equiv> (k, False, t)"

fun conforms :: "ts_type \<Rightarrow> jsval \<Rightarrow> bool"
  and has_props :: "(string \<times> bool \<times> ts_type) list \<Rightarrow> jsval \<Rightarrow> bool" where
  "conforms TString v = (case v of JStr s \<Rightarrow> True | _ \<Rightarrow> False)"
| "conforms TNumber v = is_number v"
| "conforms TBoolean v = (case v of JBool b \<Rightarrow> True | _ \<Rightarrow> False)"
| "conforms (TOneOf ss) v = (case v of JStr s \<Rightarrow> List.member ss s | _ \<Rightarrow> False)"
| "conforms (TNullable t) v = (v = JNull \<or> conforms t v)"
| "conforms (TArray t) v = (case v of JArr xs \<Rightarrow> list_all (conforms t) xs | _ \<Rightarrow> False)"
| "conforms (TInterface ps) v = (case v of JObj fs \<Rightarrow> has_props ps v | _ \<Rightarrow> False)"
| "has_props [] v = True"
| "has_props ((k, req, t) # ps) v =
     ((conforms t (own_prop v k) \<or> (\<not> req \<and> own_prop v k = JUndefined)) \<and> has_props ps v)"

lemma conforms_not_nullish:
  "conforms (TInterface ps) v \<Longrightarrow> \<not> nullish v"
  by (cases v) auto

lemma conforms_truthy: "conforms (TInterface ps) v \<Longrightarrow> truthy v"
  by (cases v) auto

lemma has_props_required:
  "has_props ps v \<Longrightarrow> (k, True, t) \<in> set ps \<Longrightarrow> conforms t (own_prop v k)"
  by (induction ps) auto

lemma conforms_required:
  "conforms (TInterface ps) v \<Longrightarrow> (k, True, t) \<in> set ps \<Longrightarrow> conforms t (own_prop v k)"
  by (cases v) (auto simp del: own_prop.simps dest: has_props_required)

end
