(* ===== verification/BoardData.thy ===== *)
theory BoardData
  imports TsTypes
begin

text \<open>
  The slices that keep what the board reports: system info (store/frameInfo), panel
  statistics (store/displayStats), logs (store/frameLogs), releases and updates
  (store/updates), services (store/services) and the display's customisation
  (store/displayCustomization). The interfaces are descriptions (TsTypes); the state keeps
  the values that came. The thunks are in BoardDataThunks.
\<close>

section \<open>System info\<close>

(* src: store/frameInfo/frameInfo.Slice.tsx 11-45: FrameInfo *)
definition FrameInfo :: ts_type where
  "FrameInfo = TInterface
    [required ''serial_number'' TString, required ''version'' TString,
     optional ''hostname'' TString, optional ''kernel'' TString, optional ''ip_wlan0'' TString,
     optional ''ip_usb0'' TString, optional ''time_iso'' TString, optional ''uptime_seconds'' TNumber,
     optional ''ram_total_bytes'' TNumber, optional ''ram_available_bytes'' TNumber,
     optional ''storage_data_total_bytes'' TNumber, optional ''storage_data_free_bytes'' TNumber,
     optional ''storage_root_total_bytes'' TNumber, optional ''storage_root_free_bytes'' TNumber,
     optional ''cpu_temp_celsius'' TNumber, optional ''load_1'' TNumber, optional ''load_5'' TNumber,
     optional ''load_15'' TNumber, optional ''cpu_usage_percent'' TNumber, optional ''wlan_ssid'' TString,
     optional ''wlan_signal_dbm'' TNumber, optional ''wlan_connected'' TBoolean,
     optional ''boot_count'' TNumber, optional ''host_model'' TString, optional ''os_sha'' TString,
     optional ''app_sha'' TString, optional ''boot_slot'' TString, optional ''slot_trial'' TBoolean,
     optional ''health_state'' TString, optional ''cpu_freq_mhz'' TNumber, optional ''wifi_mode'' TString,
     optional ''wifi_ssid'' TString, optional ''serial'' TString]"

(* src: store/frameInfo/frameInfo.Slice.tsx 47-50: FrameInfoState *)
record frame_info_state =
  fi_frameInfo :: jsval
  fi_loading :: bool

(* src: store/frameInfo/frameInfo.Slice.tsx 53-56: initialState *)
definition frameInfo_initial :: frame_info_state where
  "frameInfo_initial = \<lparr>fi_frameInfo = JNull, fi_loading = False\<rparr>"

datatype frame_info_action =
    FetchFrameInfosPending | FetchFrameInfosFulfilled jsval | FetchFrameInfosRejected jsval string

(* src: store/frameInfo/frameInfo.Slice.tsx 81-98: frameInfoSlice *)
fun frameInfoReducer :: "frame_info_state \<Rightarrow> frame_info_action \<Rightarrow> frame_info_state" where
  "frameInfoReducer st FetchFrameInfosPending = st\<lparr>fi_loading := True\<rparr>"
| "frameInfoReducer st (FetchFrameInfosFulfilled v) = st\<lparr>fi_loading := False, fi_frameInfo := v\<rparr>"
| "frameInfoReducer st (FetchFrameInfosRejected p m) = st\<lparr>fi_loading := False\<rparr>"

section \<open>Panel statistics\<close>

(* src: store/displayStats/displayStats.Slice.tsx 12-32: DisplayStats *)
definition DisplayStats :: ts_type where
  "DisplayStats = TInterface
    [optional ''epd_refresh_total'' TNumber, optional ''epd_image_refresh_total'' TNumber,
     optional ''epd_clear_total'' TNumber, optional ''epd_poweron_total'' TNumber,
     optional ''epd_refresh_fail_total'' TNumber, optional ''epd_poweron_fail_total'' TNumber,
     optional ''epd_busy_ms_total'' TNumber, optional ''epd_last_refresh_ms'' TNumber,
     optional ''epd_last_refresh_at'' TNumber, optional ''epd_first_use_at'' TNumber,
     optional ''app_boot_total'' TNumber, optional ''consecutive_failures'' TNumber,
     optional ''rated_refreshes'' TNumber, optional ''wear_percent'' TNumber,
     optional ''health'' (TOneOf [''ok'', ''degraded'', ''failed''])]"

(* src: store/displayStats/displayStats.Slice.tsx 34-37: DisplayStatsState *)
record display_stats_state =
  ds_displayStats :: jsval
  ds_loading :: bool

(* src: store/displayStats/displayStats.Slice.tsx 39-42: initialState *)
definition displayStats_initial :: display_stats_state where
  "displayStats_initial = \<lparr>ds_displayStats = JNull, ds_loading = False\<rparr>"

datatype display_stats_action =
    FetchDisplayStatsPending | FetchDisplayStatsFulfilled jsval | FetchDisplayStatsRejected jsval string

(* src: store/displayStats/displayStats.Slice.tsx 65-81: displayStatsSlice *)
fun displayStatsReducer :: "display_stats_state \<Rightarrow> display_stats_action \<Rightarrow> display_stats_state" where
  "displayStatsReducer st FetchDisplayStatsPending = st\<lparr>ds_loading := True\<rparr>"
| "displayStatsReducer st (FetchDisplayStatsFulfilled v) = st\<lparr>ds_loading := False, ds_displayStats := v\<rparr>"
| "displayStatsReducer st (FetchDisplayStatsRejected p m) = st\<lparr>ds_loading := False\<rparr>"

section \<open>Logs\<close>

(* src: types/types.frameLogs.ts 5-13: ServiceType *)
datatype ServiceType = WEBSOCKET | DISPLAY | DASHBOARD | HEARTBEAT | UPDATE | SYSTEM | EVENTS

fun service_type_str :: "ServiceType \<Rightarrow> string" where
  "service_type_str WEBSOCKET = ''websocket''"
| "service_type_str DISPLAY = ''display''"
| "service_type_str DASHBOARD = ''dashboard''"
| "service_type_str HEARTBEAT = ''heartbeat''"
| "service_type_str UPDATE = ''update''"
| "service_type_str SYSTEM = ''system''"
| "service_type_str EVENTS = ''events''"

(* src: types/types.frameLogs.ts 20-27: LogsData *)
record logs_data =
  ld_service :: jsval
  ld_period :: string
  ld_timestamp :: string
  ld_log_count :: nat
  ld_logs :: "string list"
  ld_lastFetched :: "int option"

(* src: types/types.frameLogs.ts 29-34: LogsRequestParams *)
record logs_request_params =
  lp_service_name :: ServiceType
  lp_since_timestamp :: "string option"
  lp_lines :: "nat option"
  lp_follow :: "bool option"

(* src: store/frameLogs/frameLogs.Slice.tsx 9-15: LogsState *)
record logs_state =
  lg_logsData :: "logs_data option"
  lg_loading :: bool
  lg_error :: jsval
  lg_lastFetchTimestamp :: "int option"
  lg_cachedParams :: "string option"

(* src: store/frameLogs/frameLogs.Slice.tsx 17-23: initialState *)
definition frameLogs_initial :: logs_state where
  "frameLogs_initial =
    \<lparr>lg_logsData = None, lg_loading = False, lg_error = JNull, lg_lastFetchTimestamp = None,
     lg_cachedParams = None\<rparr>"

(* src: store/frameLogs/frameLogs.Slice.tsx 25-25: CACHE_DURATION *)
definition CACHE_DURATION :: int where
  "CACHE_DURATION = 30 * 1000"

text \<open>
  \<open>JSON.stringify\<close> of the parameters, which the callers build in the order of the record;
  a property that is undefined is left out. A quote, a backslash and a newline inside a
  string are escaped; other control characters do not occur in time stamps and names.
\<close>

fun esc_char :: "char \<Rightarrow> string" where
  "esc_char ch =
     (if ch = CHR 0x22 then [CHR 0x5C, CHR 0x22]
      else if ch = CHR 0x5C then [CHR 0x5C, CHR 0x5C]
      else if ch = CHR 0x0A then [CHR 0x5C, CHR ''n'']
      else [ch])"

definition json_quote :: "string \<Rightarrow> string" where
  "json_quote s = [CHR 0x22] @ concat (map esc_char s) @ [CHR 0x22]"

definition json_member :: "string \<Rightarrow> string \<Rightarrow> string" where
  "json_member k v = json_quote k @ '':'' @ v"

fun join :: "string \<Rightarrow> string list \<Rightarrow> string" where
  "join sep [] = []"
| "join sep [x] = x"
| "join sep (x # y # xs) = x @ sep @ join sep (y # xs)"

definition stringify_params :: "logs_request_params \<Rightarrow> string" where
  "stringify_params p =
     ''{'' @ join '',''
       ([json_member ''service_name'' (json_quote (service_type_str (lp_service_name p)))] @
        (case lp_since_timestamp p of None \<Rightarrow> [] | Some t \<Rightarrow> [json_member ''since_timestamp'' (json_quote t)]) @
        (case lp_lines p of None \<Rightarrow> [] | Some n \<Rightarrow> [json_member ''lines'' (nat_str n)]) @
        (case lp_follow p of None \<Rightarrow> [] | Some b \<Rightarrow> [json_member ''follow'' (if b then ''true'' else ''false'')]))
      @ ''}''"

text \<open>The actions of the fetch carry its argument in \<open>meta.arg\<close>.\<close>

datatype logs_action =
    ClearLogs
  | FetchFrameLogsPending logs_request_params
  | FetchFrameLogsFulfilled logs_request_params logs_data
  | FetchFrameLogsRejected logs_request_params jsval string

(* src: store/frameLogs/frameLogs.Slice.tsx 109-137: frameLogsSlice *)
fun frameLogsReducer :: "int \<Rightarrow> logs_state \<Rightarrow> logs_action \<Rightarrow> logs_state" where
  "frameLogsReducer now st ClearLogs =
     st\<lparr>lg_logsData := None, lg_error := JNull, lg_lastFetchTimestamp := None, lg_cachedParams := None\<rparr>"
| "frameLogsReducer now st (FetchFrameLogsPending arg) = st\<lparr>lg_loading := True, lg_error := JNull\<rparr>"
| "frameLogsReducer now st (FetchFrameLogsFulfilled arg v) =
     st\<lparr>lg_loading := False, lg_logsData := Some v, lg_error := JNull,
        lg_lastFetchTimestamp := Some now, lg_cachedParams := Some (stringify_params arg)\<rparr>"
| "frameLogsReducer now st (FetchFrameLogsRejected arg p m) = st\<lparr>lg_loading := False, lg_error := p\<rparr>"

section \<open>Releases and updates\<close>

(* src: store/updates/updates.Slice.tsx 11-17: Release *)
definition Release :: ts_type where
  "Release = TInterface
    [required ''version'' TString, required ''release_notes'' TString, required ''release_date'' TString,
     required ''criticality'' TString, required ''is_newer'' TBoolean]"

(* src: store/updates/updates.Slice.tsx 19-25: UpdateHistoryEntry *)
definition UpdateHistoryEntry :: ts_type where
  "UpdateHistoryEntry = TInterface
    [required ''timestamp'' TString, required ''from_version'' TString, required ''to_version'' TString,
     required ''result'' TString, required ''error'' TString]"

(* src: store/updates/updates.Slice.tsx 27-38: UpdateStatus *)
definition UpdateStatus :: ts_type where
  "UpdateStatus = TInterface
    [required ''phase'' TString, required ''progress'' TNumber, required ''error'' TString,
     required ''current_version'' TString, required ''target_version'' TString,
     required ''booted_slot'' TString, required ''committed_slot'' TString,
     required ''pending_slot'' TString, required ''committed'' TBoolean,
     optional ''last_result'' UpdateHistoryEntry]"

(* src: store/updates/updates.Slice.tsx 40-46: UpdatesState *)
record updates_state =
  up_latest_release :: jsval
  up_update_status :: jsval
  up_history :: jsval
  up_historyFailed :: bool
  up_loading :: bool

(* src: store/updates/updates.Slice.tsx 48-54: initialState *)
definition updates_initial :: updates_state where
  "updates_initial =
    \<lparr>up_latest_release = JNull, up_update_status = JNull, up_history = JArr [],
     up_historyFailed = False, up_loading = False\<rparr>"

datatype updates_action =
    FetchLatestReleasePending | FetchLatestReleaseFulfilled jsval | FetchLatestReleaseRejected jsval string
  | PerformUpdatePending | PerformUpdateFulfilled unit | PerformUpdateRejected jsval string
  | FetchUpdateStatusPending | FetchUpdateStatusFulfilled jsval | FetchUpdateStatusRejected jsval string
  | FetchUpdateHistoryPending | FetchUpdateHistoryFulfilled jsval | FetchUpdateHistoryRejected jsval string

(* src: store/updates/updates.Slice.tsx 139-168: UpdatesSlice *)
fun updatesReducer :: "updates_state \<Rightarrow> updates_action \<Rightarrow> updates_state" where
  "updatesReducer st FetchLatestReleasePending = st\<lparr>up_loading := True\<rparr>"
| "updatesReducer st (FetchLatestReleaseFulfilled v) = st\<lparr>up_latest_release := v, up_loading := False\<rparr>"
| "updatesReducer st (FetchLatestReleaseRejected p m) = st\<lparr>up_loading := False\<rparr>"
| "updatesReducer st (FetchUpdateStatusFulfilled v) = st\<lparr>up_update_status := v\<rparr>"
| "updatesReducer st FetchUpdateHistoryPending = st\<lparr>up_historyFailed := False\<rparr>"
| "updatesReducer st (FetchUpdateHistoryFulfilled v) = st\<lparr>up_history := v\<rparr>"
| "updatesReducer st (FetchUpdateHistoryRejected p m) = st\<lparr>up_historyFailed := True\<rparr>"
| "updatesReducer st _ = st"

section \<open>Services\<close>

(* src: types/types.services.ts 4-11: ServiceStatus *)
definition ServiceStatus :: ts_type where
  "ServiceStatus = TInterface
    [required ''id'' TString, required ''label'' TString, required ''running'' TBoolean,
     required ''status'' TString, required ''uptime_seconds'' (TNullable TNumber),
     required ''pid'' (TNullable TNumber)]"

(* src: types/types.services.ts 14-20: MANAGED_SERVICES *)
definition MANAGED_SERVICES :: "ServiceType list" where
  "MANAGED_SERVICES = [DISPLAY, WEBSOCKET, DASHBOARD, HEARTBEAT, UPDATE]"

(* src: types/types.services.ts 23-30: SERVICE_LABELS *)
definition SERVICE_LABELS :: "(string \<times> string) list" where
  "SERVICE_LABELS =
    [(''websocket'', ''WebSocket''), (''display'', ''Display''), (''dashboard'', ''Dashboard''),
     (''heartbeat'', ''Heartbeat''), (''update'', ''Updates''), (''system'', ''System'')]"

(* src: store/services/services.Slice.tsx 10-15: ServicesState *)
record services_state =
  sv_services :: jsval
  sv_loading :: bool
  sv_error :: jsval
  sv_restarting :: "string option"

(* src: store/services/services.Slice.tsx 17-22: initialState *)
definition services_initial :: services_state where
  "services_initial = \<lparr>sv_services = JArr [], sv_loading = False, sv_error = JNull, sv_restarting = None\<rparr>"

datatype services_action =
    FetchServicesPending | FetchServicesFulfilled jsval | FetchServicesRejected jsval string
  | RestartServicePending string | RestartServiceFulfilled string | RestartServiceRejected jsval string

(* src: store/services/services.Slice.tsx 69-82: servicesSlice *)
fun servicesReducer :: "services_state \<Rightarrow> services_action \<Rightarrow> services_state" where
  "servicesReducer st FetchServicesPending = st\<lparr>sv_loading := True, sv_error := JNull\<rparr>"
| "servicesReducer st (FetchServicesFulfilled v) = st\<lparr>sv_loading := False, sv_services := v\<rparr>"
| "servicesReducer st (FetchServicesRejected p m) = st\<lparr>sv_loading := False, sv_error := p\<rparr>"
| "servicesReducer st (RestartServicePending arg) = st\<lparr>sv_restarting := Some arg\<rparr>"
| "servicesReducer st (RestartServiceFulfilled i) = st\<lparr>sv_restarting := None\<rparr>"
| "servicesReducer st (RestartServiceRejected p m) = st\<lparr>sv_restarting := None\<rparr>"

text \<open>
  \<open>services.find((s) => s.id === id) ?? null\<close>; a missing or wrong \<open>services\<close> array throws
  (there is no \<open>find\<close> to call), and so does a null element.
\<close>

fun find_service :: "string \<Rightarrow> jsval list \<Rightarrow> thrown + jsval" where
  "find_service i [] = Inr JNull"
| "find_service i (s # ss) =
     (case js_get s ''id'' of
        Inl e \<Rightarrow> Inl e
      | Inr x \<Rightarrow> if x = JStr i then Inr (js_coalesce s JNull) else find_service i ss)"

(* src: store/services/services.Slice.tsx 87-88: selectService *)
definition selectService :: "string \<Rightarrow> services_state \<Rightarrow> thrown + jsval" where
  "selectService i st =
     (case sv_services st of
        JArr ss \<Rightarrow> find_service i ss
      | _ \<Rightarrow> Inl (not_a_function ''state.services.services.find''))"

lemma find_service_conforms:
  assumes "list_all (conforms ServiceStatus) ss"
  shows "\<exists>v. find_service i ss = Inr v \<and>
    (v = JNull \<and> (\<forall>s \<in> set ss. own_prop s ''id'' \<noteq> JStr i) \<or>
     v \<in> set ss \<and> own_prop v ''id'' = JStr i \<and> conforms ServiceStatus v)"
  using assms
proof (induction ss)
  case Nil
  then show ?case by simp
next
  case (Cons s ss)
  then have s: "conforms ServiceStatus s" and "\<not> nullish s"
    by (auto simp: ServiceStatus_def simp del: conforms.simps dest: conforms_not_nullish)
  with Cons show ?case by (auto simp: js_get_def js_coalesce_def)
qed

section \<open>Customisation\<close>

(* src: store/displayCustomization/displayCustomization.Slice.tsx 9-11: DisplayCustomization *)
definition DisplayCustomization :: ts_type where
  "DisplayCustomization = TInterface [required ''show_sender'' TBoolean]"

(* src: store/displayCustomization/displayCustomization.Slice.tsx 13-17: DisplayCustomizationState *)
record display_customization_state =
  dc_showSender :: jsval
  dc_isFetching :: bool
  dc_isUpdating :: bool

(* src: store/displayCustomization/displayCustomization.Slice.tsx 19-23: initialState *)
definition displayCustomization_initial :: display_customization_state where
  "displayCustomization_initial = \<lparr>dc_showSender = JBool False, dc_isFetching = False, dc_isUpdating = False\<rparr>"

datatype display_customization_action =
    FetchCustomizationPending | FetchCustomizationFulfilled jsval | FetchCustomizationRejected jsval string
  | UpdateShowSenderPending | UpdateShowSenderFulfilled bool | UpdateShowSenderRejected jsval string

text \<open>The payload of the fulfilled fetch is truthy (its creator checks it), so the read of
  \<open>show_sender\<close> does not throw.\<close>

(* src: store/displayCustomization/displayCustomization.Slice.tsx 74-100: displayCustomizationSlice *)
fun displayCustomizationReducer ::
  "display_customization_state \<Rightarrow> display_customization_action \<Rightarrow> display_customization_state" where
  "displayCustomizationReducer st FetchCustomizationPending = st\<lparr>dc_isFetching := True\<rparr>"
| "displayCustomizationReducer st (FetchCustomizationFulfilled v) =
     st\<lparr>dc_isFetching := False, dc_showSender := own_prop v ''show_sender''\<rparr>"
| "displayCustomizationReducer st (FetchCustomizationRejected p m) = st\<lparr>dc_isFetching := False\<rparr>"
| "displayCustomizationReducer st UpdateShowSenderPending = st\<lparr>dc_isUpdating := True\<rparr>"
| "displayCustomizationReducer st (UpdateShowSenderFulfilled b) =
     st\<lparr>dc_isUpdating := False, dc_showSender := JBool b\<rparr>"
| "displayCustomizationReducer st (UpdateShowSenderRejected p m) = st\<lparr>dc_isUpdating := False\<rparr>"

section \<open>Property\<close>

text \<open>If the board sends services of the declared type, looking one up never throws: it gives
  null when no service has the id, and otherwise one of the services sent, with that id and of
  the declared type.\<close>

lemma select_service_total:
  assumes "sv_services st = JArr ss" and "list_all (conforms ServiceStatus) ss"
  shows "\<exists>v. selectService i st = Inr v \<and>
    (v = JNull \<and> (\<forall>s \<in> set ss. own_prop s ''id'' \<noteq> JStr i) \<or>
     v \<in> set ss \<and> own_prop v ''id'' = JStr i \<and> conforms ServiceStatus v)"
  using find_service_conforms [OF assms(2), of i] by (simp add: selectService_def assms(1))

definition display_service :: jsval where
  "display_service = JObj [(''id'', JStr ''display''), (''label'', JStr ''Display''), (''running'', JBool True),
     (''status'', JStr ''active''), (''uptime_seconds'', JNum 5), (''pid'', JNull)]"

lemma select_service_total_witness:
  "\<exists>v. selectService ''display'' (services_initial\<lparr>sv_services := JArr [display_service]\<rparr>) = Inr v \<and>
    conforms ServiceStatus v"
  using select_service_total [of "services_initial\<lparr>sv_services := JArr [display_service]\<rparr>" "[display_service]" "''display''"]
  by (auto simp: display_service_def ServiceStatus_def)

end
