(* ===== verification/Slideshow.thy ===== *)
theory Slideshow
  imports TsTypes
begin

text \<open>
  The three slices of the slideshow: the images and their order (store/slideshowImages), the
  status the board reports (store/slideshowStatus), and the operations the user starts
  (store/slideshowOperation). Their thunks are in SlideshowThunks and OperationThunks.
\<close>

section \<open>Images\<close>

(* src: types/types.slideshowImages.ts 1-1: PlaybackMode *)
datatype PlaybackMode = Shuffle | Chronological | NewestFirst | CustomOrder

fun playback_mode_str :: "PlaybackMode \<Rightarrow> string" where
  "playback_mode_str Shuffle = ''shuffle''"
| "playback_mode_str Chronological = ''chronological''"
| "playback_mode_str NewestFirst = ''newest_first''"
| "playback_mode_str CustomOrder = ''custom''"

(* src: types/types.slideshowImages.ts 3-12: ISlideshowImage *)
record slideshow_image =
  im_id :: jsval
  im_sender :: jsval
  im_receivedAt :: jsval
  im_expiresAt :: jsval
  im_width :: jsval
  im_height :: jsval
  im_sizeBytes :: jsval
  im_position :: jsval

(* src: store/slideshowImages/slideshowImages.Slice.tsx 10-19: SlideshowImagePayload *)
definition SlideshowImagePayload :: ts_type where
  "SlideshowImagePayload = TInterface
    [required ''id'' TNumber, required ''sender'' TString, required ''received_at'' TNumber,
     required ''expires_at'' TNumber, required ''width'' TNumber, required ''height'' TNumber,
     required ''size_bytes'' TNumber, required ''position'' TNumber]"

(* src: store/slideshowImages/slideshowImages.Slice.tsx 21-26: SlideshowImagesPayload *)
definition SlideshowImagesPayload :: ts_type where
  "SlideshowImagesPayload = TInterface
    [required ''mode'' (TOneOf (map playback_mode_str [Shuffle, Chronological, NewestFirst, CustomOrder])),
     required ''custom_order'' (TArray TNumber), required ''current_image_id'' TNumber,
     required ''images'' (TArray SlideshowImagePayload)]"

(* src: store/slideshowImages/slideshowImages.Slice.tsx 28-36: SlideshowImagesState *)
record slideshow_images_state =
  si_images :: "slideshow_image list"
  si_mode :: jsval
  si_currentImageId :: jsval
  si_isLoading :: bool
  si_isUpdatingOrder :: bool
  si_error :: jsval
  si_lastFetchedAt :: "int option"

(* src: store/slideshowImages/slideshowImages.Slice.tsx 38-46: initialState *)
definition slideshowImages_initial :: slideshow_images_state where
  "slideshowImages_initial =
    \<lparr>si_images = [], si_mode = JNull, si_currentImageId = JNull, si_isLoading = False,
     si_isUpdatingOrder = False, si_error = JNull, si_lastFetchedAt = None\<rparr>"

(* src: store/slideshowImages/slideshowImages.Slice.tsx 48-53: MODE_LABELS *)
fun MODE_LABELS :: "PlaybackMode \<Rightarrow> string" where
  "MODE_LABELS Shuffle = ''Zuf'' @ s_ae @ ''llige Reihenfolge''"
| "MODE_LABELS Chronological = ''Chronologische Reihenfolge''"
| "MODE_LABELS NewestFirst = ''Neueste zuerst''"
| "MODE_LABELS CustomOrder = ''Eigene Reihenfolge''"

text \<open>The payload of a fulfilled fetch: mode, current image, images.\<close>

record images_payload =
  ip_mode :: jsval
  ip_currentImageId :: jsval
  ip_images :: "slideshow_image list"

datatype slideshow_images_action =
    FetchImagesPending | FetchImagesFulfilled images_payload | FetchImagesRejected jsval string
  | UpdateOrderPending | UpdateOrderFulfilled PlaybackMode | UpdateOrderRejected jsval string

(* src: store/slideshowImages/slideshowImages.Slice.tsx 112-138: slideshowImagesSlice *)
fun slideshowImagesReducer ::
  "int \<Rightarrow> slideshow_images_state \<Rightarrow> slideshow_images_action \<Rightarrow> slideshow_images_state" where
  "slideshowImagesReducer now st FetchImagesPending = st\<lparr>si_isLoading := True\<rparr>"
| "slideshowImagesReducer now st (FetchImagesFulfilled v) =
     st\<lparr>si_isLoading := False, si_error := JNull, si_mode := ip_mode v,
        si_currentImageId := ip_currentImageId v, si_images := ip_images v,
        si_lastFetchedAt := Some now\<rparr>"
| "slideshowImagesReducer now st (FetchImagesRejected p m) = st\<lparr>si_isLoading := False, si_error := p\<rparr>"
| "slideshowImagesReducer now st UpdateOrderPending = st\<lparr>si_isUpdatingOrder := True\<rparr>"
| "slideshowImagesReducer now st (UpdateOrderFulfilled mode) =
     st\<lparr>si_isUpdatingOrder := False, si_mode := JStr (playback_mode_str mode)\<rparr>"
| "slideshowImagesReducer now st (UpdateOrderRejected p m) = st\<lparr>si_isUpdatingOrder := False\<rparr>"

section \<open>Status\<close>

(* src: types/types.slideshowImages.ts 14-19: INowShowing *)
record now_showing =
  ns_seq :: jsval
  ns_state :: jsval
  ns_imageId :: jsval
  ns_sender :: jsval

(* src: store/slideshowStatus/slideshowStatus.Slice.tsx 9-19: SlideshowStatusState *)
record slideshow_status_state =
  ss_isActive :: jsval
  ss_loopStarted :: jsval
  ss_isRefreshing :: bool
  ss_imageCount :: jsval
  ss_secondsUntilNext :: jsval
  ss_nowShowing :: "now_showing option"
  ss_isLoading :: bool
  ss_error :: jsval
  ss_lastCheckedAt :: "int option"

(* src: store/slideshowStatus/slideshowStatus.Slice.tsx 22-32: initialState *)
definition slideshowStatus_initial :: slideshow_status_state where
  "slideshowStatus_initial =
    \<lparr>ss_isActive = JBool False, ss_loopStarted = JBool False, ss_isRefreshing = False,
     ss_imageCount = JNull, ss_secondsUntilNext = JNull, ss_nowShowing = None, ss_isLoading = False,
     ss_error = JNull, ss_lastCheckedAt = None\<rparr>"

record status_payload =
  sp_nowShowing :: "now_showing option"
  sp_active :: jsval
  sp_loopStarted :: jsval
  sp_isRefreshing :: bool
  sp_imageCount :: jsval
  sp_secondsUntilNext :: jsval

datatype slideshow_status_action =
    ResetStatus
  | CheckSlideshowPending | CheckSlideshowFulfilled status_payload | CheckSlideshowRejected jsval string

(* src: store/slideshowStatus/slideshowStatus.Slice.tsx 91-133: slideshowStatusSlice *)
fun slideshowStatusReducer ::
  "int \<Rightarrow> slideshow_status_state \<Rightarrow> slideshow_status_action \<Rightarrow> slideshow_status_state" where
  "slideshowStatusReducer now st ResetStatus =
     st\<lparr>ss_isActive := JBool False, ss_loopStarted := JBool False, ss_isRefreshing := False,
        ss_imageCount := JNull, ss_secondsUntilNext := JNull, ss_nowShowing := None,
        ss_isLoading := False, ss_error := JNull, ss_lastCheckedAt := None\<rparr>"
| "slideshowStatusReducer now st CheckSlideshowPending = st\<lparr>ss_isLoading := True\<rparr>"
| "slideshowStatusReducer now st (CheckSlideshowFulfilled v) =
     st\<lparr>ss_isActive := sp_active v, ss_loopStarted := sp_loopStarted v,
        ss_isRefreshing := sp_isRefreshing v, ss_imageCount := sp_imageCount v,
        ss_secondsUntilNext := sp_secondsUntilNext v, ss_nowShowing := sp_nowShowing v,
        ss_isLoading := False, ss_error := JNull, ss_lastCheckedAt := Some now\<rparr>"
| "slideshowStatusReducer now st (CheckSlideshowRejected p m) =
     st\<lparr>ss_isLoading := False, ss_error := p, ss_isActive := JBool False,
        ss_loopStarted := JBool False, ss_isRefreshing := False, ss_imageCount := JNull,
        ss_secondsUntilNext := JNull\<rparr>"

section \<open>Operations\<close>

(* src: store/slideshowOperation/slideshowOperation.Slice.tsx 15-15: NightStyle *)
datatype NightStyle = Slower | Hold | Pause

fun night_style_str :: "NightStyle \<Rightarrow> string" where
  "night_style_str Slower = ''slower''"
| "night_style_str Hold = ''hold''"
| "night_style_str Pause = ''pause''"

text \<open>
  The night mode's fields and the interval are also filled from a board's answer, so they are
  dynamic values.
\<close>

(* src: store/slideshowOperation/slideshowOperation.Slice.tsx 17-35: SlideshowOperationState *)
record operation_state =
  op_isToggling :: bool
  op_isClearingDisplay :: bool
  op_isSkippingImage :: bool
  op_isShowingImage :: bool
  op_isUpdatingInterval :: bool
  op_isFetchingInterval :: bool
  op_isUpdatingNightMode :: bool
  op_isFetchingNightMode :: bool
  op_displayImagesIntervalMins :: jsval
  op_nightModeEnabled :: jsval
  op_nightModeActiveNow :: jsval
  op_nightStartHour :: jsval
  op_nightEndHour :: jsval
  op_nightIntervalMins :: jsval
  op_nightStyle :: jsval
  op_error :: jsval
  op_startTime :: "int option"

(* src: store/slideshowOperation/slideshowOperation.Slice.tsx 38-56: initialState *)
definition operation_initial :: operation_state where
  "operation_initial =
    \<lparr>op_isToggling = False, op_isClearingDisplay = False, op_isSkippingImage = False,
     op_isShowingImage = False, op_isUpdatingInterval = False, op_isFetchingInterval = False,
     op_isUpdatingNightMode = False, op_isFetchingNightMode = False,
     op_displayImagesIntervalMins = JNum 15, op_nightModeEnabled = JBool False,
     op_nightModeActiveNow = JBool False, op_nightStartHour = JNum 2, op_nightEndHour = JNum 5,
     op_nightIntervalMins = JNum 60, op_nightStyle = JStr ''hold'', op_error = JNull,
     op_startTime = None\<rparr>"

text \<open>The payload of \<open>setNightMode\<close>; \<open>activeNow\<close> is optional.\<close>

record night_mode_payload =
  np_enabled :: jsval
  np_startHour :: jsval
  np_endHour :: jsval
  np_intervalMins :: jsval
  np_style :: jsval
  np_activeNow :: jsval

(* src: store/slideshowOperation/slideshowOperation.Slice.tsx 800-812: slideshowOperationSlice.actions *)
datatype operation_action =
    SetToggleStatus bool
  | SetClearDisplayStatus bool
  | SetSkipImageStatus bool
  | SetShowImageStatus bool
  | SetUpdateIntervalStatus bool
  | SetFetchIntervalStatus bool
  | SetDisplayRefreshInterval jsval
  | SetUpdateNightModeStatus bool
  | SetFetchNightModeStatus bool
  | SetNightMode night_mode_payload
  | SetError jsval
  | ResetOperation

(* src: store/slideshowOperation/slideshowOperation.Slice.tsx 59-144: slideshowOperationSlice *)
fun operationReducer :: "int \<Rightarrow> operation_state \<Rightarrow> operation_action \<Rightarrow> operation_state" where
  "operationReducer now st (SetToggleStatus b) =
     st\<lparr>op_isToggling := b, op_startTime := (if b then Some now else None)\<rparr>"
| "operationReducer now st (SetClearDisplayStatus b) =
     st\<lparr>op_isClearingDisplay := b, op_startTime := (if b then Some now else None)\<rparr>"
| "operationReducer now st (SetSkipImageStatus b) =
     st\<lparr>op_isSkippingImage := b, op_startTime := (if b then Some now else None)\<rparr>"
| "operationReducer now st (SetShowImageStatus b) =
     st\<lparr>op_isShowingImage := b, op_startTime := (if b then Some now else None)\<rparr>"
| "operationReducer now st (SetUpdateIntervalStatus b) =
     st\<lparr>op_isUpdatingInterval := b, op_startTime := (if b then Some now else None)\<rparr>"
| "operationReducer now st (SetFetchIntervalStatus b) = st\<lparr>op_isFetchingInterval := b\<rparr>"
| "operationReducer now st (SetDisplayRefreshInterval v) = st\<lparr>op_displayImagesIntervalMins := v\<rparr>"
| "operationReducer now st (SetUpdateNightModeStatus b) = st\<lparr>op_isUpdatingNightMode := b\<rparr>"
| "operationReducer now st (SetFetchNightModeStatus b) = st\<lparr>op_isFetchingNightMode := b\<rparr>"
| "operationReducer now st (SetNightMode p) =
     (let st' = st\<lparr>op_nightModeEnabled := np_enabled p, op_nightStartHour := np_startHour p,
                  op_nightEndHour := np_endHour p, op_nightIntervalMins := np_intervalMins p,
                  op_nightStyle := np_style p\<rparr>
      in if np_activeNow p \<noteq> JUndefined then st'\<lparr>op_nightModeActiveNow := np_activeNow p\<rparr> else st')"
| "operationReducer now st (SetError e) = st\<lparr>op_error := e\<rparr>"
| "operationReducer now st ResetOperation =
     st\<lparr>op_isToggling := False, op_isClearingDisplay := False, op_isSkippingImage := False,
        op_isShowingImage := False, op_isUpdatingInterval := False, op_isFetchingInterval := False,
        op_isUpdatingNightMode := False, op_isFetchingNightMode := False, op_error := JNull,
        op_startTime := None\<rparr>"

text \<open>
  The guard that five of the thunks begin with (lines 202-203, 442-443, 519-520, 570-571 and
  647-648), and the selector that should agree with it.
\<close>

(* src: store/slideshowOperation/slideshowOperation.Slice.tsx 647-648: the guard of toggleSlideshowThunk *)
definition op_busy :: "operation_state \<Rightarrow> bool" where
  "op_busy st \<longleftrightarrow> op_isToggling st \<or> op_isClearingDisplay st \<or> op_isSkippingImage st \<or>
     op_isShowingImage st \<or> op_isUpdatingInterval st"

(* src: store/slideshowOperation/slideshowOperation.Slice.tsx 795-798: selectIsAnyOperationActive *)
definition selectIsAnyOperationActive :: "operation_state \<Rightarrow> bool" where
  "selectIsAnyOperationActive st \<longleftrightarrow> op_isToggling st \<or> op_isClearingDisplay st \<or>
     op_isSkippingImage st \<or> op_isUpdatingInterval st"

section \<open>Property\<close>

text \<open>The selector of a running operation and the guard of the operations differ in exactly
  one case: while one image is being shown and nothing else runs, the selector says idle and
  every operation is refused.\<close>

lemma selector_misses_showing:
  "op_busy st \<and> \<not> selectIsAnyOperationActive st \<longleftrightarrow>
     op_isShowingImage st \<and> \<not> (op_isToggling st \<or> op_isClearingDisplay st \<or> op_isSkippingImage st \<or>
       op_isUpdatingInterval st)"
  by (auto simp: op_busy_def selectIsAnyOperationActive_def)

end
