(* ===== verification/RootStore.thy ===== *)
theory RootStore
  imports Prog Snackbars Timers Interface Auth Connection BoardData Slideshow
begin

text \<open>
  The store: the root state is the record of the slices (store/rootReducer.tsx), an action
  belongs to one slice, and the root reducer hands it to that slice's reducer. A route
  change is the one action two slices react to. What is kept over a reload
  (store/index.ts, store/migrations.ts) is at the end.
\<close>

section \<open>Root state, actions, reducer\<close>

text \<open>The slice piPower holds no state (store/piPower): its field is of type \<open>unit\<close>.\<close>

(* src: store/index.ts 48-48: RootState *)
record root_state =
  rs_snackbars :: snackbars_state
  rs_slideshowOperation :: operation_state
  rs_slideshowStatus :: slideshow_status_state
  rs_timers :: timers_state
  rs_network :: network_state
  rs_connectionMode :: connection_mode_state
  rs_auth :: auth_state
  rs_frameInfo :: frame_info_state
  rs_displayStats :: display_stats_state
  rs_updates :: updates_state
  rs_loadingWall :: loading_wall_state
  rs_piPower :: unit
  rs_frameLogs :: logs_state
  rs_navigation :: navigation_state
  rs_dialogs :: dialogs_state
  rs_services :: services_state
  rs_slideshowImages :: slideshow_images_state
  rs_displayCustomization :: display_customization_state

text \<open>
  \<open>UnhandledA\<close> is an action by its type that no reducer has a case for, such as the lifecycle
  actions of the power thunks.
\<close>

datatype action =
    SnackbarsA snackbars_action
  | OperationA operation_action
  | StatusA slideshow_status_action
  | TimersA timers_action
  | NetworkA network_action
  | ConnectionModeA connection_mode_action
  | AuthA auth_action
  | FrameInfoA frame_info_action
  | DisplayStatsA display_stats_action
  | UpdatesA updates_action
  | LoadingWallA loading_wall_action
  | FrameLogsA logs_action
  | NavigationA navigation_action
  | DialogsA dialogs_action
  | ServicesA services_action
  | ImagesA slideshow_images_action
  | CustomizationA display_customization_action
  | UnhandledA string

(* src: store/rootReducer.tsx 21-40: rootReducer *)
fun root_reducer :: "int \<Rightarrow> root_state \<Rightarrow> action \<Rightarrow> root_state" where
  "root_reducer now s (SnackbarsA a) = s\<lparr>rs_snackbars := snackbarsReducer (rs_snackbars s) a\<rparr>"
| "root_reducer now s (OperationA a) =
     s\<lparr>rs_slideshowOperation := operationReducer now (rs_slideshowOperation s) a\<rparr>"
| "root_reducer now s (StatusA a) =
     s\<lparr>rs_slideshowStatus := slideshowStatusReducer now (rs_slideshowStatus s) a\<rparr>"
| "root_reducer now s (TimersA a) = s\<lparr>rs_timers := timersReducer now (rs_timers s) a\<rparr>"
| "root_reducer now s (NetworkA a) = s\<lparr>rs_network := networkReducer now (rs_network s) a\<rparr>"
| "root_reducer now s (ConnectionModeA a) =
     s\<lparr>rs_connectionMode := connectionModeReducer now (rs_connectionMode s) a\<rparr>"
| "root_reducer now s (AuthA a) = s\<lparr>rs_auth := authReducer (rs_auth s) a\<rparr>"
| "root_reducer now s (FrameInfoA a) = s\<lparr>rs_frameInfo := frameInfoReducer (rs_frameInfo s) a\<rparr>"
| "root_reducer now s (DisplayStatsA a) =
     s\<lparr>rs_displayStats := displayStatsReducer (rs_displayStats s) a\<rparr>"
| "root_reducer now s (UpdatesA a) = s\<lparr>rs_updates := updatesReducer (rs_updates s) a\<rparr>"
| "root_reducer now s (LoadingWallA a) =
     s\<lparr>rs_loadingWall := loadingWallReducer now (rs_loadingWall s) a\<rparr>"
| "root_reducer now s (FrameLogsA a) = s\<lparr>rs_frameLogs := frameLogsReducer now (rs_frameLogs s) a\<rparr>"
| "root_reducer now s (NavigationA a) =
     s\<lparr>rs_navigation := navigationReducer (rs_navigation s) a,
       rs_dialogs := dialogsExtraReducer (rs_dialogs s) a\<rparr>"
| "root_reducer now s (DialogsA a) = s\<lparr>rs_dialogs := dialogsReducer (rs_dialogs s) a\<rparr>"
| "root_reducer now s (ServicesA a) = s\<lparr>rs_services := servicesReducer (rs_services s) a\<rparr>"
| "root_reducer now s (ImagesA a) =
     s\<lparr>rs_slideshowImages := slideshowImagesReducer now (rs_slideshowImages s) a\<rparr>"
| "root_reducer now s (CustomizationA a) =
     s\<lparr>rs_displayCustomization := displayCustomizationReducer (rs_displayCustomization s) a\<rparr>"
| "root_reducer now s (UnhandledA t) = s"

(* src: store/setupStore.ts 12-18: setupStore *)
definition root_initial :: "int \<Rightarrow> root_state" where
  "root_initial now =
    \<lparr>rs_snackbars = snackbars_initial, rs_slideshowOperation = operation_initial,
     rs_slideshowStatus = slideshowStatus_initial, rs_timers = timers_initial now,
     rs_network = network_initial, rs_connectionMode = connectionMode_initial,
     rs_auth = auth_initial, rs_frameInfo = frameInfo_initial, rs_displayStats = displayStats_initial,
     rs_updates = updates_initial, rs_loadingWall = loadingWall_initial, rs_piPower = (),
     rs_frameLogs = frameLogs_initial, rs_navigation = navigation_initial,
     rs_dialogs = dialogs_initial, rs_services = services_initial,
     rs_slideshowImages = slideshowImages_initial,
     rs_displayCustomization = displayCustomization_initial\<rparr>"

text \<open>The types of the programs over this store; the thunks they may start are named below.\<close>

datatype thunk_call = CallFetchNetworkData | CallFetchSlideshowImages

type_synonym 'r thunk = "(root_state, action, thunk_call, 'r) prog"
type_synonym root_cfg = "(root_state, action, thunk_call) cfg"

abbreviation runR :: "world \<Rightarrow> 'r thunk \<Rightarrow> root_cfg \<Rightarrow> 'r outcome \<times> root_cfg" where
  "runR \<equiv> run root_reducer"

section \<open>The contract of a slice\<close>

text \<open>
  What \<open>combineReducers\<close> promises a slice: its part of the new root state is its own reducer
  applied to its part of the old one, for every action. A property that the slice's reducer
  keeps is then kept by the whole store, over any sequence of dispatches.
\<close>

locale combined_slice =
  fixes get :: "'root \<Rightarrow> 'st"
    and red :: "int \<Rightarrow> 'root \<Rightarrow> 'act \<Rightarrow> 'root"
    and slice_red :: "int \<Rightarrow> 'st \<Rightarrow> 'act \<Rightarrow> 'st"
  assumes get_red: "get (red now s a) = slice_red now (get s) a"
begin

lemma invariant_step:
  assumes "\<And>now st a. P st \<Longrightarrow> Q st a \<Longrightarrow> P (slice_red now st a)"
    and "P (get s)" and "Q (get s) a"
  shows "P (get (red now s a))"
  using assms by (simp add: get_red)

lemma invariant_dispatches:
  assumes "\<And>now st a. a \<in> A \<Longrightarrow> P st \<Longrightarrow> P (slice_red now st a)" and "P (get s)"
    and "snd ` set as \<subseteq> A"
  shows "P (get (foldl (\<lambda>s (now, a). red now s a) s as))"
  using assms(2,3)
proof (induction as arbitrary: s)
  case Nil
  then show ?case by simp
next
  case (Cons x as)
  have "P (get (red (fst x) s (snd x)))" using Cons.prems by (simp add: get_red assms(1))
  from Cons.IH [OF this] Cons.prems(2) show ?case by (simp add: case_prod_beta)
qed

lemma unchanged_dispatches:
  assumes "\<And>now st a. a \<in> A \<Longrightarrow> slice_red now st a = st" and "snd ` set as \<subseteq> A"
  shows "get (foldl (\<lambda>s (now, a). red now s a) s as) = get s"
  using assms(2)
proof (induction as arbitrary: s)
  case Nil
  then show ?case by simp
next
  case (Cons x as)
  then have "get (red (fst x) s (snd x)) = get s" by (simp add: get_red assms(1))
  with Cons show ?case by (simp add: case_prod_beta)
qed

end

text \<open>The slices' reducers on root actions: an action of another slice changes nothing.\<close>

definition snackbars_on :: "int \<Rightarrow> snackbars_state \<Rightarrow> action \<Rightarrow> snackbars_state" where
  "snackbars_on now st a = (case a of SnackbarsA x \<Rightarrow> snackbarsReducer st x | _ \<Rightarrow> st)"

definition operation_on :: "int \<Rightarrow> operation_state \<Rightarrow> action \<Rightarrow> operation_state" where
  "operation_on now st a = (case a of OperationA x \<Rightarrow> operationReducer now st x | _ \<Rightarrow> st)"

definition status_on :: "int \<Rightarrow> slideshow_status_state \<Rightarrow> action \<Rightarrow> slideshow_status_state" where
  "status_on now st a = (case a of StatusA x \<Rightarrow> slideshowStatusReducer now st x | _ \<Rightarrow> st)"

definition timers_on :: "int \<Rightarrow> timers_state \<Rightarrow> action \<Rightarrow> timers_state" where
  "timers_on now st a = (case a of TimersA x \<Rightarrow> timersReducer now st x | _ \<Rightarrow> st)"

definition network_on :: "int \<Rightarrow> network_state \<Rightarrow> action \<Rightarrow> network_state" where
  "network_on now st a = (case a of NetworkA x \<Rightarrow> networkReducer now st x | _ \<Rightarrow> st)"

definition connectionMode_on :: "int \<Rightarrow> connection_mode_state \<Rightarrow> action \<Rightarrow> connection_mode_state" where
  "connectionMode_on now st a = (case a of ConnectionModeA x \<Rightarrow> connectionModeReducer now st x | _ \<Rightarrow> st)"

definition auth_on :: "int \<Rightarrow> auth_state \<Rightarrow> action \<Rightarrow> auth_state" where
  "auth_on now st a = (case a of AuthA x \<Rightarrow> authReducer st x | _ \<Rightarrow> st)"

definition loadingWall_on :: "int \<Rightarrow> loading_wall_state \<Rightarrow> action \<Rightarrow> loading_wall_state" where
  "loadingWall_on now st a = (case a of LoadingWallA x \<Rightarrow> loadingWallReducer now st x | _ \<Rightarrow> st)"

definition frameLogs_on :: "int \<Rightarrow> logs_state \<Rightarrow> action \<Rightarrow> logs_state" where
  "frameLogs_on now st a = (case a of FrameLogsA x \<Rightarrow> frameLogsReducer now st x | _ \<Rightarrow> st)"

definition dialogs_on :: "int \<Rightarrow> dialogs_state \<Rightarrow> action \<Rightarrow> dialogs_state" where
  "dialogs_on now st a =
     (case a of DialogsA x \<Rightarrow> dialogsReducer st x | NavigationA x \<Rightarrow> dialogsExtraReducer st x | _ \<Rightarrow> st)"

interpretation snackbars_slice: combined_slice rs_snackbars root_reducer snackbars_on
  by unfold_locales (simp add: snackbars_on_def split: action.split)

interpretation operation_slice: combined_slice rs_slideshowOperation root_reducer operation_on
  by unfold_locales (simp add: operation_on_def split: action.split)

interpretation status_slice: combined_slice rs_slideshowStatus root_reducer status_on
  by unfold_locales (simp add: status_on_def split: action.split)

interpretation timers_slice: combined_slice rs_timers root_reducer timers_on
  by unfold_locales (simp add: timers_on_def split: action.split)

interpretation network_slice: combined_slice rs_network root_reducer network_on
  by unfold_locales (simp add: network_on_def split: action.split)

interpretation connectionMode_slice: combined_slice rs_connectionMode root_reducer connectionMode_on
  by unfold_locales (simp add: connectionMode_on_def split: action.split)

interpretation auth_slice: combined_slice rs_auth root_reducer auth_on
  by unfold_locales (simp add: auth_on_def split: action.split)

interpretation loadingWall_slice: combined_slice rs_loadingWall root_reducer loadingWall_on
  by unfold_locales (simp add: loadingWall_on_def split: action.split)

interpretation frameLogs_slice: combined_slice rs_frameLogs root_reducer frameLogs_on
  by unfold_locales (simp add: frameLogs_on_def split: action.split)

interpretation dialogs_slice: combined_slice rs_dialogs root_reducer dialogs_on
  by unfold_locales (simp add: dialogs_on_def split: action.split)

section \<open>The invariant of the store\<close>

definition root_wf :: "root_state \<Rightarrow> bool" where
  "root_wf s \<longleftrightarrow> alerts_wf (rs_snackbars s) \<and> wall_wf (rs_loadingWall s) \<and>
     dialogs_wf (rs_dialogs s) \<and> connection_mode_wf (rs_connectionMode s) \<and> timers_wf (rs_timers s)"

fun root_action_ok :: "root_state \<Rightarrow> action \<Rightarrow> bool" where
  "root_action_ok s (TimersA a) = action_ok (rs_timers s) a"
| "root_action_ok s _ = True"

lemma root_wf_initial: "root_wf (root_initial now)"
  by (simp add: root_wf_def root_initial_def alerts_wf_initial wall_wf_initial dialogs_wf_initial
      connection_mode_wf_initial timers_wf_initial)

lemma root_wf_step:
  assumes "root_wf s" and "root_action_ok s a"
  shows "root_wf (root_reducer now s a)"
  using assms
  by (cases a) (auto simp: root_wf_def alerts_wf_step wall_wf_step dialogs_wf_step dialogs_wf_extra
      connection_mode_wf_step timers_wf_step)

section \<open>What a reload keeps\<close>

text \<open>
  redux-persist is not part of the repository: it stores the slices that are not
  blacklisted, and on the next start runs the migrations on what it finds, applies the
  transforms and merges the result into the initial state. Modelled is what the repository
  configures.
\<close>

definition slice_names :: "string list" where
  "slice_names =
    [''snackbars'', ''slideshowOperation'', ''slideshowStatus'', ''timers'', ''network'',
     ''connectionMode'', ''auth'', ''frameInfo'', ''displayStats'', ''updates'', ''loadingWall'',
     ''piPower'', ''frameLogs'', ''navigation'', ''dialogs'', ''services'', ''slideshowImages'',
     ''displayCustomization'']"

(* src: store/index.ts 28-36: persistConfig *)
definition persist_blacklist :: "string list" where
  "persist_blacklist = [''slideshowImages'', ''dialogs'', ''displayCustomization'']"

definition persisted_slices :: "string list" where
  "persisted_slices = filter (\<lambda>k. k \<notin> set persist_blacklist) slice_names"

text \<open>\<open>window.matchMedia('(min-width: 1200px)').matches\<close> is the argument \<open>wide\<close>.\<close>

(* src: store/index.ts 22-26: closePhoneMenu *)
definition closePhoneMenu :: "bool \<Rightarrow> navigation_state \<Rightarrow> navigation_state" where
  "closePhoneMenu wide outbound = outbound\<lparr>nv_sidebar_open := nv_sidebar_open outbound \<and> wide\<rparr>"

(* src: store/migrations.ts 5-9: dropDialogs *)
definition dropDialogs :: "(string \<times> jsval) list option \<Rightarrow> (string \<times> jsval) list option" where
  "dropDialogs state = map_option (AList.delete ''dialogs'') state"

(* src: store/migrations.ts 11-14: typedMigrations *)
definition typedMigrations :: "(nat \<times> ((string \<times> jsval) list option \<Rightarrow> (string \<times> jsval) list option)) list" where
  "typedMigrations = [(3, dropDialogs), (4, dropDialogs)]"

text \<open>
  redux-persist documents: the migrations with a key above the stored version and not above
  the current one run in ascending order.
\<close>

definition persist_version :: nat where
  "persist_version = 4"

definition migrate ::
  "nat \<Rightarrow> (string \<times> jsval) list option \<Rightarrow> (string \<times> jsval) list option" where
  "migrate stored state =
     foldl (\<lambda>st (v, m). if stored < v \<and> v \<le> persist_version then m st else st) state typedMigrations"

lemma dropDialogs_keeps:
  "k \<noteq> ''dialogs'' \<Longrightarrow> map_option (\<lambda>st. map_of st k) (dropDialogs state) = map_option (\<lambda>st. map_of st k) state"
  by (cases state) (simp_all add: dropDialogs_def delete_conv')

lemma dropDialogs_drops: "dropDialogs state = Some st \<Longrightarrow> map_of st ''dialogs'' = None"
  by (auto simp: dropDialogs_def delete_conv')

lemma dropDialogs_idem: "dropDialogs (dropDialogs state) = dropDialogs state"
  by (cases state) (simp_all add: dropDialogs_def delete_idem)

lemma migrate_eq:
  "migrate stored state = (if stored < persist_version then dropDialogs state else state)"
  by (auto simp: migrate_def typedMigrations_def persist_version_def dropDialogs_idem)

section \<open>Properties\<close>

abbreviation dispatches :: "root_state \<Rightarrow> (int \<times> action) list \<Rightarrow> root_state" where
  "dispatches \<equiv> foldl (\<lambda>s (now, a). root_reducer now s a)"

text \<open>The actions of a run are fit for the states they meet.\<close>

fun actions_ok :: "root_state \<Rightarrow> (int \<times> action) list \<Rightarrow> bool" where
  "actions_ok s [] = True"
| "actions_ok s ((now, a) # as) = (root_action_ok s a \<and> actions_ok (root_reducer now s a) as)"



text \<open>A route change closes every dialog, and no dialog comes back by anything but an action
  of the dialogs themselves, whatever else is dispatched.\<close>

lemma route_change_closes_dialogs:
  assumes "\<forall>(now, a) \<in> set as. \<nexists>x. a = DialogsA x"
  shows "True \<notin> set (open_dialogs (rs_dialogs (dispatches (root_reducer t s (NavigationA RouteChanged)) as)))"
proof (rule dialogs_slice.invariant_dispatches [where A = "{a. \<nexists>x. a = DialogsA x}"])
  show "True \<notin> set (open_dialogs (dialogs_on now st a))"
    if "a \<in> {a. \<nexists>x. a = DialogsA x}" and "True \<notin> set (open_dialogs st)" for now st a
    using that dialogsExtra_cases [of st] no_open_dialog_initial
    by (cases a) (simp_all add: dialogs_on_def, metis)
  show "snd ` set as \<subseteq> {a. \<nexists>x. a = DialogsA x}" using assms by auto
qed (simp add: no_open_dialog_initial)

lemma route_change_closes_dialogs_witness:
  "True \<notin> set (open_dialogs (rs_dialogs (dispatches
     (root_reducer 1 (root_reducer 0 (root_initial 0) (DialogsA (GeneralFactoryResetDialogOpened)))
       (NavigationA RouteChanged)) [(2, NavigationA SidebarOpened)])))"
  by (rule route_change_closes_dialogs) simp

text \<open>A stored state of an older version comes back without its dialogs and otherwise as it
  was; one of the current version comes back unchanged.\<close>

lemma migration_drops_dialogs:
  "map_option (\<lambda>st. map_of st k) (migrate stored (Some st)) =
     Some (if stored < persist_version \<and> k = ''dialogs'' then None else map_of st k)"
  by (auto simp: migrate_eq dropDialogs_def delete_conv')

end
