(* ===== verification/Endpoints.thy ===== *)
theory Endpoints
  imports JsValue
begin

text \<open>
  The URLs of the board's API (assets/endpoints/api/frame.ts) and of the dashboard's pages
  (assets/endpoints/app). Each definition is one arrow function of the source; a template
  literal is a concatenation. The source's functions take no argument, so they are
  constants here, but for the two that build a URL from an id.

  In every theory of the development a source comment before a definition names the file
  (below dashboard-frontend/frontend/src/), the lines and the symbol it translates.
\<close>

section \<open>The board's API\<close>

(* src: assets/endpoints/api/frame.ts 1-1: apiBaseUrl *)
definition apiBaseUrl :: string where
  "apiBaseUrl = ''/api''"

(* src: assets/endpoints/api/frame.ts 2-2: frameBaseUrl *)
definition frameBaseUrl :: string where
  "frameBaseUrl = apiBaseUrl @ ''/frame''"

(* src: assets/endpoints/api/frame.ts 3-3: systemBaseUrl *)
definition systemBaseUrl :: string where
  "systemBaseUrl = apiBaseUrl @ ''/system''"

(* src: assets/endpoints/api/frame.ts 4-4: authBaseUrl *)
definition authBaseUrl :: string where
  "authBaseUrl = apiBaseUrl @ ''/auth''"

(* src: assets/endpoints/api/frame.ts 7-7: getAuthStatusUrl *)
definition getAuthStatusUrl :: string where
  "getAuthStatusUrl = authBaseUrl @ ''/status''"

(* src: assets/endpoints/api/frame.ts 8-8: getLoginUrl *)
definition getLoginUrl :: string where
  "getLoginUrl = authBaseUrl @ ''/login''"

(* src: assets/endpoints/api/frame.ts 9-9: getLogoutUrl *)
definition getLogoutUrl :: string where
  "getLogoutUrl = authBaseUrl @ ''/logout''"

(* src: assets/endpoints/api/frame.ts 10-10: getChangePasswordUrl *)
definition getChangePasswordUrl :: string where
  "getChangePasswordUrl = authBaseUrl @ ''/change-password''"

(* src: assets/endpoints/api/frame.ts 13-13: getConnectionBaseUrl *)
definition getConnectionBaseUrl :: string where
  "getConnectionBaseUrl = apiBaseUrl @ ''/connection''"

(* src: assets/endpoints/api/frame.ts 14-14: getConnectionStatusUrl *)
definition getConnectionStatusUrl :: string where
  "getConnectionStatusUrl = getConnectionBaseUrl @ ''/status''"

(* src: assets/endpoints/api/frame.ts 15-15: getConnectionSavedNetworksUrl *)
definition getConnectionSavedNetworksUrl :: string where
  "getConnectionSavedNetworksUrl = getConnectionBaseUrl @ ''/saved-networks''"

(* src: assets/endpoints/api/frame.ts 16-16: getConnectionConnectUrl *)
definition getConnectionConnectUrl :: string where
  "getConnectionConnectUrl = getConnectionBaseUrl @ ''/connect''"

(* src: assets/endpoints/api/frame.ts 17-17: getConnectionForgetUrl *)
definition getConnectionForgetUrl :: string where
  "getConnectionForgetUrl = getConnectionBaseUrl @ ''/forget''"

(* src: assets/endpoints/api/frame.ts 18-18: getConnectionApplyUrl *)
definition getConnectionApplyUrl :: string where
  "getConnectionApplyUrl = getConnectionBaseUrl @ ''/apply''"

(* src: assets/endpoints/api/frame.ts 19-19: getConnectionModeUrl *)
definition getConnectionModeUrl :: string where
  "getConnectionModeUrl = getConnectionBaseUrl @ ''/mode''"

(* src: assets/endpoints/api/frame.ts 20-20: getApPasswordUrl *)
definition getApPasswordUrl :: string where
  "getApPasswordUrl = getConnectionBaseUrl @ ''/ap-password''"

(* src: assets/endpoints/api/frame.ts 23-23: getSlideshowUrl *)
definition getSlideshowUrl :: string where
  "getSlideshowUrl = frameBaseUrl @ ''/slideshow''"

(* src: assets/endpoints/api/frame.ts 24-24: getSlideshowStatusUrl *)
definition getSlideshowStatusUrl :: string where
  "getSlideshowStatusUrl = frameBaseUrl @ ''/slideshow/status''"

(* src: assets/endpoints/api/frame.ts 25-25: getSlideshowIntervalUrl *)
definition getSlideshowIntervalUrl :: string where
  "getSlideshowIntervalUrl = frameBaseUrl @ ''/slideshow/interval''"

(* src: assets/endpoints/api/frame.ts 26-26: getSlideshowNightModeUrl *)
definition getSlideshowNightModeUrl :: string where
  "getSlideshowNightModeUrl = frameBaseUrl @ ''/slideshow/night-mode''"

(* src: assets/endpoints/api/frame.ts 27-27: getSkipSlideshowImageUrl *)
definition getSkipSlideshowImageUrl :: string where
  "getSkipSlideshowImageUrl = frameBaseUrl @ ''/slideshow/skip''"

(* src: assets/endpoints/api/frame.ts 28-28: getShowSlideshowImageUrl *)
definition getShowSlideshowImageUrl :: string where
  "getShowSlideshowImageUrl = frameBaseUrl @ ''/slideshow/show''"

(* src: assets/endpoints/api/frame.ts 29-29: getClearDisplayUrl *)
definition getClearDisplayUrl :: string where
  "getClearDisplayUrl = frameBaseUrl @ ''/clear''"

(* src: assets/endpoints/api/frame.ts 30-30: getDisplayStatsUrl *)
definition getDisplayStatsUrl :: string where
  "getDisplayStatsUrl = frameBaseUrl @ ''/display/stats''"

(* src: assets/endpoints/api/frame.ts 31-31: getDisplayCustomizationUrl *)
definition getDisplayCustomizationUrl :: string where
  "getDisplayCustomizationUrl = frameBaseUrl @ ''/display/customization''"

(* src: assets/endpoints/api/frame.ts 32-32: getSlideshowOrderUrl *)
definition getSlideshowOrderUrl :: string where
  "getSlideshowOrderUrl = frameBaseUrl @ ''/slideshow/order''"

(* src: assets/endpoints/api/frame.ts 33-33: getSlideshowImagesUrl *)
definition getSlideshowImagesUrl :: string where
  "getSlideshowImagesUrl = frameBaseUrl @ ''/slideshow/images''"

(* src: assets/endpoints/api/frame.ts 34-34: getImageFileUrl *)
definition getImageFileUrl :: "rat \<Rightarrow> string" where
  "getImageFileUrl i = frameBaseUrl @ ''/images/file?id='' @ rat_str i"

(* src: assets/endpoints/api/frame.ts 37-37: servicesBaseUrl *)
definition servicesBaseUrl :: string where
  "servicesBaseUrl = apiBaseUrl @ ''/services''"

(* src: assets/endpoints/api/frame.ts 38-38: getServicesUrl *)
definition getServicesUrl :: string where
  "getServicesUrl = servicesBaseUrl"

(* src: assets/endpoints/api/frame.ts 39-39: getServiceRestartUrl *)
definition getServiceRestartUrl :: string where
  "getServiceRestartUrl = servicesBaseUrl @ ''/restart''"

(* src: assets/endpoints/api/frame.ts 42-42: getSystemInfoUrl *)
definition getSystemInfoUrl :: string where
  "getSystemInfoUrl = systemBaseUrl @ ''/info''"

(* src: assets/endpoints/api/frame.ts 43-43: getSystemHealthUrl *)
definition getSystemHealthUrl :: string where
  "getSystemHealthUrl = systemBaseUrl @ ''/health''"

(* src: assets/endpoints/api/frame.ts 44-44: getRestartPiUrl *)
definition getRestartPiUrl :: string where
  "getRestartPiUrl = systemBaseUrl @ ''/restart''"

(* src: assets/endpoints/api/frame.ts 45-45: getShutdownPiUrl *)
definition getShutdownPiUrl :: string where
  "getShutdownPiUrl = systemBaseUrl @ ''/shutdown''"

(* src: assets/endpoints/api/frame.ts 46-46: getFactoryResetUrl *)
definition getFactoryResetUrl :: string where
  "getFactoryResetUrl = systemBaseUrl @ ''/factory-reset''"

(* src: assets/endpoints/api/frame.ts 47-47: getFrameLogsUrl *)
definition getFrameLogsUrl :: string where
  "getFrameLogsUrl = systemBaseUrl @ ''/logs''"

(* src: assets/endpoints/api/frame.ts 48-48: getSendDiagnosticsUrl *)
definition getSendDiagnosticsUrl :: string where
  "getSendDiagnosticsUrl = systemBaseUrl @ ''/diagnostics''"

(* src: assets/endpoints/api/frame.ts 49-49: getLatestReleaseUrl *)
definition getLatestReleaseUrl :: string where
  "getLatestReleaseUrl = systemBaseUrl @ ''/updates/latest''"

(* src: assets/endpoints/api/frame.ts 50-50: getPerformUpdateUrl *)
definition getPerformUpdateUrl :: string where
  "getPerformUpdateUrl = systemBaseUrl @ ''/updates/perform-update''"

(* src: assets/endpoints/api/frame.ts 51-51: getUpdateStatusUrl *)
definition getUpdateStatusUrl :: string where
  "getUpdateStatusUrl = systemBaseUrl @ ''/updates/status''"

(* src: assets/endpoints/api/frame.ts 52-52: getUpdateHistoryUrl *)
definition getUpdateHistoryUrl :: string where
  "getUpdateHistoryUrl = systemBaseUrl @ ''/updates/history''"

section \<open>The dashboard's pages\<close>

(* src: assets/endpoints/app/appEndpoints.ts 1-1: getHomeUrl *)
definition getHomeUrl :: string where
  "getHomeUrl = ''/''"

(* src: assets/endpoints/app/appEndpoints.ts 3-3: getNetworkUrl *)
definition getNetworkUrl :: string where
  "getNetworkUrl = ''network/''"

(* src: assets/endpoints/app/appEndpoints.ts 5-5: getSlideshowPageUrl *)
definition getSlideshowPageUrl :: string where
  "getSlideshowPageUrl = ''slideshow/''"

(* src: assets/endpoints/app/appEndpoints.ts 7-7: getCustomizationUrl *)
definition getCustomizationUrl :: string where
  "getCustomizationUrl = ''customization/''"

(* src: assets/endpoints/app/appEndpoints.ts 9-9: getUpdatesyUrl *)
definition getUpdatesyUrl :: string where
  "getUpdatesyUrl = ''updates/''"

(* src: assets/endpoints/app/appEndpoints.ts 10-10: getUpdateHistoryPageUrl *)
definition getUpdateHistoryPageUrl :: string where
  "getUpdateHistoryPageUrl = ''update-history/''"

(* src: assets/endpoints/app/appEndpoints.ts 12-12: getGeneralSettingsUrl *)
definition getGeneralSettingsUrl :: string where
  "getGeneralSettingsUrl = ''general/''"

(* src: assets/endpoints/app/appEndpoints.ts 14-14: getDisplayHealthUrl *)
definition getDisplayHealthUrl :: string where
  "getDisplayHealthUrl = ''display-health/''"

(* src: assets/endpoints/app/appEndpoints.ts 16-16: getLogsUrl *)
definition getLogsUrl :: string where
  "getLogsUrl = ''logs/''"

(* src: assets/endpoints/app/appEndpoints.ts 18-18: getServicesOverviewUrl *)
definition getServicesOverviewUrl :: string where
  "getServicesOverviewUrl = ''services/''"

(* src: assets/endpoints/app/appEndpoints.ts 20-20: getServiceDetailUrl *)
definition getServiceDetailUrl :: "string \<Rightarrow> string" where
  "getServiceDetailUrl sid = ''services/'' @ sid"

(* src: assets/endpoints/app/authEndpoints.ts 1-1: getAuthenticationUrl *)
definition getAuthenticationUrl :: string where
  "getAuthenticationUrl = ''/auth''"

(* src: assets/endpoints/app/authEndpoints.ts 3-3: getSignInUrl *)
definition getSignInUrl :: string where
  "getSignInUrl = ''/sign-in''"

(* src: assets/endpoints/app/authEndpoints.ts 5-5: getSignOutUrl *)
definition getSignOutUrl :: string where
  "getSignOutUrl = ''/sign-out''"

section \<open>Facts\<close>

lemmas api_base_defs = apiBaseUrl_def frameBaseUrl_def systemBaseUrl_def authBaseUrl_def
  getConnectionBaseUrl_def servicesBaseUrl_def

text \<open>The endpoints a request can go to.\<close>

definition api_endpoints :: "string list" where
  "api_endpoints =
    [getAuthStatusUrl,
     getLoginUrl,
     getLogoutUrl,
     getChangePasswordUrl,
     getConnectionStatusUrl,
     getConnectionSavedNetworksUrl,
     getConnectionConnectUrl,
     getConnectionForgetUrl,
     getConnectionApplyUrl,
     getConnectionModeUrl,
     getApPasswordUrl,
     getSlideshowUrl,
     getSlideshowStatusUrl,
     getSlideshowIntervalUrl,
     getSlideshowNightModeUrl,
     getSkipSlideshowImageUrl,
     getShowSlideshowImageUrl,
     getClearDisplayUrl,
     getDisplayStatsUrl,
     getDisplayCustomizationUrl,
     getSlideshowOrderUrl,
     getSlideshowImagesUrl,
     getServicesUrl,
     getServiceRestartUrl,
     getSystemInfoUrl,
     getSystemHealthUrl,
     getRestartPiUrl,
     getShutdownPiUrl,
     getFactoryResetUrl,
     getFrameLogsUrl,
     getSendDiagnosticsUrl,
     getLatestReleaseUrl,
     getPerformUpdateUrl,
     getUpdateStatusUrl,
     getUpdateHistoryUrl]"

lemmas api_endpoint_defs = api_base_defs
  getAuthStatusUrl_def
  getLoginUrl_def
  getLogoutUrl_def
  getChangePasswordUrl_def
  getConnectionStatusUrl_def
  getConnectionSavedNetworksUrl_def
  getConnectionConnectUrl_def
  getConnectionForgetUrl_def
  getConnectionApplyUrl_def
  getConnectionModeUrl_def
  getApPasswordUrl_def
  getSlideshowUrl_def
  getSlideshowStatusUrl_def
  getSlideshowIntervalUrl_def
  getSlideshowNightModeUrl_def
  getSkipSlideshowImageUrl_def
  getShowSlideshowImageUrl_def
  getClearDisplayUrl_def
  getDisplayStatsUrl_def
  getDisplayCustomizationUrl_def
  getSlideshowOrderUrl_def
  getSlideshowImagesUrl_def
  getServicesUrl_def
  getServiceRestartUrl_def
  getSystemInfoUrl_def
  getSystemHealthUrl_def
  getRestartPiUrl_def
  getShutdownPiUrl_def
  getFactoryResetUrl_def
  getFrameLogsUrl_def
  getSendDiagnosticsUrl_def
  getLatestReleaseUrl_def
  getPerformUpdateUrl_def
  getUpdateStatusUrl_def
  getUpdateHistoryUrl_def

lemma distinct_api_endpoints: "distinct api_endpoints"
  by (simp add: api_endpoints_def api_endpoint_defs)

lemma api_endpoints_under_api: "list_all (\<lambda>u. take 5 u = ''/api/'') api_endpoints"
  by (simp add: api_endpoints_def api_endpoint_defs)

lemma getImageFileUrl_inject:
  "getImageFileUrl (of_nat i) = getImageFileUrl (of_nat j) \<longleftrightarrow> i = j"
  by (simp add: getImageFileUrl_def rat_str_of_nat)

section \<open>Property\<close>

text \<open>No two operations of the board's API share a URL, and all of them are under the API's
  path.\<close>

lemma endpoints_distinct:
  "distinct api_endpoints \<and> list_all (\<lambda>u. take 5 u = ''/api/'') api_endpoints"
  by (simp add: distinct_api_endpoints api_endpoints_under_api)

end
