(* ===== verification/Api.thy ===== *)
theory Api
  imports Prog Endpoints
begin

text \<open>
  How the dashboard talks to the board: \<open>fetchWithTimeout\<close> (common/utils/fetch.ts) and the
  German text for a failed answer (common/utils/errors/boardErrors.ts). The base URL that
  \<open>fetchWithTimeout\<close> puts in front of the path is a constant of the build and left out, so
  a request's URL is the path; every request carries the session cookie.
\<close>

section \<open>Requests\<close>

definition content_json :: "string \<times> string" where
  "content_json = (''Content-Type'', ''application/json'')"

definition no_cache :: "string \<times> string" where
  "no_cache = (''Cache-Control'', ''no-cache'')"

definition get_req :: "string \<Rightarrow> request" where
  "get_req url = \<lparr>rq_method = ''GET'', rq_url = url, rq_headers = [], rq_body = None\<rparr>"

definition post_req :: "string \<Rightarrow> request" where
  "post_req url = \<lparr>rq_method = ''POST'', rq_url = url, rq_headers = [], rq_body = None\<rparr>"

definition post_empty_json :: "string \<Rightarrow> request" where
  "post_empty_json url = (post_req url)\<lparr>rq_headers := [content_json]\<rparr>"

definition post_json :: "string \<Rightarrow> jsval \<Rightarrow> request" where
  "post_json url body = (post_empty_json url)\<lparr>rq_body := Some body\<rparr>"

section \<open>\<open>fetchWithTimeout\<close>\<close>

(* src: common/utils/fetch.ts 8-8: timeout *)
definition default_timeout :: int where
  "default_timeout = 10 * 60 * 1000"

text \<open>What the aborted \<open>fetch\<close> rejects with; the text is the engine's.\<close>

definition abort_error :: thrown where
  "abort_error = ErrorObj ''signal is aborted without reason''"

text \<open>
  The abort timer fires when no response has come within the timeout, and is cleared once
  \<open>fetch\<close> settles; so it covers the response, not the reading of its body.
\<close>

definition fetch_settles :: "int \<Rightarrow> net_event \<Rightarrow> thrown + response" where
  "fetch_settles timeout ev = (if ne_latency ev < timeout then ne_answer ev else Inl abort_error)"

(* src: common/utils/fetch.ts 5-25: fetchWithTimeout *)
definition fetchWithTimeout ::
  "request \<Rightarrow> int \<Rightarrow> (response \<Rightarrow> ('s, 'a, 't, 'r) prog) \<Rightarrow> ('s, 'a, 't, 'r) prog" where
  "fetchWithTimeout rq timeout k =
     Await rq (\<lambda>ev. case fetch_settles timeout ev of Inl e \<Rightarrow> Throw e | Inr r \<Rightarrow> k r)"

abbreviation fetchP :: "request \<Rightarrow> (response \<Rightarrow> ('s, 'a, 't, 'r) prog) \<Rightarrow> ('s, 'a, 't, 'r) prog" where
  "fetchP rq k \<equiv> fetchWithTimeout rq default_timeout k"

text \<open>The answer a fetch and its \<open>response.json()\<close> get from a world, at the n-th effect.\<close>

definition reply_at :: "world \<Rightarrow> nat \<Rightarrow> request \<Rightarrow> int \<Rightarrow> thrown + response" where
  "reply_at w n rq timeout = fetch_settles timeout (w_net w n rq)"

definition json_at :: "world \<Rightarrow> nat \<Rightarrow> request \<Rightarrow> int \<Rightarrow> thrown + jsval" where
  "json_at w n rq timeout =
     (case reply_at w n rq timeout of Inl e \<Rightarrow> Inl e | Inr r \<Rightarrow> rs_body r)"

lemma run_fetchWithTimeout [simp]:
  "run red w (fetchWithTimeout rq timeout k) c =
     (case reply_at w (cf_steps c) rq timeout of
        Inl e \<Rightarrow> (Raised e, tick w (emit (Requested rq) c))
      | Inr r \<Rightarrow> run red w (k r) (tick w (emit (Requested rq) c)))"
  by (simp add: fetchWithTimeout_def reply_at_def split: sum.splits)

lemma bindP_fetchWithTimeout [simp]:
  "bindP (fetchWithTimeout rq timeout k) g = fetchWithTimeout rq timeout (\<lambda>r. bindP (k r) g)"
  by (auto simp: fetchWithTimeout_def split: sum.splits)

lemma tryP_fetchWithTimeout [simp]:
  "tryP (fetchWithTimeout rq timeout k) h =
     Await rq (\<lambda>ev. case fetch_settles timeout ev of Inl e \<Rightarrow> h e | Inr r \<Rightarrow> tryP (k r) h)"
  by (auto simp: fetchWithTimeout_def split: sum.splits)

lemma finallyP_fetchWithTimeout [simp]:
  "finallyP (fetchWithTimeout rq timeout k) g =
     Await rq (\<lambda>ev. case fetch_settles timeout ev of
       Inl e \<Rightarrow> bindP g (\<lambda>_. Throw e) | Inr r \<Rightarrow> finallyP (k r) g)"
  by (auto simp: fetchWithTimeout_def split: sum.splits)

lemma reply_at_fold: "fetch_settles timeout (w_net w n rq) = reply_at w n rq timeout"
  by (simp add: reply_at_def)

lemma fetch_times_out: "timeout \<le> ne_latency ev \<Longrightarrow> fetch_settles timeout ev = Inl abort_error"
  by (simp add: fetch_settles_def)

section \<open>Texts for a failed answer\<close>

(* src: common/utils/errors/boardErrors.ts 2-19: KNOWN_MESSAGES *)
definition KNOWN_MESSAGES :: "(string \<times> string) list" where
  "KNOWN_MESSAGES =
    [(''OTP invalid'', ''Der Einmal-Code stimmt nicht oder ist abgelaufen.''),
     (''OTP verification failed'',
      ''Der Einmal-Code konnte gerade nicht gepr'' @ s_ue @ ''ft werden. Versuche es gleich noch einmal.''),
     (''Passwort ung'' @ s_ue @ ''ltig'', ''Das Passwort stimmt nicht.''),
     (''Aktuelles Passwort ung'' @ s_ue @ ''ltig'', ''Das aktuelle Passwort stimmt nicht.''),
     (''Zu viele Fehlversuche. Bitte warte kurz und versuche es erneut.'',
      ''Zu viele Fehlversuche. Bitte warte kurz und versuche es erneut.''),
     (''Ung'' @ s_ue @ ''ltiges AP-Passwort (8'' @ s_endash @ ''63 ASCII-Zeichen)'',
      ''Das Hotspot-Passwort braucht 8 bis 63 ASCII-Zeichen.''),
     (''Invalid SSID (max 32 bytes, no control chars)'',
      ''Der Netzwerkname ist ung'' @ s_ue @ ''ltig. Er darf h'' @ s_oe @ ''chstens 32 Zeichen haben.''),
     (''Invalid password (8-63 chars, no control chars)'',
      ''Das WLAN-Passwort braucht 8 bis 63 Zeichen.''),
     (''Invalid network name'', ''Der Netzwerkname ist ung'' @ s_ue @ ''ltig.''),
     (''Not in access point mode'',
      ''Das geht nur, solange der Bilderrahmen seinen Hotspot bereitstellt.''),
     (''Update service not reachable'', ''Der Update-Dienst ist gerade nicht erreichbar.''),
     (''Failed to check for updates'', ''Die Suche nach Updates ist gerade nicht m'' @ s_oe @ ''glich.''),
     (''Picture not found'', ''Das Foto ist nicht mehr auf dem Bilderrahmen.''),
     (''Picture file missing'', ''Das Foto ist nicht mehr auf dem Bilderrahmen.''),
     (''Dashboard service unavailable'',
      ''Der Bilderrahmen startet seine Einstellungen gerade neu. Versuche es gleich noch einmal.''),
     (''Dashboard service timed out'',
      ''Der Bilderrahmen antwortet gerade nicht. Versuche es gleich noch einmal.'')]"

(* src: common/utils/errors/boardErrors.ts 21-21: OFFLINE_MESSAGE *)
definition OFFLINE_MESSAGE :: string where
  "OFFLINE_MESSAGE = ''Du bist offline. Pr'' @ s_ue @ ''fe die WLAN-Verbindung deines Ger'' @ s_ae @ ''ts.''"

(* src: common/utils/errors/boardErrors.ts 22-22: UNREACHABLE_MESSAGE *)
definition UNREACHABLE_MESSAGE :: string where
  "UNREACHABLE_MESSAGE = ''Der Bilderrahmen ist gerade nicht erreichbar.''"

(* src: common/utils/errors/boardErrors.ts 25-31: statusMessage *)
definition statusMessage :: "nat \<Rightarrow> string option" where
  "statusMessage status =
     (if status = 429 then Some ''Zu viele Versuche. Bitte warte kurz.''
      else if status = 413 then Some (''Die Datei ist zu gro'' @ s_ss @ ''.'')
      else if status = 404 then Some ''Das gibt es nicht mehr.''
      else if status = 403 then Some (''Daf'' @ s_ue @ ''r fehlt dir die Berechtigung.'')
      else None)"

text \<open>
  \<open>(message && KNOWN_MESSAGES[message]) ?? (response && statusMessage(..)) ?? fallback\<close>.
  The message is whatever the board sent: missing, null or false, it is nullish or falsy.
  A falsy message that is not nullish (the empty string) is itself the value of the
  conjunction and, not being nullish, the result.
\<close>

(* src: common/utils/errors/boardErrors.ts 34-35: boardErrorMessage *)
definition boardErrorMessage :: "string \<Rightarrow> nat option \<Rightarrow> jsval \<Rightarrow> jsval" where
  "boardErrorMessage fallback status message =
     (let known = js_and message
            (case message of
               JStr m \<Rightarrow> (case map_of KNOWN_MESSAGES m of None \<Rightarrow> JUndefined | Some t \<Rightarrow> JStr t)
             | _ \<Rightarrow> JUndefined);
          by_status = (case status of
             None \<Rightarrow> JUndefined
           | Some s \<Rightarrow> (case statusMessage s of None \<Rightarrow> JUndefined | Some t \<Rightarrow> JStr t))
      in js_coalesce (js_coalesce known by_status) (JStr fallback))"

text \<open>\<open>navigator.onLine === false\<close> is the browser's answer (the effect \<open>OnLine\<close>), an argument here.\<close>

(* src: common/utils/errors/boardErrors.ts 38-38: unreachableMessage *)
definition unreachableMessage :: "bool \<Rightarrow> string" where
  "unreachableMessage onLine = (if \<not> onLine then OFFLINE_MESSAGE else UNREACHABLE_MESSAGE)"

definition german_texts :: "string set" where
  "german_texts = snd ` set KNOWN_MESSAGES \<union> {t. \<exists>s. statusMessage s = Some t}"

lemma boardErrorMessage_cases:
  assumes "truthy message \<or> nullish message"
  shows "boardErrorMessage fallback status message \<in> JStr ` german_texts \<or>
     boardErrorMessage fallback status message = JStr fallback"
proof -
  have known: "map_of KNOWN_MESSAGES m = Some t \<Longrightarrow> t \<in> german_texts" for m t
    by (force simp: german_texts_def dest: map_of_SomeD)
  have by_status: "statusMessage s = Some t \<Longrightarrow> t \<in> german_texts" for s t
    by (auto simp: german_texts_def)
  from assms show ?thesis
    by (auto simp: boardErrorMessage_def Let_def js_simps dest: known by_status
        split: jsval.splits option.splits)
qed

lemma boardErrorMessage_known:
  "m \<noteq> [] \<Longrightarrow> map_of KNOWN_MESSAGES m = Some t \<Longrightarrow>
     boardErrorMessage fallback status (JStr m) = JStr t"
  by (simp add: boardErrorMessage_def js_simps)

lemma boardErrorMessage_status:
  "truthy message \<or> nullish message \<Longrightarrow> \<forall>m. message = JStr m \<longrightarrow> map_of KNOWN_MESSAGES m = None \<Longrightarrow>
     boardErrorMessage fallback (Some s) message =
       (case statusMessage s of None \<Rightarrow> JStr fallback | Some t \<Rightarrow> JStr t)"
  by (auto simp: boardErrorMessage_def Let_def js_simps split: jsval.splits option.splits)

lemma boardErrorMessage_empty:
  "boardErrorMessage fallback status (JStr []) = JStr []"
  by (simp add: boardErrorMessage_def js_simps)

section \<open>Properties\<close>



text \<open>\<open>fetchWithTimeout\<close> hands over a response exactly if it came within the timeout, and
  otherwise throws: the network's error, or the abort's when the timeout was reached.\<close>

lemma fetch_within_timeout:
  "run red w (fetchWithTimeout rq timeout Return) c =
    (if ne_latency (w_net w (cf_steps c) rq) < timeout
     then (case ne_answer (w_net w (cf_steps c) rq) of
             Inl e \<Rightarrow> (Raised e, tick w (emit (Requested rq) c))
           | Inr r \<Rightarrow> (Returned r, tick w (emit (Requested rq) c)))
     else (Raised abort_error, tick w (emit (Requested rq) c)))"
  by (simp add: reply_at_def fetch_settles_def split: sum.splits)

end
