(* ===== verification/Tracking.thy ===== *)
theory Tracking
  imports Prog
begin

text \<open>
  What a program acquires it gives back. A program acquires by a dispatch (a loading notice
  shown, a flag of the store set) and gives back by another; \<open>step a L\<close> says what the program
  still owes after it dispatched \<open>a\<close> while it owed \<open>L\<close> (\<open>None\<close>: the action is not allowed).
  \<open>tracked step p L\<close> checks a program tree: on every path, whatever the state, the network,
  the clock and the browser answer, every leaf is reached owing nothing.

  The locale \<open>resource\<close> is the contract between such a bookkeeping and the reducer: what the
  store shows as taken grows and shrinks at most as the bookkeeping says. From it: a program
  that passes the check and ends leaves nothing taken that was not taken before, no matter
  how it ends.
\<close>

type_synonym ('a, 'k) bookkeeping = "'a \<Rightarrow> 'k set \<Rightarrow> 'k set option"

primrec tracked :: "('a, 'k) bookkeeping \<Rightarrow> ('s, 'a, 't, 'r) prog \<Rightarrow> 'k set \<Rightarrow> bool" where
  "tracked step (Return x) L \<longleftrightarrow> L = {}"
| "tracked step (Throw e) L \<longleftrightarrow> L = {}"
| "tracked step (Dispatch a p) L \<longleftrightarrow> (\<exists>L'. step a L = Some L' \<and> tracked step p L')"
| "tracked step (GetState k) L \<longleftrightarrow> (\<forall>x. tracked step (k x) L)"
| "tracked step (DateNow k) L \<longleftrightarrow> (\<forall>x. tracked step (k x) L)"
| "tracked step (Uuid k) L \<longleftrightarrow> (\<forall>x. tracked step (k x) L)"
| "tracked step (OnLine k) L \<longleftrightarrow> (\<forall>x. tracked step (k x) L)"
| "tracked step (Await rq k) L \<longleftrightarrow> (\<forall>x. tracked step (k x) L)"
| "tracked step (Yield p) L \<longleftrightarrow> tracked step p L"
| "tracked step (Sleep d p) L \<longleftrightarrow> tracked step p L"
| "tracked step (Spawn t p) L \<longleftrightarrow> tracked step p L"
| "tracked step (Browser b p) L \<longleftrightarrow> tracked step p L"
| "tracked step OutOfFuel L \<longleftrightarrow> True"

lemma tracked_if [simp]:
  "tracked step (if b then p else q) L \<longleftrightarrow> (if b then tracked step p L else tracked step q L)"
  by simp

lemma tracked_case_sum [simp]:
  "tracked step (case x of Inl e \<Rightarrow> pl e | Inr r \<Rightarrow> pr r) L \<longleftrightarrow>
     (case x of Inl e \<Rightarrow> tracked step (pl e) L | Inr r \<Rightarrow> tracked step (pr r) L)"
  by (simp split: sum.split)

lemma tracked_getP [intro]:
  "tracked step (Throw (type_error v k)) L \<Longrightarrow> (\<And>x. tracked step (f x) L) \<Longrightarrow> tracked step (getP v k f) L"
  by (simp add: getP_def js_get_def)

lemma tracked_jsonP [intro]:
  "(\<And>e. tracked step (Throw e) L) \<Longrightarrow> (\<And>x. tracked step (f x) L) \<Longrightarrow> tracked step (jsonP r f) L"
  by (simp add: jsonP_def split: sum.split)

locale resource =
  fixes red :: "('s, 'a) reducer"
    and step :: "('a, 'k) bookkeeping"
    and taken :: "'s \<Rightarrow> 'k set"
  assumes taken_red: "step a L = Some L' \<Longrightarrow> taken s \<subseteq> B \<union> L \<Longrightarrow> taken (red now s a) \<subseteq> B \<union> L'"
begin

lemma run_tracked:
  assumes "tracked step p L" and "taken (cf_store c) \<subseteq> B \<union> L"
    and "run red w p c = (r, c')" and "r \<noteq> Exhausted"
  shows "taken (cf_store c') \<subseteq> B"
  using assms
proof (induction p arbitrary: c L)
  case (Dispatch a p)
  from Dispatch.prems(1) obtain L' where L': "step a L = Some L'" "tracked step p L'"
    by auto
  have "taken (cf_store (tick w (dispatch red a c))) \<subseteq> B \<union> L'"
    using taken_red [OF L'(1) Dispatch.prems(2)] by simp
  from Dispatch.IH [OF L'(2) this] Dispatch.prems(3,4) show ?case by simp
next
  case (GetState k)
  then show ?case by (metis rangeI run.simps(4) tracked.simps(4))
next
  case (DateNow k)
  then show ?case by (metis rangeI run.simps(5) tracked.simps(5) tick_simps(3))
next
  case (Uuid k)
  then show ?case by (metis rangeI run.simps(6) tracked.simps(6) tick_simps(3))
next
  case (OnLine k)
  then show ?case by (metis rangeI run.simps(7) tracked.simps(7) tick_simps(3))
next
  case (Await rq k)
  then show ?case by (metis rangeI run.simps(8) tracked.simps(8) tick_simps(3) emit_simps(3))
next
  case (Sleep d p)
  then show ?case
    using Sleep.IH [of L "tick w (c\<lparr>cf_time := cf_time c + d\<rparr>)"] by simp
next
  case (Yield p)
  then show ?case using Yield.IH [of L "tick w c"] by simp
next
  case (Spawn t p)
  then show ?case using Spawn.IH [of L "tick w (emit (Spawned t) c)"] by simp
next
  case (Browser b p)
  then show ?case using Browser.IH [of L "tick w (emit (Called b) c)"] by simp
qed simp_all

lemma run_gives_back:
  assumes "tracked step p {}" and "run red w p c = (r, c')" and "r \<noteq> Exhausted"
  shows "taken (cf_store c') \<subseteq> taken (cf_store c)"
  using run_tracked [OF assms(1) _ assms(2,3)] by simp

end

lemma tracked_bindP:
  assumes "tracked step p L" and "\<And>x. tracked step (f x) {}"
  shows "tracked step (bindP p f) L"
  using assms(1) by (induction p arbitrary: L) (auto simp: assms(2))

section \<open>Time and fuel\<close>

text \<open>Time does not run backwards in a program that sleeps for no negative time.\<close>

primrec sleeps_ok :: "('s, 'a, 't, 'r) prog \<Rightarrow> bool" where
  "sleeps_ok (Return x) \<longleftrightarrow> True"
| "sleeps_ok (Throw e) \<longleftrightarrow> True"
| "sleeps_ok (Dispatch a p) \<longleftrightarrow> sleeps_ok p"
| "sleeps_ok (GetState k) \<longleftrightarrow> (\<forall>x. sleeps_ok (k x))"
| "sleeps_ok (DateNow k) \<longleftrightarrow> (\<forall>x. sleeps_ok (k x))"
| "sleeps_ok (Uuid k) \<longleftrightarrow> (\<forall>x. sleeps_ok (k x))"
| "sleeps_ok (OnLine k) \<longleftrightarrow> (\<forall>x. sleeps_ok (k x))"
| "sleeps_ok (Await rq k) \<longleftrightarrow> (\<forall>x. sleeps_ok (k x))"
| "sleeps_ok (Yield p) \<longleftrightarrow> sleeps_ok p"
| "sleeps_ok (Sleep d p) \<longleftrightarrow> 0 \<le> d \<and> sleeps_ok p"
| "sleeps_ok (Spawn t p) \<longleftrightarrow> sleeps_ok p"
| "sleeps_ok (Browser b p) \<longleftrightarrow> sleeps_ok p"
| "sleeps_ok OutOfFuel \<longleftrightarrow> True"

definition forward_time :: "world \<Rightarrow> bool" where
  "forward_time w \<longleftrightarrow> (\<forall>n. 0 \<le> w_lag w n)"

lemma forward_lag [simp]: "forward_time w \<Longrightarrow> 0 \<le> w_lag w n"
  by (simp add: forward_time_def)

lemma time_tick: "forward_time w \<Longrightarrow> cf_time c \<le> cf_time (tick w c)"
  by simp

lemma run_time:
  assumes "forward_time w"
  shows "sleeps_ok p \<Longrightarrow> cf_time c \<le> cf_time (snd (run red w p c))"
proof (induction p arbitrary: c)
  case (Dispatch a p)
  have "cf_time c \<le> cf_time (tick w (dispatch red a c))" using assms by simp
  from order_trans [OF this Dispatch.IH] Dispatch.prems show ?case by simp
next
  case (DateNow k)
  have "cf_time c \<le> cf_time (tick w c)" using assms by simp
  from order_trans [OF this DateNow.IH [OF rangeI]] DateNow.prems show ?case by simp
next
  case (Uuid k)
  have "cf_time c \<le> cf_time (tick w c)" using assms by simp
  from order_trans [OF this Uuid.IH [OF rangeI]] Uuid.prems show ?case by simp
next
  case (OnLine k)
  have "cf_time c \<le> cf_time (tick w c)" using assms by simp
  from order_trans [OF this OnLine.IH [OF rangeI]] OnLine.prems show ?case by simp
next
  case (Await rq k)
  have "cf_time c \<le> cf_time (tick w (emit (Requested rq) c))" using assms by simp
  from order_trans [OF this Await.IH [OF rangeI]] Await.prems show ?case by simp
next
  case (Yield p)
  have "cf_time c \<le> cf_time (tick w c)" using assms by simp
  from order_trans [OF this Yield.IH] Yield.prems show ?case by simp
next
  case (Spawn t p)
  have "cf_time c \<le> cf_time (tick w (emit (Spawned t) c))" using assms by simp
  from order_trans [OF this Spawn.IH] Spawn.prems show ?case by simp
next
  case (Browser b p)
  have "cf_time c \<le> cf_time (tick w (emit (Called b) c))" using assms by simp
  from order_trans [OF this Browser.IH] Browser.prems show ?case by simp
next
  case (Sleep d p)
  let ?c = "tick w (c\<lparr>cf_time := cf_time c + d\<rparr>)"
  have "cf_time c \<le> cf_time ?c" using Sleep.prems forward_lag [OF assms, of "cf_steps c"] by simp
  from order_trans [OF this Sleep.IH] Sleep.prems show ?case by simp
next
  case (GetState k)
  then show ?case by simp
qed simp_all

text \<open>A program without the leaf \<open>OutOfFuel\<close> always comes to an end.\<close>

primrec no_outage :: "('s, 'a, 't, 'r) prog \<Rightarrow> bool" where
  "no_outage (Return x) \<longleftrightarrow> True"
| "no_outage (Throw e) \<longleftrightarrow> True"
| "no_outage (Dispatch a p) \<longleftrightarrow> no_outage p"
| "no_outage (GetState k) \<longleftrightarrow> (\<forall>x. no_outage (k x))"
| "no_outage (DateNow k) \<longleftrightarrow> (\<forall>x. no_outage (k x))"
| "no_outage (Uuid k) \<longleftrightarrow> (\<forall>x. no_outage (k x))"
| "no_outage (OnLine k) \<longleftrightarrow> (\<forall>x. no_outage (k x))"
| "no_outage (Await rq k) \<longleftrightarrow> (\<forall>x. no_outage (k x))"
| "no_outage (Yield p) \<longleftrightarrow> no_outage p"
| "no_outage (Sleep d p) \<longleftrightarrow> no_outage p"
| "no_outage (Spawn t p) \<longleftrightarrow> no_outage p"
| "no_outage (Browser b p) \<longleftrightarrow> no_outage p"
| "no_outage OutOfFuel \<longleftrightarrow> False"

lemma run_no_outage: "no_outage p \<Longrightarrow> fst (run red w p c) \<noteq> Exhausted"
  by (induction p arbitrary: c) auto

text \<open>A program that throws on no path needs no \<open>catch\<close>.\<close>

primrec no_throw :: "('s, 'a, 't, 'r) prog \<Rightarrow> bool" where
  "no_throw (Return x) \<longleftrightarrow> True"
| "no_throw (Throw e) \<longleftrightarrow> False"
| "no_throw (Dispatch a p) \<longleftrightarrow> no_throw p"
| "no_throw (GetState k) \<longleftrightarrow> (\<forall>x. no_throw (k x))"
| "no_throw (DateNow k) \<longleftrightarrow> (\<forall>x. no_throw (k x))"
| "no_throw (Uuid k) \<longleftrightarrow> (\<forall>x. no_throw (k x))"
| "no_throw (OnLine k) \<longleftrightarrow> (\<forall>x. no_throw (k x))"
| "no_throw (Await rq k) \<longleftrightarrow> (\<forall>x. no_throw (k x))"
| "no_throw (Yield p) \<longleftrightarrow> no_throw p"
| "no_throw (Sleep d p) \<longleftrightarrow> no_throw p"
| "no_throw (Spawn t p) \<longleftrightarrow> no_throw p"
| "no_throw (Browser b p) \<longleftrightarrow> no_throw p"
| "no_throw OutOfFuel \<longleftrightarrow> True"

lemma tryP_no_throw: "no_throw p \<Longrightarrow> tryP p h = p"
  by (induction p) auto

lemma no_throw_bindP: "no_throw p \<Longrightarrow> (\<And>x. no_throw (f x)) \<Longrightarrow> no_throw (bindP p f)"
  by (induction p) auto

lemma run_no_throw: "no_throw p \<Longrightarrow> fst (run red w p c) \<noteq> Raised e"
  by (induction p arbitrary: c) auto

lemma no_outage_bindP: "no_outage p \<Longrightarrow> (\<And>x. no_outage (f x)) \<Longrightarrow> no_outage (bindP p f)"
  by (induction p) auto

lemma sleeps_ok_bindP: "sleeps_ok p \<Longrightarrow> (\<And>x. sleeps_ok (f x)) \<Longrightarrow> sleeps_ok (bindP p f)"
  by (induction p) auto

lemma tryP_bindP_no_throw: "no_throw p \<Longrightarrow> tryP (bindP p f) h = bindP p (\<lambda>x. tryP (f x) h)"
  by (induction p) auto

lemma finallyP_bindP_no_throw: "no_throw p \<Longrightarrow> finallyP (bindP p f) g = bindP p (\<lambda>x. finallyP (f x) g)"
  by (induction p) auto

text \<open>A program that dispatches nothing only looks and waits.\<close>

primrec quiet :: "('s, 'a, 't, 'r) prog \<Rightarrow> bool" where
  "quiet (Return x) \<longleftrightarrow> True"
| "quiet (Throw e) \<longleftrightarrow> True"
| "quiet (Dispatch a p) \<longleftrightarrow> False"
| "quiet (GetState k) \<longleftrightarrow> (\<forall>x. quiet (k x))"
| "quiet (DateNow k) \<longleftrightarrow> (\<forall>x. quiet (k x))"
| "quiet (Uuid k) \<longleftrightarrow> (\<forall>x. quiet (k x))"
| "quiet (OnLine k) \<longleftrightarrow> (\<forall>x. quiet (k x))"
| "quiet (Await rq k) \<longleftrightarrow> (\<forall>x. quiet (k x))"
| "quiet (Yield p) \<longleftrightarrow> quiet p"
| "quiet (Sleep d p) \<longleftrightarrow> quiet p"
| "quiet (Spawn t p) \<longleftrightarrow> quiet p"
| "quiet (Browser b p) \<longleftrightarrow> quiet p"
| "quiet OutOfFuel \<longleftrightarrow> True"

lemma quiet_bindP: "quiet p \<Longrightarrow> (\<And>x. quiet (f x)) \<Longrightarrow> quiet (bindP p f)"
  by (induction p) auto

lemma run_quiet: "quiet p \<Longrightarrow> cf_store (snd (run red w p c)) = cf_store c"
  by (induction p arbitrary: c) auto

lemma tracked_quiet_bindP:
  assumes "quiet p" and "no_throw p" and "\<And>x. tracked step (f x) L"
  shows "tracked step (bindP p f) L"
  using assms(1,2) by (induction p) (auto simp: assms(3))

end
