(* ===== verification/EventLoop.thy ===== *)
theory EventLoop
  imports Tracking "HOL-Library.Multiset"
begin

text \<open>
  Many thunks at once. The browser runs one piece of code at a time: a thunk goes from one
  \<open>await\<close> to the next without being interrupted, and between these segments any other
  thunk, or the user, may act. \<open>seg\<close> is one segment; \<open>loop_step\<close> is one turn of the event
  loop over a store and the pool of the thunks in flight; \<open>reachable_from\<close> is any number of turns.

  A turn may resume any thunk in flight with any answer: every order of the responses, the
  timers and the user's clicks is one of the runs. A thunk that another one starts (\<open>Spawn\<close>) is one
  more start. The browser runs its first segment before it goes on with the one that starts it: a
  segment ends at a \<open>Spawn\<close> too, and that order is one of the runs.
\<close>

text \<open>What the outside tells a segment, by the number of its effect.\<close>

record env =
  en_now :: "nat \<Rightarrow> int"
  en_ids :: "nat \<Rightarrow> string"
  en_online :: "nat \<Rightarrow> bool"

primrec seg ::
  "('s, 'a) reducer \<Rightarrow> env \<Rightarrow> ('s, 'a, 't, 'r) prog \<Rightarrow> nat \<Rightarrow> 's \<Rightarrow> 's \<times> ('s, 'a, 't, 'r) prog" where
  "seg red e (Return x) n s = (s, Return x)"
| "seg red e (Throw t) n s = (s, Throw t)"
| "seg red e (Dispatch a p) n s = seg red e p (Suc n) (red (en_now e n) s a)"
| "seg red e (GetState k) n s = seg red e (k s) n s"
| "seg red e (DateNow k) n s = seg red e (k (en_now e n)) (Suc n) s"
| "seg red e (Uuid k) n s = seg red e (k (en_ids e n)) (Suc n) s"
| "seg red e (OnLine k) n s = seg red e (k (en_online e n)) (Suc n) s"
| "seg red e (Await rq k) n s = (s, Await rq k)"
| "seg red e (Yield p) n s = (s, Yield p)"
| "seg red e (Sleep d p) n s = (s, Sleep d p)"
| "seg red e (Spawn t p) n s = (s, Spawn t p)"
| "seg red e (Browser b p) n s = seg red e p (Suc n) s"
| "seg red e OutOfFuel n s = (s, OutOfFuel)"

text \<open>A thunk at a point where it waits, with what it gets.\<close>

fun resume :: "('s, 'a, 't, 'r) prog \<Rightarrow> net_event \<Rightarrow> ('s, 'a, 't, 'r) prog option" where
  "resume (Await rq k) ev = Some (k ev)"
| "resume (Yield p) ev = Some p"
| "resume (Sleep d p) ev = Some p"
| "resume (Spawn t p) ev = Some p"
| "resume _ ev = None"

fun finished :: "('s, 'a, 't, 'r) prog \<Rightarrow> bool" where
  "finished (Return x) = True"
| "finished (Throw e) = True"
| "finished _ = False"

type_synonym ('s, 'a, 't, 'r) loop_state = "'s \<times> ('s, 'a, 't, 'r) prog multiset"

inductive loop_step ::
  "('s, 'a) reducer \<Rightarrow> (('s, 'a, 't, 'r) prog \<Rightarrow> bool) \<Rightarrow> ('a \<Rightarrow> bool)
    \<Rightarrow> ('s, 'a, 't, 'r) loop_state \<Rightarrow> ('s, 'a, 't, 'r) loop_state \<Rightarrow> bool"
  for red startable foreign where
  start: "startable p \<Longrightarrow> seg red e p 0 s = (s', q) \<Longrightarrow>
    loop_step red startable foreign (s, ps) (s', add_mset q ps)"
| resume: "resume p ev = Some p' \<Longrightarrow> seg red e p' 0 s = (s', q) \<Longrightarrow>
    loop_step red startable foreign (s, add_mset p ps) (s', add_mset q ps)"
| foreign: "foreign a \<Longrightarrow> loop_step red startable foreign (s, ps) (red now s a, ps)"

inductive_cases loop_stepE: "loop_step red startable foreign x y"

inductive reachable_from ::
  "('s, 'a) reducer \<Rightarrow> (('s, 'a, 't, 'r) prog \<Rightarrow> bool) \<Rightarrow> ('a \<Rightarrow> bool)
    \<Rightarrow> ('s, 'a, 't, 'r) loop_state \<Rightarrow> ('s, 'a, 't, 'r) loop_state \<Rightarrow> bool"
  for red startable foreign x0 where
  init: "reachable_from red startable foreign x0 x0"
| step: "reachable_from red startable foreign x0 x \<Longrightarrow> loop_step red startable foreign x y \<Longrightarrow>
    reachable_from red startable foreign x0 y"

lemma reachable_invariant:
  assumes "reachable_from red startable foreign x0 x" and "I x0"
    and "\<And>x y. I x \<Longrightarrow> loop_step red startable foreign x y \<Longrightarrow> I y"
  shows "I x"
  using assms(1) by induction (auto intro: assms(2,3))

text \<open>A wait ends in a program that still owes what the waiting one owed.\<close>

lemma tracked_resume:
  "resume p ev = Some p' \<Longrightarrow> tracked step p L \<Longrightarrow> tracked step p' L"
  by (cases p) auto

lemma tracked_finished: "tracked step p L \<Longrightarrow> finished p \<Longrightarrow> L = {}"
  by (cases p) auto

section \<open>A lock\<close>

text \<open>
  The contract of a lock made of flags of the store: \<open>held s\<close> is the set of the flags that are
  set; an action locks or unlocks one of them or leaves them alone. The client of the lock is
  a set of programs: a \<open>guarded\<close> one takes the lock in its first segment, and only after it has
  seen that no flag is set; from its first \<open>await\<close> on it only gives back. Any other program
  leaves the flags alone.
\<close>

datatype 'k lock_effect = Locks 'k | Unlocks 'k | NoLock | Breaks

definition release_step :: "('a \<Rightarrow> 'k lock_effect) \<Rightarrow> ('a, 'k) bookkeeping" where
  "release_step eff = (\<lambda>a L.
     case eff a of
        Locks k \<Rightarrow> None
      | Unlocks k \<Rightarrow> if k \<in> L then Some (L - {k}) else None
      | NoLock \<Rightarrow> Some L
      | Breaks \<Rightarrow> None)"

lemma release_step_simps:
  "eff a = Locks k \<Longrightarrow> release_step eff a L = None"
  "eff a = Unlocks k \<Longrightarrow> release_step eff a L = (if k \<in> L then Some (L - {k}) else None)"
  "eff a = NoLock \<Longrightarrow> release_step eff a L = Some L"
  "eff a = Breaks \<Longrightarrow> release_step eff a L = None"
  by (simp_all add: release_step_def)

definition lock_step :: "('a \<Rightarrow> 'k lock_effect) \<Rightarrow> ('a, 'k) bookkeeping" where
  "lock_step eff = (\<lambda>a L.
     case eff a of
        Locks k \<Rightarrow> if L = {} then Some {k} else None
      | Unlocks k \<Rightarrow> if k \<in> L then Some (L - {k}) else None
      | NoLock \<Rightarrow> Some L
      | Breaks \<Rightarrow> None)"

lemma lock_step_simps:
  "eff a = Locks k \<Longrightarrow> lock_step eff a L = (if L = {} then Some {k} else None)"
  "eff a = Unlocks k \<Longrightarrow> lock_step eff a L = (if k \<in> L then Some (L - {k}) else None)"
  "eff a = NoLock \<Longrightarrow> lock_step eff a L = Some L"
  "eff a = Breaks \<Longrightarrow> lock_step eff a L = None"
  by (simp_all add: lock_step_def)

text \<open>
  \<open>opens eff later p L\<close>: in its first segment \<open>p\<close> locks only while it owes nothing, and at the
  end of the segment \<open>later\<close> holds of what is left and what it owes.
\<close>

primrec opens ::
  "('a \<Rightarrow> 'k lock_effect) \<Rightarrow> (('s, 'a, 't, 'r) prog \<Rightarrow> 'k set \<Rightarrow> bool)
    \<Rightarrow> ('s, 'a, 't, 'r) prog \<Rightarrow> 'k set \<Rightarrow> bool" where
  "opens eff later (Return x) L \<longleftrightarrow> later (Return x) L"
| "opens eff later (Throw e) L \<longleftrightarrow> later (Throw e) L"
| "opens eff later (Dispatch a p) L \<longleftrightarrow> (\<exists>L'. lock_step eff a L = Some L' \<and> opens eff later p L')"
| "opens eff later (GetState k) L \<longleftrightarrow> (\<forall>x. opens eff later (k x) L)"
| "opens eff later (DateNow k) L \<longleftrightarrow> (\<forall>x. opens eff later (k x) L)"
| "opens eff later (Uuid k) L \<longleftrightarrow> (\<forall>x. opens eff later (k x) L)"
| "opens eff later (OnLine k) L \<longleftrightarrow> (\<forall>x. opens eff later (k x) L)"
| "opens eff later (Await rq k) L \<longleftrightarrow> later (Await rq k) L"
| "opens eff later (Yield p) L \<longleftrightarrow> later (Yield p) L"
| "opens eff later (Sleep d p) L \<longleftrightarrow> later (Sleep d p) L"
| "opens eff later (Spawn t p) L \<longleftrightarrow> later (Spawn t p) L"
| "opens eff later (Browser b p) L \<longleftrightarrow> opens eff later p L"
| "opens eff later OutOfFuel L \<longleftrightarrow> later OutOfFuel L"

definition guarded_by ::
  "('a \<Rightarrow> 'k lock_effect) \<Rightarrow> ('s \<Rightarrow> 'k set) \<Rightarrow> (('s, 'a, 't, 'r) prog \<Rightarrow> 'k set \<Rightarrow> bool)
    \<Rightarrow> ('s, 'a, 't, 'r) prog \<Rightarrow> bool" where
  "guarded_by eff held later p \<longleftrightarrow>
     (\<exists>k. p = GetState k \<and>
       (\<forall>s. if held s \<noteq> {} then later (k s) {} else opens eff later (k s) {}))"

lemma opens_mono: "opens eff later p L \<Longrightarrow> (\<And>q M. later q M \<Longrightarrow> later' q M) \<Longrightarrow> opens eff later' p L"
  by (induction p arbitrary: L) auto

lemma guarded_by_mono:
  "guarded_by eff held later p \<Longrightarrow> (\<And>q M. later q M \<Longrightarrow> later' q M) \<Longrightarrow> guarded_by eff held later' p"
  by (auto simp: guarded_by_def intro: opens_mono split: if_splits)

lemma guarded_byE:
  assumes "guarded_by eff held later p"
  obtains k where "p = GetState k" and "\<And>s. held s \<noteq> {} \<Longrightarrow> later (k s) {}"
    and "\<And>s. held s = {} \<Longrightarrow> opens eff later (k s) {}"
proof -
  from assms obtain k where k: "p = GetState k"
    "\<forall>s. if held s \<noteq> {} then later (k s) {} else opens eff later (k s) {}"
    by (auto simp: guarded_by_def)
  from k(2) have "held s \<noteq> {} \<Longrightarrow> later (k s) {}" "held s = {} \<Longrightarrow> opens eff later (k s) {}" for s
    by (drule_tac x = s in spec; simp)+
  with k(1) that show thesis by blast
qed

abbreviation guarded :: "('a \<Rightarrow> 'k lock_effect) \<Rightarrow> ('s \<Rightarrow> 'k set) \<Rightarrow> ('s, 'a, 't, 'r) prog \<Rightarrow> bool" where
  "guarded eff held \<equiv> guarded_by eff held (tracked (release_step eff))"

definition lock_startable :: "('a \<Rightarrow> 'k lock_effect) \<Rightarrow> ('s \<Rightarrow> 'k set) \<Rightarrow> ('s, 'a, 't, 'r) prog \<Rightarrow> bool" where
  "lock_startable eff held p \<longleftrightarrow> guarded eff held p \<or> tracked (release_step eff) p {}"

text \<open>The weaker promise of a program that may also unlock what it does not hold.\<close>

definition shrink_step :: "('a \<Rightarrow> 'k lock_effect) \<Rightarrow> ('a, 'k) bookkeeping" where
  "shrink_step eff = (\<lambda>a L. case eff a of Unlocks k \<Rightarrow> Some L | NoLock \<Rightarrow> Some L | _ \<Rightarrow> None)"

definition shrinks :: "('a \<Rightarrow> 'k lock_effect) \<Rightarrow> ('s, 'a, 't, 'r) prog \<Rightarrow> bool" where
  "shrinks eff p \<longleftrightarrow> tracked (shrink_step eff) p {}"

lemma tracked_release_shrinks: "tracked (release_step eff) p L \<Longrightarrow> shrinks eff p"
  unfolding shrinks_def
proof (induction p arbitrary: L)
  case (Dispatch a p)
  then show ?case
    by (auto simp: release_step_def shrink_step_def split: lock_effect.splits if_splits)
qed auto

definition weak_startable :: "('a \<Rightarrow> 'k lock_effect) \<Rightarrow> ('s \<Rightarrow> 'k set) \<Rightarrow> ('s, 'a, 't, 'r) prog \<Rightarrow> bool" where
  "weak_startable eff held p \<longleftrightarrow> guarded_by eff held (\<lambda>q L. shrinks eff q) p \<or> shrinks eff p"

lemma lock_weak_startable: "lock_startable eff held p \<Longrightarrow> weak_startable eff held p"
  by (auto simp: lock_startable_def weak_startable_def intro: guarded_by_mono tracked_release_shrinks)

definition stops_when_held :: "('a \<Rightarrow> 'k lock_effect) \<Rightarrow> ('s \<Rightarrow> 'k set) \<Rightarrow> ('s, 'a, 't, 'r) prog \<Rightarrow> bool" where
  "stops_when_held eff held p \<longleftrightarrow> tracked (release_step eff) p {} \<or>
     (\<exists>k. p = GetState k \<and> (\<forall>s. held s \<noteq> {} \<longrightarrow> tracked (release_step eff) (k s) {}))"

lemma lock_stops_when_held: "lock_startable eff held p \<Longrightarrow> stops_when_held eff held p"
  by (auto simp: lock_startable_def stops_when_held_def guarded_by_def split: if_splits)

definition weak_inv ::
  "('a \<Rightarrow> 'k lock_effect) \<Rightarrow> ('s \<Rightarrow> 'k set) \<Rightarrow> ('s, 'a, 't, 'r) loop_state \<Rightarrow> bool" where
  "weak_inv eff held x \<longleftrightarrow> (\<exists>k. held (fst x) \<subseteq> {k}) \<and> (\<forall>p \<in># snd x. shrinks eff p)"

text \<open>What holds between the turns: no flag and no owner, or one flag and its one owner.\<close>

definition lock_inv ::
  "('a \<Rightarrow> 'k lock_effect) \<Rightarrow> ('s \<Rightarrow> 'k set) \<Rightarrow> ('s, 'a, 't, 'r) loop_state \<Rightarrow> bool" where
  "lock_inv eff held x \<longleftrightarrow>
     (case x of (s, ps) \<Rightarrow>
       held s = {} \<and> (\<forall>p \<in># ps. tracked (release_step eff) p {}) \<or>
       (\<exists>k p rest. held s = {k} \<and> ps = add_mset p rest \<and> tracked (release_step eff) p {k} \<and>
          (\<forall>q \<in># rest. tracked (release_step eff) q {})))"

lemma lock_inv_none:
  "held s = {} \<Longrightarrow> \<forall>p \<in># ps. tracked (release_step eff) p {} \<Longrightarrow> lock_inv eff held (s, ps)"
  by (simp add: lock_inv_def)

lemma lock_inv_one:
  "held s = {k} \<Longrightarrow> tracked (release_step eff) p {k} \<Longrightarrow>
     \<forall>q \<in># rest. tracked (release_step eff) q {} \<Longrightarrow> lock_inv eff held (s, add_mset p rest)"
  unfolding lock_inv_def by blast

lemma lock_invE:
  assumes "lock_inv eff held (s, ps)"
  obtains (none) "held s = {}" "\<forall>p \<in># ps. tracked (release_step eff) p {}"
    | (one) k p rest where "held s = {k}" "ps = add_mset p rest" "tracked (release_step eff) p {k}"
        "\<forall>q \<in># rest. tracked (release_step eff) q {}"
  using assms unfolding lock_inv_def by blast

locale flag_lock =
  fixes red :: "('s, 'a) reducer"
    and eff :: "'a \<Rightarrow> 'k lock_effect"
    and held :: "'s \<Rightarrow> 'k set"
  assumes held_locks: "eff a = Locks k \<Longrightarrow> held (red now s a) = insert k (held s)"
    and held_unlocks: "eff a = Unlocks k \<Longrightarrow> held (red now s a) = held s - {k}"
    and held_other: "eff a = NoLock \<Longrightarrow> held (red now s a) = held s"
begin

lemma seg_release:
  assumes "tracked (release_step eff) p L" and "L \<subseteq> held s" and "seg red e p n s = (s', q)"
  shows "\<exists>L'. tracked (release_step eff) q L' \<and> L' \<subseteq> L \<and> held s' = held s - (L - L')"
  using assms
proof (induction p arbitrary: n s L)
  case (Dispatch a p)
  from Dispatch.prems(1) obtain L1
    where L1: "release_step eff a L = Some L1" "tracked (release_step eff) p L1" by auto
  let ?s = "red (en_now e n) s a"
  have sub: "L1 \<subseteq> L" "held ?s = held s - (L - L1)"
    using L1(1) Dispatch.prems(2)
    by (auto simp: release_step_def held_unlocks held_other split: lock_effect.splits if_splits)
  with Dispatch.prems(2) have "L1 \<subseteq> held ?s" by auto
  moreover have "seg red e p (Suc n) ?s = (s', q)" using Dispatch.prems(3) by simp
  ultimately obtain L'
    where "tracked (release_step eff) q L'" "L' \<subseteq> L1" "held s' = held ?s - (L1 - L')"
    using Dispatch.IH [OF L1(2)] by blast
  with sub show ?case by (intro exI [of _ L']) auto
next
  case (GetState k)
  then show ?case by (metis rangeI seg.simps(4) tracked.simps(4))
next
  case (DateNow k)
  then show ?case by (metis rangeI seg.simps(5) tracked.simps(5))
next
  case (Uuid k)
  then show ?case by (metis rangeI seg.simps(6) tracked.simps(6))
next
  case (OnLine k)
  then show ?case by (metis rangeI seg.simps(7) tracked.simps(7))
qed auto

lemma seg_opens:
  assumes "opens eff later p L" and "held s = L" and "\<exists>k. L \<subseteq> {k}" and "seg red e p n s = (s', q)"
  shows "later q (held s') \<and> (\<exists>k. held s' \<subseteq> {k})"
  using assms
proof (induction p arbitrary: n s L)
  case (Dispatch a p)
  from Dispatch.prems(1) obtain L1 where L1: "lock_step eff a L = Some L1" "opens eff later p L1" by auto
  have "held (red (en_now e n) s a) = L1" "\<exists>k. L1 \<subseteq> {k}"
    using L1(1) Dispatch.prems(2,3)
    by (auto simp: lock_step_def held_locks held_unlocks held_other split: lock_effect.splits if_splits)
  from Dispatch.IH [OF L1(2) this] Dispatch.prems(4) show ?case by simp
next
  case (GetState k)
  then show ?case by (metis rangeI seg.simps(4) opens.simps(4))
next
  case (DateNow k)
  then show ?case by (metis rangeI seg.simps(5) opens.simps(5))
next
  case (Uuid k)
  then show ?case by (metis rangeI seg.simps(6) opens.simps(6))
next
  case (OnLine k)
  then show ?case by (metis rangeI seg.simps(7) opens.simps(7))
qed auto

lemma seg_shrinks:
  assumes "shrinks eff p" and "seg red e p n s = (s', q)"
  shows "shrinks eff q \<and> held s' \<subseteq> held s"
  using assms unfolding shrinks_def
proof (induction p arbitrary: n s)
  case (Dispatch a p)
  from Dispatch.prems(1) have p: "tracked (shrink_step eff) p {}" "\<exists>k. eff a = Unlocks k \<or> eff a = NoLock"
    by (auto simp: shrink_step_def split: lock_effect.splits)
  then have "held (red (en_now e n) s a) \<subseteq> held s" by (auto simp: held_unlocks held_other)
  with Dispatch.IH [OF p(1)] Dispatch.prems(2) show ?case by fastforce
next
  case (GetState k)
  then show ?case by (metis rangeI seg.simps(4) tracked.simps(4))
next
  case (DateNow k)
  then show ?case by (metis rangeI seg.simps(5) tracked.simps(5))
next
  case (Uuid k)
  then show ?case by (metis rangeI seg.simps(6) tracked.simps(6))
next
  case (OnLine k)
  then show ?case by (metis rangeI seg.simps(7) tracked.simps(7))
qed auto

lemma lock_inv_add_idle:
  assumes "lock_inv eff held (s, ps)" and "tracked (release_step eff) q {}" and "held s' = held s"
  shows "lock_inv eff held (s', add_mset q ps)"
  using assms(1)
proof (cases rule: lock_invE)
  case none
  with assms(2,3) show ?thesis by (intro lock_inv_none) auto
next
  case (one k p rest)
  have "lock_inv eff held (s', add_mset p (add_mset q rest))"
    using one assms(2,3) by (intro lock_inv_one) auto
  with one(2) show ?thesis by (simp add: add_mset_commute)
qed

lemma lock_inv_start:
  assumes "lock_inv eff held (s, ps)" and "lock_startable eff held p" and "seg red e p 0 s = (s', q)"
  shows "lock_inv eff held (s', add_mset q ps)"
proof (cases "tracked (release_step eff) p {} \<or> held s \<noteq> {}")
  case True
  have "tracked (release_step eff) q {} \<and> held s' = held s"
  proof (cases "tracked (release_step eff) p {}")
    case True
    from seg_release [OF this _ assms(3)] show ?thesis by auto
  next
    case False
    with assms(2) have "guarded eff held p" by (simp add: lock_startable_def)
    then obtain k where "p = GetState k" and "held s \<noteq> {} \<Longrightarrow> tracked (release_step eff) (k s) {}" for s
      by (rule guarded_byE) blast
    moreover from False True have "held s \<noteq> {}" by simp
    ultimately have "tracked (release_step eff) (k s) {}" and "seg red e (k s) 0 s = (s', q)"
      using assms(3) by auto
    from seg_release [OF this(1) _ this(2)] show ?thesis by auto
  qed
  with lock_inv_add_idle [OF assms(1)] show ?thesis by blast
next
  case False
  with assms(2) have "guarded eff held p" and "held s = {}" by (auto simp: lock_startable_def)
  from this(1) obtain k where "p = GetState k"
    and "held s = {} \<Longrightarrow> opens eff (tracked (release_step eff)) (k s) {}" for s
    by (rule guarded_byE) blast
  with \<open>held s = {}\<close> assms(3)
  have "opens eff (tracked (release_step eff)) (k s) {}" and "seg red e (k s) 0 s = (s', q)" by auto
  note after = seg_opens [OF this(1) \<open>held s = {}\<close> _ this(2), simplified]
  have idle: "\<forall>p \<in># ps. tracked (release_step eff) p {}"
    using assms(1) \<open>held s = {}\<close> by (cases rule: lock_invE) auto
  show ?thesis
  proof (cases "held s' = {}")
    case True
    with after idle show ?thesis by (intro lock_inv_none) auto
  next
    case False
    with after obtain k where "held s' = {k}" by (auto simp: subset_singleton_iff)
    with after idle show ?thesis by (intro lock_inv_one) auto
  qed
qed

lemma lock_inv_resume:
  assumes inv: "lock_inv eff held (s, add_mset p ps)" and "resume p ev = Some p'" and "seg red e p' 0 s = (s', q)"
  shows "lock_inv eff held (s', add_mset q ps)"
proof -
  have idle: "tracked (release_step eff) q {} \<and> held s' = held s" if "tracked (release_step eff) p {}"
    using seg_release [OF tracked_resume [OF assms(2) that] _ assms(3)] by auto
  have owner: "(tracked (release_step eff) q {k} \<and> held s' = {k}) \<or> (tracked (release_step eff) q {} \<and> held s' = {})"
    if "tracked (release_step eff) p {k}" and "held s = {k}" for k
    using seg_release [OF tracked_resume [OF assms(2) that(1)] _ assms(3)] that(2)
    by (auto simp: subset_singleton_iff)
  from inv show ?thesis
  proof (cases rule: lock_invE)
    case none
    with idle show ?thesis by (intro lock_inv_none) auto
  next
    case (one k o' rest)
    from one(2) consider (same) "p = o'" "ps = rest"
      | (other) rest' where "ps = add_mset o' rest'" "rest = add_mset p rest'"
      by (auto simp: add_eq_conv_ex)
    then show ?thesis
    proof cases
      case same
      with one(3) owner [OF _ one(1)]
      consider (kept) "tracked (release_step eff) q {k}" "held s' = {k}"
        | (given) "tracked (release_step eff) q {}" "held s' = {}" by blast
      then show ?thesis
      proof cases
        case kept
        with one(4) same(2) show ?thesis by (intro lock_inv_one) auto
      next
        case given
        with one(4) same(2) show ?thesis by (intro lock_inv_none) auto
      qed
    next
      case other
      with one(1,4) idle have "tracked (release_step eff) q {}" "held s' = {k}" by auto
      then have "lock_inv eff held (s', add_mset o' (add_mset q rest'))"
        using one(3,4) other(2) by (intro lock_inv_one) auto
      with other(1) show ?thesis by (simp add: add_mset_commute)
    qed
  qed
qed

lemma lock_inv_foreign:
  "lock_inv eff held (s, ps) \<Longrightarrow> eff a = NoLock \<Longrightarrow> lock_inv eff held (red now s a, ps)"
  by (simp add: lock_inv_def held_other)

lemma lock_inv_step:
  assumes "lock_inv eff held x"
    and "loop_step red (lock_startable eff held) (\<lambda>a. eff a = NoLock) x y"
  shows "lock_inv eff held y"
  using assms(2,1)
  by cases (auto intro: lock_inv_start lock_inv_resume lock_inv_foreign)

lemma lock_inv_reachable:
  assumes "reachable_from red (lock_startable eff held) (\<lambda>a. eff a = NoLock) (s0, {#}) x" and "held s0 = {}"
  shows "lock_inv eff held x"
proof (rule reachable_invariant [OF assms(1)])
  show "lock_inv eff held (s0, {#})" using assms(2) by (simp add: lock_inv_def)
qed (rule lock_inv_step)

text \<open>At most one flag is set, it has its owner in flight, and with nothing in flight none is.\<close>

lemma one_flag:
  assumes "reachable_from red (lock_startable eff held) (\<lambda>a. eff a = NoLock) (s0, {#}) (s, ps)" and "held s0 = {}"
  shows "card (held s) \<le> 1"
  using lock_inv_reachable [OF assms] by (cases rule: lock_invE) auto

lemma flag_owner:
  assumes "reachable_from red (lock_startable eff held) (\<lambda>a. eff a = NoLock) (s0, {#}) (s, ps)" and "held s0 = {}"
    and "k \<in> held s"
  shows "\<exists>p rest. ps = add_mset p rest \<and> tracked (release_step eff) p {k} \<and>
    (\<forall>q \<in># rest. tracked (release_step eff) q {})"
  using lock_inv_reachable [OF assms(1,2)]
proof (cases rule: lock_invE)
  case (one k' p rest)
  with assms(3) have "k = k'" by simp
  with one show ?thesis by blast
qed (use assms(3) in simp)

lemma quiescent_free:
  assumes "reachable_from red (lock_startable eff held) (\<lambda>a. eff a = NoLock) (s0, {#}) (s, ps)" and "held s0 = {}"
    and "\<forall>p \<in># ps. finished p"
  shows "held s = {}"
proof (rule ccontr)
  assume "held s \<noteq> {}"
  then obtain k where "k \<in> held s" by auto
  from flag_owner [OF assms(1,2) this] obtain p rest
    where "ps = add_mset p rest" and "tracked (release_step eff) p {k}" by auto
  with assms(3) tracked_finished [of "release_step eff" p "{k}"] show False by simp
qed

text \<open>Without the promise to unlock only its own: still at most one flag.\<close>

lemma weak_inv_start:
  assumes "weak_inv eff held (s, ps)" and "weak_startable eff held p" and "seg red e p 0 s = (s', q)"
  shows "weak_inv eff held (s', add_mset q ps)"
proof -
  have "shrinks eff q \<and> (\<exists>k. held s' \<subseteq> {k})"
  proof (cases "shrinks eff p \<or> held s \<noteq> {}")
    case True
    have "shrinks eff q \<and> held s' \<subseteq> held s"
    proof (cases "shrinks eff p")
      case True
      from seg_shrinks [OF this assms(3)] show ?thesis .
    next
      case False
      with assms(2) have "guarded_by eff held (\<lambda>q L. shrinks eff q) p" by (simp add: weak_startable_def)
      then obtain k where "p = GetState k" and "held s \<noteq> {} \<Longrightarrow> shrinks eff (k s)" for s
        by (rule guarded_byE) blast
      with True False assms(3) show ?thesis by (intro seg_shrinks [of "k s"]) auto
    qed
    with assms(1) show ?thesis by (auto simp: weak_inv_def)
  next
    case False
    with assms(2) have "guarded_by eff held (\<lambda>q L. shrinks eff q) p" by (simp add: weak_startable_def)
    then obtain k where k: "p = GetState k" "held s = {} \<Longrightarrow> opens eff (\<lambda>q L. shrinks eff q) (k s) {}" for s
      by (rule guarded_byE) blast
    with False have "opens eff (\<lambda>q L. shrinks eff q) (k s) {}" and "held s = {}" by auto
    from seg_opens [OF this] assms(3) k(1) show ?thesis by simp
  qed
  with assms(1) show ?thesis by (auto simp: weak_inv_def)
qed

lemma weak_inv_step:
  assumes "weak_inv eff held x"
    and "loop_step red (weak_startable eff held) (\<lambda>a. eff a = NoLock) x y"
  shows "weak_inv eff held y"
  using assms(2,1)
proof cases
  case (resume p ev p' e s s' q ps)
  have "shrinks eff p'"
    using assms(1) resume(1,3) tracked_resume [of p ev p' "shrink_step eff" "{}"]
    by (auto simp: weak_inv_def shrinks_def)
  from seg_shrinks [OF this resume(4)] assms(1) resume(1,2) show ?thesis
    by (auto simp: weak_inv_def)
next
  case (start p e s s' q ps)
  with weak_inv_start [of s ps p e s' q] assms(1) show ?thesis by simp
qed (auto simp: weak_inv_def held_other)

lemma one_flag_weak:
  assumes "reachable_from red (weak_startable eff held) (\<lambda>a. eff a = NoLock) (s0, {#}) (s, ps)" and "held s0 = {}"
  shows "card (held s) \<le> 1"
proof -
  have "weak_inv eff held (s, ps)"
  proof (rule reachable_invariant [OF assms(1)])
    show "weak_inv eff held (s0, {#})" using assms(2) by (simp add: weak_inv_def)
  qed (rule weak_inv_step)
  then obtain k where "held s \<subseteq> {k}" by (auto simp: weak_inv_def)
  then show ?thesis by (auto simp: subset_singleton_iff)
qed

text \<open>
  A flag that is set with no owner in flight stays set: nobody gets past the guard, and nobody
  in flight gives it back.
\<close>

lemma stopped_start:
  assumes "stops_when_held eff held p" and "held s \<noteq> {}" and "seg red e p 0 s = (s', q)"
  shows "tracked (release_step eff) q {} \<and> held s' = held s"
proof (cases "tracked (release_step eff) p {}")
  case True
  from seg_release [OF this _ assms(3)] show ?thesis by auto
next
  case False
  with assms(1) obtain k where "p = GetState k" "\<forall>s. held s \<noteq> {} \<longrightarrow> tracked (release_step eff) (k s) {}"
    by (auto simp: stops_when_held_def)
  with assms(2,3) have "tracked (release_step eff) (k s) {}" "seg red e (k s) 0 s = (s', q)" by auto
  from seg_release [OF this(1) _ this(2)] show ?thesis by auto
qed

lemma stuck_step:
  assumes "held (fst x) = H \<and> (\<forall>p \<in># snd x. tracked (release_step eff) p {})" and "H \<noteq> {}"
    and "loop_step red (stops_when_held eff held) (\<lambda>a. eff a = NoLock) x y"
  shows "held (fst y) = H \<and> (\<forall>p \<in># snd y. tracked (release_step eff) p {})"
  using assms(3)
proof cases
  case (start p e s s' q ps)
  have "tracked (release_step eff) q {} \<and> held s' = held s"
    using stopped_start [OF start(3) _ start(4)] assms(1,2) start(1) by simp
  with assms(1) start(1,2) show ?thesis by auto
next
  case (resume p ev p' e s s' q ps)
  with assms(1) have "tracked (release_step eff) p {}" by auto
  from seg_release [OF tracked_resume [OF resume(3) this] _ resume(4)] assms(1) resume(1,2)
  show ?thesis by auto
qed (use assms(1) in \<open>auto simp: held_other\<close>)

lemma stuck_forever:
  assumes "reachable_from red (stops_when_held eff held) (\<lambda>a. eff a = NoLock) (s0, {#}) (s, ps)"
    and "held s0 \<noteq> {}"
  shows "held s = held s0"
proof -
  let ?I = "\<lambda>x. held (fst x) = held s0 \<and> (\<forall>p \<in># snd x. tracked (release_step eff) p {})"
  have "?I (s, ps)"
    using assms(1)
  proof (rule reachable_invariant [where I = ?I])
    show "?I y" if "?I x" and "loop_step red (stops_when_held eff held) (\<lambda>a. eff a = NoLock) x y" for x y
      using that(1) assms(2) that(2) by (rule stuck_step)
  qed simp
  then show ?thesis by simp
qed

end

section \<open>Resources of many programs\<close>

text \<open>
  The bookkeeping of Tracking, for any number of programs at once: what the store shows as
  taken is owed by the programs in flight. When all of them have ended nothing is left.
\<close>

definition pool_owes ::
  "('a, 'k) bookkeeping \<Rightarrow> ('s \<Rightarrow> 'k set) \<Rightarrow> 'k set \<Rightarrow> ('s, 'a, 't, 'r) loop_state \<Rightarrow> bool" where
  "pool_owes step taken B x \<longleftrightarrow>
     (\<exists>owed. image_mset fst owed = snd x \<and> (\<forall>(p, L) \<in># owed. tracked step p L) \<and>
        taken (fst x) \<subseteq> B \<union> (\<Union>(p, L) \<in> set_mset owed. L))"

context resource
begin

lemma seg_tracked:
  assumes "tracked step p L" and "taken s \<subseteq> B \<union> L" and "seg red e p n s = (s', q)"
  shows "\<exists>L'. tracked step q L' \<and> taken s' \<subseteq> B \<union> L'"
  using assms
proof (induction p arbitrary: n s L)
  case (Dispatch a p)
  from Dispatch.prems(1) obtain L1 where "step a L = Some L1" "tracked step p L1" by auto
  with taken_red [OF this(1) Dispatch.prems(2)] Dispatch.IH Dispatch.prems(3) show ?case by fastforce
next
  case (GetState k)
  then show ?case by (metis rangeI seg.simps(4) tracked.simps(4))
next
  case (DateNow k)
  then show ?case by (metis rangeI seg.simps(5) tracked.simps(5))
next
  case (Uuid k)
  then show ?case by (metis rangeI seg.simps(6) tracked.simps(6))
next
  case (OnLine k)
  then show ?case by (metis rangeI seg.simps(7) tracked.simps(7))
qed auto

lemma pool_owes_add:
  assumes "image_mset fst owed = ps" and "\<forall>(p, L) \<in># owed. tracked step p L"
    and "taken s \<subseteq> B \<union> (\<Union>(p, L) \<in> set_mset owed. L) \<union> L0" and "tracked step p0 L0"
    and "seg red e p0 n s = (s', q)"
  shows "pool_owes step taken B (s', add_mset q ps)"
proof -
  from seg_tracked [OF assms(4,3,5)] obtain L'
    where "tracked step q L'" and "taken s' \<subseteq> B \<union> (\<Union>(p, L) \<in> set_mset owed. L) \<union> L'" by auto
  with assms(1,2) show ?thesis
    unfolding pool_owes_def by (intro exI [of _ "add_mset (q, L') owed"]) auto
qed

lemma pool_owes_step:
  assumes "pool_owes step taken B x"
    and "loop_step red (\<lambda>p. tracked step p {}) (\<lambda>a. step a {} = Some {}) x y"
  shows "pool_owes step taken B y"
proof -
  from assms(1) obtain owed where owed: "image_mset fst owed = snd x"
    "\<forall>(p, L) \<in># owed. tracked step p L" "taken (fst x) \<subseteq> B \<union> (\<Union>(p, L) \<in> set_mset owed. L)"
    by (auto simp: pool_owes_def)
  from assms(2) show ?thesis
  proof cases
    case (start p e s s' q ps)
    with owed have "image_mset fst owed = ps" "taken s \<subseteq> B \<union> (\<Union>(p, L) \<in> set_mset owed. L) \<union> {}" by auto
    from pool_owes_add [OF this(1) owed(2) this(2) start(3,4)] start(2) show ?thesis by simp
  next
    case (resume p ev p' e s s' q ps)
    then obtain L rest where rest: "owed = add_mset (p, L) rest" "image_mset fst rest = ps"
      using owed(1) msed_map_invR [of fst owed p ps] by auto
    have "tracked step p' L"
      using tracked_resume [OF resume(3)] owed(2) rest(1) by auto
    moreover have "\<forall>(p, L) \<in># rest. tracked step p L" using owed(2) rest(1) by auto
    moreover have "taken s \<subseteq> B \<union> (\<Union>(p, L) \<in> set_mset rest. L) \<union> L" using owed(3) rest(1) resume(1) by auto
    ultimately show ?thesis using pool_owes_add [OF rest(2)] resume(2,4) by blast
  next
    case (foreign a s ps now)
    have "taken (red now s a) \<subseteq> (B \<union> (\<Union>(p, L) \<in> set_mset owed. L)) \<union> {}"
      by (rule taken_red [OF foreign(3)]) (use owed(3) foreign(1) in simp)
    with owed(1,2) foreign show ?thesis by (auto simp: pool_owes_def)
  qed
qed

lemma all_finished_free:
  assumes "reachable_from red (\<lambda>p. tracked step p {}) (\<lambda>a. step a {} = Some {}) (s0, {#}) (s, ps)"
    and "\<forall>p \<in># ps. finished p"
  shows "taken s \<subseteq> taken s0"
proof -
  have "pool_owes step taken (taken s0) (s, ps)"
  proof (rule reachable_invariant [OF assms(1)])
    show "pool_owes step taken (taken s0) (s0, {#})" by (simp add: pool_owes_def)
  qed (rule pool_owes_step)
  then obtain owed where owed: "image_mset fst owed = ps" "\<forall>(p, L) \<in># owed. tracked step p L"
    "taken s \<subseteq> taken s0 \<union> (\<Union>(p, L) \<in> set_mset owed. L)"
    by (auto simp: pool_owes_def)
  have "L = {}" if "(p, L) \<in># owed" for p L
    using that owed(1,2) assms(2) tracked_finished [of step p L] by fastforce
  with owed(3) show ?thesis by auto
qed

end

lemma loop_step_mono:
  "loop_step red startable foreign x y \<Longrightarrow> (\<And>p. startable p \<Longrightarrow> startable' p) \<Longrightarrow> (\<And>a. foreign a \<Longrightarrow> foreign' a)
     \<Longrightarrow> loop_step red startable' foreign' x y"
  by (erule loop_stepE) (auto intro: loop_step.intros)

lemma reachable_mono:
  assumes "reachable_from red startable foreign x0 x"
    and "\<And>p. startable p \<Longrightarrow> startable' p" and "\<And>a. foreign a \<Longrightarrow> foreign' a"
  shows "reachable_from red startable' foreign' x0 x"
  using assms(1)
proof induction
  case init
  show ?case by (rule reachable_from.init)
next
  case (step x y)
  from step.hyps(2) have "loop_step red startable' foreign' x y"
    by (rule loop_step_mono) (fact assms(2), fact assms(3))
  with step.IH show ?case by (rule reachable_from.step)
qed

end
