(* ===== verification/Effects.thy ===== *)
theory Effects
  imports RootStore Api EventLoop
begin

text \<open>
  What the thunks share: the snackbar calls, and the bookkeeping of the resources they take
  (loading notices, the flags of running operations).
\<close>

section \<open>Calls the thunks share\<close>

type_synonym 'v cat = "(root_state, action, thunk_call, 'v) create_async_thunk"

text \<open>\<open>dispatch(addAlertSnackbar(uuid(), m, sev))\<close>\<close>

abbreviation alertP :: "jsval \<Rightarrow> AlertColor \<Rightarrow> 'r thunk \<Rightarrow> 'r thunk" where
  "alertP m sev k \<equiv> Uuid (\<lambda>i. Dispatch (SnackbarsA (addAlertSnackbar i m sev None)) k)"

text \<open>\<open>dispatch(addAlertSnackbar(uuid(), unreachableMessage(), 'error'))\<close>\<close>

abbreviation offlineAlertP :: "'r thunk \<Rightarrow> 'r thunk" where
  "offlineAlertP k \<equiv> Uuid (\<lambda>i. OnLine (\<lambda>b.
     Dispatch (SnackbarsA (addAlertSnackbar i (JStr (unreachableMessage b)) Error None)) k))"

abbreviation loadingP :: "string \<Rightarrow> string \<Rightarrow> 'r thunk \<Rightarrow> 'r thunk" where
  "loadingP i m k \<equiv> Dispatch (SnackbarsA (addLoadingSnackbar i (JStr m) None)) k"

abbreviation unloadP :: "string \<Rightarrow> 'r thunk \<Rightarrow> 'r thunk" where
  "unloadP i k \<equiv> Dispatch (SnackbarsA (removeLoadingSnackbar i)) k"

text \<open>\<open>addAlertSnackbar(uuid(), boardErrorMessage(fallback, response, data.message), 'error')\<close>\<close>

definition boardAlertP :: "string \<Rightarrow> response \<Rightarrow> jsval \<Rightarrow> 'r thunk \<Rightarrow> 'r thunk" where
  "boardAlertP fallback response data k =
     Uuid (\<lambda>i. getP data ''message'' (\<lambda>message.
     Dispatch (SnackbarsA (addAlertSnackbar i
       (boardErrorMessage fallback (Some (rs_status response)) message) Error None)) k))"

text \<open>\<open>if (b && v.k) p else q\<close>\<close>

abbreviation andP :: "bool \<Rightarrow> jsval \<Rightarrow> string \<Rightarrow> 'r thunk \<Rightarrow> 'r thunk \<Rightarrow> 'r thunk" where
  "andP b v k p q \<equiv> (if b then getP v k (\<lambda>x. if truthy x then p else q) else q)"

text \<open>\<open>return rejectWithValue(v)\<close>\<close>

abbreviation rejectP :: "jsval \<Rightarrow> 'v creator_result thunk" where
  "rejectP v \<equiv> Return (RejectWithValue v)"

text \<open>\<open>rejectWithValue(error instanceof Error ? error.message : 'Unknown error')\<close>\<close>

definition unknown_error :: "thrown \<Rightarrow> jsval" where
  "unknown_error e = JStr (error_message_or ''Unknown error'' e)"

text \<open>\<open>new Error(v)\<close> with a dynamic message, which is turned into a string.\<close>

fun js_string :: "jsval \<Rightarrow> string" where
  "js_string JUndefined = ''undefined''"
| "js_string JNull = ''null''"
| "js_string (JBool b) = (if b then ''true'' else ''false'')"
| "js_string JNaN = ''NaN''"
| "js_string (JNum x) = rat_str x"
| "js_string (JStr s) = s"
| "js_string (JArr xs) = join '','' (map (\<lambda>x. if nullish x then [] else js_string x) xs)"
| "js_string (JObj fs) = ''[object Object]''"

section \<open>Loading notices\<close>

fun notice_step :: "(action, string) bookkeeping" where
  "notice_step (SnackbarsA (LoadingSnackbarAdded x)) L = Some (insert (sb_id x) L)"
| "notice_step (SnackbarsA (LoadingSnackbarRemoved i)) L = Some (L - {i})"
| "notice_step _ L = Some L"

definition notices :: "root_state \<Rightarrow> string set" where
  "notices s = loading_ids (rs_snackbars s)"

lemma notices_other: "\<nexists>x. a = SnackbarsA x \<Longrightarrow> notices (root_reducer now s a) = notices s"
  by (cases a) (simp_all add: notices_def)

interpretation notice_resource: resource root_reducer notice_step notices
proof unfold_locales
  fix a :: action and L L' s B now
  assume step: "notice_step a L = Some L'" and taken: "notices s \<subseteq> B \<union> L"
  show "notices (root_reducer now s a) \<subseteq> B \<union> L'"
  proof (cases "\<exists>x. a = SnackbarsA x")
    case False
    then have "notice_step a L = Some L" by (cases a) simp_all
    with step taken False show ?thesis by (simp add: notices_other)
  next
    case True
    then obtain x where [simp]: "a = SnackbarsA x" by blast
    from step taken show ?thesis
      by (cases x) (auto simp: notices_def loading_ids_def Let_def)
  qed
qed

section \<open>Flags of running operations\<close>

datatype op_flag = Toggling | Clearing | Skipping | Showing | UpdatingInterval
  | FetchingInterval | UpdatingNightMode | FetchingNightMode

fun flag_set :: "op_flag \<Rightarrow> operation_state \<Rightarrow> bool" where
  "flag_set Toggling st = op_isToggling st"
| "flag_set Clearing st = op_isClearingDisplay st"
| "flag_set Skipping st = op_isSkippingImage st"
| "flag_set Showing st = op_isShowingImage st"
| "flag_set UpdatingInterval st = op_isUpdatingInterval st"
| "flag_set FetchingInterval st = op_isFetchingInterval st"
| "flag_set UpdatingNightMode st = op_isUpdatingNightMode st"
| "flag_set FetchingNightMode st = op_isFetchingNightMode st"

definition op_flags :: "operation_state \<Rightarrow> op_flag set" where
  "op_flags st = {f. flag_set f st}"

text \<open>The action that sets a flag, with the value it sets.\<close>

fun flag_write :: "operation_action \<Rightarrow> (op_flag \<times> bool) option" where
  "flag_write (SetToggleStatus b) = Some (Toggling, b)"
| "flag_write (SetClearDisplayStatus b) = Some (Clearing, b)"
| "flag_write (SetSkipImageStatus b) = Some (Skipping, b)"
| "flag_write (SetShowImageStatus b) = Some (Showing, b)"
| "flag_write (SetUpdateIntervalStatus b) = Some (UpdatingInterval, b)"
| "flag_write (SetFetchIntervalStatus b) = Some (FetchingInterval, b)"
| "flag_write (SetUpdateNightModeStatus b) = Some (UpdatingNightMode, b)"
| "flag_write (SetFetchNightModeStatus b) = Some (FetchingNightMode, b)"
| "flag_write _ = None"

lemma op_flags_write:
  "flag_write a = Some (f, b) \<Longrightarrow>
     op_flags (operationReducer now st a) = (if b then insert f (op_flags st) else op_flags st - {f})"
  by (cases a; cases f) (auto simp: op_flags_def elim!: flag_set.elims split: if_splits)

lemma op_flags_no_write:
  "flag_write a = None \<Longrightarrow> a \<noteq> ResetOperation \<Longrightarrow> op_flags (operationReducer now st a) = op_flags st"
proof -
  have "flag_set f (operationReducer now st a) = flag_set f st"
    if "flag_write a = None" "a \<noteq> ResetOperation" for f
    using that by (cases a; cases f) (simp_all add: Let_def)
  then show "flag_write a = None \<Longrightarrow> a \<noteq> ResetOperation \<Longrightarrow>
      op_flags (operationReducer now st a) = op_flags st"
    by (auto simp: op_flags_def)
qed

fun flag_step :: "(action, op_flag) bookkeeping" where
  "flag_step (OperationA a) L =
     (case flag_write a of
        Some (f, b) \<Rightarrow> Some (if b then insert f L else L - {f})
      | None \<Rightarrow> if a = ResetOperation then None else Some L)"
| "flag_step _ L = Some L"

definition root_flags :: "root_state \<Rightarrow> op_flag set" where
  "root_flags s = op_flags (rs_slideshowOperation s)"

lemma op_busy_flags:
  "op_busy st \<longleftrightarrow> op_flags st \<inter> {Toggling, Clearing, Skipping, Showing, UpdatingInterval} \<noteq> {}"
  by (auto simp: op_busy_def op_flags_def)

interpretation flag_resource: resource root_reducer flag_step root_flags
proof unfold_locales
  fix a :: action and L L' s B now
  assume step: "flag_step a L = Some L'" and taken: "root_flags s \<subseteq> B \<union> L"
  show "root_flags (root_reducer now s a) \<subseteq> B \<union> L'"
  proof (cases "\<exists>x. a = OperationA x")
    case False
    then have "flag_step a L = Some L" "root_flags (root_reducer now s a) = root_flags s"
      by (cases a; simp add: root_flags_def)+
    with step taken show ?thesis by simp
  next
    case True
    then obtain x where [simp]: "a = OperationA x" by blast
    from step taken show ?thesis
      by (auto simp: root_flags_def op_flags_write op_flags_no_write split: option.splits if_splits)
  qed
qed

section \<open>A world for the witnesses\<close>

text \<open>Every effect takes a millisecond, every request succeeds.\<close>

definition silent_world :: world where
  "silent_world = \<lparr>w_lag = (\<lambda>_. 1), w_ids = nat_str, w_online = (\<lambda>_. True),
     w_net = (\<lambda>_ _. \<lparr>ne_latency = 5, ne_answer = Inr \<lparr>rs_status = 200,
       rs_body = Inr (JObj [(''success'', JBool True)])\<rparr>\<rparr>)\<rparr>"

definition fresh_cfg :: root_cfg where
  "fresh_cfg = \<lparr>cf_steps = 0, cf_time = 1000, cf_store = root_initial 0, cf_trace = []\<rparr>"

end
