(* ===== verification/AuthThunks.thy ===== *)
theory AuthThunks
  imports Effects
begin

text \<open>
  The thunks of the session (store/auth/auth.Slice.tsx): asking for it, logging in, changing
  the password, logging out. For each the payload creator and the async thunk around it, whose
  \<open>createAsyncThunk\<close> is the argument \<open>cat\<close>.
\<close>

section \<open>Payload creators\<close>

(* src: store/auth/auth.Slice.tsx 27-31: the payload creator of checkAuthStatusThunk *)
definition checkAuthStatus_creator :: "jsval creator_result thunk" where
  "checkAuthStatus_creator =
     fetchP (get_req getAuthStatusUrl) (\<lambda>response.
     jsonP response (\<lambda>payload.
     Return (Value (js_coalesce (js_opt_get (js_opt_get payload ''data'') ''authenticated'') (JBool False)))))"

(* src: store/auth/auth.Slice.tsx 35-35: LoginCredentials *)
datatype LoginCredentials = Otp string | Password string

fun credentials_json :: "LoginCredentials \<Rightarrow> jsval" where
  "credentials_json (Otp s) = JObj [(''otp'', JStr s)]"
| "credentials_json (Password s) = JObj [(''password'', JStr s)]"

(* src: store/auth/auth.Slice.tsx 40-83: the payload creator of loginThunk *)
definition login_creator :: "LoginCredentials \<Rightarrow> bool creator_result thunk" where
  "login_creator credentials =
     Uuid (\<lambda>snackbarId.
     tryP
       (loadingP snackbarId ''Du wirst angemeldet'' (
        fetchP (post_json getLoginUrl (credentials_json credentials)) (\<lambda>response.
        jsonP response (\<lambda>data.
        unloadP snackbarId (
        getP data ''success'' (\<lambda>success.
        if truthy success then
          alertP (JStr ''Angemeldet'') Success (Return (Value True))
        else
          boardAlertP ''Anmeldung fehlgeschlagen'' response data (
          getP data ''message'' (\<lambda>message.
          rejectP (js_or message (JStr ''Authentication failed''))))))))))
       (\<lambda>_.
        unloadP snackbarId (
        offlineAlertP (
        rejectP (JStr ''Authentication failed'')))))"

(* src: store/auth/auth.Slice.tsx 89-133: the payload creator of changePasswordThunk *)
definition changePassword_creator :: "string \<Rightarrow> string \<Rightarrow> bool creator_result thunk" where
  "changePassword_creator currentPassword newPassword =
     Uuid (\<lambda>snackbarId.
     tryP
       (loadingP snackbarId (''Passwort wird ge'' @ s_ae @ ''ndert'') (
        fetchP (post_json getChangePasswordUrl
          (JObj [(''current_password'', JStr currentPassword), (''new_password'', JStr newPassword)])) (\<lambda>response.
        jsonP response (\<lambda>data.
        unloadP snackbarId (
        getP data ''success'' (\<lambda>success.
        if truthy success then
          alertP (JStr (''Passwort ge'' @ s_ae @ ''ndert'')) Success (Return (Value True))
        else
          boardAlertP (''Passwort konnte nicht ge'' @ s_ae @ ''ndert werden'') response data (
          getP data ''message'' (\<lambda>message.
          rejectP (js_or message (JStr ''Password change failed''))))))))))
       (\<lambda>_.
        unloadP snackbarId (
        offlineAlertP (
        rejectP (JStr ''Password change failed'')))))"

(* src: store/auth/auth.Slice.tsx 139-155: the payload creator of logoutThunk *)
definition logout_creator :: "bool creator_result thunk" where
  "logout_creator =
     tryP
       (fetchP (post_req getLogoutUrl) (\<lambda>response.
        alertP (JStr ''Abgemeldet'') Success (Return (Value True))))
       (\<lambda>error. offlineAlertP (Throw error))"

section \<open>Async thunks\<close>

(* src: store/auth/auth.Slice.tsx 25-32: checkAuthStatusThunk *)
definition checkAuthStatusThunk :: "jsval cat \<Rightarrow> unit thunk" where
  "checkAuthStatusThunk cat = cat (AuthA CheckStatusPending) (AuthA \<circ> CheckStatusFulfilled)
     (\<lambda>p m. AuthA (CheckStatusRejected p m)) checkAuthStatus_creator"

(* src: store/auth/auth.Slice.tsx 38-84: loginThunk *)
definition loginThunk :: "bool cat \<Rightarrow> LoginCredentials \<Rightarrow> unit thunk" where
  "loginThunk cat credentials = cat (AuthA LoginPending) (AuthA \<circ> LoginFulfilled)
     (\<lambda>p m. AuthA (LoginRejected p m)) (login_creator credentials)"

(* src: store/auth/auth.Slice.tsx 87-134: changePasswordThunk *)
definition changePasswordThunk :: "bool cat \<Rightarrow> string \<Rightarrow> string \<Rightarrow> unit thunk" where
  "changePasswordThunk cat currentPassword newPassword =
     cat (AuthA ChangePasswordPending) (AuthA \<circ> ChangePasswordFulfilled)
       (\<lambda>p m. AuthA (ChangePasswordRejected p m)) (changePassword_creator currentPassword newPassword)"

(* src: store/auth/auth.Slice.tsx 137-156: logoutThunk *)
definition logoutThunk :: "bool cat \<Rightarrow> unit thunk" where
  "logoutThunk cat = cat (AuthA LogoutPending) (AuthA \<circ> LogoutFulfilled)
     (\<lambda>p m. AuthA (LogoutRejected p m)) logout_creator"

(* src: store/auth/auth.Slice.tsx 218-218: selectAuth *)
definition selectAuth :: "root_state \<Rightarrow> auth_state" where
  "selectAuth state = rs_auth state"

lemmas auth_thunk_defs [thunk_defs] =
  checkAuthStatusThunk_def loginThunk_def changePasswordThunk_def logoutThunk_def

lemmas auth_creator_defs [prog_simps] =
  checkAuthStatus_creator_def login_creator_def changePassword_creator_def logout_creator_def

section \<open>What they give back\<close>

lemma checkAuthStatus_tracked: "tracked notice_step checkAuthStatus_creator {}"
  by (auto simp: checkAuthStatus_creator_def fetchWithTimeout_def jsonP_def split: sum.splits)

lemma login_tracked: "tracked notice_step (login_creator credentials) {}"
  by (auto simp: login_creator_def boardAlertP_def reducer_simps split: sum.splits)

lemma changePassword_tracked: "tracked notice_step (changePassword_creator p q) {}"
  by (auto simp: changePassword_creator_def boardAlertP_def reducer_simps split: sum.splits)

lemma logout_tracked: "tracked notice_step logout_creator {}"
  by (auto simp: logout_creator_def reducer_simps split: sum.splits)

section \<open>Property\<close>

text \<open>The answer of the board accepts: it came, is JSON, and has a truthy \<open>success\<close>.\<close>

definition board_accepts :: "thrown + jsval \<Rightarrow> bool" where
  "board_accepts answer =
     (case answer of Inl e \<Rightarrow> False | Inr data \<Rightarrow> truthy (js_opt_get data ''success''))"

text \<open>C30: A login always ends with the loading flag off, one request sent, and the session
  marked as authenticated exactly if the board accepted the credentials; a lost answer, an answer
  that is no JSON and a refusal all leave the user signed out.\<close>

lemma login_result:
  assumes "rtk_lifecycle cat"
  shows "\<exists>c'. runR w (loginThunk cat credentials) c = (Returned (), c') \<and>
    requests_of (cf_trace c') =
      requests_of (cf_trace c) @ [post_json getLoginUrl (credentials_json credentials)] \<and>
    au_isAuthenticated (rs_auth (cf_store c')) =
      JBool (board_accepts (json_at w (cf_steps c + 3)
        (post_json getLoginUrl (credentials_json credentials)) default_timeout)) \<and>
    \<not> au_isLoading (rs_auth (cf_store c'))"
  by (auto simp: loginThunk_def login_creator_def boardAlertP_def rtk_lifecycle_run [OF assms]
      settled_action_def board_accepts_def json_at_def reply_at_def numeral_3_eq_3 js_opt_get_def
      split: sum.splits)

lemma login_result_witness:
  "\<exists>c'. runR silent_world (loginThunk standard_async_thunk (Otp ''123456'')) fresh_cfg = (Returned (), c') \<and>
    au_isAuthenticated (rs_auth (cf_store c')) = JBool True"
  using login_result [OF rtk_lifecycle_standard, of silent_world "Otp ''123456''" fresh_cfg]
  by (auto simp: board_accepts_def json_at_def reply_at_def fetch_settles_def silent_world_def
      default_timeout_def js_opt_get_def)

end
