(* ===== verification/NetworkThunks.thy ===== *)
theory NetworkThunks
  imports AuthThunks
begin

text \<open>
  The thunks of the WLAN connection: the connection mode
  (store/connectionMode/connectionMode.Slice.tsx) and the saved networks
  (store/network/network.Slice.tsx).
\<close>

section \<open>Connection mode\<close>

definition connectionMode_timeout :: int where
  "connectionMode_timeout = 60000"

(* src: store/connectionMode/connectionMode.Slice.tsx 44-56: the payload creator of fetchConnectionMode *)
definition fetchConnectionMode_creator :: "jsval creator_result thunk" where
  "fetchConnectionMode_creator =
     tryP
       (fetchWithTimeout (get_req getConnectionModeUrl) connectionMode_timeout (\<lambda>res.
        jsonP res (\<lambda>payload.
        if truthy (js_opt_get payload ''success'') then
          getP payload ''data'' (\<lambda>d. Return (Value d))
        else rejectP (JStr ''Unexpected response''))))
       (\<lambda>error. rejectP (unknown_error error))"

(* src: store/connectionMode/connectionMode.Slice.tsx 42-57: fetchConnectionMode *)
definition fetchConnectionMode :: "jsval cat \<Rightarrow> unit thunk" where
  "fetchConnectionMode cat =
     cat (ConnectionModeA FetchConnectionModePending) (ConnectionModeA \<circ> FetchConnectionModeFulfilled)
       (\<lambda>p m. ConnectionModeA (FetchConnectionModeRejected p m)) fetchConnectionMode_creator"

(* src: store/connectionMode/connectionMode.Slice.tsx 82-82: selectConnectionMode *)
definition selectConnectionMode :: "root_state \<Rightarrow> connection_mode_state" where
  "selectConnectionMode state = rs_connectionMode state"

section \<open>Saved networks\<close>

(* src: store/network/network.Slice.tsx 37-60: the payload creator of fetchNetworkData *)
definition fetchNetworkData_creator :: "(jsval \<times> jsval) creator_result thunk" where
  "fetchNetworkData_creator =
     tryP
       (fetchP (get_req getConnectionStatusUrl) (\<lambda>connResponse.
        jsonP connResponse (\<lambda>connPayload.
        fetchP (get_req getConnectionSavedNetworksUrl) (\<lambda>networksResponse.
        jsonP networksResponse (\<lambda>networksPayload.
        getP connPayload ''success'' (\<lambda>connSuccess.
        andP (truthy connSuccess) networksPayload ''success''
          (getP connPayload ''data'' (\<lambda>d. getP d ''connection_name'' (\<lambda>current.
           getP networksPayload ''data'' (\<lambda>d'. getP d' ''networks'' (\<lambda>saved.
           Return (Value (current, saved)))))))
          (rejectP (JStr ''Failed to fetch network data''))))))))
       (\<lambda>error.
        alertP (JStr ''Netzwerke konnten nicht geladen werden'') Error (
        rejectP (unknown_error error)))"

(* src: store/network/network.Slice.tsx 35-61: fetchNetworkData *)
definition fetchNetworkData :: "(jsval \<times> jsval) cat \<Rightarrow> unit thunk" where
  "fetchNetworkData cat =
     cat (NetworkA FetchNetworkDataPending) (\<lambda>(current, saved). NetworkA (FetchNetworkDataFulfilled current saved))
       (\<lambda>p m. NetworkA (FetchNetworkDataRejected p m)) fetchNetworkData_creator"

(* src: store/network/network.Slice.tsx 65-107: the payload creator of addNetwork *)
definition addNetwork_creator :: "network_credentials \<Rightarrow> string creator_result thunk" where
  "addNetwork_creator credentials =
     (if nc_ssid credentials = [] \<or> nc_password credentials = [] then
        alertP (JStr ''Gib Netzwerkname und Passwort ein'') Error (
        rejectP (JStr ''Missing credentials''))
      else
        Uuid (\<lambda>loadingSnackbarId.
        finallyP
          (tryP
            (loadingP loadingSnackbarId (''WLAN wird hinzugef'' @ s_ue @ ''gt'') (
             fetchP (post_json getConnectionConnectUrl
               (JObj [(''ssid'', JStr (nc_ssid credentials)), (''password'', JStr (nc_password credentials))])) (\<lambda>response.
             jsonP response (\<lambda>data.
             getP data ''success'' (\<lambda>success.
             if truthy success then
               GetState (\<lambda>st.
               alertP
                 (if cm_mode (rs_connectionMode st) = JStr ''ap''
                  then JStr (''WLAN gespeichert. Mit '' @ s_lquote @ ''Jetzt verbinden'' @ s_rquote @
                    '' wechselt der Bilderrahmen ins WLAN.'')
                  else JStr (''WLAN hinzugef'' @ s_ue @ ''gt'')) Success (
               Spawn CallFetchNetworkData (
               Return (Value (nc_ssid credentials)))))
             else
               boardAlertP (''WLAN konnte nicht hinzugef'' @ s_ue @ ''gt werden'') response data (
               rejectP (JStr ''Failed to add network'')))))))
            (\<lambda>error.
             alertP (JStr (''WLAN konnte nicht hinzugef'' @ s_ue @ ''gt werden'')) Error (
             rejectP (unknown_error error))))
          (unloadP loadingSnackbarId (Return ()))))"

(* src: store/network/network.Slice.tsx 63-108: addNetwork *)
definition addNetwork :: "string cat \<Rightarrow> network_credentials \<Rightarrow> unit thunk" where
  "addNetwork cat credentials = cat (NetworkA AddNetworkPending) (NetworkA \<circ> AddNetworkFulfilled)
     (\<lambda>p m. NetworkA (AddNetworkRejected p m)) (addNetwork_creator credentials)"

(* src: store/network/network.Slice.tsx 112-145: the payload creator of forgetNetwork *)
definition forgetNetwork_creator :: "string \<Rightarrow> string creator_result thunk" where
  "forgetNetwork_creator ssid =
     Uuid (\<lambda>loadingSnackbarId.
     finallyP
       (tryP
         (loadingP loadingSnackbarId ''WLAN wird entfernt'' (
          fetchP (post_json getConnectionForgetUrl (JObj [(''ssid'', JStr ssid)])) (\<lambda>response.
          jsonP response (\<lambda>data.
          getP data ''success'' (\<lambda>success.
          if truthy success then
            alertP (JStr ''WLAN entfernt'') Success (
            Spawn CallFetchNetworkData (
            Return (Value ssid)))
          else
            boardAlertP ''WLAN konnte nicht entfernt werden'' response data (
            rejectP (JStr ''Failed to forget network'')))))))
         (\<lambda>error.
          alertP (JStr ''WLAN konnte nicht entfernt werden'') Error (
          rejectP (unknown_error error))))
       (unloadP loadingSnackbarId (Return ())))"

(* src: store/network/network.Slice.tsx 110-146: forgetNetwork *)
definition forgetNetwork :: "string cat \<Rightarrow> string \<Rightarrow> unit thunk" where
  "forgetNetwork cat ssid = cat (NetworkA ForgetNetworkPending) (NetworkA \<circ> ForgetNetworkFulfilled)
     (\<lambda>p m. NetworkA (ForgetNetworkRejected p m)) (forgetNetwork_creator ssid)"

(* src: store/network/network.Slice.tsx 150-182: the payload creator of changeApPassword *)
definition changeApPassword_creator :: "string \<Rightarrow> bool creator_result thunk" where
  "changeApPassword_creator password =
     Uuid (\<lambda>loadingSnackbarId.
     finallyP
       (tryP
         (loadingP loadingSnackbarId (''Hotspot-Passwort wird ge'' @ s_ae @ ''ndert'') (
          fetchP (post_json getApPasswordUrl (JObj [(''password'', JStr password)])) (\<lambda>response.
          jsonP response (\<lambda>data.
          getP data ''success'' (\<lambda>success.
          if truthy success then
            alertP (JStr (''Hotspot-Passwort ge'' @ s_ae @ ''ndert'')) Success (
            Return (Value True))
          else
            boardAlertP (''Hotspot-Passwort konnte nicht ge'' @ s_ae @ ''ndert werden'') response data (
            getP data ''message'' (\<lambda>message.
            rejectP (js_or message (JStr ''Failed to change AP password'')))))))))
         (\<lambda>error.
          alertP (JStr (''Hotspot-Passwort konnte nicht ge'' @ s_ae @ ''ndert werden'')) Error (
          rejectP (unknown_error error))))
       (unloadP loadingSnackbarId (Return ())))"

(* src: store/network/network.Slice.tsx 148-183: changeApPassword *)
definition changeApPassword :: "bool cat \<Rightarrow> string \<Rightarrow> unit thunk" where
  "changeApPassword cat password = cat (NetworkA ChangeApPasswordPending) (NetworkA \<circ> ChangeApPasswordFulfilled)
     (\<lambda>p m. NetworkA (ChangeApPasswordRejected p m)) (changeApPassword_creator password)"

(* src: store/network/network.Slice.tsx 188-201: the payload creator of connectToSavedNetworks *)
definition connectToSavedNetworks_creator :: "bool creator_result thunk" where
  "connectToSavedNetworks_creator =
     tryP
       (fetchP (post_req getConnectionApplyUrl) (\<lambda>response.
        jsonP response (\<lambda>data.
        getP data ''success'' (\<lambda>success.
        if truthy success then Return (Value True)
        else
          boardAlertP ''Verbindung konnte nicht gestartet werden'' response data (
          getP data ''message'' (\<lambda>message.
          rejectP (js_or message (JStr ''Failed to connect''))))))))
       (\<lambda>error.
        alertP (JStr ''Verbindung konnte nicht gestartet werden'') Error (
        rejectP (unknown_error error)))"

(* src: store/network/network.Slice.tsx 186-202: connectToSavedNetworks *)
definition connectToSavedNetworks :: "bool cat \<Rightarrow> unit thunk" where
  "connectToSavedNetworks cat = cat (NetworkA ConnectToSavedPending) (NetworkA \<circ> ConnectToSavedFulfilled)
     (\<lambda>p m. NetworkA (ConnectToSavedRejected p m)) connectToSavedNetworks_creator"

(* src: store/network/network.Slice.tsx 258-258: selectNetworkState *)
definition selectNetworkState :: "root_state \<Rightarrow> network_state" where
  "selectNetworkState state = rs_network state"

lemmas network_thunk_defs [thunk_defs] =
  fetchConnectionMode_def fetchNetworkData_def addNetwork_def forgetNetwork_def
  changeApPassword_def connectToSavedNetworks_def

lemmas network_creator_defs [prog_simps] =
  fetchConnectionMode_creator_def fetchNetworkData_creator_def addNetwork_creator_def
  forgetNetwork_creator_def changeApPassword_creator_def connectToSavedNetworks_creator_def

section \<open>What they give back\<close>

lemma fetchConnectionMode_tracked: "tracked notice_step fetchConnectionMode_creator {}"
  by (auto simp: fetchConnectionMode_creator_def split: sum.splits)

lemma fetchNetworkData_tracked: "tracked notice_step fetchNetworkData_creator {}"
  by (auto simp: fetchNetworkData_creator_def Let_def reducer_simps split: sum.splits)

lemma addNetwork_tracked: "tracked notice_step (addNetwork_creator credentials) {}"
  by (auto simp: addNetwork_creator_def boardAlertP_def reducer_simps split: sum.splits)

lemma forgetNetwork_tracked: "tracked notice_step (forgetNetwork_creator ssid) {}"
  by (auto simp: forgetNetwork_creator_def boardAlertP_def reducer_simps split: sum.splits)

lemma changeApPassword_tracked: "tracked notice_step (changeApPassword_creator password) {}"
  by (auto simp: changeApPassword_creator_def boardAlertP_def reducer_simps split: sum.splits)

lemma connectToSavedNetworks_tracked: "tracked notice_step connectToSavedNetworks_creator {}"
  by (auto simp: connectToSavedNetworks_creator_def boardAlertP_def reducer_simps split: sum.splits)

end
