(* ===== verification/Formats.thy ===== *)
theory Formats
  imports BoardData
begin

text \<open>
  Text formats of the platform that the thunks use: splitting a string, the query string of
  \<open>URLSearchParams\<close>, and \<open>Date.prototype.toISOString\<close>. Characters are the bytes of the
  UTF-8 text.
\<close>

section \<open>Splitting\<close>

text \<open>\<open>s.split(c)\<close> for one character.\<close>

fun split_on :: "char \<Rightarrow> string \<Rightarrow> string list" where
  "split_on c [] = [[]]"
| "split_on c (x # xs) =
     (if x = c then [] # split_on c xs
      else (case split_on c xs of [] \<Rightarrow> [[x]] | w # ws \<Rightarrow> (x # w) # ws))"

lemma split_on_nonempty [simp]: "split_on c s \<noteq> []"
  by (induction s) (auto split: list.splits)

lemma join_Cons: "ws \<noteq> [] \<Longrightarrow> join sep (w # ws) = w @ sep @ join sep ws"
  by (cases ws) simp_all

lemma join_Cons_Cons: "join sep ((x # w) # ws) = x # join sep (w # ws)"
  by (cases ws) simp_all

lemma join_split_on [simp]: "join [c] (split_on c s) = s"
proof (induction s)
  case Nil
  then show ?case by simp
next
  case (Cons x xs)
  show ?case
  proof (cases "x = c")
    case True
    with Cons show ?thesis by (simp add: join_Cons)
  next
    case False
    obtain w ws where "split_on c xs = w # ws"
      by (cases "split_on c xs") auto
    with Cons False show ?thesis by (simp add: join_Cons_Cons)
  qed
qed

lemma split_on_no_sep: "w \<in> set (split_on c s) \<Longrightarrow> c \<notin> set w"
  by (induction s arbitrary: w) (auto split: if_splits list.splits)

section \<open>Query strings\<close>

definition hex_digit :: "nat \<Rightarrow> char" where
  "hex_digit n = (if n < 10 then char_of (48 + n) else char_of (55 + n))"

text \<open>
  The application/x-www-form-urlencoded serialiser: letters, digits and \<open>* - . _\<close> stay, a
  space becomes \<open>+\<close>, any other byte \<open>%XX\<close>.
\<close>

definition form_unreserved :: "char \<Rightarrow> bool" where
  "form_unreserved ch \<longleftrightarrow>
     (let n = of_char ch :: nat
      in 48 \<le> n \<and> n \<le> 57 \<or> 65 \<le> n \<and> n \<le> 90 \<or> 97 \<le> n \<and> n \<le> 122 \<or> n \<in> {42, 45, 46, 95})"

definition form_char :: "char \<Rightarrow> string" where
  "form_char ch =
     (if form_unreserved ch then [ch]
      else if ch = CHR 0x20 then [CHR 0x2B]
      else [CHR 0x25, hex_digit (of_char ch div 16), hex_digit (of_char ch mod 16)])"

definition form_encode :: "string \<Rightarrow> string" where
  "form_encode s = concat (map form_char s)"

definition query_string :: "(string \<times> string) list \<Rightarrow> string" where
  "query_string ps = join ''&'' (map (\<lambda>(k, v). form_encode k @ ''='' @ form_encode v) ps)"

section \<open>Dates\<close>

text \<open>
  The proleptic Gregorian date of a day number (days since 1970-01-01), counting from
  1 March of year 0 in eras of 400 years.
\<close>

definition civil_from_days :: "int \<Rightarrow> int \<times> int \<times> int" where
  "civil_from_days z =
     (let z' = z + 719468;
          era = z' div 146097;
          doe = z' mod 146097;
          yoe = (doe - doe div 1460 + doe div 36524 - doe div 146096) div 365;
          doy = doe - (365 * yoe + yoe div 4 - yoe div 100);
          mp = (5 * doy + 2) div 153;
          d = doy - (153 * mp + 2) div 5 + 1;
          m = (if mp < 10 then mp + 3 else mp - 9)
      in (yoe + era * 400 + (if m \<le> 2 then 1 else 0), m, d))"

definition pad2 :: "int \<Rightarrow> string" where
  "pad2 n = padStart 2 (CHR ''0'') (int_str n)"

text \<open>\<open>new Date(ms).toISOString()\<close> for the years 0 to 9999.\<close>

definition iso_string :: "int \<Rightarrow> string" where
  "iso_string ms =
     (let days = ms div 86400000;
          rest = ms mod 86400000;
          (y, m, d) = civil_from_days days
      in padStart 4 (CHR ''0'') (int_str y) @ ''-'' @ pad2 m @ ''-'' @ pad2 d @ ''T'' @
         pad2 (rest div 3600000) @ '':'' @ pad2 (rest div 60000 mod 60) @ '':'' @
         pad2 (rest div 1000 mod 60) @ ''.'' @ padStart 3 (CHR ''0'') (int_str (rest mod 1000)) @ ''Z'')"

lemma civil_epoch: "civil_from_days 0 = (1970, 1, 1)"
  by code_simp

lemma civil_leap_day: "civil_from_days 19782 = (2024, 2, 29)"
  by code_simp

end
