(* ===== verification/BoardDataThunks.thy ===== *)
theory BoardDataThunks
  imports NetworkThunks Formats
begin

text \<open>
  The thunks that read the board's data (store/frameInfo, store/displayStats,
  store/frameLogs, store/updates, store/services, store/displayCustomization) and those that
  start an update, restart a service or change the customisation.
\<close>

section \<open>System information and display statistics\<close>

text \<open>
  Both ask for an object and reject when the board has none: \<open>payload.success && payload.data\<close>.
\<close>

(* src: store/frameInfo/frameInfo.Slice.tsx 61-77: the payload creator of fetchFrameInfos *)
definition fetchFrameInfos_creator :: "jsval creator_result thunk" where
  "fetchFrameInfos_creator =
     tryP
       (fetchP (get_req getSystemInfoUrl) (\<lambda>response.
        jsonP response (\<lambda>payload.
        getP payload ''success'' (\<lambda>success.
        andP (truthy success) payload ''data''
          (getP payload ''data'' (\<lambda>d. Return (Value d)))
          (alertP (JStr ''Systeminfos konnten nicht geladen werden'') Error (
           rejectP (JStr ''Failed to fetch frame infos'')))))))
       (\<lambda>error.
        alertP (JStr ''Systeminfos konnten nicht geladen werden'') Error (
        rejectP (unknown_error error)))"

(* src: store/frameInfo/frameInfo.Slice.tsx 59-78: fetchFrameInfos *)
definition fetchFrameInfos :: "jsval cat \<Rightarrow> unit thunk" where
  "fetchFrameInfos cat = cat (FrameInfoA FetchFrameInfosPending) (FrameInfoA \<circ> FetchFrameInfosFulfilled)
     (\<lambda>p m. FrameInfoA (FetchFrameInfosRejected p m)) fetchFrameInfos_creator"

(* src: store/frameInfo/frameInfo.Slice.tsx 101-101: selectFrameInfoState *)
definition selectFrameInfoState :: "root_state \<Rightarrow> frame_info_state" where
  "selectFrameInfoState state = rs_frameInfo state"

(* src: store/displayStats/displayStats.Slice.tsx 46-62: the payload creator of fetchDisplayStats *)
definition fetchDisplayStats_creator :: "jsval creator_result thunk" where
  "fetchDisplayStats_creator =
     tryP
       (fetchP (get_req getDisplayStatsUrl) (\<lambda>response.
        jsonP response (\<lambda>payload.
        getP payload ''success'' (\<lambda>success.
        andP (truthy success) payload ''data''
          (getP payload ''data'' (\<lambda>d. Return (Value d)))
          (alertP (JStr ''Display-Statistik konnte nicht geladen werden'') Error (
           rejectP (JStr ''Failed to fetch display stats'')))))))
       (\<lambda>error.
        alertP (JStr ''Display-Statistik konnte nicht geladen werden'') Error (
        rejectP (unknown_error error)))"

(* src: store/displayStats/displayStats.Slice.tsx 44-63: fetchDisplayStats *)
definition fetchDisplayStats :: "jsval cat \<Rightarrow> unit thunk" where
  "fetchDisplayStats cat = cat (DisplayStatsA FetchDisplayStatsPending) (DisplayStatsA \<circ> FetchDisplayStatsFulfilled)
     (\<lambda>p m. DisplayStatsA (FetchDisplayStatsRejected p m)) fetchDisplayStats_creator"

(* src: store/displayStats/displayStats.Slice.tsx 83-83: selectDisplayStatsState *)
definition selectDisplayStatsState :: "root_state \<Rightarrow> display_stats_state" where
  "selectDisplayStatsState state = rs_displayStats state"

section \<open>Logs\<close>

(* src: store/frameLogs/frameLogs.Slice.tsx 42-47: the cache test of fetchFrameLogs *)
definition logs_cached :: "logs_state \<Rightarrow> int \<Rightarrow> string \<Rightarrow> logs_data option" where
  "logs_cached st currentTime paramsString =
     (case (lg_logsData st, lg_lastFetchTimestamp st) of
        (Some d, Some t) \<Rightarrow>
          if t \<noteq> 0 \<and> lg_cachedParams st = Some paramsString \<and> currentTime - t < CACHE_DURATION
          then Some d else None
      | _ \<Rightarrow> None)"

(* src: store/frameLogs/frameLogs.Slice.tsx 51-61: the query of fetchFrameLogs *)
definition logs_url :: "logs_request_params \<Rightarrow> string" where
  "logs_url params =
     getFrameLogsUrl @ ''?'' @ query_string
       ([(''service_name'', service_type_str (lp_service_name params))] @
        (case lp_since_timestamp params of
           Some t \<Rightarrow> if t \<noteq> [] then [(''since_timestamp'', t)] else [] | None \<Rightarrow> []) @
        (case lp_lines params of
           Some n \<Rightarrow> if n \<noteq> 0 then [(''lines'', nat_str n)] else [] | None \<Rightarrow> []))"

(* src: store/frameLogs/frameLogs.Slice.tsx 78-86: the result of fetchFrameLogs *)
definition logs_result :: "int \<Rightarrow> jsval \<Rightarrow> thrown + logs_data" where
  "logs_result currentTime payload_data =
     (case js_coalesce (js_opt_get payload_data ''logs'') (JStr []) of
        JStr s \<Rightarrow>
          (let logLines = filter (\<lambda>l. l \<noteq> []) (split_on (CHR 0x0A) s)
           in Inr \<lparr>ld_service = js_coalesce (js_opt_get payload_data ''service_name'') (JStr []),
                ld_period = [], ld_timestamp = iso_string currentTime,
                ld_log_count = length logLines, ld_logs = logLines, ld_lastFetched = Some currentTime\<rparr>)
      | _ \<Rightarrow> Inl (not_a_function ''(intermediate value).split''))"

(* src: store/frameLogs/frameLogs.Slice.tsx 29-106: the payload creator of fetchFrameLogs *)
definition fetchFrameLogs_creator :: "logs_request_params \<Rightarrow> logs_data creator_result thunk" where
  "fetchFrameLogs_creator params =
     Uuid (\<lambda>loadingBarId.
     finallyP
       (tryP
         (loadingP loadingBarId ''Protokolle werden geladen'' (
          GetState (\<lambda>state. DateNow (\<lambda>currentTime.
          case logs_cached (rs_frameLogs state) currentTime (stringify_params params) of
            Some d \<Rightarrow> Return (Value d)
          | None \<Rightarrow>
              fetchP ((get_req (logs_url params))\<lparr>rq_headers := [content_json, no_cache]\<rparr>) (\<lambda>response.
              jsonP response (\<lambda>payload.
              getP payload ''success'' (\<lambda>success.
              if truthy success then
                getP payload ''data'' (\<lambda>d.
                case logs_result currentTime d of
                  Inl e \<Rightarrow> Throw e
                | Inr v \<Rightarrow> Return (Value v))
              else
                alertP (JStr ''Protokolle konnten nicht geladen werden'') Error (
                getP payload ''message'' (\<lambda>message.
                rejectP (js_or message (JStr ''Failed to fetch logs''))))))))))
         )
         (\<lambda>error.
          alertP (JStr ''Protokolle konnten nicht geladen werden'') Error (
          rejectP (unknown_error error))))
       (unloadP loadingBarId (Return ())))"

(* src: store/frameLogs/frameLogs.Slice.tsx 27-107: fetchFrameLogs *)
definition fetchFrameLogs :: "logs_data cat \<Rightarrow> logs_request_params \<Rightarrow> unit thunk" where
  "fetchFrameLogs cat params =
     cat (FrameLogsA (FetchFrameLogsPending params)) (FrameLogsA \<circ> FetchFrameLogsFulfilled params)
       (\<lambda>p m. FrameLogsA (FetchFrameLogsRejected params p m)) (fetchFrameLogs_creator params)"

(* src: store/frameLogs/frameLogs.Slice.tsx 141-141: selectLogsState *)
definition selectLogsState :: "root_state \<Rightarrow> logs_state" where
  "selectLogsState state = rs_frameLogs state"

(* src: store/frameLogs/frameLogs.Slice.tsx 142-142: selectLogsData *)
definition selectLogsData :: "root_state \<Rightarrow> logs_data option" where
  "selectLogsData state = lg_logsData (rs_frameLogs state)"

(* src: store/frameLogs/frameLogs.Slice.tsx 143-143: selectLogsLoading *)
definition selectLogsLoading :: "root_state \<Rightarrow> bool" where
  "selectLogsLoading state = lg_loading (rs_frameLogs state)"

(* src: store/frameLogs/frameLogs.Slice.tsx 144-144: selectLogsError *)
definition selectLogsError :: "root_state \<Rightarrow> jsval" where
  "selectLogsError state = lg_error (rs_frameLogs state)"

section \<open>Releases and updates\<close>

(* src: store/updates/updates.Slice.tsx 58-74: the payload creator of fetchLatestRelease *)
definition fetchLatestRelease_creator :: "jsval creator_result thunk" where
  "fetchLatestRelease_creator =
     tryP
       (fetchP (get_req getLatestReleaseUrl) (\<lambda>response.
        jsonP response (\<lambda>payload.
        getP payload ''success'' (\<lambda>success.
        if truthy success then getP payload ''data'' (\<lambda>d. Return (Value d))
        else
          alertP (JStr ''Updates konnten nicht gesucht werden'') Error (
          rejectP (JStr ''Failed to fetch latest release''))))))
       (\<lambda>error.
        alertP (JStr ''Updates konnten nicht gesucht werden'') Error (
        rejectP (unknown_error error)))"

(* src: store/updates/updates.Slice.tsx 56-75: fetchLatestRelease *)
definition fetchLatestRelease :: "jsval cat \<Rightarrow> unit thunk" where
  "fetchLatestRelease cat =
     cat (UpdatesA FetchLatestReleasePending) (UpdatesA \<circ> FetchLatestReleaseFulfilled)
       (\<lambda>p m. UpdatesA (FetchLatestReleaseRejected p m)) fetchLatestRelease_creator"

text \<open>\<open>navigate\<close> is the router's function, given to the thunk as its argument: a browser call.\<close>

(* src: store/updates/updates.Slice.tsx 79-102: the payload creator of performUpdate *)
definition performUpdate_creator :: "unit creator_result thunk" where
  "performUpdate_creator =
     Uuid (\<lambda>snackbarId.
     finallyP
       (tryP
         (loadingP snackbarId ''Update wird gestartet'' (
          fetchP (post_req getPerformUpdateUrl) (\<lambda>response.
          jsonP response (\<lambda>payload.
          getP payload ''success'' (\<lambda>success.
          if truthy success then
            alertP (JStr ''Update gestartet'') Success (
            Browser (NavigateTo getHomeUrl) (
            Dispatch (LoadingWallA (showLoadingWall (''Das Update wird installiert. Die Einstellungen sind solange '' @
              ''nicht erreichbar und der Bilderrahmen startet danach neu. Lade diese Seite in ein paar Minuten neu.''))) (
            Return (Value ()))))
          else
            alertP (JStr ''Update konnte nicht gestartet werden'') Error (
            rejectP (JStr ''Failed start update process'')))))))
         (\<lambda>error.
          alertP (JStr ''Update konnte nicht gestartet werden'') Error (
          rejectP (unknown_error error))))
       (unloadP snackbarId (Return ())))"

(* src: store/updates/updates.Slice.tsx 77-103: performUpdate *)
definition performUpdate :: "unit cat \<Rightarrow> unit thunk" where
  "performUpdate cat = cat (UpdatesA PerformUpdatePending) (UpdatesA \<circ> PerformUpdateFulfilled)
     (\<lambda>p m. UpdatesA (PerformUpdateRejected p m)) performUpdate_creator"

(* src: store/updates/updates.Slice.tsx 107-118: the payload creator of fetchUpdateStatus *)
definition fetchUpdateStatus_creator :: "jsval creator_result thunk" where
  "fetchUpdateStatus_creator =
     tryP
       (fetchP (get_req getUpdateStatusUrl) (\<lambda>response.
        jsonP response (\<lambda>payload.
        getP payload ''success'' (\<lambda>success.
        andP (truthy success) payload ''data''
          (getP payload ''data'' (\<lambda>d. Return (Value d)))
          (rejectP (JStr ''Failed to fetch update status''))))))
       (\<lambda>error. rejectP (unknown_error error))"

(* src: store/updates/updates.Slice.tsx 105-119: fetchUpdateStatus *)
definition fetchUpdateStatus :: "jsval cat \<Rightarrow> unit thunk" where
  "fetchUpdateStatus cat = cat (UpdatesA FetchUpdateStatusPending) (UpdatesA \<circ> FetchUpdateStatusFulfilled)
     (\<lambda>p m. UpdatesA (FetchUpdateStatusRejected p m)) fetchUpdateStatus_creator"

(* src: store/updates/updates.Slice.tsx 123-136: the payload creator of fetchUpdateHistory *)
definition fetchUpdateHistory_creator :: "jsval creator_result thunk" where
  "fetchUpdateHistory_creator =
     tryP
       (fetchP (get_req getUpdateHistoryUrl) (\<lambda>response.
        jsonP response (\<lambda>payload.
        getP payload ''success'' (\<lambda>success.
        andP (truthy success) payload ''data''
          (getP payload ''data'' (\<lambda>d. getP d ''history'' (\<lambda>h. Return (Value h))))
          (alertP (JStr ''Update-Verlauf konnte nicht geladen werden'') Error (
           rejectP (JStr ''Failed to fetch update history'')))))))
       (\<lambda>error.
        alertP (JStr ''Update-Verlauf konnte nicht geladen werden'') Error (
        rejectP (unknown_error error)))"

(* src: store/updates/updates.Slice.tsx 121-137: fetchUpdateHistory *)
definition fetchUpdateHistory :: "jsval cat \<Rightarrow> unit thunk" where
  "fetchUpdateHistory cat = cat (UpdatesA FetchUpdateHistoryPending) (UpdatesA \<circ> FetchUpdateHistoryFulfilled)
     (\<lambda>p m. UpdatesA (FetchUpdateHistoryRejected p m)) fetchUpdateHistory_creator"

(* src: store/updates/updates.Slice.tsx 170-170: selectUpdatesState *)
definition selectUpdatesState :: "root_state \<Rightarrow> updates_state" where
  "selectUpdatesState state = rs_updates state"

section \<open>Services\<close>

(* src: store/services/services.Slice.tsx 26-39: the payload creator of fetchServices *)
definition fetchServices_creator :: "jsval creator_result thunk" where
  "fetchServices_creator =
     tryP
       (fetchP ((get_req getServicesUrl)\<lparr>rq_headers := [content_json, no_cache]\<rparr>) (\<lambda>response.
        jsonP response (\<lambda>payload.
        getP payload ''success'' (\<lambda>success.
        if truthy success then
          getP payload ''data'' (\<lambda>d. Return (Value (js_coalesce (js_opt_get d ''services'') (JArr []))))
        else getP payload ''message'' (\<lambda>message.
          rejectP (js_or message (JStr ''Failed to fetch services'')))))))
       (\<lambda>error. rejectP (unknown_error error))"

(* src: store/services/services.Slice.tsx 24-40: fetchServices *)
definition fetchServices :: "jsval cat \<Rightarrow> unit thunk" where
  "fetchServices cat = cat (ServicesA FetchServicesPending) (ServicesA \<circ> FetchServicesFulfilled)
     (\<lambda>p m. ServicesA (FetchServicesRejected p m)) fetchServices_creator"

(* src: store/services/services.Slice.tsx 44-66: the payload creator of restartService *)
definition restartService_creator :: "string \<Rightarrow> string creator_result thunk" where
  "restartService_creator i =
     Uuid (\<lambda>loadingId.
     finallyP
       (tryP
         (loadingP loadingId ''Neustart wird angefordert'' (
          fetchP (post_json getServiceRestartUrl (JObj [(''service'', JStr i)])) (\<lambda>response.
          jsonP response (\<lambda>payload.
          getP payload ''success'' (\<lambda>success.
          if truthy success then
            alertP (JStr ''Dienst wird neu gestartet'') Success (
            Return (Value i))
          else
            boardAlertP ''Dienst konnte nicht neu gestartet werden'' response payload (
            getP payload ''message'' (\<lambda>message.
            rejectP (js_or message (JStr ''restart failed'')))))))))
         (\<lambda>error.
          alertP (JStr ''Dienst konnte nicht neu gestartet werden'') Error (
          rejectP (unknown_error error))))
       (unloadP loadingId (Return ())))"

(* src: store/services/services.Slice.tsx 42-67: restartService *)
definition restartService :: "string cat \<Rightarrow> string \<Rightarrow> unit thunk" where
  "restartService cat i = cat (ServicesA (RestartServicePending i)) (ServicesA \<circ> RestartServiceFulfilled)
     (\<lambda>p m. ServicesA (RestartServiceRejected p m)) (restartService_creator i)"

(* src: store/services/services.Slice.tsx 84-84: selectServices *)
definition selectServices :: "root_state \<Rightarrow> jsval" where
  "selectServices state = sv_services (rs_services state)"

(* src: store/services/services.Slice.tsx 85-85: selectServicesLoading *)
definition selectServicesLoading :: "root_state \<Rightarrow> bool" where
  "selectServicesLoading state = sv_loading (rs_services state)"

(* src: store/services/services.Slice.tsx 86-86: selectServiceRestarting *)
definition selectServiceRestarting :: "root_state \<Rightarrow> string option" where
  "selectServiceRestarting state = sv_restarting (rs_services state)"

section \<open>Customisation\<close>

(* src: store/displayCustomization/displayCustomization.Slice.tsx 27-39: the payload creator of fetchDisplayCustomization *)
definition fetchDisplayCustomization_creator :: "jsval creator_result thunk" where
  "fetchDisplayCustomization_creator =
     tryP
       (fetchP (get_req getDisplayCustomizationUrl) (\<lambda>response.
        jsonP response (\<lambda>payload.
        getP payload ''success'' (\<lambda>success.
        andP (truthy success) payload ''data''
          (getP payload ''data'' (\<lambda>d. Return (Value d)))
          (getP payload ''message'' (\<lambda>message.
           Throw (ErrorObj (js_string (js_or message (JStr ''Failed to fetch customization'')))))))))
       )
       (\<lambda>error.
        alertP (JStr ''Anpassungen konnten nicht geladen werden'') Error (
        rejectP (unknown_error error)))"

(* src: store/displayCustomization/displayCustomization.Slice.tsx 25-40: fetchDisplayCustomization *)
definition fetchDisplayCustomization :: "jsval cat \<Rightarrow> unit thunk" where
  "fetchDisplayCustomization cat =
     cat (CustomizationA FetchCustomizationPending) (CustomizationA \<circ> FetchCustomizationFulfilled)
       (\<lambda>p m. CustomizationA (FetchCustomizationRejected p m)) fetchDisplayCustomization_creator"

(* src: store/displayCustomization/displayCustomization.Slice.tsx 44-71: the payload creator of updateShowSender *)
definition updateShowSender_creator :: "bool \<Rightarrow> bool creator_result thunk" where
  "updateShowSender_creator showSender =
     Uuid (\<lambda>actionId.
     loadingP actionId ''Anpassung wird gespeichert'' (
     finallyP
       (tryP
         (fetchP (post_json getDisplayCustomizationUrl (JObj [(''show_sender'', JBool showSender)])) (\<lambda>response.
          jsonP response (\<lambda>payload.
          getP payload ''success'' (\<lambda>success.
          if \<not> truthy success then
            getP payload ''message'' (\<lambda>message.
            Throw (ErrorObj (js_string (js_or message (JStr ''Failed to update customization'')))))
          else
            alertP
              (JStr (''Der Name des Absenders wird ab dem n'' @ s_ae @ ''chsten Fotowechsel '' @
                (if showSender then ''angezeigt'' else ''ausgeblendet''))) Success (
            Return (Value showSender))))))
         (\<lambda>error.
          alertP (JStr ''Anpassung konnte nicht gespeichert werden'') Error (
          rejectP (unknown_error error))))
       (unloadP actionId (Return ()))))"

(* src: store/displayCustomization/displayCustomization.Slice.tsx 42-72: updateShowSender *)
definition updateShowSender :: "bool cat \<Rightarrow> bool \<Rightarrow> unit thunk" where
  "updateShowSender cat showSender =
     cat (CustomizationA UpdateShowSenderPending) (CustomizationA \<circ> UpdateShowSenderFulfilled)
       (\<lambda>p m. CustomizationA (UpdateShowSenderRejected p m)) (updateShowSender_creator showSender)"

(* src: store/displayCustomization/displayCustomization.Slice.tsx 102-102: selectDisplayCustomization *)
definition selectDisplayCustomization :: "root_state \<Rightarrow> display_customization_state" where
  "selectDisplayCustomization state = rs_displayCustomization state"

lemmas board_data_thunk_defs [thunk_defs] =
  fetchFrameInfos_def fetchDisplayStats_def fetchFrameLogs_def fetchLatestRelease_def
  performUpdate_def fetchUpdateStatus_def fetchUpdateHistory_def fetchServices_def
  restartService_def fetchDisplayCustomization_def updateShowSender_def

lemmas board_data_creator_defs [prog_simps] =
  fetchFrameInfos_creator_def fetchDisplayStats_creator_def fetchFrameLogs_creator_def
  fetchLatestRelease_creator_def performUpdate_creator_def fetchUpdateStatus_creator_def
  fetchUpdateHistory_creator_def fetchServices_creator_def restartService_creator_def
  fetchDisplayCustomization_creator_def updateShowSender_creator_def

section \<open>What they give back\<close>

lemma board_reads_tracked:
  "tracked notice_step fetchFrameInfos_creator {}"
  "tracked notice_step fetchDisplayStats_creator {}"
  "tracked notice_step fetchLatestRelease_creator {}"
  "tracked notice_step fetchUpdateStatus_creator {}"
  "tracked notice_step fetchUpdateHistory_creator {}"
  "tracked notice_step fetchServices_creator {}"
  "tracked notice_step fetchDisplayCustomization_creator {}"
  by (auto simp: prog_simps reducer_simps split: sum.splits)

lemma fetchFrameLogs_tracked: "tracked notice_step (fetchFrameLogs_creator params) {}"
  by (auto simp: fetchFrameLogs_creator_def reducer_simps split: sum.splits option.splits)

lemma performUpdate_tracked: "tracked notice_step performUpdate_creator {}"
  by (auto simp: performUpdate_creator_def reducer_simps split: sum.splits)

lemma restartService_tracked: "tracked notice_step (restartService_creator i) {}"
  by (auto simp: restartService_creator_def boardAlertP_def reducer_simps split: sum.splits)

lemma updateShowSender_tracked: "tracked notice_step (updateShowSender_creator b) {}"
  by (auto simp: updateShowSender_creator_def reducer_simps split: sum.splits)

section \<open>The cache of the logs\<close>

definition logs_cache :: "root_state \<Rightarrow> logs_request_params \<Rightarrow> logs_data \<Rightarrow> int \<Rightarrow> bool" where
  "logs_cache s params d t \<longleftrightarrow>
     lg_logsData (rs_frameLogs s) = Some d \<and> lg_lastFetchTimestamp (rs_frameLogs s) = Some t \<and> t \<noteq> 0 \<and>
     lg_cachedParams (rs_frameLogs s) = Some (stringify_params params)"

text \<open>The time \<open>n\<close> effects after \<open>c\<close>.\<close>

definition time_after :: "world \<Rightarrow> root_cfg \<Rightarrow> nat \<Rightarrow> int" where
  "time_after w c n = cf_time c + (\<Sum>i<n. w_lag w (cf_steps c + i))"

lemma run_logs_cached:
  assumes "rtk_lifecycle cat" and "logs_cache (cf_store c) params d t"
    and "time_after w c 3 - t < CACHE_DURATION"
  shows "\<exists>c'. runR w (fetchFrameLogs cat params) c = (Returned (), c') \<and>
    requests_of (cf_trace c') = requests_of (cf_trace c) \<and>
    cf_time c' = time_after w c 6 \<and>
    lg_logsData (rs_frameLogs (cf_store c')) = Some d \<and>
    lg_lastFetchTimestamp (rs_frameLogs (cf_store c')) = Some (time_after w c 5) \<and>
    lg_cachedParams (rs_frameLogs (cf_store c')) = Some (stringify_params params)"
  using assms(2,3)
  by (simp add: fetchFrameLogs_def fetchFrameLogs_creator_def logs_cached_def logs_cache_def
      time_after_def rtk_lifecycle_run [OF assms(1)] settled_action_def eval_nat_numeral add.assoc)

text \<open>Asking again and again, with a pause in between.\<close>

primrec repeat_logs :: "logs_data cat \<Rightarrow> logs_request_params \<Rightarrow> int \<Rightarrow> nat \<Rightarrow> unit thunk" where
  "repeat_logs cat params pause 0 = Return ()"
| "repeat_logs cat params pause (Suc n) =
     Sleep pause (bindP (fetchFrameLogs cat params) (\<lambda>_. repeat_logs cat params pause n))"

lemma run_repeat_logs:
  assumes "rtk_lifecycle cat" and "w_lag w = (\<lambda>_. 0)" and "0 \<le> pause" and "pause < CACHE_DURATION"
  shows "logs_cache (cf_store c) params d t \<Longrightarrow> 0 < t \<Longrightarrow> t \<le> cf_time c \<Longrightarrow>
    cf_time c + pause - t < CACHE_DURATION \<Longrightarrow>
    \<exists>c'. runR w (repeat_logs cat params pause n) c = (Returned (), c') \<and>
      requests_of (cf_trace c') = requests_of (cf_trace c) \<and>
      lg_logsData (rs_frameLogs (cf_store c')) = Some d"
proof (induction n arbitrary: c t)
  case 0
  then show ?case by (simp add: logs_cache_def)
next
  case (Suc n)
  let ?c = "tick w (c\<lparr>cf_time := cf_time c + pause\<rparr>)"
  have time: "time_after w c' k = cf_time c'" for c' k by (simp add: time_after_def assms(2))
  have "logs_cache (cf_store ?c) params d t" and "time_after w ?c 3 - t < CACHE_DURATION"
    using Suc.prems assms(2) by (simp_all add: time)
  from run_logs_cached [OF assms(1) this] obtain c' where c':
    "runR w (fetchFrameLogs cat params) ?c = (Returned (), c')"
    "requests_of (cf_trace c') = requests_of (cf_trace ?c)" "cf_time c' = cf_time ?c"
    "lg_logsData (rs_frameLogs (cf_store c')) = Some d"
    "lg_lastFetchTimestamp (rs_frameLogs (cf_store c')) = Some (cf_time ?c)"
    "lg_cachedParams (rs_frameLogs (cf_store c')) = Some (stringify_params params)"
    by (auto simp: time)
  have later: "t \<le> cf_time ?c" using Suc.prems(3) assms(2,3) by simp
  with Suc.prems(2) c' have "logs_cache (cf_store c') params d (cf_time c')"
    by (simp add: logs_cache_def)
  from Suc.IH [OF this] later Suc.prems(2) c'(3) assms(4) obtain c'' where
    "runR w (repeat_logs cat params pause n) c' = (Returned (), c'')"
    "requests_of (cf_trace c'') = requests_of (cf_trace c')" "lg_logsData (rs_frameLogs (cf_store c'')) = Some d"
    by auto
  with c'(1,2) show ?case by (simp add: run_bindP)
qed

definition some_logs :: logs_data where
  "some_logs = \<lparr>ld_service = JStr ''display'', ld_period = [], ld_timestamp = [], ld_log_count = 1,
     ld_logs = [''x''], ld_lastFetched = Some 1000\<rparr>"

definition display_params :: logs_request_params where
  "display_params = \<lparr>lp_service_name = DISPLAY, lp_since_timestamp = None, lp_lines = Some 100, lp_follow = None\<rparr>"

definition cached_cfg :: root_cfg where
  "cached_cfg = fresh_cfg\<lparr>cf_store := (root_initial 0)\<lparr>rs_frameLogs :=
     frameLogs_initial\<lparr>lg_logsData := Some some_logs, lg_lastFetchTimestamp := Some 1000,
       lg_cachedParams := Some (stringify_params display_params)\<rparr>\<rparr>\<rparr>"

lemma cached_cfg_cache: "logs_cache (cf_store cached_cfg) display_params some_logs 1000"
  by (simp add: logs_cache_def cached_cfg_def)

section \<open>Properties\<close>

text \<open>Logs that were fetched with the same parameters less than thirty seconds ago are shown
  again without a request, and the time of the fetch is moved to now.\<close>

lemma logs_cache_hit:
  assumes "rtk_lifecycle cat" and "logs_cache (cf_store c) params d t"
    and "time_after w c 3 - t < CACHE_DURATION"
  shows "\<exists>c'. runR w (fetchFrameLogs cat params) c = (Returned (), c') \<and>
    requests_of (cf_trace c') = requests_of (cf_trace c) \<and>
    lg_logsData (rs_frameLogs (cf_store c')) = Some d \<and>
    lg_lastFetchTimestamp (rs_frameLogs (cf_store c')) = Some (time_after w c 5)"
  using run_logs_cached [OF assms] by blast

lemma logs_cache_hit_witness:
  "\<exists>c'. runR silent_world (fetchFrameLogs standard_async_thunk display_params) cached_cfg = (Returned (), c') \<and>
    requests_of (cf_trace c') = [] \<and> lg_logsData (rs_frameLogs (cf_store c')) = Some some_logs"
proof -
  have "time_after silent_world cached_cfg 3 - 1000 < CACHE_DURATION"
    by (simp add: time_after_def silent_world_def cached_cfg_def fresh_cfg_def CACHE_DURATION_def)
  from logs_cache_hit [OF rtk_lifecycle_standard cached_cfg_cache this]
  show ?thesis by (auto simp: cached_cfg_def fresh_cfg_def)
qed



end
