(* ===== verification/SlideshowThunks.thy ===== *)
theory SlideshowThunks
  imports BoardDataThunks
begin

text \<open>
  The thunks that read the slideshow: its images and their order
  (store/slideshowImages/slideshowImages.Slice.tsx) and its status
  (store/slideshowStatus/slideshowStatus.Slice.tsx), polled every five seconds.
\<close>

section \<open>Images\<close>

(* src: store/slideshowImages/slideshowImages.Slice.tsx 67-76: the image of fetchSlideshowImages *)
definition image_of :: "jsval \<Rightarrow> thrown + slideshow_image" where
  "image_of img =
     (if nullish img then Inl (type_error img ''id'')
      else Inr \<lparr>im_id = own_prop img ''id'', im_sender = own_prop img ''sender'',
        im_receivedAt = (if js_gt (own_prop img ''received_at'') 0 then own_prop img ''received_at'' else JNull),
        im_expiresAt = own_prop img ''expires_at'', im_width = own_prop img ''width'',
        im_height = own_prop img ''height'', im_sizeBytes = own_prop img ''size_bytes'',
        im_position = own_prop img ''position''\<rparr>)"

(* src: store/slideshowImages/slideshowImages.Slice.tsx 64-77: the result of fetchSlideshowImages *)
definition images_of :: "jsval \<Rightarrow> thrown + images_payload" where
  "images_of d =
     (case own_prop d ''images'' of
        JArr xs \<Rightarrow>
          (case map_throwing image_of xs of
             Inl e \<Rightarrow> Inl e
           | Inr images \<Rightarrow> Inr
               \<lparr>ip_mode = own_prop d ''mode'',
                ip_currentImageId = (if js_gt (own_prop d ''current_image_id'') 0
                                     then own_prop d ''current_image_id'' else JNull),
                ip_images = images\<rparr>)
      | v \<Rightarrow> Inl (if nullish v then type_error v ''map'' else not_a_function ''payload.data.images.map''))"

(* src: store/slideshowImages/slideshowImages.Slice.tsx 57-81: the payload creator of fetchSlideshowImages *)
definition fetchSlideshowImages_creator :: "images_payload creator_result thunk" where
  "fetchSlideshowImages_creator =
     tryP
       (fetchP (get_req getSlideshowImagesUrl) (\<lambda>response.
        jsonP response (\<lambda>payload.
        getP payload ''success'' (\<lambda>success.
        andP (truthy success) payload ''data''
          (getP payload ''data'' (\<lambda>d.
           case images_of d of Inl e \<Rightarrow> Throw e | Inr v \<Rightarrow> Return (Value v)))
          (getP payload ''message'' (\<lambda>message.
           rejectP (js_or message (JStr ''Fotos konnten nicht geladen werden''))))))))
       (\<lambda>error. rejectP (unknown_error error))"

(* src: store/slideshowImages/slideshowImages.Slice.tsx 55-82: fetchSlideshowImages *)
definition fetchSlideshowImages :: "images_payload cat \<Rightarrow> unit thunk" where
  "fetchSlideshowImages cat = cat (ImagesA FetchImagesPending) (ImagesA \<circ> FetchImagesFulfilled)
     (\<lambda>p m. ImagesA (FetchImagesRejected p m)) fetchSlideshowImages_creator"

definition order_body :: "PlaybackMode \<Rightarrow> jsval list option \<Rightarrow> jsval" where
  "order_body mode customOrder =
     JObj ((''mode'', JStr (playback_mode_str mode)) #
       (case customOrder of
          None \<Rightarrow> []
        | Some ids \<Rightarrow> [(''custom_order'', JArr ids)]))"

(* src: store/slideshowImages/slideshowImages.Slice.tsx 86-109: the payload creator of updatePlaybackOrder *)
definition updatePlaybackOrder_creator :: "PlaybackMode \<Rightarrow> jsval list option \<Rightarrow> PlaybackMode creator_result thunk" where
  "updatePlaybackOrder_creator mode customOrder =
     Uuid (\<lambda>loadingId.
     finallyP
       (tryP
         (loadingP loadingId ''Reihenfolge wird gespeichert'' (
          fetchP (post_json getSlideshowOrderUrl (order_body mode customOrder)) (\<lambda>response.
          jsonP response (\<lambda>payload.
          getP payload ''success'' (\<lambda>success.
          if truthy success then
            alertP (JStr (MODE_LABELS mode @ '' ab dem n'' @ s_ae @ ''chsten Foto'')) Success (
            Spawn CallFetchSlideshowImages (
            Return (Value mode)))
          else
            boardAlertP ''Reihenfolge konnte nicht gespeichert werden'' response payload (
            getP payload ''message'' (\<lambda>message.
            rejectP (js_or message (JStr ''update failed'')))))))))
         (\<lambda>error.
          alertP (JStr ''Reihenfolge konnte nicht gespeichert werden'') Error (
          rejectP (unknown_error error))))
       (unloadP loadingId (Return ())))"

(* src: store/slideshowImages/slideshowImages.Slice.tsx 84-110: updatePlaybackOrder *)
definition updatePlaybackOrder :: "PlaybackMode cat \<Rightarrow> PlaybackMode \<Rightarrow> jsval list option \<Rightarrow> unit thunk" where
  "updatePlaybackOrder cat mode customOrder =
     cat (ImagesA UpdateOrderPending) (ImagesA \<circ> UpdateOrderFulfilled)
       (\<lambda>p m. ImagesA (UpdateOrderRejected p m)) (updatePlaybackOrder_creator mode customOrder)"

(* src: store/slideshowImages/slideshowImages.Slice.tsx 140-140: selectSlideshowImages *)
definition selectSlideshowImages :: "root_state \<Rightarrow> slideshow_images_state" where
  "selectSlideshowImages state = rs_slideshowImages state"

section \<open>Status\<close>

text \<open>\<open>typeof v === 'number' && v >= 0 ? v : null\<close>\<close>

definition nonneg_or_null :: "jsval \<Rightarrow> jsval" where
  "nonneg_or_null v = (if is_number v \<and> js_ge v 0 then v else JNull)"

(* src: store/slideshowStatus/slideshowStatus.Slice.tsx 46-61: the result of checkSlideshowStatusThunk *)
definition status_of :: "jsval \<Rightarrow> thrown + status_payload" where
  "status_of d =
     (if nullish d then Inl (type_error d ''seconds_until_next'')
      else
        (let raw = own_prop d ''seconds_until_next'';
             rawCount = own_prop d ''image_count'';
             shown = own_prop d ''now_showing''
         in Inr
           \<lparr>sp_nowShowing =
              (if truthy shown then Some
                 \<lparr>ns_seq = own_prop shown ''seq'', ns_state = own_prop shown ''state'',
                  ns_imageId = (if js_gt (own_prop shown ''image_id'') 0 then own_prop shown ''image_id'' else JNull),
                  ns_sender = (if truthy (own_prop shown ''sender'') then own_prop shown ''sender'' else JNull)\<rparr>
               else None),
            sp_active = own_prop d ''active'',
            sp_loopStarted = js_coalesce (own_prop d ''loop_started'') (JBool False),
            sp_isRefreshing = (own_prop d ''refreshing'' = JBool True),
            sp_imageCount = nonneg_or_null rawCount,
            sp_secondsUntilNext = nonneg_or_null raw\<rparr>))"

(* src: store/slideshowStatus/slideshowStatus.Slice.tsx 37-67: the payload creator of checkSlideshowStatusThunk *)
definition checkSlideshowStatus_creator :: "status_payload creator_result thunk" where
  "checkSlideshowStatus_creator =
     tryP
       (fetchP (get_req getSlideshowStatusUrl) (\<lambda>response.
        jsonP response (\<lambda>payload.
        getP payload ''success'' (\<lambda>success.
        if \<not> truthy success then rejectP (JStr ''Failed to fetch slideshow status'')
        else
          getP payload ''data'' (\<lambda>d.
          case status_of d of Inl e \<Rightarrow> Throw e | Inr v \<Rightarrow> Return (Value v))))))
       (\<lambda>error. rejectP (JStr (error_message_or ''Unknown error occurred'' error)))"

(* src: store/slideshowStatus/slideshowStatus.Slice.tsx 35-68: checkSlideshowStatusThunk *)
definition checkSlideshowStatusThunk :: "status_payload cat \<Rightarrow> unit thunk" where
  "checkSlideshowStatusThunk cat =
     cat (StatusA CheckSlideshowPending) (StatusA \<circ> CheckSlideshowFulfilled)
       (\<lambda>p m. StatusA (CheckSlideshowRejected p m)) checkSlideshowStatus_creator"

text \<open>
  The interval: one check at once and one every five seconds until the returned function is
  called. The moments at which a check is started, up to \<open>stop\<close> (exclusive).
\<close>

definition status_interval :: int where
  "status_interval = 5000"

(* src: store/slideshowStatus/slideshowStatus.Slice.tsx 71-88: startContinuousStatusCheck *)
definition startContinuousStatusCheck :: "int \<Rightarrow> int \<Rightarrow> int list" where
  "startContinuousStatusCheck start stop =
     start # map (\<lambda>n. start + int (Suc n) * status_interval)
       [0..<nat ((stop - start - 1) div status_interval)]"

(* src: store/slideshowStatus/slideshowStatus.Slice.tsx 136-136: selectSlideshowStatus *)
definition selectSlideshowStatus :: "root_state \<Rightarrow> slideshow_status_state" where
  "selectSlideshowStatus state = rs_slideshowStatus state"

lemmas slideshow_thunk_defs [thunk_defs] =
  fetchSlideshowImages_def updatePlaybackOrder_def checkSlideshowStatusThunk_def

lemmas slideshow_creator_defs [prog_simps] =
  fetchSlideshowImages_creator_def updatePlaybackOrder_creator_def checkSlideshowStatus_creator_def

section \<open>What they give back, and what a status holds\<close>

lemma slideshow_reads_tracked:
  "tracked notice_step fetchSlideshowImages_creator {}"
  "tracked notice_step checkSlideshowStatus_creator {}"
  by (auto simp: prog_simps reducer_simps split: sum.splits)

lemma updatePlaybackOrder_tracked: "tracked notice_step (updatePlaybackOrder_creator mode ids) {}"
  by (auto simp: updatePlaybackOrder_creator_def boardAlertP_def reducer_simps split: sum.splits)

lemma nonneg_or_null_cases: "nonneg_or_null v = JNull \<or> (\<exists>x \<ge> 0. v = JNum x \<and> nonneg_or_null v = JNum x)"
  by (cases v) (auto simp: nonneg_or_null_def js_simps)

lemma image_of_receivedAt:
  "image_of img = Inr im \<Longrightarrow> im_receivedAt im = JNull \<or> js_gt (im_receivedAt im) 0"
  by (auto simp: image_of_def split: if_splits)

lemma map_throwing_Inr:
  "map_throwing f xs = Inr ys \<Longrightarrow> list_all2 (\<lambda>x y. f x = Inr y) xs ys"
  by (induction xs arbitrary: ys) (auto split: sum.splits)

text \<open>A fetch keeps every image, in the board's order, or none.\<close>

lemma images_of_keeps:
  assumes "images_of d = Inr v"
  obtains xs where "own_prop d ''images'' = JArr xs"
    and "list_all2 (\<lambda>x im. image_of x = Inr im) xs (ip_images v)"
  using assms by (auto simp: images_of_def dest: map_throwing_Inr split: jsval.splits sum.splits)

section \<open>Property\<close>



end
