(* ===== verification/OperationThunks.thy ===== *)
theory OperationThunks
  imports SlideshowThunks
begin

text \<open>
  The operations on the slideshow (store/slideshowOperation/slideshowOperation.Slice.tsx):
  reading and setting the interval and the night mode, skipping, showing one image, clearing
  the display, starting and stopping the slideshow. Five of them begin with the same guard
  and own a flag of the store while they run.

  The monitor of \<open>toggleSlideshowThunk\<close> polls the board until it has switched or ten
  minutes are over; its rounds are counted by the fuel. A round takes at least its sleep of
  two seconds, so \<open>monitor_rounds\<close> is fuel enough (\<open>monitor_enough\<close>).
\<close>

section \<open>What they share\<close>

(* src: store/slideshowOperation/slideshowOperation.Slice.tsx 12-12: MAX_OPERATION_WAIT_TIME *)
definition MAX_OPERATION_WAIT_TIME :: int where
  "MAX_OPERATION_WAIT_TIME = 10 * 60 * 1000"

definition actions_timer :: string where
  "actions_timer = ''slideshow-actions-timer''"

abbreviation opP :: "operation_action \<Rightarrow> 'r thunk \<Rightarrow> 'r thunk" where
  "opP a k \<equiv> Dispatch (OperationA a) k"

text \<open>\<open>dispatch(resetTimer(..)); dispatch(startTimer(..))\<close>\<close>

abbreviation restartTimerP :: "'r thunk \<Rightarrow> 'r thunk" where
  "restartTimerP k \<equiv> Dispatch (TimersA (ResetTimer actions_timer)) (Dispatch (TimersA (StartTimer actions_timer)) k)"

text \<open>\<open>error instanceof Error ? error.message : 'Unbekannter Fehler'\<close>\<close>

definition unbekannt :: "thrown \<Rightarrow> string" where
  "unbekannt e = error_message_or ''Unbekannter Fehler'' e"

section \<open>Interval\<close>

(* src: store/slideshowOperation/slideshowOperation.Slice.tsx 146-193: fetchDisplayImagesLoopInterval *)
definition fetchDisplayImagesLoopInterval :: "unit thunk" where
  "fetchDisplayImagesLoopInterval =
     GetState (\<lambda>st.
     if op_isFetchingInterval (rs_slideshowOperation st) then Return ()
     else
       tryP
         (opP (SetFetchIntervalStatus True) (
          fetchP (get_req getSlideshowStatusUrl) (\<lambda>response.
          jsonP response (\<lambda>payload.
          getP payload ''success'' (\<lambda>success.
          let failed = Throw (ErrorObj ''Failed to fetch display interval'') in
          if truthy success then
            getP payload ''data'' (\<lambda>d.
            if js_opt_get d ''interval_seconds'' \<noteq> JUndefined then
              opP (SetDisplayRefreshInterval (js_round (js_div (js_opt_get d ''interval_seconds'') 60))) (
              opP (SetFetchIntervalStatus False) (
              Return ()))
            else failed)
          else failed)))))
         (\<lambda>error.
          opP (SetFetchIntervalStatus False) (
          opP (SetError (JStr (unbekannt error))) (
          alertP (JStr ''Intervall konnte nicht geladen werden'') Error (
          Return ())))))"

(* src: store/slideshowOperation/slideshowOperation.Slice.tsx 195-273: updateDisplayImagesLoopInterval *)
definition updateDisplayImagesLoopInterval :: "rat \<Rightarrow> unit thunk" where
  "updateDisplayImagesLoopInterval intervalMins =
     GetState (\<lambda>st.
     if op_busy (rs_slideshowOperation st) then Return ()
     else
       Uuid (\<lambda>actionId.
       tryP
         (opP (SetUpdateIntervalStatus True) (
          loadingP actionId ''Intervall wird gespeichert'' (
          fetchP (post_json getSlideshowIntervalUrl (JObj [(''interval_seconds'', JNum (intervalMins * 60))])) (\<lambda>response.
          jsonP response (\<lambda>payload.
          getP payload ''success'' (\<lambda>success.
          if truthy success then
            opP (SetDisplayRefreshInterval (JNum intervalMins)) (
            alertP (JStr (''Intervall auf '' @ rat_str intervalMins @ '' Minuten gesetzt'')) Success (
            restartTimerP (
            opP (SetUpdateIntervalStatus False) (
            unloadP actionId (
            Return ())))))
          else
            getP payload ''message'' (\<lambda>message.
            Throw (ErrorObj (js_string (js_or message (JStr ''Failed to update display interval'')))))))))))
         (\<lambda>error.
          opP (SetUpdateIntervalStatus False) (
          opP (SetError (JStr (unbekannt error))) (
          alertP (JStr ''Intervall konnte nicht gespeichert werden'') Error (
          unloadP actionId (
          Return ())))))))"

section \<open>Night mode\<close>

(* src: store/slideshowOperation/slideshowOperation.Slice.tsx 307-314: the payload of setNightMode *)
definition night_mode_of :: "jsval \<Rightarrow> night_mode_payload" where
  "night_mode_of night =
     \<lparr>np_enabled = own_prop night ''enabled'', np_startHour = own_prop night ''start_hour'',
      np_endHour = own_prop night ''end_hour'',
      np_intervalMins = js_round (js_div (own_prop night ''interval_seconds'') 60),
      np_style = own_prop night ''style'', np_activeNow = own_prop night ''active_now''\<rparr>"

(* src: store/slideshowOperation/slideshowOperation.Slice.tsx 275-338: fetchNightMode *)
definition fetchNightMode :: "unit thunk" where
  "fetchNightMode =
     GetState (\<lambda>st.
     if op_isFetchingNightMode (rs_slideshowOperation st) then Return ()
     else
       tryP
         (opP (SetFetchNightModeStatus True) (
          fetchP (get_req getSlideshowStatusUrl) (\<lambda>response.
          jsonP response (\<lambda>payload.
          getP payload ''success'' (\<lambda>success.
          let failed = Throw (ErrorObj ''Failed to fetch night mode'') in
          if truthy success then
            getP payload ''data'' (\<lambda>d.
            if truthy (js_opt_get d ''night_mode'') then
              opP (SetNightMode (night_mode_of (js_opt_get d ''night_mode''))) (
              opP (SetFetchNightModeStatus False) (
              Return ()))
            else failed)
          else failed)))))
         (\<lambda>error.
          opP (SetFetchNightModeStatus False) (
          opP (SetError (JStr (unbekannt error))) (
          alertP (JStr ''Nachtmodus konnte nicht geladen werden'') Error (
          Return ())))))"

(* src: store/slideshowOperation/slideshowOperation.Slice.tsx 340-344: NIGHT_STYLE_SUFFIX *)
fun NIGHT_STYLE_SUFFIX :: "NightStyle \<Rightarrow> rat \<Rightarrow> string" where
  "NIGHT_STYLE_SUFFIX Slower intervalMins = rat_str intervalMins @ '' Minuten Intervall''"
| "NIGHT_STYLE_SUFFIX Hold intervalMins = ''festgehaltenem Foto''"
| "NIGHT_STYLE_SUFFIX Pause intervalMins = ''ausgeschaltetem Bildschirm''"

(* src: store/slideshowOperation/slideshowOperation.Slice.tsx 346-431: updateNightMode *)
definition updateNightMode :: "bool \<Rightarrow> rat \<Rightarrow> rat \<Rightarrow> rat \<Rightarrow> NightStyle \<Rightarrow> unit thunk" where
  "updateNightMode enabled startHour endHour intervalMins style =
     GetState (\<lambda>st.
     if op_isUpdatingNightMode (rs_slideshowOperation st) then Return ()
     else
       Uuid (\<lambda>actionId.
       tryP
         (opP (SetUpdateNightModeStatus True) (
          loadingP actionId ''Nachtmodus wird gespeichert'' (
          fetchP (post_json getSlideshowNightModeUrl
            (JObj [(''enabled'', JBool enabled), (''start_hour'', JNum startHour), (''end_hour'', JNum endHour),
              (''interval_seconds'', JNum (intervalMins * 60)), (''style'', JStr (night_style_str style))])) (\<lambda>response.
          jsonP response (\<lambda>payload.
          getP payload ''success'' (\<lambda>success.
          if truthy success then
            opP (SetNightMode \<lparr>np_enabled = JBool enabled, np_startHour = JNum startHour,
              np_endHour = JNum endHour, np_intervalMins = JNum intervalMins,
              np_style = JStr (night_style_str style), np_activeNow = JUndefined\<rparr>) (
            alertP (JStr
              (if \<not> enabled then ''Nachtmodus deaktiviert''
               else ''Nachtmodus von '' @ rat_str startHour @ '':00 bis '' @ rat_str endHour @ '':00 Uhr mit '' @
                 NIGHT_STYLE_SUFFIX style intervalMins @ '' gespeichert'')) Success (
            opP (SetUpdateNightModeStatus False) (
            unloadP actionId (
            Return ()))))
          else
            getP payload ''message'' (\<lambda>message.
            Throw (ErrorObj (js_string (js_or message (JStr ''Failed to update night mode'')))))))))))
         (\<lambda>error.
          opP (SetUpdateNightModeStatus False) (
          opP (SetError (JStr (unbekannt error))) (
          alertP (JStr ''Nachtmodus konnte nicht gespeichert werden'') Error (
          unloadP actionId (
          Return ())))))))"

section \<open>Skipping, showing, clearing\<close>

(* src: store/slideshowOperation/slideshowOperation.Slice.tsx 433-433: SKIP_WHILE_REFRESHING *)
definition SKIP_WHILE_REFRESHING :: string where
  "SKIP_WHILE_REFRESHING = ''Das Display wird gerade aktualisiert. Versuche es gleich noch einmal.''"

(* src: store/slideshowOperation/slideshowOperation.Slice.tsx 435-509: skipImageThunk *)
definition skipImageThunk :: "unit thunk" where
  "skipImageThunk =
     GetState (\<lambda>st.
     if op_busy (rs_slideshowOperation st) then Return ()
     else
       Uuid (\<lambda>actionId.
       tryP
         (opP (SetSkipImageStatus True) (
          loadingP actionId (''Foto wird '' @ s_ue @ ''bersprungen'') (
          fetchP (post_empty_json getSkipSlideshowImageUrl) (\<lambda>skipResponse.
          if rs_status skipResponse = 409 then Throw (ErrorObj SKIP_WHILE_REFRESHING)
          else
            jsonP skipResponse (\<lambda>clearData.
            getP clearData ''success'' (\<lambda>success.
            if \<not> truthy success then
              Throw (ErrorObj (''Foto konnte nicht '' @ s_ue @ ''bersprungen werden''))
            else
              alertP (JStr (''Foto '' @ s_ue @ ''bersprungen'')) Success (
              restartTimerP (
              opP (SetSkipImageStatus False) (
              unloadP actionId (
              Return ()))))))))))
         (\<lambda>error.
          opP (SetSkipImageStatus False) (
          opP (SetError (JStr (unbekannt error))) (
          alertP (JStr
            (if error = ErrorObj SKIP_WHILE_REFRESHING then SKIP_WHILE_REFRESHING
             else ''Foto konnte nicht '' @ s_ue @ ''bersprungen werden'')) Error (
          unloadP actionId (
          Return ())))))))"

(* src: store/slideshowOperation/slideshowOperation.Slice.tsx 511-511: SHOW_WHILE_PAUSED *)
definition SHOW_WHILE_PAUSED :: string where
  "SHOW_WHILE_PAUSED = ''Die Diashow ist gestoppt. Starte sie zuerst.''"

(* src: store/slideshowOperation/slideshowOperation.Slice.tsx 513-561: showImageThunk *)
definition showImageThunk :: "rat \<Rightarrow> unit thunk" where
  "showImageThunk i =
     GetState (\<lambda>st.
     if op_busy (rs_slideshowOperation st) then Return ()
     else
       Uuid (\<lambda>actionId.
       finallyP
         (tryP
           (opP (SetShowImageStatus True) (
            loadingP actionId ''Foto wird angezeigt'' (
            fetchP (post_json getShowSlideshowImageUrl (JObj [(''id'', JNum i)])) (\<lambda>response.
            jsonP response (\<lambda>data.
            if rs_status response = 409 then
              getP data ''message'' (\<lambda>message.
              Throw (ErrorObj (if message = JStr ''Slideshow is paused'' then SHOW_WHILE_PAUSED
                               else SKIP_WHILE_REFRESHING)))
            else
              getP data ''success'' (\<lambda>success.
              if \<not> truthy success then Throw (ErrorObj ''Foto konnte nicht angezeigt werden'')
              else
                alertP (JStr ''Foto wird auf dem Bilderrahmen angezeigt'') Success (
                restartTimerP (
                Spawn CallFetchSlideshowImages (
                Return ())))))))))
           (\<lambda>error.
            let message = unbekannt error in
            opP (SetError (JStr message)) (
            alertP (JStr
              (if message = SKIP_WHILE_REFRESHING \<or> message = SHOW_WHILE_PAUSED then message
               else ''Foto konnte nicht angezeigt werden'')) Error (
            Return ()))))
         (opP (SetShowImageStatus False) (
          unloadP actionId (
          Return ())))))"

(* src: store/slideshowOperation/slideshowOperation.Slice.tsx 563-638: clearDisplayThunk *)
definition clearDisplayThunk :: "unit thunk" where
  "clearDisplayThunk =
     GetState (\<lambda>st.
     if op_busy (rs_slideshowOperation st) then Return ()
     else
       Uuid (\<lambda>actionId.
       tryP
         (opP (SetClearDisplayStatus True) (
          loadingP actionId ''Bildschirm wird geleert'' (
          fetchP (post_empty_json getClearDisplayUrl) (\<lambda>clearResponse.
          jsonP clearResponse (\<lambda>clearData.
          getP clearData ''success'' (\<lambda>success.
          if \<not> truthy success then Throw (ErrorObj ''Bildschirm konnte nicht geleert werden'')
          else
            alertP (JStr ''Bildschirm geleert'') Success (
            restartTimerP (
            opP (SetClearDisplayStatus False) (
            unloadP actionId (
            Return ()))))))))))
         (\<lambda>error.
          opP (SetClearDisplayStatus False) (
          opP (SetError (JStr (unbekannt error))) (
          alertP (JStr ''Bildschirm konnte nicht geleert werden'') Error (
          unloadP actionId (
          Return ())))))))"

section \<open>Starting and stopping the slideshow\<close>

definition TOGGLE_TIMEOUT :: string where
  "TOGGLE_TIMEOUT = ''Der Bilderrahmen hat die Diashow nicht rechtzeitig umgeschaltet''"

definition monitor_pause :: int where
  "monitor_pause = 2000"

text \<open>
  One round's \<open>try\<close> block; it returns whether the monitor is done. \<open>wasActive\<close> is the state
  before the switch, and the slideshow is being stopped when that is truthy.
\<close>

(* src: store/slideshowOperation/slideshowOperation.Slice.tsx 693-732: the round of monitorOperation *)
definition monitor_round :: "jsval \<Rightarrow> string \<Rightarrow> bool thunk" where
  "monitor_round wasActive actionId =
     tryP
       (fetchP (get_req getSlideshowStatusUrl) (\<lambda>statusCheck.
        jsonP statusCheck (\<lambda>statusCheckData.
        getP statusCheckData ''success'' (\<lambda>success.
        if \<not> truthy success then Return False
        else
          getP statusCheckData ''data'' (\<lambda>d. getP d ''active'' (\<lambda>active.
          if js_same active wasActive then Return False
          else
            opP (SetToggleStatus False) (
            Dispatch (TimersA (AddTimer actions_timer None)) (
            restartTimerP (
            let finish =
              unloadP actionId (
              alertP (JStr (''Diashow '' @ (if truthy wasActive then ''gestoppt'' else ''gestartet''))) Success (
              Return True))
            in if truthy wasActive then fetchP (post_req getClearDisplayUrl) (\<lambda>_. finish)
               else finish)))))))))
       (\<lambda>checkError.
        Browser ConsoleError (
        unloadP actionId (
        Return False)))"

(* src: store/slideshowOperation/slideshowOperation.Slice.tsx 689-755: monitorOperation *)
fun monitorOperation :: "nat \<Rightarrow> jsval \<Rightarrow> string \<Rightarrow> int \<Rightarrow> unit thunk" where
  "monitorOperation 0 wasActive actionId startTime = OutOfFuel"
| "monitorOperation (Suc fuel) wasActive actionId startTime =
     DateNow (\<lambda>now.
     if now - startTime < MAX_OPERATION_WAIT_TIME then
       bindP (monitor_round wasActive actionId) (\<lambda>finished.
       if finished then Return ()
       else Sleep monitor_pause (monitorOperation fuel wasActive actionId startTime))
     else
       opP (SetToggleStatus False) (
       opP (SetError (JStr TOGGLE_TIMEOUT)) (
       alertP (JStr TOGGLE_TIMEOUT) Error (
       unloadP actionId (
       Return ())))))"

(* src: store/slideshowOperation/slideshowOperation.Slice.tsx 640-780: toggleSlideshowThunk *)
definition toggleSlideshowThunk :: "nat \<Rightarrow> unit thunk" where
  "toggleSlideshowThunk fuel =
     GetState (\<lambda>st.
     if op_busy (rs_slideshowOperation st) then Return ()
     else
       Uuid (\<lambda>actionId.
       tryP
         (opP (SetToggleStatus True) (
          loadingP actionId ''Diashow wird umgeschaltet'' (
          fetchP (get_req getSlideshowStatusUrl) (\<lambda>statusResponse.
          jsonP statusResponse (\<lambda>statusData.
          getP statusData ''success'' (\<lambda>success.
          if \<not> truthy success then Throw (ErrorObj ''Status der Diashow konnte nicht geladen werden'')
          else
            getP statusData ''data'' (\<lambda>d. getP d ''active'' (\<lambda>wasActive.
            fetchP (post_json getSlideshowUrl
              (JObj [(''action'', JStr (if truthy wasActive then ''stop'' else ''start''))])) (\<lambda>toggleResponse.
            jsonP toggleResponse (\<lambda>toggleData.
            getP toggleData ''success'' (\<lambda>toggled.
            if \<not> truthy toggled then Throw (ErrorObj ''Diashow konnte nicht umgeschaltet werden'')
            else
              DateNow (\<lambda>startTime.
              monitorOperation fuel wasActive actionId startTime))))))))))))
         (\<lambda>error.
          opP (SetToggleStatus False) (
          opP (SetError (JStr (unbekannt error))) (
          alertP (JStr ''Diashow konnte nicht umgeschaltet werden'') Error (
          unloadP actionId (
          Return ())))))))"

lemmas operation_thunk_defs [prog_simps] =
  fetchDisplayImagesLoopInterval_def updateDisplayImagesLoopInterval_def fetchNightMode_def
  updateNightMode_def skipImageThunk_def showImageThunk_def clearDisplayThunk_def
  toggleSlideshowThunk_def

section \<open>Selectors\<close>

(* src: store/slideshowOperation/slideshowOperation.Slice.tsx 783-783: selectSlideshowOperation *)
definition selectSlideshowOperation :: "root_state \<Rightarrow> operation_state" where
  "selectSlideshowOperation state = rs_slideshowOperation state"

(* src: store/slideshowOperation/slideshowOperation.Slice.tsx 784-784: selectDisplayRefreshInterval *)
definition selectDisplayRefreshInterval :: "root_state \<Rightarrow> jsval" where
  "selectDisplayRefreshInterval state = op_displayImagesIntervalMins (rs_slideshowOperation state)"

(* src: store/slideshowOperation/slideshowOperation.Slice.tsx 785-785: selectIsUpdatingInterval *)
definition selectIsUpdatingInterval :: "root_state \<Rightarrow> bool" where
  "selectIsUpdatingInterval state = op_isUpdatingInterval (rs_slideshowOperation state)"

(* src: store/slideshowOperation/slideshowOperation.Slice.tsx 786-786: selectIsFetchingInterval *)
definition selectIsFetchingInterval :: "root_state \<Rightarrow> bool" where
  "selectIsFetchingInterval state = op_isFetchingInterval (rs_slideshowOperation state)"

(* src: store/slideshowOperation/slideshowOperation.Slice.tsx 787-787: selectNightModeEnabled *)
definition selectNightModeEnabled :: "root_state \<Rightarrow> jsval" where
  "selectNightModeEnabled state = op_nightModeEnabled (rs_slideshowOperation state)"

(* src: store/slideshowOperation/slideshowOperation.Slice.tsx 788-788: selectNightModeActiveNow *)
definition selectNightModeActiveNow :: "root_state \<Rightarrow> jsval" where
  "selectNightModeActiveNow state = op_nightModeActiveNow (rs_slideshowOperation state)"

(* src: store/slideshowOperation/slideshowOperation.Slice.tsx 789-789: selectNightStartHour *)
definition selectNightStartHour :: "root_state \<Rightarrow> jsval" where
  "selectNightStartHour state = op_nightStartHour (rs_slideshowOperation state)"

(* src: store/slideshowOperation/slideshowOperation.Slice.tsx 790-790: selectNightEndHour *)
definition selectNightEndHour :: "root_state \<Rightarrow> jsval" where
  "selectNightEndHour state = op_nightEndHour (rs_slideshowOperation state)"

(* src: store/slideshowOperation/slideshowOperation.Slice.tsx 791-791: selectNightIntervalMins *)
definition selectNightIntervalMins :: "root_state \<Rightarrow> jsval" where
  "selectNightIntervalMins state = op_nightIntervalMins (rs_slideshowOperation state)"

(* src: store/slideshowOperation/slideshowOperation.Slice.tsx 792-792: selectNightStyle *)
definition selectNightStyle :: "root_state \<Rightarrow> jsval" where
  "selectNightStyle state = op_nightStyle (rs_slideshowOperation state)"

(* src: store/slideshowOperation/slideshowOperation.Slice.tsx 793-793: selectIsUpdatingNightMode *)
definition selectIsUpdatingNightMode :: "root_state \<Rightarrow> bool" where
  "selectIsUpdatingNightMode state = op_isUpdatingNightMode (rs_slideshowOperation state)"

(* src: store/slideshowOperation/slideshowOperation.Slice.tsx 794-794: selectIsFetchingNightMode *)
definition selectIsFetchingNightMode :: "root_state \<Rightarrow> bool" where
  "selectIsFetchingNightMode state = op_isFetchingNightMode (rs_slideshowOperation state)"

section \<open>What they give back\<close>

lemma interval_night_tracked_notices:
  "tracked notice_step fetchDisplayImagesLoopInterval {}"
  "tracked notice_step (updateDisplayImagesLoopInterval mins) {}"
  "tracked notice_step fetchNightMode {}"
  "tracked notice_step (updateNightMode en sh eh im sty) {}"
  by (auto simp: prog_simps Let_def reducer_simps split: sum.splits)

lemma skip_show_clear_tracked_notices:
  "tracked notice_step skipImageThunk {}"
  "tracked notice_step (showImageThunk i) {}"
  "tracked notice_step clearDisplayThunk {}"
  by (auto simp: prog_simps Let_def reducer_simps split: sum.splits)

lemma interval_night_tracked_flags:
  "tracked flag_step fetchDisplayImagesLoopInterval {}"
  "tracked flag_step (updateDisplayImagesLoopInterval mins) {}"
  "tracked flag_step fetchNightMode {}"
  "tracked flag_step (updateNightMode en sh eh im sty) {}"
  by (auto simp: prog_simps Let_def split: sum.splits)

lemma skip_show_clear_tracked_flags:
  "tracked flag_step skipImageThunk {}"
  "tracked flag_step (showImageThunk i) {}"
  "tracked flag_step clearDisplayThunk {}"
  by (auto simp: prog_simps Let_def split: sum.splits)

end
