(* ===== verification/OperationProofs.thy ===== *)
theory OperationProofs
  imports OperationThunks
begin

text \<open>
  What the operations guarantee when they run alone: a busy store makes the guarded ones
  no-ops, every flag and notice they take is given back, the monitor of the toggle comes to
  an end, and the result of each is the one its answer calls for.
\<close>

section \<open>The guard\<close>

lemma skipImage_busy:
  "op_busy (rs_slideshowOperation (cf_store c)) \<Longrightarrow> runR w skipImageThunk c = (Returned (), c)"
  by (simp add: skipImageThunk_def)

lemma showImage_busy:
  "op_busy (rs_slideshowOperation (cf_store c)) \<Longrightarrow> runR w (showImageThunk i) c = (Returned (), c)"
  by (simp add: showImageThunk_def)

lemma clearDisplay_busy:
  "op_busy (rs_slideshowOperation (cf_store c)) \<Longrightarrow> runR w clearDisplayThunk c = (Returned (), c)"
  by (simp add: clearDisplayThunk_def)

lemma updateInterval_busy:
  "op_busy (rs_slideshowOperation (cf_store c)) \<Longrightarrow>
     runR w (updateDisplayImagesLoopInterval mins) c = (Returned (), c)"
  by (simp add: updateDisplayImagesLoopInterval_def)

lemma toggle_busy:
  "op_busy (rs_slideshowOperation (cf_store c)) \<Longrightarrow> runR w (toggleSlideshowThunk fuel) c = (Returned (), c)"
  by (simp add: toggleSlideshowThunk_def)

section \<open>The toggle gives back its flag and its notice\<close>

lemma monitor_tracked_flags:
  "L \<subseteq> {Toggling} \<Longrightarrow> tracked flag_step (monitorOperation fuel wasActive actionId startTime) L"
proof (induction fuel arbitrary: L)
  case (Suc fuel)
  from Suc.prems have "L - {Toggling} = {}" by auto
  with Suc.prems show ?case
    by (auto simp: monitor_round_def Let_def intro!: Suc.IH split: sum.splits)
qed simp

lemma monitor_tracked_notices:
  "L \<subseteq> {actionId} \<Longrightarrow> tracked notice_step (monitorOperation fuel wasActive actionId startTime) L"
proof (induction fuel arbitrary: L)
  case (Suc fuel)
  from Suc.prems have "L - {actionId} = {}" by auto
  with Suc.prems show ?case
    by (auto simp: monitor_round_def Let_def reducer_simps intro!: Suc.IH split: sum.splits)
qed simp

text \<open>The monitor throws nothing: its rounds catch.\<close>

lemma monitor_round_ok:
  "no_outage (monitor_round wasActive actionId)"
  "sleeps_ok (monitor_round wasActive actionId)"
  "no_throw (monitor_round wasActive actionId)"
  by (auto simp: monitor_round_def Let_def split: sum.splits)

lemma monitor_no_throw: "no_throw (monitorOperation fuel wasActive actionId startTime)"
  by (induction fuel) (auto intro!: no_throw_bindP monitor_round_ok)

lemma toggle_tracked_flags: "tracked flag_step (toggleSlideshowThunk fuel) {}"
  by (auto simp: toggleSlideshowThunk_def monitor_tracked_flags tryP_no_throw [OF monitor_no_throw]
      split: sum.splits)

lemma toggle_tracked_notices: "tracked notice_step (toggleSlideshowThunk fuel) {}"
  by (auto simp: toggleSlideshowThunk_def monitor_tracked_notices
      tryP_no_throw [OF monitor_no_throw] reducer_simps split: sum.splits)

section \<open>The toggle ends\<close>

lemma monitor_enough:
  assumes "forward_time w"
  shows "MAX_OPERATION_WAIT_TIME - (cf_time c - startTime) \<le> monitor_pause * int n \<Longrightarrow>
    fst (runR w (monitorOperation (Suc n) wasActive actionId startTime) c) \<noteq> Exhausted"
proof (induction n arbitrary: c)
  case 0
  then show ?case by simp
next
  case (Suc n)
  obtain r c' where round: "runR w (monitor_round wasActive actionId) (tick w c) = (r, c')"
    by (cases "runR w (monitor_round wasActive actionId) (tick w c)")
  have "cf_time (tick w c) \<le> cf_time c'"
    using run_time [OF assms monitor_round_ok(2) [of wasActive actionId], of "tick w c" root_reducer]
    by (simp add: round)
  then have later: "cf_time c \<le> cf_time c'"
    using time_tick [OF assms, of c] by linarith
  let ?c = "tick w (c'\<lparr>cf_time := cf_time c' + monitor_pause\<rparr>)"
  have "cf_time c + monitor_pause \<le> cf_time ?c"
    using later forward_lag [OF assms, of "cf_steps c'"] by simp
  then have "MAX_OPERATION_WAIT_TIME - (cf_time ?c - startTime) \<le> monitor_pause * int n"
    using Suc.prems by (simp add: algebra_simps)
  from Suc.IH [OF this] round show ?case
    using run_no_outage [OF monitor_round_ok(1), of root_reducer w wasActive actionId "tick w c"]
    by (auto simp: run_bindP simp del: monitorOperation.simps
        simp: monitorOperation.simps(2) [of "Suc n"] split: outcome.splits)
qed

definition monitor_rounds :: nat where
  "monitor_rounds = 301"

lemma monitor_rounds_enough:
  assumes "forward_time w" and "startTime \<le> cf_time c"
  shows "fst (runR w (monitorOperation monitor_rounds wasActive actionId startTime) c) \<noteq> Exhausted"
proof -
  have "monitor_rounds = Suc 300" by (simp add: monitor_rounds_def)
  with monitor_enough [OF assms(1), of c startTime 300] assms(2) show ?thesis
    by (simp add: MAX_OPERATION_WAIT_TIME_def monitor_pause_def del: monitorOperation.simps)
qed

lemma monitor_returns:
  assumes "forward_time w" and "startTime \<le> cf_time c"
  shows "\<exists>c'. runR w (monitorOperation monitor_rounds wasActive actionId startTime) c = (Returned (), c')"
  using monitor_rounds_enough [OF assms, of wasActive actionId]
    run_no_throw [OF monitor_no_throw, of root_reducer w monitor_rounds wasActive actionId startTime c]
  by (cases "fst (runR w (monitorOperation monitor_rounds wasActive actionId startTime) c)")
    (auto simp: prod_eq_iff)

lemma toggle_returns:
  assumes "forward_time w"
  shows "\<exists>c'. runR w (toggleSlideshowThunk monitor_rounds) c = (Returned (), c')"
  using monitor_returns [OF assms] forward_lag [OF assms]
  by (auto simp: toggleSlideshowThunk_def tryP_no_throw [OF monitor_no_throw]
      simp del: monitorOperation.simps split: sum.splits)

section \<open>The contract of a guarded operation\<close>

locale guarded_operation =
  fixes p :: "unit thunk"
  assumes busy_noop: "op_busy (rs_slideshowOperation (cf_store c)) \<Longrightarrow> runR w p c = (Returned (), c)"
    and gives_back_flags: "tracked flag_step p {}"
    and gives_back_notices: "tracked notice_step p {}"
begin

lemma ends_idle:
  assumes "runR w p c = (r, c')" and "r \<noteq> Exhausted" and "\<not> op_busy (rs_slideshowOperation (cf_store c))"
  shows "\<not> op_busy (rs_slideshowOperation (cf_store c'))"
  using flag_resource.run_gives_back [OF gives_back_flags assms(1,2)] assms(3)
  by (auto simp: op_busy_flags root_flags_def)

lemma keeps_busy:
  assumes "runR w p c = (r, c')" and "op_busy (rs_slideshowOperation (cf_store c))"
  shows "c' = c"
  using assms busy_noop by auto

end

interpretation skip_operation: guarded_operation skipImageThunk
  by unfold_locales (simp_all add: skipImage_busy skip_show_clear_tracked_flags skip_show_clear_tracked_notices)

interpretation show_operation: guarded_operation "showImageThunk i" for i
  by unfold_locales (simp_all add: showImage_busy skip_show_clear_tracked_flags skip_show_clear_tracked_notices)

interpretation clear_operation: guarded_operation clearDisplayThunk
  by unfold_locales (simp_all add: clearDisplay_busy skip_show_clear_tracked_flags skip_show_clear_tracked_notices)

interpretation interval_operation: guarded_operation "updateDisplayImagesLoopInterval mins" for mins
  by unfold_locales (simp_all add: updateInterval_busy interval_night_tracked_flags interval_night_tracked_notices)

interpretation toggle_operation: guarded_operation "toggleSlideshowThunk fuel" for fuel
  by unfold_locales (simp_all add: toggle_busy toggle_tracked_flags toggle_tracked_notices)

section \<open>What an operation does\<close>

text \<open>What the board's answer means to the skip: \<open>None\<close> is success, otherwise the error.\<close>

definition success_outcome :: "string \<Rightarrow> jsval \<Rightarrow> thrown option" where
  "success_outcome failure data =
     (if nullish data then Some (type_error data ''success'')
      else if truthy (own_prop data ''success'') then None else Some (ErrorObj failure))"

definition skip_outcome :: "thrown + response \<Rightarrow> thrown option" where
  "skip_outcome answer =
     (case answer of
        Inl e \<Rightarrow> Some e
      | Inr r \<Rightarrow>
          if rs_status r = 409 then Some (ErrorObj SKIP_WHILE_REFRESHING)
          else (case rs_body r of
                  Inl e \<Rightarrow> Some e
                | Inr data \<Rightarrow> success_outcome (''Foto konnte nicht '' @ s_ue @ ''bersprungen werden'') data))"

definition clear_outcome :: "thrown + response \<Rightarrow> thrown option" where
  "clear_outcome answer =
     (case answer of
        Inl e \<Rightarrow> Some e
      | Inr r \<Rightarrow> (case rs_body r of
                    Inl e \<Rightarrow> Some e
                  | Inr data \<Rightarrow> success_outcome ''Bildschirm konnte nicht geleert werden'' data))"

text \<open>The alert on top, and the error an outcome leaves.\<close>

definition top_alert :: "root_state \<Rightarrow> jsval \<times> AlertColor" where
  "top_alert s = (let x = last (sn_alerts (rs_snackbars s)) in (sb_message x, sb_severity x))"

definition error_after :: "jsval \<Rightarrow> thrown option \<Rightarrow> jsval" where
  "error_after old outcome = (case outcome of None \<Rightarrow> old | Some e \<Rightarrow> JStr (unbekannt e))"

definition timer_running :: "root_state \<Rightarrow> bool option" where
  "timer_running s = map_option tm_isActive (selectTimer (rs_timers s) actions_timer)"

lemma skip_spec:
  assumes "\<not> op_busy (rs_slideshowOperation (cf_store c))"
    and "outcome = skip_outcome (reply_at w (cf_steps c + 3) (post_empty_json getSkipSlideshowImageUrl) default_timeout)"
  shows "\<exists>c'. runR w skipImageThunk c = (Returned (), c') \<and>
    requests_of (cf_trace c') = requests_of (cf_trace c) @ [post_empty_json getSkipSlideshowImageUrl] \<and>
    op_error (rs_slideshowOperation (cf_store c')) =
      error_after (op_error (rs_slideshowOperation (cf_store c))) outcome \<and>
    top_alert (cf_store c') =
      (case outcome of
         None \<Rightarrow> (JStr (''Foto '' @ s_ue @ ''bersprungen''), Success)
       | Some e \<Rightarrow> (JStr (if e = ErrorObj SKIP_WHILE_REFRESHING then SKIP_WHILE_REFRESHING
                         else ''Foto konnte nicht '' @ s_ue @ ''bersprungen werden''), Error)) \<and>
    timer_running (cf_store c') =
      (case outcome of
         None \<Rightarrow> map_option (\<lambda>_. True) (selectTimer (rs_timers (cf_store c)) actions_timer)
       | Some e \<Rightarrow> timer_running (cf_store c))"
  using assms(1) unfolding assms(2)
  by (auto simp: skipImageThunk_def skip_outcome_def success_outcome_def reply_at_def top_alert_def
      error_after_def timer_running_def selectTimer_def map_of_modify_timer rewound_def halted_def
      numeral_3_eq_3 reducer_simps Let_def split: sum.splits option.splits)

section \<open>Properties\<close>

text \<open>C13: While one of the five operations runs, starting any of them does nothing at all: no
  request, no notice, no change of the store.\<close>

lemma busy_operations_do_nothing:
  assumes "op_busy (rs_slideshowOperation (cf_store c))"
  shows "\<forall>p \<in> {skipImageThunk, showImageThunk i, clearDisplayThunk,
      updateDisplayImagesLoopInterval mins, toggleSlideshowThunk fuel}. runR w p c = (Returned (), c)"
  using assms by (simp add: skip_operation.busy_noop show_operation.busy_noop clear_operation.busy_noop
      interval_operation.busy_noop toggle_operation.busy_noop)

definition busy_cfg :: root_cfg where
  "busy_cfg = fresh_cfg\<lparr>cf_store := (root_initial 0)\<lparr>rs_slideshowOperation :=
     operation_initial\<lparr>op_isShowingImage := True\<rparr>\<rparr>\<rparr>"

lemma busy_operations_do_nothing_witness:
  "runR silent_world skipImageThunk busy_cfg = (Returned (), busy_cfg)"
  using busy_operations_do_nothing [of busy_cfg 1 1 1 silent_world]
  by (simp add: busy_cfg_def op_busy_def)

text \<open>C12: Skipping an image, when nothing else runs, sends exactly one request and ends; the alert,
  the kept error and the restart of the countdown are those the board's answer calls for: 409, no
  JSON, a refusal and a lost answer are failures with their own text, and a failure leaves the
  countdown alone.\<close>

lemma skip_image_result:
  assumes "\<not> op_busy (rs_slideshowOperation (cf_store c))"
    and "outcome = skip_outcome (reply_at w (cf_steps c + 3) (post_empty_json getSkipSlideshowImageUrl) default_timeout)"
  shows "\<exists>c'. runR w skipImageThunk c = (Returned (), c') \<and>
    requests_of (cf_trace c') = requests_of (cf_trace c) @ [post_empty_json getSkipSlideshowImageUrl] \<and>
    op_error (rs_slideshowOperation (cf_store c')) =
      error_after (op_error (rs_slideshowOperation (cf_store c))) outcome \<and>
    top_alert (cf_store c') =
      (case outcome of
         None \<Rightarrow> (JStr (''Foto '' @ s_ue @ ''bersprungen''), Success)
       | Some e \<Rightarrow> (JStr (if e = ErrorObj SKIP_WHILE_REFRESHING then SKIP_WHILE_REFRESHING
                         else ''Foto konnte nicht '' @ s_ue @ ''bersprungen werden''), Error)) \<and>
    timer_running (cf_store c') =
      (case outcome of
         None \<Rightarrow> map_option (\<lambda>_. True) (selectTimer (rs_timers (cf_store c)) actions_timer)
       | Some e \<Rightarrow> timer_running (cf_store c))"
  by (rule skip_spec [OF assms])

lemma skip_image_result_witness:
  "\<exists>c'. runR (silent_world\<lparr>w_net := \<lambda>_ _. \<lparr>ne_latency = 5, ne_answer = Inr \<lparr>rs_status = 409, rs_body = Inr JNull\<rparr>\<rparr>\<rparr>)
      skipImageThunk fresh_cfg = (Returned (), c') \<and>
    op_error (rs_slideshowOperation (cf_store c')) = JStr SKIP_WHILE_REFRESHING \<and>
    top_alert (cf_store c') = (JStr SKIP_WHILE_REFRESHING, Error)"
  using skip_image_result [of fresh_cfg _ "silent_world\<lparr>w_net := \<lambda>_ _. \<lparr>ne_latency = 5,
      ne_answer = Inr \<lparr>rs_status = 409, rs_body = Inr JNull\<rparr>\<rparr>\<rparr>", OF _ refl]
  by (auto simp: fresh_cfg_def root_initial_def operation_initial_def op_busy_def skip_outcome_def
      reply_at_def fetch_settles_def default_timeout_def error_after_def unbekannt_def)

text \<open>C11: Starting or stopping the slideshow always comes to an end, whatever the board answers
  and however slow it is: within ten minutes of polling the monitor gives up, so 301 rounds of
  the poll are enough.\<close>

lemma toggle_terminates:
  assumes "forward_time w"
  shows "\<exists>c'. runR w (toggleSlideshowThunk monitor_rounds) c = (Returned (), c')"
  by (rule toggle_returns [OF assms])

lemma toggle_terminates_witness:
  "\<exists>c'. runR silent_world (toggleSlideshowThunk monitor_rounds) fresh_cfg = (Returned (), c')"
  by (rule toggle_terminates) (simp add: forward_time_def silent_world_def)

end
