(* ===== verification/OperationLoop.thy ===== *)
theory OperationLoop
  imports OperationProofs
begin

text \<open>
  The operations in the event loop: any number of them started by clicks, interleaved with
  each other and with everything else the page does. The five flags are a lock
  (\<open>flag_lock\<close> of EventLoop): the guard is its test, the first segment takes it.

  Four of the operations keep the promise to unlock only what they hold, so with them the
  owner of a set flag is in flight. The toggle does not: after its monitor has cleared
  \<open>isToggling\<close> it can fail (on the request that clears the display) and go on polling, and
  then clears the flag again, whoever set it. With it there is still at most one flag, and
  every flag is given back, but an operation in flight can be without its flag
  (\<open>stale_monitor\<close>).
\<close>

section \<open>The lock\<close>

definition guarded_flags :: "op_flag set" where
  "guarded_flags = {Toggling, Clearing, Skipping, Showing, UpdatingInterval}"

fun op_effect :: "action \<Rightarrow> op_flag lock_effect" where
  "op_effect (OperationA a) =
     (case flag_write a of
        Some (f, b) \<Rightarrow> if f \<in> guarded_flags then (if b then Locks f else Unlocks f) else NoLock
      | None \<Rightarrow> if a = ResetOperation then Breaks else NoLock)"
| "op_effect _ = NoLock"

definition op_held :: "root_state \<Rightarrow> op_flag set" where
  "op_held s = root_flags s \<inter> guarded_flags"

lemma op_busy_held: "op_busy (rs_slideshowOperation s) \<longleftrightarrow> op_held s \<noteq> {}"
  by (simp add: op_busy_flags op_held_def root_flags_def guarded_flags_def)

lemma op_flags_other: "\<nexists>x. a = OperationA x \<Longrightarrow> root_flags (root_reducer now s a) = root_flags s"
  by (cases a) (simp_all add: root_flags_def)

interpretation op_lock: flag_lock root_reducer op_effect op_held
proof unfold_locales
  fix a now s and k :: op_flag
  { assume "op_effect a = Locks k"
    then show "op_held (root_reducer now s a) = insert k (op_held s)"
      by (cases a) (auto simp: op_held_def root_flags_def op_flags_write split: option.splits if_splits) }
  { assume "op_effect a = Unlocks k"
    then show "op_held (root_reducer now s a) = op_held s - {k}"
      by (cases a) (auto simp: op_held_def root_flags_def op_flags_write split: option.splits if_splits) }
  { assume none: "op_effect a = NoLock"
    show "op_held (root_reducer now s a) = op_held s"
    proof (cases "\<exists>x. a = OperationA x")
      case True
      with none show ?thesis
        by (auto simp: op_held_def root_flags_def op_flags_write op_flags_no_write split: option.splits if_splits)
    qed (simp add: op_held_def op_flags_other) }
qed

section \<open>The programs\<close>

lemmas lock_programs =
  guarded_by_def shrinks_def lock_step_def release_step_def shrink_step_def op_busy_held guarded_flags_def

lemma guarded_operations:
  "guarded op_effect op_held skipImageThunk"
  "guarded op_effect op_held (showImageThunk i)"
  "guarded op_effect op_held clearDisplayThunk"
  "guarded op_effect op_held (updateDisplayImagesLoopInterval mins)"
  by (auto simp: lock_programs skipImageThunk_def showImageThunk_def clearDisplayThunk_def
      updateDisplayImagesLoopInterval_def fetchWithTimeout_def Let_def split: sum.splits)

lemma monitor_shrinks: "shrinks op_effect (monitorOperation fuel wasActive actionId startTime)"
  by (induction fuel)
    (auto simp: shrinks_def shrink_step_def guarded_flags_def monitor_round_def Let_def split: sum.splits)

lemma guarded_toggle: "guarded_by op_effect op_held (\<lambda>q L. shrinks op_effect q) (toggleSlideshowThunk fuel)"
  by (auto simp: lock_programs toggleSlideshowThunk_def fetchWithTimeout_def tryP_no_throw [OF monitor_no_throw]
      monitor_shrinks [unfolded shrinks_def shrink_step_def] Let_def split: sum.splits)

lemma free_operations:
  "tracked (release_step op_effect) fetchDisplayImagesLoopInterval {}"
  "tracked (release_step op_effect) fetchNightMode {}"
  "tracked (release_step op_effect) (updateNightMode en sh eh im sty) {}"
  by (auto simp: release_step_def guarded_flags_def prog_simps Let_def split: sum.splits)

section \<open>What the page may start\<close>

text \<open>
  The operations without the toggle, the operations with it (with any fuel), and any thunk that
  leaves the five flags alone: the other slices' thunks do.
\<close>

definition leaves_flags_alone :: "unit thunk \<Rightarrow> bool" where
  "leaves_flags_alone p \<longleftrightarrow> tracked (release_step op_effect) p {}"

definition page_thunk :: "unit thunk \<Rightarrow> bool" where
  "page_thunk p \<longleftrightarrow> p = skipImageThunk \<or> (\<exists>i. p = showImageThunk i) \<or> p = clearDisplayThunk \<or>
     (\<exists>mins. p = updateDisplayImagesLoopInterval mins) \<or> leaves_flags_alone p"

definition page_thunk_or_toggle :: "unit thunk \<Rightarrow> bool" where
  "page_thunk_or_toggle p \<longleftrightarrow> page_thunk p \<or> (\<exists>fuel. p = toggleSlideshowThunk fuel)"

lemma page_thunk_startable: "page_thunk p \<Longrightarrow> lock_startable op_effect op_held p"
  by (auto simp: page_thunk_def lock_startable_def leaves_flags_alone_def guarded_operations)

lemma page_thunk_or_toggle_startable:
  assumes "page_thunk_or_toggle p"
  shows "weak_startable op_effect op_held p"
proof (cases "page_thunk p")
  case True
  then show ?thesis by (intro lock_weak_startable page_thunk_startable)
next
  case False
  with assms show ?thesis by (auto simp: page_thunk_or_toggle_def weak_startable_def guarded_toggle)
qed

text \<open>The user's other actions: any action that sets none of the five flags.\<close>

definition other_action :: "action \<Rightarrow> bool" where
  "other_action a \<longleftrightarrow> op_effect a = NoLock"

abbreviation page_reaches ::
  "(unit thunk \<Rightarrow> bool) \<Rightarrow> root_state \<Rightarrow> root_state \<times> unit thunk multiset \<Rightarrow> bool" where
  "page_reaches startable s0 x \<equiv> reachable_from root_reducer startable other_action (s0, {#}) x"

lemma page_reaches_lock:
  "page_reaches page_thunk s0 x \<Longrightarrow>
     reachable_from root_reducer (lock_startable op_effect op_held) (\<lambda>a. op_effect a = NoLock) (s0, {#}) x"
  by (erule reachable_mono) (auto simp: other_action_def page_thunk_startable)

lemma page_reaches_weak:
  "page_reaches page_thunk_or_toggle s0 x \<Longrightarrow>
     reachable_from root_reducer (weak_startable op_effect op_held) (\<lambda>a. op_effect a = NoLock) (s0, {#}) x"
  by (erule reachable_mono) (auto simp: other_action_def page_thunk_or_toggle_startable)

text \<open>
  What a reload does to the operations: redux-persist documents that a slice that is not
  blacklisted comes back as it was stored. The thunks in flight are gone with the page.
\<close>

definition restores_operation :: "string list \<Rightarrow> (root_state \<Rightarrow> root_state \<Rightarrow> root_state) \<Rightarrow> bool" where
  "restores_operation blacklist reconcile \<longleftrightarrow>
     (''slideshowOperation'' \<notin> set blacklist \<longrightarrow>
        (\<forall>stored fresh. rs_slideshowOperation (reconcile stored fresh) = rs_slideshowOperation stored))"

lemma page_thunk_or_toggle_stops:
  assumes "page_thunk_or_toggle p"
  shows "stops_when_held op_effect op_held p"
proof (cases "page_thunk p")
  case True
  then show ?thesis by (intro lock_stops_when_held page_thunk_startable)
next
  case False
  with assms show ?thesis
    by (auto simp: page_thunk_or_toggle_def stops_when_held_def toggleSlideshowThunk_def op_busy_held)
qed

lemma page_reaches_stops:
  "page_reaches page_thunk_or_toggle s0 x \<Longrightarrow>
     reachable_from root_reducer (stops_when_held op_effect op_held) (\<lambda>a. op_effect a = NoLock) (s0, {#}) x"
  by (erule reachable_mono) (auto simp: other_action_def page_thunk_or_toggle_stops)

section \<open>The stale monitor\<close>

text \<open>A thunk in flight is given a list of answers, one after the other.\<close>

fun play :: "env \<Rightarrow> net_event list \<Rightarrow> unit thunk \<Rightarrow> root_state \<Rightarrow> (root_state \<times> unit thunk) option" where
  "play e [] p s = Some (s, p)"
| "play e (ev # evs) p s =
     (case resume p ev of
        None \<Rightarrow> None
      | Some p' \<Rightarrow> (case seg root_reducer e p' 0 s of (s', q) \<Rightarrow> play e evs q s'))"

lemma play_reaches:
  "page_reaches startable s0 (s, add_mset p ps) \<Longrightarrow> play e evs p s = Some (s', q) \<Longrightarrow>
     page_reaches startable s0 (s', add_mset q ps)"
proof (induction evs arbitrary: p s)
  case Nil
  then show ?case by simp
next
  case (Cons ev evs)
  from Cons.prems(2) obtain p' s1 q1 where
    "resume p ev = Some p'" "seg root_reducer e p' 0 s = (s1, q1)" "play e evs q1 s1 = Some (s', q)"
    by (auto split: option.splits prod.splits)
  with Cons.IH Cons.prems(1) show ?case
    by (meson loop_step.resume reachable_from.step)
qed

definition calm_env :: env where
  "calm_env = \<lparr>en_now = (\<lambda>_. 1000), en_ids = (\<lambda>_. ''id''), en_online = (\<lambda>_. True)\<rparr>"

definition answers :: "jsval \<Rightarrow> net_event" where
  "answers v = \<lparr>ne_latency = 5, ne_answer = Inr \<lparr>rs_status = 200, rs_body = Inr v\<rparr>\<rparr>"

definition lost :: net_event where
  "lost = \<lparr>ne_latency = 5, ne_answer = Inl (ErrorObj ''Failed to fetch'')\<rparr>"

definition board_active :: "bool \<Rightarrow> net_event" where
  "board_active b = answers (JObj [(''success'', JBool True), (''data'', JObj [(''active'', JBool b)])])"

definition board_ok :: net_event where
  "board_ok = answers (JObj [(''success'', JBool True)])"

text \<open>
  The first toggle stops the slideshow: the board says active, accepts, and is seen inactive;
  then the request that clears the display is lost. An answer to a \<open>Yield\<close> or a \<open>Sleep\<close> is
  not looked at.
\<close>

definition first_toggle :: "net_event list" where
  "first_toggle = [board_active True, lost, board_ok, lost, board_active False, lost, lost]"

text \<open>Its next round, after the pause: the board is still inactive.\<close>

definition next_poll :: "net_event list" where
  "next_poll = [lost, board_active False, lost]"

definition stale_run :: "(root_state \<times> (root_state \<times> unit thunk) \<times> root_state \<times> unit thunk) option" where
  "stale_run =
     (case seg root_reducer calm_env (toggleSlideshowThunk 3) 0 (root_initial 0) of (s1, p1) \<Rightarrow>
      case play calm_env first_toggle p1 s1 of None \<Rightarrow> None | Some (s2, p2) \<Rightarrow>
      case seg root_reducer calm_env (toggleSlideshowThunk 3) 0 s2 of (s3, q) \<Rightarrow>
      case play calm_env next_poll p2 s3 of None \<Rightarrow> None | Some (s4, p4) \<Rightarrow>
      Some (s2, (s3, q), (s4, p4)))"

lemma stale_run_busy:
  "map_option (\<lambda>(s2, (s3, q), (s4, p4)).
      (op_busy (rs_slideshowOperation s2), op_busy (rs_slideshowOperation s3), finished q,
       op_busy (rs_slideshowOperation s4))) stale_run = Some (False, True, False, False)"
  by code_simp

lemma toggle_starts:
  assumes "page_reaches page_thunk_or_toggle s0 (s, ps)"
    and "seg root_reducer e (toggleSlideshowThunk fuel) 0 s = (s', q)"
  shows "page_reaches page_thunk_or_toggle s0 (s', add_mset q ps)"
proof -
  have "page_thunk_or_toggle (toggleSlideshowThunk fuel)" by (auto simp: page_thunk_or_toggle_def)
  then have "loop_step root_reducer page_thunk_or_toggle other_action (s, ps) (s', add_mset q ps)"
    using assms(2) by (rule loop_step.start)
  with assms(1) show ?thesis by (rule reachable_from.step)
qed

lemma stale_run_reached:
  assumes "stale_run = Some (s2, (s3, q), (s4, p4))"
  shows "page_reaches page_thunk_or_toggle (root_initial 0) (s4, {#p4, q#})"
    and "seg root_reducer calm_env (toggleSlideshowThunk 3) 0 s2 = (s3, q)"
proof -
  from assms obtain s1 p1 p2 where run:
    "seg root_reducer calm_env (toggleSlideshowThunk 3) 0 (root_initial 0) = (s1, p1)"
    "play calm_env first_toggle p1 s1 = Some (s2, p2)"
    "seg root_reducer calm_env (toggleSlideshowThunk 3) 0 s2 = (s3, q)"
    "play calm_env next_poll p2 s3 = Some (s4, p4)"
    by (auto simp: stale_run_def split: prod.splits option.splits)
  have "page_reaches page_thunk_or_toggle (root_initial 0) (s1, {#p1#})"
    by (rule toggle_starts [OF reachable_from.init run(1)])
  from play_reaches [OF this run(2)] have "page_reaches page_thunk_or_toggle (root_initial 0) (s2, {#p2#})" .
  from toggle_starts [OF this run(3)]
  have "page_reaches page_thunk_or_toggle (root_initial 0) (s3, {#p2, q#})"
    by (simp add: add_mset_commute)
  from play_reaches [OF this run(4)]
  show "page_reaches page_thunk_or_toggle (root_initial 0) (s4, {#p4, q#})" .
qed (use assms in \<open>auto simp: stale_run_def split: prod.splits option.splits\<close>)

section \<open>Properties\<close>

text \<open>C3: Whatever the user clicks and in whatever order answers and timers come, at most one of
  the five operation flags is ever set (with the toggle among the operations).\<close>

lemma one_operation_at_a_time:
  assumes "page_reaches page_thunk_or_toggle s0 (s, ps)" and "\<not> op_busy (rs_slideshowOperation s0)"
  shows "card (op_held s) \<le> 1"
  using op_lock.one_flag_weak [OF page_reaches_weak [OF assms(1)]] assms(2) by (simp add: op_busy_held)

definition skip_start :: "root_state \<times> unit thunk" where
  "skip_start = seg root_reducer calm_env skipImageThunk 0 (root_initial 0)"

lemma skip_start_reached:
  "page_thunk skipImageThunk \<and> page_reaches page_thunk (root_initial 0) (fst skip_start, {#snd skip_start#})"
proof
  show "page_thunk skipImageThunk" by (simp add: page_thunk_def)
  then have "loop_step root_reducer page_thunk other_action (root_initial 0, {#})
      (fst skip_start, add_mset (snd skip_start) {#})"
    by (rule loop_step.start) (simp add: skip_start_def)
  then show "page_reaches page_thunk (root_initial 0) (fst skip_start, {#snd skip_start#})"
    by (rule reachable_from.step [OF reachable_from.init])
qed

lemma skip_start_held: "op_held (fst skip_start) = {Skipping}"
  by (auto simp: skip_start_def skipImageThunk_def fetchWithTimeout_def root_initial_def operation_initial_def
      op_busy_def op_held_def root_flags_def op_flags_def guarded_flags_def reducer_simps
      elim!: flag_set.elims)

lemma not_busy_initial: "\<not> op_busy (rs_slideshowOperation (root_initial t))"
  by (simp add: root_initial_def operation_initial_def op_busy_def)

lemma page_thunk_toggle_mono: "page_reaches page_thunk s0 x \<Longrightarrow> page_reaches page_thunk_or_toggle s0 x"
  by (erule reachable_mono) (simp_all add: page_thunk_or_toggle_def)

lemma one_operation_at_a_time_witness:
  "op_held (fst skip_start) = {Skipping} \<and> card (op_held (fst skip_start)) \<le> 1"
  using one_operation_at_a_time [of "root_initial 0" "fst skip_start" "{#snd skip_start#}"]
    skip_start_reached skip_start_held page_thunk_toggle_mono not_busy_initial by simp



text \<open>C8: The toggle breaks this. There is a run in which a first toggle, whose request to clear
  the display was lost after the board had switched, goes on polling and clears the flag of a
  second toggle that has only just started: the second one is in flight and the store is idle.\<close>

lemma stale_monitor_unlocks_other:
  "\<exists>s p q s2 s3. page_reaches page_thunk_or_toggle (root_initial 0) (s, {#p, q#}) \<and>
    \<not> op_busy (rs_slideshowOperation s) \<and> \<not> finished q \<and>
    seg root_reducer calm_env (toggleSlideshowThunk 3) 0 s2 = (s3, q) \<and>
    \<not> op_busy (rs_slideshowOperation s2) \<and> op_busy (rs_slideshowOperation s3)"
proof -
  obtain s2 s3 q s4 p4 where run: "stale_run = Some (s2, (s3, q), (s4, p4))"
    using stale_run_busy by (cases stale_run) auto
  from stale_run_busy [unfolded run]
  have "\<not> op_busy (rs_slideshowOperation s2)" "op_busy (rs_slideshowOperation s3)"
    "\<not> finished q" "\<not> op_busy (rs_slideshowOperation s4)" by simp_all
  with stale_run_reached [OF run] show ?thesis by blast
qed

text \<open>C9: The slice of the operations is kept over a reload. A reload during an operation leaves
  its flag set with nobody to give it back: from then on the store stays busy, whatever the user
  starts, and every one of the operations is refused.\<close>

lemma reload_blocks_operations:
  assumes "restores_operation persist_blacklist reconcile"
    and "op_busy (rs_slideshowOperation stored)"
    and "page_reaches page_thunk_or_toggle (reconcile stored fresh) (s, ps)"
  shows "op_busy (rs_slideshowOperation s)"
proof -
  have "rs_slideshowOperation (reconcile stored fresh) = rs_slideshowOperation stored"
    using assms(1) by (simp add: restores_operation_def persist_blacklist_def)
  with assms(2) have "op_held (reconcile stored fresh) \<noteq> {}" by (simp flip: op_busy_held)
  from op_lock.stuck_forever [OF page_reaches_stops [OF assms(3)] this] this
  show ?thesis by (simp add: op_busy_held)
qed

definition keep_operation :: "root_state \<Rightarrow> root_state \<Rightarrow> root_state" where
  "keep_operation stored fresh = fresh\<lparr>rs_slideshowOperation := rs_slideshowOperation stored\<rparr>"

lemma reload_blocks_operations_witness:
  "op_busy (rs_slideshowOperation (keep_operation (fst skip_start) (root_initial 0)))"
proof (rule reload_blocks_operations)
  show "restores_operation persist_blacklist keep_operation"
    by (simp add: restores_operation_def keep_operation_def)
  show "op_busy (rs_slideshowOperation (fst skip_start))"
    by (simp add: op_busy_held skip_start_held)
  show "page_reaches page_thunk_or_toggle (keep_operation (fst skip_start) (root_initial 0))
      (keep_operation (fst skip_start) (root_initial 0), {#})"
    by (rule reachable_from.init)
qed

end
