(* ===== verification/PowerThunks.thy ===== *)
theory PowerThunks
  imports OperationThunks
begin

text \<open>
  Restarting, shutting down and resetting the board (store/piPower/piPower.Slice.tsx). A power
  command takes the server down, so no answer counts as accepted. What happens to the board is
  then watched by polling its health; the rounds of the poll are counted by the fuel, and a
  round takes at least its pause, so \<open>poll_rounds\<close> of its options is fuel enough
  (\<open>pollHealth_enough\<close>).

  \<open>navigate\<close> is the router's function, \<open>window.location.reload\<close> the browser's: browser calls.
\<close>

section \<open>Commands and reachability\<close>

datatype power_result = Accepted | Rejected

definition power_timeout :: int where
  "power_timeout = 8000"

(* src: store/piPower/piPower.Slice.tsx 20-28: sendPowerCommand *)
definition sendPowerCommand :: "string \<Rightarrow> power_result thunk" where
  "sendPowerCommand url =
     tryP
       (fetchWithTimeout (post_req url) power_timeout (\<lambda>response.
        jsonP response (\<lambda>payload.
        getP payload ''success'' (\<lambda>success.
        Return (if truthy success then Accepted else Rejected)))))
       (\<lambda>_. Return Accepted)"

(* src: store/piPower/piPower.Slice.tsx 30-39: isReachable *)
definition isReachable :: "int \<Rightarrow> bool thunk" where
  "isReachable perRequestTimeoutMs =
     tryP
       (fetchWithTimeout (get_req getSystemHealthUrl) perRequestTimeoutMs (\<lambda>response.
        if \<not> rs_ok response then Return False
        else
          jsonP response (\<lambda>payload.
          Return (truthy (js_opt_get (js_opt_get payload ''data'') ''running'')))))
       (\<lambda>_. Return False)"

section \<open>Polling\<close>

datatype target = Up | Down

record poll_options =
  po_maxWaitMs :: int
  po_intervalMs :: int
  po_perRequestTimeoutMs :: int
  po_consecutive :: nat

definition poll_defaults :: poll_options where
  "poll_defaults =
    \<lparr>po_maxWaitMs = 120000, po_intervalMs = 3000, po_perRequestTimeoutMs = 3000, po_consecutive = 2\<rparr>"

(* src: store/piPower/piPower.Slice.tsx 50-57: the loop of pollHealth *)
fun poll_loop :: "nat \<Rightarrow> target \<Rightarrow> poll_options \<Rightarrow> int \<Rightarrow> nat \<Rightarrow> bool thunk" where
  "poll_loop 0 goal opts start streak = OutOfFuel"
| "poll_loop (Suc fuel) goal opts start streak =
     DateNow (\<lambda>now.
     if now - start < po_maxWaitMs opts then
       bindP (isReachable (po_perRequestTimeoutMs opts)) (\<lambda>reachable.
       let hit = (if goal = Up then reachable else \<not> reachable);
           streak' = (if hit then streak + 1 else 0)
       in if po_consecutive opts \<le> streak' then Return True
          else Sleep (po_intervalMs opts) (poll_loop fuel goal opts start streak'))
     else Return False)"

(* src: store/piPower/piPower.Slice.tsx 44-58: pollHealth *)
definition pollHealth :: "nat \<Rightarrow> target \<Rightarrow> poll_options \<Rightarrow> bool thunk" where
  "pollHealth fuel goal opts = DateNow (\<lambda>start. poll_loop fuel goal opts start 0)"

definition poll_rounds :: "poll_options \<Rightarrow> nat" where
  "poll_rounds opts = Suc (nat ((po_maxWaitMs opts + po_intervalMs opts - 1) div po_intervalMs opts))"

section \<open>Thunks\<close>

definition restart_down :: poll_options where
  "restart_down = poll_defaults\<lparr>po_maxWaitMs := 60000, po_consecutive := 1\<rparr>"

definition restart_up :: poll_options where
  "restart_up = poll_defaults\<lparr>po_maxWaitMs := 180000, po_consecutive := 1\<rparr>"

(* src: store/piPower/piPower.Slice.tsx 62-91: the payload creator of restartPi *)
definition restartPi_creator :: "nat \<Rightarrow> unit creator_result thunk" where
  "restartPi_creator fuel =
     Uuid (\<lambda>snackbarId.
     finallyP
       (tryP
         (loadingP snackbarId ''Bilderrahmen wird neu gestartet'' (
          bindP (sendPowerCommand getRestartPiUrl) (\<lambda>result.
          if result = Rejected then
            alertP (JStr ''Bilderrahmen konnte nicht neu gestartet werden'') Error (
            rejectP (JStr ''Neustartprozess fehlgeschlagen''))
          else
            Browser (NavigateTo getHomeUrl) (
            Dispatch (LoadingWallA (showLoadingWall (''Der Bilderrahmen wird neu gestartet. Die Seite l'' @ s_ae @
              ''dt von selbst neu, sobald er wieder erreichbar ist.''))) (
            bindP (pollHealth fuel Down restart_down) (\<lambda>_.
            bindP (pollHealth fuel Up restart_up) (\<lambda>backUp.
            if backUp then Browser ReloadPage (Return (Value ()))
            else Return (Value ()))))))))
         (\<lambda>error.
          alertP (JStr ''Bilderrahmen konnte nicht neu gestartet werden'') Error (
          rejectP (unknown_error error))))
       (unloadP snackbarId (Return ())))"

(* src: store/piPower/piPower.Slice.tsx 60-92: restartPi *)
definition restartPi :: "unit cat \<Rightarrow> nat \<Rightarrow> unit thunk" where
  "restartPi cat fuel = cat (UnhandledA ''piPower/restartPi/pending'') (\<lambda>_. UnhandledA ''piPower/restartPi/fulfilled'')
     (\<lambda>p m. UnhandledA ''piPower/restartPi/rejected'') (restartPi_creator fuel)"

(* src: store/piPower/piPower.Slice.tsx 96-127: the payload creator of shutdownPi *)
definition shutdownPi_creator :: "nat \<Rightarrow> unit creator_result thunk" where
  "shutdownPi_creator fuel =
     Uuid (\<lambda>snackbarId.
     finallyP
       (tryP
         (loadingP snackbarId ''Bilderrahmen wird heruntergefahren'' (
          bindP
            (tryP (fetchWithTimeout (post_req getClearDisplayUrl) power_timeout (\<lambda>_. Return ()))
              (\<lambda>_. Return ())) (\<lambda>_.
          bindP (sendPowerCommand getShutdownPiUrl) (\<lambda>result.
          if result = Rejected then
            alertP (JStr ''Bilderrahmen konnte nicht heruntergefahren werden'') Error (
            rejectP (JStr ''Herunterfahrprozess fehlgeschlagen''))
          else
            Browser (NavigateTo getHomeUrl) (
            Dispatch (LoadingWallA (showLoadingWall (''Der Bilderrahmen wird heruntergefahren '' @ s_dots))) (
            bindP (pollHealth fuel Down (poll_defaults\<lparr>po_maxWaitMs := 120000, po_consecutive := 2\<rparr>)) (\<lambda>_.
            Dispatch (LoadingWallA (showLoadingWall (''Der Bilderrahmen ist ausgeschaltet. Zum Einschalten trenne '' @
              ''den Strom kurz und stecke ihn wieder ein, er startet dann von selbst.''))) (
            Return (Value ())))))))))
         (\<lambda>error.
          alertP (JStr ''Bilderrahmen konnte nicht heruntergefahren werden'') Error (
          rejectP (unknown_error error))))
       (unloadP snackbarId (Return ())))"

(* src: store/piPower/piPower.Slice.tsx 94-129: shutdownPi *)
definition shutdownPi :: "unit cat \<Rightarrow> nat \<Rightarrow> unit thunk" where
  "shutdownPi cat fuel = cat (UnhandledA ''piPower/shutdownPi/pending'') (\<lambda>_. UnhandledA ''piPower/shutdownPi/fulfilled'')
     (\<lambda>p m. UnhandledA ''piPower/shutdownPi/rejected'') (shutdownPi_creator fuel)"

(* src: store/piPower/piPower.Slice.tsx 133-157: the payload creator of factoryResetPi *)
definition factoryResetPi_creator :: "nat \<Rightarrow> unit creator_result thunk" where
  "factoryResetPi_creator fuel =
     Uuid (\<lambda>snackbarId.
     finallyP
       (tryP
         (loadingP snackbarId (''Bilderrahmen wird zur'' @ s_ue @ ''ckgesetzt'') (
          bindP (sendPowerCommand getFactoryResetUrl) (\<lambda>result.
          if result = Rejected then
            alertP (JStr (''Bilderrahmen konnte nicht zur'' @ s_ue @ ''ckgesetzt werden'')) Error (
            rejectP (JStr (''Zur'' @ s_ue @ ''cksetzen fehlgeschlagen'')))
          else
            Browser (NavigateTo getHomeUrl) (
            Dispatch (LoadingWallA (showLoadingWall (''Der Bilderrahmen wird auf Werkseinstellungen zur'' @ s_ue @
              ''ckgesetzt '' @ s_dots))) (
            bindP (pollHealth fuel Down (poll_defaults\<lparr>po_maxWaitMs := 120000, po_consecutive := 2\<rparr>)) (\<lambda>_.
            Dispatch (LoadingWallA (showLoadingWall (''Der Bilderrahmen ist auf Werkseinstellungen zur'' @ s_ue @
              ''ckgesetzt und startet im Einrichtungsmodus. Verbinde dich mit seinem Hotspot, um ihn neu einzurichten.''))) (
            Return (Value ()))))))))
         (\<lambda>error.
          alertP (JStr (''Bilderrahmen konnte nicht zur'' @ s_ue @ ''ckgesetzt werden'')) Error (
          rejectP (unknown_error error))))
       (unloadP snackbarId (Return ())))"

(* src: store/piPower/piPower.Slice.tsx 131-159: factoryResetPi *)
definition factoryResetPi :: "unit cat \<Rightarrow> nat \<Rightarrow> unit thunk" where
  "factoryResetPi cat fuel =
     cat (UnhandledA ''piPower/factoryResetPi/pending'') (\<lambda>_. UnhandledA ''piPower/factoryResetPi/fulfilled'')
       (\<lambda>p m. UnhandledA ''piPower/factoryResetPi/rejected'') (factoryResetPi_creator fuel)"

(* src: store/piPower/piPower.Slice.tsx 167-167: selectPiPowerState *)
definition selectPiPowerState :: "root_state \<Rightarrow> unit" where
  "selectPiPowerState state = rs_piPower state"

lemmas power_thunk_defs [thunk_defs] =
  restartPi_def shutdownPi_def factoryResetPi_def

lemmas power_creator_defs [prog_simps] =
  restartPi_creator_def shutdownPi_creator_def factoryResetPi_creator_def

section \<open>The command and the health check\<close>

lemma power_programs_ok:
  "quiet (sendPowerCommand url)" "no_throw (sendPowerCommand url)" "no_outage (sendPowerCommand url)"
  "quiet (isReachable t)" "no_throw (isReachable t)" "no_outage (isReachable t)" "sleeps_ok (isReachable t)"
  by (auto simp: sendPowerCommand_def isReachable_def split: sum.splits)

text \<open>The command is rejected only by an answer that says so.\<close>

lemma sendPowerCommand_result:
  "fst (runR w (sendPowerCommand url) c) = Returned
     (case json_at w (cf_steps c) (post_req url) power_timeout of
        Inl e \<Rightarrow> Accepted
      | Inr payload \<Rightarrow> if nullish payload \<or> truthy (own_prop payload ''success'') then Accepted else Rejected)"
  by (auto simp: sendPowerCommand_def json_at_def reply_at_def split: sum.splits)

lemma isReachable_returns: "\<exists>b. fst (runR w (isReachable t) c) = Returned b"
  using run_no_outage [OF power_programs_ok(6), of root_reducer w t c]
    run_no_throw [OF power_programs_ok(5), of root_reducer w t c]
  by (cases "fst (runR w (isReachable t) c)") auto

section \<open>The poll\<close>

text \<open>The rounds the poll makes if nothing stops it: where the n-th begins and what it sees.\<close>

definition next_round :: "world \<Rightarrow> poll_options \<Rightarrow> root_cfg \<Rightarrow> root_cfg" where
  "next_round w opts c =
     (let c' = snd (runR w (isReachable (po_perRequestTimeoutMs opts)) (tick w c))
      in tick w (c'\<lparr>cf_time := cf_time c' + po_intervalMs opts\<rparr>))"

primrec round_start :: "world \<Rightarrow> poll_options \<Rightarrow> nat \<Rightarrow> root_cfg \<Rightarrow> root_cfg" where
  "round_start w opts 0 c = c"
| "round_start w opts (Suc n) c = round_start w opts n (next_round w opts c)"

definition sees :: "world \<Rightarrow> target \<Rightarrow> poll_options \<Rightarrow> root_cfg \<Rightarrow> bool" where
  "sees w goal opts c =
     (let up = (fst (runR w (isReachable (po_perRequestTimeoutMs opts)) (tick w c)) = Returned True)
      in if goal = Up then up else \<not> up)"

definition sightings :: "world \<Rightarrow> target \<Rightarrow> poll_options \<Rightarrow> nat \<Rightarrow> root_cfg \<Rightarrow> bool list" where
  "sightings w goal opts n c = map (\<lambda>i. sees w goal opts (round_start w opts i c)) [0..<n]"

text \<open>The length of the streak at the end of a list of sightings that follows a streak of \<open>s\<close>.\<close>

definition streak_after :: "nat \<Rightarrow> bool list \<Rightarrow> nat" where
  "streak_after s hs = foldl (\<lambda>k h. if h then k + 1 else 0) s hs"

lemma streak_after_Cons: "streak_after s (h # hs) = streak_after (if h then s + 1 else 0) hs"
  by (simp add: streak_after_def)

lemma streak_after_snoc: "streak_after s (hs @ [h]) = (if h then streak_after s hs + 1 else 0)"
  by (simp add: streak_after_def)

lemma streak_after_last:
  "k \<le> streak_after 0 hs \<longleftrightarrow> k \<le> length hs \<and> (\<forall>i < k. hs ! (length hs - 1 - i))"
proof (induction hs arbitrary: k rule: rev_induct)
  case Nil
  then show ?case by (cases k) (auto simp: streak_after_def)
next
  case (snoc h hs)
  show ?case
  proof (cases k)
    case 0
    then show ?thesis by simp
  next
    case (Suc j)
    have "(\<forall>i < Suc j. (hs @ [h]) ! (length hs - i)) \<longleftrightarrow>
        h \<and> (\<forall>i < j. (hs @ [h]) ! (length hs - Suc i))"
      by (simp add: All_less_Suc2)
    moreover have "(hs @ [h]) ! (length hs - Suc i) = hs ! (length hs - 1 - i)" if "i < j" "j \<le> length hs" for i
    proof -
      from that have "length hs - Suc i < length hs" by linarith
      then show ?thesis by (simp add: nth_append)
    qed
    ultimately show ?thesis
      using snoc.IH [of j] Suc by (auto simp: streak_after_snoc)
  qed
qed

lemma sightings_Suc:
  "sightings w goal opts (Suc n) c = sees w goal opts c # sightings w goal opts n (next_round w opts c)"
  by (simp add: sightings_def upt_conv_Cons map_Suc_upt [symmetric] del: upt_Suc)

text \<open>One round of the loop, over what it sees.\<close>

lemma run_poll_Suc:
  "runR w (poll_loop (Suc fuel) goal opts start streak) c =
     (if cf_time c - start < po_maxWaitMs opts then
        (let streak' = (if sees w goal opts c then streak + 1 else 0)
         in if po_consecutive opts \<le> streak'
            then (Returned True, snd (runR w (isReachable (po_perRequestTimeoutMs opts)) (tick w c)))
            else runR w (poll_loop fuel goal opts start streak') (next_round w opts c))
      else (Returned False, tick w c))"
proof -
  obtain b where "fst (runR w (isReachable (po_perRequestTimeoutMs opts)) (tick w c)) = Returned b"
    using isReachable_returns by blast
  then show ?thesis
    by (cases "runR w (isReachable (po_perRequestTimeoutMs opts)) (tick w c)")
      (auto simp: run_bindP Let_def sees_def next_round_def)
qed

lemma poll_loop_result:
  assumes "runR w (poll_loop fuel goal opts start streak) c = (Returned b, c')"
  shows "if b then \<exists>n. po_consecutive opts \<le> streak_after streak (sightings w goal opts (Suc n) c)
    else \<exists>n. po_maxWaitMs opts \<le> cf_time (round_start w opts n c) - start \<and>
      (\<forall>m < n. streak_after streak (sightings w goal opts (Suc m) c) < po_consecutive opts)"
  using assms
proof (induction fuel arbitrary: streak c)
  case 0
  then show ?case by simp
next
  case (Suc fuel)
  let ?s = "if sees w goal opts c then streak + 1 else 0"
  have more: "streak_after streak (sightings w goal opts (Suc n) c) =
      streak_after ?s (sightings w goal opts n (next_round w opts c))" for n
    by (simp add: sightings_Suc streak_after_Cons)
  show ?case
  proof (cases "cf_time c - start < po_maxWaitMs opts")
    case False
    with Suc.prems have "\<not> b" by (simp add: run_poll_Suc del: poll_loop.simps)
    with False show ?thesis by (auto intro!: exI [of _ 0])
  next
    case True
    show ?thesis
    proof (cases "po_consecutive opts \<le> ?s")
      case enough: True
      with True Suc.prems have "b" by (auto simp: run_poll_Suc Let_def simp del: poll_loop.simps split: if_splits)
      moreover have "po_consecutive opts \<le> streak_after streak (sightings w goal opts (Suc 0) c)"
        using enough more [of 0] by (simp add: sightings_def streak_after_def)
      ultimately show ?thesis by auto
    next
      case False
      with True Suc.prems
      have run: "runR w (poll_loop fuel goal opts start ?s) (next_round w opts c) = (Returned b, c')"
        by (auto simp: run_poll_Suc Let_def simp del: poll_loop.simps split: if_splits)
      show ?thesis
      proof (cases b)
        case True
        with Suc.IH [OF run] obtain n where
          "po_consecutive opts \<le> streak_after ?s (sightings w goal opts (Suc n) (next_round w opts c))"
          by auto
        with more [of "Suc n"] have "po_consecutive opts \<le> streak_after streak (sightings w goal opts (Suc (Suc n)) c)"
          by simp
        with True show ?thesis by (auto intro: exI [of _ "Suc n"])
      next
        case b: False
        with Suc.IH [OF run] obtain n where n:
          "po_maxWaitMs opts \<le> cf_time (round_start w opts n (next_round w opts c)) - start"
          "\<forall>m < n. streak_after ?s (sightings w goal opts (Suc m) (next_round w opts c)) < po_consecutive opts"
          by auto
        have "streak_after streak (sightings w goal opts (Suc m) c) < po_consecutive opts" if "m < Suc n" for m
          using that n(2) False more [of m]
          by (cases m) (auto simp: sightings_def streak_after_def)
        with n(1) b show ?thesis by (auto intro!: exI [of _ "Suc n"])
      qed
    qed
  qed
qed

section \<open>The poll ends\<close>

lemma next_round_later:
  assumes "forward_time w"
  shows "cf_time c + po_intervalMs opts \<le> cf_time (next_round w opts c)"
proof -
  let ?p = "isReachable (po_perRequestTimeoutMs opts)"
  have "cf_time c \<le> cf_time (tick w c)" using assms by simp
  also have "\<dots> \<le> cf_time (snd (runR w ?p (tick w c)))"
    by (rule run_time [OF assms power_programs_ok(7)])
  finally show ?thesis
    using forward_lag [OF assms] by (simp add: next_round_def Let_def add_increasing2)
qed

lemma poll_loop_enough:
  assumes "forward_time w" and "0 < po_intervalMs opts"
  shows "po_maxWaitMs opts - (cf_time c - start) \<le> po_intervalMs opts * int n \<Longrightarrow>
    \<exists>b. fst (runR w (poll_loop (Suc n) goal opts start streak) c) = Returned b"
proof (induction n arbitrary: c streak)
  case 0
  then have "fst (runR w (poll_loop (Suc 0) goal opts start streak) c) = Returned False"
    by (simp add: run_poll_Suc del: poll_loop.simps)
  then show ?case by blast
next
  case (Suc n)
  have "po_maxWaitMs opts - (cf_time (next_round w opts c) - start) \<le> po_intervalMs opts * int n"
    using Suc.prems next_round_later [OF assms(1), of c opts] by (simp add: algebra_simps)
  from Suc.IH [OF this] show ?case
    by (auto simp: run_poll_Suc [of w "Suc n"] Let_def simp del: poll_loop.simps)
qed

lemma pollHealth_enough:
  assumes "forward_time w" and "0 < po_intervalMs opts" and "poll_rounds opts \<le> fuel"
  shows "\<exists>b. fst (runR w (pollHealth fuel goal opts) c) = Returned b"
proof -
  define k where "k = nat ((po_maxWaitMs opts + po_intervalMs opts - 1) div po_intervalMs opts)"
  obtain n where fuel: "fuel = Suc n" and "k \<le> n"
    using assms(3) by (cases fuel) (auto simp: poll_rounds_def k_def)
  let ?i = "po_intervalMs opts" and ?x = "po_maxWaitMs opts + po_intervalMs opts - 1"
  have "po_maxWaitMs opts \<le> ?i * (?x div ?i)"
  proof -
    have "?x mod ?i < ?i" using assms(2) by simp
    moreover have "?i * (?x div ?i) + ?x mod ?i = ?x" by simp
    ultimately show ?thesis by linarith
  qed
  also have "\<dots> \<le> ?i * int k"
    using assms(2) by (simp add: k_def)
  also have "\<dots> \<le> ?i * int n"
    using assms(2) \<open>k \<le> n\<close> by simp
  finally have "po_maxWaitMs opts - (cf_time (tick w c) - cf_time c) \<le> ?i * int n"
    using forward_lag [OF assms(1), of "cf_steps c"] by simp
  from poll_loop_enough [OF assms(1,2) this] show ?thesis
    by (simp add: pollHealth_def fuel del: poll_loop.simps)
qed

section \<open>What the power thunks give back\<close>

lemma poll_loop_ok: "quiet (poll_loop fuel goal opts start streak)" "no_throw (poll_loop fuel goal opts start streak)"
  by (induction fuel arbitrary: streak)
    (auto simp: Let_def intro!: quiet_bindP no_throw_bindP power_programs_ok)

lemma pollHealth_ok: "quiet (pollHealth fuel goal opts)" "no_throw (pollHealth fuel goal opts)"
  by (simp_all add: pollHealth_def poll_loop_ok)

lemmas power_pushes =
  tryP_bindP_no_throw finallyP_bindP_no_throw power_programs_ok pollHealth_ok

lemma power_tracked:
  "tracked notice_step (restartPi_creator fuel) {}"
  "tracked notice_step (shutdownPi_creator fuel) {}"
  "tracked notice_step (factoryResetPi_creator fuel) {}"
  by (auto simp: prog_simps power_pushes reducer_simps bindP_assoc
      intro!: tracked_quiet_bindP split: sum.splits)

section \<open>Properties\<close>

text \<open>A power command counts as rejected exactly when the board answers within eight seconds
  with JSON that is not null and whose \<open>success\<close> is falsy; a lost answer, a timeout, an answer
  that is no JSON and null all count as accepted.\<close>

lemma power_command_rejected:
  "fst (runR w (sendPowerCommand url) c) = Returned Rejected \<longleftrightarrow>
     (\<exists>payload. json_at w (cf_steps c) (post_req url) power_timeout = Inr payload \<and> \<not> nullish payload \<and>
        \<not> truthy (own_prop payload ''success''))"
  by (auto simp: sendPowerCommand_result split: sum.splits)

text \<open>C15: A poll that reports the state as reached has seen it in as many of its last checks in a
  row as it was asked for; a poll that gives up has waited its time out and never seen that.\<close>

lemma poll_result:
  assumes "runR w (pollHealth fuel goal opts) c = (Returned b, c')"
  shows "if b
    then \<exists>n. let seen = sightings w goal opts (Suc n) (tick w c)
         in po_consecutive opts \<le> length seen \<and>
            (\<forall>i < po_consecutive opts. seen ! (length seen - 1 - i))
    else \<exists>n. po_maxWaitMs opts \<le> cf_time (round_start w opts n (tick w c)) - cf_time c \<and>
         (\<forall>m < n. streak_after 0 (sightings w goal opts (Suc m) (tick w c)) < po_consecutive opts)"
proof -
  have "runR w (poll_loop fuel goal opts (cf_time c) 0) (tick w c) = (Returned b, c')"
    using assms by (simp add: pollHealth_def)
  from poll_loop_result [OF this] show ?thesis
    by (cases b) (simp_all only: streak_after_last Let_def if_True if_False simp_thms)
qed

definition healthy_world :: world where
  "healthy_world = silent_world\<lparr>w_net := \<lambda>_ _. \<lparr>ne_latency = 5, ne_answer = Inr \<lparr>rs_status = 200,
     rs_body = Inr (JObj [(''data'', JObj [(''running'', JBool True)])])\<rparr>\<rparr>\<rparr>"

lemma healthy_poll: "\<exists>c'. runR healthy_world (pollHealth 3 Up restart_up) fresh_cfg = (Returned True, c')"
  by (simp add: pollHealth_def restart_up_def poll_defaults_def isReachable_def reply_at_def fetch_settles_def
      healthy_world_def silent_world_def fresh_cfg_def rs_ok_def js_opt_get_def eval_nat_numeral)

lemma poll_result_witness:
  "\<exists>n. let seen = sightings healthy_world Up restart_up (Suc n) (tick healthy_world fresh_cfg)
       in 1 \<le> length seen \<and> seen ! (length seen - 1)"
proof -
  obtain c' where "runR healthy_world (pollHealth 3 Up restart_up) fresh_cfg = (Returned True, c')"
    using healthy_poll by blast
  from poll_result [OF this] show ?thesis by (simp add: restart_up_def poll_defaults_def Let_def)
qed

text \<open>C16: Every poll ends: with a positive pause between its checks and time that does not run
  backwards, the rounds that fit into its waiting time are fuel enough.\<close>

lemma poll_terminates:
  assumes "forward_time w" and "0 < po_intervalMs opts" and "poll_rounds opts \<le> fuel"
  shows "\<exists>b. fst (runR w (pollHealth fuel goal opts) c) = Returned b"
  by (rule pollHealth_enough [OF assms])

lemma poll_terminates_witness:
  "poll_rounds restart_up = 61 \<and> (\<exists>b. fst (runR silent_world (pollHealth 61 Up restart_up) fresh_cfg) = Returned b)"
proof -
  have "poll_rounds restart_up = 61" by (simp add: poll_rounds_def restart_up_def poll_defaults_def)
  moreover from this have "\<exists>b. fst (runR silent_world (pollHealth 61 Up restart_up) fresh_cfg) = Returned b"
    by (intro poll_terminates) (simp_all add: forward_time_def silent_world_def restart_up_def poll_defaults_def)
  ultimately show ?thesis by blast
qed

end
