(* ===== verification/TimerThunks.thy ===== *)
theory TimerThunks
  imports Effects
begin

text \<open>
  The thunks of the timers (store/timers/timers.Slice.tsx) and the hook the pages use
  (hooks/useTimer.tsx): its effects are programs, what it returns is a view of the timer.
\<close>

section \<open>Synchronising\<close>

text \<open>\<open>timer.isActive && timer.startTimestamp\<close>: a start at time 0 counts as none.\<close>

definition started_at :: "timer \<Rightarrow> int option" where
  "started_at t =
     (case tm_startTimestamp t of
        Some s \<Rightarrow> if tm_isActive t \<and> s \<noteq> 0 then Some s else None
      | None \<Rightarrow> None)"

definition set_remainingP :: "string \<Rightarrow> int \<Rightarrow> 'r thunk \<Rightarrow> 'r thunk" where
  "set_remainingP i newRemaining k =
     Dispatch (TimersA (UpdateTimer i (Some newRemaining)))
       (if newRemaining = 0 then Dispatch (TimersA (StopTimer i)) k else k)"

(* src: store/timers/timers.Slice.tsx 37-50: the loop of syncTimers *)
fun sync_each :: "int \<Rightarrow> (string \<times> timer) list \<Rightarrow> 'r thunk \<Rightarrow> 'r thunk" where
  "sync_each elapsedMs [] k = k"
| "sync_each elapsedMs ((i, t) # ts) k =
     (if started_at t \<noteq> None
      then set_remainingP i (max 0 (tm_remaining t - elapsedMs div 1000)) (sync_each elapsedMs ts k)
      else sync_each elapsedMs ts k)"

(* src: store/timers/timers.Slice.tsx 30-53: the payload creator of syncTimers *)
definition syncTimers_creator :: "int creator_result thunk" where
  "syncTimers_creator =
     GetState (\<lambda>state. DateNow (\<lambda>currentTime.
     sync_each (currentTime - ts_lastSyncTime (rs_timers state)) (ts_timers (rs_timers state))
       (Return (Value currentTime))))"

(* src: store/timers/timers.Slice.tsx 28-54: syncTimers *)
definition syncTimers :: "int cat \<Rightarrow> unit thunk" where
  "syncTimers cat = cat (TimersA SyncTimersPending) (TimersA \<circ> SyncTimersFulfilled)
     (\<lambda>p m. TimersA (SyncTimersRejected p m)) syncTimers_creator"

(* src: store/timers/timers.Slice.tsx 58-80: the payload creator of syncSpecificTimer *)
definition syncSpecificTimer_creator :: "string \<Rightarrow> (string \<times> int option) creator_result thunk" where
  "syncSpecificTimer_creator timerId =
     GetState (\<lambda>state.
     case map_of (ts_timers (rs_timers state)) timerId of
       None \<Rightarrow> Return (Value (timerId, None))
     | Some timer \<Rightarrow>
         (case started_at timer of
            None \<Rightarrow> Return (Value (timerId, None))
          | Some s \<Rightarrow>
              DateNow (\<lambda>currentTime.
              let newRemaining = max 0 (tm_duration timer - (currentTime - s) div 1000) in
              set_remainingP timerId newRemaining (
              Return (Value (timerId, Some newRemaining))))))"

(* src: store/timers/timers.Slice.tsx 56-81: syncSpecificTimer *)
definition syncSpecificTimer :: "(string \<times> int option) cat \<Rightarrow> string \<Rightarrow> unit thunk" where
  "syncSpecificTimer cat timerId =
     cat (TimersA SyncSpecificPending) (\<lambda>(i, r). TimersA (SyncSpecificFulfilled i r))
       (\<lambda>p m. TimersA (SyncSpecificRejected p m)) (syncSpecificTimer_creator timerId)"

lemmas timer_thunk_defs [thunk_defs] = syncTimers_def syncSpecificTimer_def
lemmas timer_creator_defs [prog_simps] =
  syncTimers_creator_def syncSpecificTimer_creator_def set_remainingP_def

section \<open>The hook\<close>

definition useTimer_duration :: int where
  "useTimer_duration = 180"

text \<open>The first effect; \<open>setTimeout(.., 0)\<close> is the last thing it does.\<close>

(* src: hooks/useTimer.tsx 18-30: the first effect of useTimer *)
definition useTimer_init ::
  "(string \<times> int option) cat \<Rightarrow> string \<Rightarrow> int \<Rightarrow> bool \<Rightarrow> bool \<Rightarrow> timer option \<Rightarrow> unit thunk" where
  "useTimer_init cat i duration autoStart shouldCreate timer =
     (if timer = None \<and> shouldCreate then
        Dispatch (TimersA (AddTimer i (Some duration)))
          (if autoStart then Sleep 0 (Dispatch (TimersA (StartTimer i)) (Return ())) else Return ())
      else syncSpecificTimer cat i)"

text \<open>
  The second effect, while the timer is active: a sync at once and one with every tick of the
  interval, \<open>ticks\<close> of them before the clean-up.
\<close>

(* src: hooks/useTimer.tsx 46-48: the interval of useTimer *)
fun sync_ticks :: "(string \<times> int option) cat \<Rightarrow> string \<Rightarrow> nat \<Rightarrow> unit thunk" where
  "sync_ticks cat i 0 = Return ()"
| "sync_ticks cat i (Suc n) = Sleep 1000 (bindP (syncSpecificTimer cat i) (\<lambda>_. sync_ticks cat i n))"

(* src: hooks/useTimer.tsx 33-57: the second effect of useTimer *)
definition useTimer_interval :: "(string \<times> int option) cat \<Rightarrow> string \<Rightarrow> timer option \<Rightarrow> nat \<Rightarrow> unit thunk" where
  "useTimer_interval cat i timer ticks =
     (case timer of
        Some t \<Rightarrow> if tm_isActive t then bindP (syncSpecificTimer cat i) (\<lambda>_. sync_ticks cat i ticks) else Return ()
      | None \<Rightarrow> Return ())"

(* src: hooks/useTimer.tsx 60-68: the focus effect of useTimer *)
definition useTimer_focus :: "(string \<times> int option) cat \<Rightarrow> string \<Rightarrow> unit thunk" where
  "useTimer_focus cat i = syncSpecificTimer cat i"

(* src: hooks/useTimer.tsx 71-85: start, stop, reset, remove *)
datatype timer_command = TimerStart | TimerStop | TimerReset | TimerRemove

fun timer_command_action :: "string \<Rightarrow> timer_command \<Rightarrow> action" where
  "timer_command_action i TimerStart = TimersA (StartTimer i)"
| "timer_command_action i TimerStop = TimersA (StopTimer i)"
| "timer_command_action i TimerReset = TimersA (ResetTimer i)"
| "timer_command_action i TimerRemove = TimersA (RemoveTimer i)"

record timer_view =
  tv_time :: int
  tv_formattedTime :: string
  tv_isActive :: bool
  tv_isComplete :: bool

(* src: hooks/useTimer.tsx 87-96: the result of useTimer *)
definition useTimer_view :: "timer option \<Rightarrow> timer_view" where
  "useTimer_view timer =
     (let remaining = (case timer of None \<Rightarrow> 0 | Some t \<Rightarrow> tm_remaining t)
      in \<lparr>tv_time = remaining, tv_formattedTime = formatTime remaining,
          tv_isActive = (case timer of None \<Rightarrow> False | Some t \<Rightarrow> tm_isActive t),
          tv_isComplete = (case timer of None \<Rightarrow> False | Some t \<Rightarrow> tm_remaining t \<le> 0)\<rparr>)"

section \<open>What a sync leaves\<close>

text \<open>The timer after a sync at \<open>now\<close>: what remains by the clock, and halted at zero.\<close>

definition synced :: "int \<Rightarrow> timer \<Rightarrow> timer" where
  "synced now t = (case started_at t of None \<Rightarrow> t | Some s \<Rightarrow> remaining_set (remaining_at now t) t)"

lemma halted_idem [simp]: "halted (halted t) = halted t"
  by (simp add: halted_def)

lemma run_syncSpecific:
  assumes "rtk_lifecycle cat"
  shows "\<exists>c'. runR w (syncSpecificTimer cat i) c = (Returned (), c') \<and>
    selectTimer (rs_timers (cf_store c')) i =
      map_option (synced (cf_time c + w_lag w (cf_steps c))) (selectTimer (rs_timers (cf_store c)) i)"
  by (auto simp: syncSpecificTimer_def syncSpecificTimer_creator_def set_remainingP_def
      rtk_lifecycle_run [OF assms] settled_action_def selectTimer_def map_of_modify_timer synced_def
      remaining_at_def started_at_def remaining_set_def Let_def halted_def split: option.splits if_splits)

lemma run_syncSpecific_others:
  assumes "rtk_lifecycle cat" and "k \<noteq> i" and "runR w (syncSpecificTimer cat i) c = (r, c')"
  shows "selectTimer (rs_timers (cf_store c')) k = selectTimer (rs_timers (cf_store c)) k"
  using assms(2,3)
  by (auto simp: syncSpecificTimer_def syncSpecificTimer_creator_def set_remainingP_def
      rtk_lifecycle_run [OF assms(1)] settled_action_def selectTimer_def map_of_modify_timer
      Let_def split: option.splits if_splits)

lemma timer_wf_synced:
  assumes "timer_wf t" and "\<And>s. tm_startTimestamp t = Some s \<Longrightarrow> s \<le> now"
  shows "timer_wf (synced now t)"
proof (cases "started_at t")
  case None
  with assms(1) show ?thesis by (simp add: synced_def)
next
  case (Some s)
  then have "tm_startTimestamp t = Some s" by (auto simp: started_at_def split: option.splits if_splits)
  moreover from this assms(2) have "0 \<le> (now - s) div 1000" by (simp add: pos_imp_zdiv_nonneg_iff)
  ultimately have "remaining_at now t \<le> tm_duration t"
    using assms(1) by (simp add: remaining_at_def timer_wf_def)
  with Some assms(1) show ?thesis by (simp add: synced_def timer_wf_remaining_set)
qed

text \<open>Once the duration is over the timer is at zero and no longer runs.\<close>

lemma synced_over:
  assumes "started_at t = Some s" and "1000 * tm_duration t \<le> now - s" and "0 \<le> tm_duration t"
  shows "tm_remaining (synced now t) = 0" and "\<not> tm_isActive (synced now t)"
proof -
  have "tm_startTimestamp t = Some s" using assms(1) by (auto simp: started_at_def split: option.splits if_splits)
  moreover have "tm_duration t \<le> (now - s) div 1000" using assms(2) by linarith
  ultimately have "remaining_at now t = 0" by (simp add: remaining_at_def)
  with assms(1) show "tm_remaining (synced now t) = 0" and "\<not> tm_isActive (synced now t)"
    by (simp_all add: synced_def remaining_set_def halted_def)
qed

lemma timers_tracked:
  "tracked notice_step (syncSpecificTimer_creator i) {}"
  by (auto simp: syncSpecificTimer_creator_def set_remainingP_def Let_def split: option.splits)

section \<open>Property\<close>

text \<open>A sync of one running timer sets its remaining time to its duration less the whole
  seconds since its start by the clock, never below zero, and stops it when nothing remains;
  it is the clock that counts, not how many syncs there were.\<close>

lemma sync_specific_timer:
  assumes "rtk_lifecycle cat"
    and "selectTimer (rs_timers (cf_store c)) i = Some t" and "started_at t = Some s"
    and "now = cf_time c + w_lag w (cf_steps c)"
  shows "\<exists>c' t'. runR w (syncSpecificTimer cat i) c = (Returned (), c') \<and>
    selectTimer (rs_timers (cf_store c')) i = Some t' \<and>
    tm_remaining t' = max 0 (tm_duration t - (now - s) div 1000) \<and>
    (tm_isActive t' \<longleftrightarrow> 0 < tm_remaining t')"
proof -
  have start: "tm_startTimestamp t = Some s" "tm_isActive t"
    using assms(3) by (auto simp: started_at_def split: option.splits if_splits)
  obtain c' where c': "runR w (syncSpecificTimer cat i) c = (Returned (), c')"
    "selectTimer (rs_timers (cf_store c')) i = Some (synced now t)"
    using run_syncSpecific [OF assms(1), of w i c] assms(2,4) by auto
  have "tm_remaining (synced now t) = max 0 (tm_duration t - (now - s) div 1000)"
    and "tm_isActive (synced now t) \<longleftrightarrow> 0 < tm_remaining (synced now t)"
    using assms(3) start by (auto simp: synced_def remaining_set_def remaining_at_def halted_def Let_def)
  with c' show ?thesis by blast
qed

definition timed_cfg :: root_cfg where
  "timed_cfg = fresh_cfg\<lparr>cf_time := 60500, cf_store := (root_initial 0)\<lparr>rs_timers :=
     \<lparr>ts_timers = [(''t'', \<lparr>tm_id = ''t'', tm_duration = 180, tm_remaining = 180, tm_isActive = True,
        tm_startTimestamp = Some 1000\<rparr>)], ts_lastSyncTime = 1000\<rparr>\<rparr>\<rparr>"

lemma sync_specific_timer_witness:
  "\<exists>c' t'. runR silent_world (syncSpecificTimer standard_async_thunk ''t'') timed_cfg = (Returned (), c') \<and>
    selectTimer (rs_timers (cf_store c')) ''t'' = Some t' \<and> tm_remaining t' = 121 \<and> tm_isActive t'"
  using sync_specific_timer [OF rtk_lifecycle_standard, of timed_cfg "''t''" _ 1000 60501 silent_world]
  by (fastforce simp: timed_cfg_def fresh_cfg_def silent_world_def selectTimer_def started_at_def)

end
