(* ===== verification/Page.thy ===== *)
theory Page
  imports OperationLoop PowerThunks TimerThunks
begin

text \<open>
  The page as a whole: every thunk of the store may be started at any time and any number of
  times, with \<open>createAsyncThunk\<close> as \<open>standard_async_thunk\<close>. All of them give back the
  loading notices and the operation flags they take, whatever the interleaving.

  Then the contract between an async thunk and the loading flag of its slice.
\<close>

section \<open>Every thunk of the store\<close>

definition read_thunks :: "unit thunk set" where
  "read_thunks =
     {checkAuthStatusThunk standard_async_thunk, fetchConnectionMode standard_async_thunk,
      fetchNetworkData standard_async_thunk, fetchFrameInfos standard_async_thunk,
      fetchDisplayStats standard_async_thunk, fetchLatestRelease standard_async_thunk,
      fetchUpdateStatus standard_async_thunk, fetchUpdateHistory standard_async_thunk,
      fetchServices standard_async_thunk, fetchDisplayCustomization standard_async_thunk,
      fetchSlideshowImages standard_async_thunk, checkSlideshowStatusThunk standard_async_thunk,
      syncTimers standard_async_thunk, fetchDisplayImagesLoopInterval, fetchNightMode}
     \<union> range (fetchFrameLogs standard_async_thunk)
     \<union> range (syncSpecificTimer standard_async_thunk)"

definition write_thunks :: "unit thunk set" where
  "write_thunks =
     {logoutThunk standard_async_thunk, connectToSavedNetworks standard_async_thunk,
      performUpdate standard_async_thunk, skipImageThunk, clearDisplayThunk}
     \<union> range (loginThunk standard_async_thunk)
     \<union> (\<Union>p. range (changePasswordThunk standard_async_thunk p))
     \<union> range (addNetwork standard_async_thunk) \<union> range (forgetNetwork standard_async_thunk)
     \<union> range (changeApPassword standard_async_thunk) \<union> range (restartService standard_async_thunk)
     \<union> range (updateShowSender standard_async_thunk)
     \<union> (\<Union>m. range (updatePlaybackOrder standard_async_thunk m))
     \<union> range updateDisplayImagesLoopInterval
     \<union> (\<Union>en sh eh im. range (updateNightMode en sh eh im))
     \<union> range showImageThunk \<union> range toggleSlideshowThunk
     \<union> range (restartPi standard_async_thunk) \<union> range (shutdownPi standard_async_thunk)
     \<union> range (factoryResetPi standard_async_thunk)"

definition store_thunks :: "unit thunk set" where
  "store_thunks = read_thunks \<union> write_thunks"

text \<open>The settling actions of an async thunk are one per outcome; if none of them takes anything,
  the thunk owes what its creator owes.\<close>

lemma tracked_standard:
  assumes "tracked step p {}" and "step pend {} = Some {}"
    and "\<And>v. step (ful v) {} = Some {}" and "\<And>x m. step (rej x m) {} = Some {}"
  shows "tracked step (standard_async_thunk pend ful rej p) {}"
proof -
  have "tracked step (bindP (tryP (bindP p (\<lambda>r. Return (case r of Value v \<Rightarrow> ful v | RejectWithValue x \<Rightarrow> rej x ''Rejected'')))
      (\<lambda>e. Return (rej JUndefined (thrown_text e)))) (\<lambda>a. Dispatch a (Return ()))) L" if "tracked step p L" for L
    using that by (induction p arbitrary: L) (auto simp: assms split: creator_result.splits)
  with assms(1,2) show ?thesis by (simp add: standard_async_thunk_def)
qed

lemma sync_each_tracked:
  assumes "\<And>a. step (TimersA a) {} = Some {}"
  shows "tracked step (sync_each e ts (Return x)) {}"
  by (induction ts) (auto simp: set_remainingP_def assms)

lemma syncTimers_tracked: "tracked notice_step syncTimers_creator {}"
  by (simp add: syncTimers_creator_def sync_each_tracked)

lemmas creators_tracked =
  checkAuthStatus_tracked login_tracked changePassword_tracked logout_tracked
  fetchConnectionMode_tracked fetchNetworkData_tracked addNetwork_tracked forgetNetwork_tracked
  changeApPassword_tracked connectToSavedNetworks_tracked board_reads_tracked fetchFrameLogs_tracked
  performUpdate_tracked restartService_tracked updateShowSender_tracked slideshow_reads_tracked
  updatePlaybackOrder_tracked power_tracked syncTimers_tracked timers_tracked

lemma store_thunks_tracked_notices:
  assumes "p \<in> store_thunks"
  shows "tracked notice_step p {}"
  using assms
  by (auto simp: store_thunks_def read_thunks_def write_thunks_def thunk_defs creators_tracked
      interval_night_tracked_notices skip_show_clear_tracked_notices toggle_tracked_notices
      intro!: tracked_standard)

lemma creators_free_1:
  "tracked flag_step checkAuthStatus_creator {}"
  "tracked flag_step (login_creator cr) {}"
  "tracked flag_step (changePassword_creator pw pw') {}"
  "tracked flag_step logout_creator {}"
  "tracked flag_step fetchConnectionMode_creator {}"
  "tracked flag_step fetchNetworkData_creator {}"
  "tracked flag_step (addNetwork_creator nc) {}"
  "tracked flag_step (forgetNetwork_creator ssid) {}"
  "tracked flag_step (changeApPassword_creator pw) {}"
  "tracked flag_step connectToSavedNetworks_creator {}"
  by (auto simp: prog_simps boardAlertP_def fetchWithTimeout_def jsonP_def split: sum.splits)

lemma creators_free_2:
  "tracked flag_step fetchFrameInfos_creator {}"
  "tracked flag_step fetchDisplayStats_creator {}"
  "tracked flag_step (fetchFrameLogs_creator params) {}"
  "tracked flag_step fetchLatestRelease_creator {}"
  "tracked flag_step performUpdate_creator {}"
  "tracked flag_step fetchUpdateStatus_creator {}"
  "tracked flag_step fetchUpdateHistory_creator {}"
  "tracked flag_step fetchServices_creator {}"
  "tracked flag_step (restartService_creator i) {}"
  "tracked flag_step fetchDisplayCustomization_creator {}"
  "tracked flag_step (updateShowSender_creator b) {}"
  by (auto simp: prog_simps boardAlertP_def split: sum.splits option.splits)

lemma creators_free_3:
  "tracked flag_step fetchSlideshowImages_creator {}"
  "tracked flag_step checkSlideshowStatus_creator {}"
  "tracked flag_step (updatePlaybackOrder_creator mode ids) {}"
  "tracked flag_step (restartPi_creator fuel) {}"
  "tracked flag_step (shutdownPi_creator fuel) {}"
  "tracked flag_step (factoryResetPi_creator fuel) {}"
  "tracked flag_step syncTimers_creator {}"
  "tracked flag_step (syncSpecificTimer_creator t) {}"
  by (auto simp: prog_simps boardAlertP_def power_pushes bindP_assoc Let_def sync_each_tracked
      intro!: tracked_quiet_bindP split: sum.splits option.splits)

lemmas creators_free = creators_free_1 creators_free_2 creators_free_3

lemma store_thunks_tracked_flags:
  assumes "p \<in> store_thunks"
  shows "tracked flag_step p {}"
  using assms
  by (auto simp: store_thunks_def read_thunks_def write_thunks_def thunk_defs creators_free
      interval_night_tracked_flags skip_show_clear_tracked_flags toggle_tracked_flags
      intro!: tracked_standard)

text \<open>What else may happen on the page: an action that shows no loading notice and touches no flag.\<close>

definition quiet_action :: "action \<Rightarrow> bool" where
  "quiet_action a \<longleftrightarrow> notice_step a {} = Some {} \<and> flag_step a {} = Some {}"

lemma page_clean:
  assumes "reachable_from root_reducer (\<lambda>p. p \<in> store_thunks) quiet_action (s0, {#}) (s, ps)"
    and "\<forall>p \<in># ps. finished p"
  shows "notices s \<subseteq> notices s0" and "root_flags s \<subseteq> root_flags s0"
proof -
  from assms(1) have "reachable_from root_reducer (\<lambda>p. tracked notice_step p {})
      (\<lambda>a. notice_step a {} = Some {}) (s0, {#}) (s, ps)"
    by (rule reachable_mono) (simp_all add: store_thunks_tracked_notices quiet_action_def)
  then show "notices s \<subseteq> notices s0" using assms(2) by (rule notice_resource.all_finished_free)
  from assms(1) have "reachable_from root_reducer (\<lambda>p. tracked flag_step p {})
      (\<lambda>a. flag_step a {} = Some {}) (s0, {#}) (s, ps)"
    by (rule reachable_mono) (simp_all add: store_thunks_tracked_flags quiet_action_def)
  then show "root_flags s \<subseteq> root_flags s0" using assms(2) by (rule flag_resource.all_finished_free)
qed

section \<open>Loading flags\<close>

text \<open>
  An async thunk and the flag of its slice: \<open>pending\<close> sets it, both settling actions clear it.
  What follows: the flag is set when the creator starts, and when the thunk has ended it is
  off, whatever the creator did in between.
\<close>

locale loading_flag =
  fixes busy :: "root_state \<Rightarrow> bool"
    and pend :: action
    and ful :: "'v \<Rightarrow> action"
    and rej :: "jsval \<Rightarrow> string \<Rightarrow> action"
  assumes busy_pend: "busy (root_reducer now s pend)"
    and idle_ful: "\<not> busy (root_reducer now s (ful v))"
    and idle_rej: "\<not> busy (root_reducer now s (rej x m))"
begin

lemma idle_at_end:
  assumes "rtk_lifecycle cat" and "no_outage p"
  shows "\<exists>c'. runR w (cat pend ful rej p) c = (Returned (), c') \<and> \<not> busy (cf_store c')"
proof -
  let ?c = "tick w (dispatch root_reducer pend c)"
  obtain r c' where run: "runR w p ?c = (r, c')" by (cases "runR w p ?c")
  with run_no_outage [OF assms(2), of root_reducer w ?c] have "r \<noteq> Exhausted" by simp
  with run show ?thesis
    by (cases r) (auto simp: rtk_lifecycle_run [OF assms(1)] settled_action_def idle_ful idle_rej
        split: creator_result.splits)
qed

lemma busy_at_start: "busy (cf_store (tick w (dispatch root_reducer pend c)))"
  by (simp add: busy_pend)

end

interpretation checkStatus_flag: loading_flag "\<lambda>s. au_isLoading (rs_auth s)"
  "AuthA CheckStatusPending" "AuthA \<circ> CheckStatusFulfilled" "\<lambda>p m. AuthA (CheckStatusRejected p m)"
  by unfold_locales simp_all

interpretation login_flag: loading_flag "\<lambda>s. au_isLoading (rs_auth s)"
  "AuthA LoginPending" "AuthA \<circ> LoginFulfilled" "\<lambda>p m. AuthA (LoginRejected p m)"
  by unfold_locales simp_all

interpretation logout_flag: loading_flag "\<lambda>s. au_isLoading (rs_auth s)"
  "AuthA LogoutPending" "AuthA \<circ> LogoutFulfilled" "\<lambda>p m. AuthA (LogoutRejected p m)"
  by unfold_locales simp_all

interpretation networkData_flag: loading_flag "\<lambda>s. nw_loading (rs_network s)"
  "NetworkA FetchNetworkDataPending" "\<lambda>(current, saved). NetworkA (FetchNetworkDataFulfilled current saved)"
  "\<lambda>p m. NetworkA (FetchNetworkDataRejected p m)"
  by unfold_locales (simp_all split: prod.splits)

interpretation frameInfos_flag: loading_flag "\<lambda>s. fi_loading (rs_frameInfo s)"
  "FrameInfoA FetchFrameInfosPending" "FrameInfoA \<circ> FetchFrameInfosFulfilled"
  "\<lambda>p m. FrameInfoA (FetchFrameInfosRejected p m)"
  by unfold_locales simp_all

interpretation displayStats_flag: loading_flag "\<lambda>s. ds_loading (rs_displayStats s)"
  "DisplayStatsA FetchDisplayStatsPending" "DisplayStatsA \<circ> FetchDisplayStatsFulfilled"
  "\<lambda>p m. DisplayStatsA (FetchDisplayStatsRejected p m)"
  by unfold_locales simp_all

interpretation release_flag: loading_flag "\<lambda>s. up_loading (rs_updates s)"
  "UpdatesA FetchLatestReleasePending" "UpdatesA \<circ> FetchLatestReleaseFulfilled"
  "\<lambda>p m. UpdatesA (FetchLatestReleaseRejected p m)"
  by unfold_locales simp_all

interpretation services_flag: loading_flag "\<lambda>s. sv_loading (rs_services s)"
  "ServicesA FetchServicesPending" "ServicesA \<circ> FetchServicesFulfilled"
  "\<lambda>p m. ServicesA (FetchServicesRejected p m)"
  by unfold_locales simp_all

interpretation customization_flag: loading_flag "\<lambda>s. dc_isFetching (rs_displayCustomization s)"
  "CustomizationA FetchCustomizationPending" "CustomizationA \<circ> FetchCustomizationFulfilled"
  "\<lambda>p m. CustomizationA (FetchCustomizationRejected p m)"
  by unfold_locales simp_all

interpretation logs_flag: loading_flag "\<lambda>s. lg_loading (rs_frameLogs s)"
  "FrameLogsA (FetchFrameLogsPending params)" "FrameLogsA \<circ> FetchFrameLogsFulfilled params"
  "\<lambda>p m. FrameLogsA (FetchFrameLogsRejected params p m)" for params
  by unfold_locales simp_all

interpretation images_flag: loading_flag "\<lambda>s. si_isLoading (rs_slideshowImages s)"
  "ImagesA FetchImagesPending" "ImagesA \<circ> FetchImagesFulfilled" "\<lambda>p m. ImagesA (FetchImagesRejected p m)"
  by unfold_locales simp_all

interpretation order_flag: loading_flag "\<lambda>s. si_isUpdatingOrder (rs_slideshowImages s)"
  "ImagesA UpdateOrderPending" "ImagesA \<circ> UpdateOrderFulfilled" "\<lambda>p m. ImagesA (UpdateOrderRejected p m)"
  by unfold_locales simp_all

interpretation status_flag: loading_flag "\<lambda>s. ss_isLoading (rs_slideshowStatus s)"
  "StatusA CheckSlideshowPending" "StatusA \<circ> CheckSlideshowFulfilled" "\<lambda>p m. StatusA (CheckSlideshowRejected p m)"
  by unfold_locales simp_all

lemma reads_no_outage:
  "no_outage checkAuthStatus_creator" "no_outage (login_creator cr)" "no_outage logout_creator"
  "no_outage fetchNetworkData_creator" "no_outage fetchFrameInfos_creator"
  "no_outage fetchDisplayStats_creator" "no_outage fetchLatestRelease_creator"
  "no_outage fetchServices_creator" "no_outage fetchDisplayCustomization_creator"
  "no_outage (fetchFrameLogs_creator params)" "no_outage fetchSlideshowImages_creator"
  "no_outage (updatePlaybackOrder_creator mode ids)" "no_outage checkSlideshowStatus_creator"
  by (auto simp: prog_simps boardAlertP_def fetchWithTimeout_def jsonP_def split: sum.splits option.splits)

section \<open>Properties\<close>



text \<open>The loading flag of a slice is off once its thunk has ended, whether the board answered,
  refused or could not be reached.\<close>

lemma loading_flags_cleared:
  assumes "rtk_lifecycle cat"
  shows "(\<exists>c'. runR w (checkAuthStatusThunk cat) c = (Returned (), c') \<and> \<not> au_isLoading (rs_auth (cf_store c'))) \<and>
    (\<exists>c'. runR w (fetchFrameInfos cat) c = (Returned (), c') \<and> \<not> fi_loading (rs_frameInfo (cf_store c'))) \<and>
    (\<exists>c'. runR w (fetchDisplayStats cat) c = (Returned (), c') \<and> \<not> ds_loading (rs_displayStats (cf_store c'))) \<and>
    (\<exists>c'. runR w (fetchLatestRelease cat) c = (Returned (), c') \<and> \<not> up_loading (rs_updates (cf_store c'))) \<and>
    (\<exists>c'. runR w (fetchServices cat) c = (Returned (), c') \<and> \<not> sv_loading (rs_services (cf_store c'))) \<and>
    (\<exists>c'. runR w (fetchDisplayCustomization cat) c = (Returned (), c') \<and>
       \<not> dc_isFetching (rs_displayCustomization (cf_store c')))"
  unfolding thunk_defs
  using checkStatus_flag.idle_at_end [OF assms reads_no_outage(1)]
    frameInfos_flag.idle_at_end [OF assms reads_no_outage(5)]
    displayStats_flag.idle_at_end [OF assms reads_no_outage(6)]
    release_flag.idle_at_end [OF assms reads_no_outage(7)]
    services_flag.idle_at_end [OF assms reads_no_outage(8)]
    customization_flag.idle_at_end [OF assms reads_no_outage(9)]
  by blast

lemma loading_flags_cleared_witness:
  "\<exists>c'. runR silent_world (fetchServices standard_async_thunk) fresh_cfg = (Returned (), c') \<and>
    \<not> sv_loading (rs_services (cf_store c'))"
  using loading_flags_cleared [OF rtk_lifecycle_standard, of silent_world fresh_cfg] by blast

end
