(* ===== verification/TypedLoop.thy ===== *)
theory TypedLoop
  imports Effects
begin

text \<open>
  Programs that rely on the types of what they get and guarantee those of what they dispatch. \<open>net\<close>
  says which answers a request may get, \<open>good\<close> what holds of the store, \<open>act\<close> which actions are
  fine. \<open>typed\<close> checks a program tree: on every path whose answers and states are such, every action
  is fine, and so is what the program returns or throws. The locale \<open>typed_store\<close> is the contract
  with the reducer; from it, no interleaving of typed programs leaves the good states.
\<close>

section \<open>Typed programs\<close>

primrec typed ::
  "(request \<Rightarrow> net_event \<Rightarrow> bool) \<Rightarrow> ('s \<Rightarrow> bool) \<Rightarrow> ('a \<Rightarrow> bool) \<Rightarrow> (thrown \<Rightarrow> bool) \<Rightarrow> ('r \<Rightarrow> bool)
    \<Rightarrow> ('s, 'a, 't, 'r) prog \<Rightarrow> bool" where
  "typed net good act E R (Return x) \<longleftrightarrow> R x"
| "typed net good act E R (Throw e) \<longleftrightarrow> E e"
| "typed net good act E R (Dispatch a p) \<longleftrightarrow> act a \<and> typed net good act E R p"
| "typed net good act E R (GetState k) \<longleftrightarrow> (\<forall>s. good s \<longrightarrow> typed net good act E R (k s))"
| "typed net good act E R (DateNow k) \<longleftrightarrow> (\<forall>t. typed net good act E R (k t))"
| "typed net good act E R (Uuid k) \<longleftrightarrow> (\<forall>i. typed net good act E R (k i))"
| "typed net good act E R (OnLine k) \<longleftrightarrow> (\<forall>b. typed net good act E R (k b))"
| "typed net good act E R (Await rq k) \<longleftrightarrow> (\<forall>ev. net rq ev \<longrightarrow> typed net good act E R (k ev))"
| "typed net good act E R (Yield p) \<longleftrightarrow> typed net good act E R p"
| "typed net good act E R (Sleep d p) \<longleftrightarrow> typed net good act E R p"
| "typed net good act E R (Spawn t p) \<longleftrightarrow> typed net good act E R p"
| "typed net good act E R (Browser b p) \<longleftrightarrow> typed net good act E R p"
| "typed net good act E R OutOfFuel \<longleftrightarrow> True"

lemma typed_if [simp]:
  "typed net good act E R (if b then p else q) \<longleftrightarrow>
     (if b then typed net good act E R p else typed net good act E R q)"
  by simp

lemma typed_mono:
  assumes "typed net good act E R p" and "\<And>e. E e \<Longrightarrow> E' e" and "\<And>x. R x \<Longrightarrow> R' x"
  shows "typed net good act E' R' p"
  using assms(1) by (induction p) (auto simp: assms(2,3))

text \<open>A check against more answers and more states, for fewer actions, is the stronger one.\<close>

lemma typed_weaken:
  assumes "typed net good act E R p" and "\<And>rq ev. net' rq ev \<Longrightarrow> net rq ev" and "\<And>s. good' s \<Longrightarrow> good s"
    and "\<And>a. act a \<Longrightarrow> act' a"
  shows "typed net' good' act' E R p"
  using assms(1) by (induction p) (auto simp: assms(2,3,4))

lemma typed_bindP:
  assumes "typed net good act E Q p" and "\<And>x. Q x \<Longrightarrow> typed net good act E R (f x)"
  shows "typed net good act E R (bindP p f)"
  using assms(1) by (induction p) (auto simp: assms(2))

lemma typed_tryP:
  assumes "typed net good act F R p" and "\<And>e. F e \<Longrightarrow> typed net good act E R (h e)"
  shows "typed net good act E R (tryP p h)"
  using assms(1) by (induction p) (auto simp: assms(2))

lemma typed_finallyP:
  assumes "typed net good act E R p" and "typed net good act E (\<lambda>_. True) q"
  shows "typed net good act E R (finallyP p q)"
  using assms(1)
proof (induction p)
  case (Return x)
  then show ?case by (auto intro: typed_bindP [OF assms(2)])
next
  case (Throw e)
  then show ?case by (auto intro: typed_bindP [OF assms(2)])
qed auto

text \<open>What \<open>createAsyncThunk\<close> adds: the pending action and one of the settling ones.\<close>

lemma typed_standard:
  assumes "typed net good act (\<lambda>e. act (rej JUndefined (thrown_text e)))
      (\<lambda>r. case r of Value v \<Rightarrow> act (ful v) | RejectWithValue x \<Rightarrow> act (rej x ''Rejected'')) p"
    and "act pend"
  shows "typed net good act (\<lambda>_. False) (\<lambda>_. True) (standard_async_thunk pend ful rej p)"
  unfolding standard_async_thunk_def
  using assms
  by (auto intro!: typed_bindP [where Q = act] typed_tryP [OF typed_bindP, OF assms(1)]
      split: creator_result.split)

section \<open>The event loop with such answers\<close>

text \<open>A turn of the loop in which a request gets one of its answers.\<close>

inductive reachable_with ::
  "(request \<Rightarrow> net_event \<Rightarrow> bool) \<Rightarrow> ('s, 'a) reducer \<Rightarrow> (('s, 'a, 't, 'r) prog \<Rightarrow> bool) \<Rightarrow> ('a \<Rightarrow> bool)
    \<Rightarrow> ('s, 'a, 't, 'r) loop_state \<Rightarrow> ('s, 'a, 't, 'r) loop_state \<Rightarrow> bool"
  for net red startable foreign x0 where
  init: "reachable_with net red startable foreign x0 x0"
| start: "reachable_with net red startable foreign x0 (s, ps) \<Longrightarrow> startable p \<Longrightarrow> seg red e p 0 s = (s', q) \<Longrightarrow>
    reachable_with net red startable foreign x0 (s', add_mset q ps)"
| resume: "reachable_with net red startable foreign x0 (s, add_mset p ps) \<Longrightarrow>
    (case p of Await rq k \<Rightarrow> net rq ev | _ \<Rightarrow> True) \<Longrightarrow> resume p ev = Some p' \<Longrightarrow> seg red e p' 0 s = (s', q) \<Longrightarrow>
    reachable_with net red startable foreign x0 (s', add_mset q ps)"
| foreign: "reachable_with net red startable foreign x0 (s, ps) \<Longrightarrow> foreign a \<Longrightarrow>
    reachable_with net red startable foreign x0 (red now s a, ps)"

lemma reachable_with_from:
  "reachable_with net red startable foreign x0 x \<Longrightarrow> reachable_from red startable foreign x0 x"
  by (induction rule: reachable_with.induct)
    (auto intro: reachable_from.intros loop_step.intros)

lemma typed_resume:
  assumes "typed net good act E R p" and "resume p ev = Some p'" and "case p of Await rq k \<Rightarrow> net rq ev | _ \<Rightarrow> True"
  shows "typed net good act E R p'"
  using assms by (cases p) auto

locale typed_store =
  fixes red :: "('s, 'a) reducer"
    and good :: "'s \<Rightarrow> bool"
    and act :: "'a \<Rightarrow> bool"
  assumes good_red: "good s \<Longrightarrow> act a \<Longrightarrow> good (red now s a)"
begin

lemma typed_seg:
  assumes "typed net good act E R p" and "good s" and "seg red e p n s = (s', q)"
  shows "good s' \<and> typed net good act E R q"
  using assms
proof (induction p arbitrary: n s)
  case (Dispatch a p)
  then show ?case using Dispatch.IH [of "red (en_now e n) s a" "Suc n"] by (auto simp: good_red)
next
  case (GetState k)
  then show ?case using GetState.IH [OF rangeI, of s s n] by simp
next
  case (DateNow k)
  then show ?case using DateNow.IH [OF rangeI, of "en_now e n" s "Suc n"] by simp
next
  case (Uuid k)
  then show ?case using Uuid.IH [OF rangeI, of "en_ids e n" s "Suc n"] by simp
next
  case (OnLine k)
  then show ?case using OnLine.IH [OF rangeI, of "en_online e n" s "Suc n"] by simp
qed auto

lemma reachable_typed:
  assumes "reachable_with net red startable foreign x0 x"
    and "\<And>p. startable p \<Longrightarrow> typed net good act E R p" and "\<And>a. foreign a \<Longrightarrow> act a"
    and "good (fst x0)" and "\<forall>p \<in># snd x0. typed net good act E R p"
  shows "good (fst x) \<and> (\<forall>p \<in># snd x. typed net good act E R p)"
  using assms(1)
proof (induction rule: reachable_with.induct)
  case init
  then show ?case using assms(4,5) by simp
next
  case (start s ps p e s' q)
  then show ?case using typed_seg [OF assms(2) [OF start(2)] _ start(3)] by auto
next
  case (resume s p ps ev p' e s' q)
  then have "typed net good act E R p'" by (auto intro: typed_resume)
  with resume show ?case using typed_seg [OF _ _ resume(4)] by auto
next
  case (foreign s ps a now)
  then show ?case by (simp add: good_red assms(3))
qed

lemma run_typed:
  assumes "typed net good act E R p" and "good (cf_store c)" and "\<forall>n rq. net rq (w_net w n rq)"
    and "run red w p c = (r, c')"
  shows "good (cf_store c') \<and> (case r of Returned x \<Rightarrow> R x | Raised e \<Rightarrow> E e | Exhausted \<Rightarrow> True)"
  using assms
proof (induction p arbitrary: c)
  case (Dispatch a p)
  then show ?case using Dispatch.IH [of "tick w (dispatch red a c)"] by (auto simp: good_red dispatch_def)
next
  case (Sleep d p)
  then show ?case using Sleep.IH [of "tick w (c\<lparr>cf_time := cf_time c + d\<rparr>)"] by simp
next
  case (GetState k)
  then show ?case using GetState.IH [OF rangeI, of "cf_store c" c] by simp
next
  case (DateNow k)
  then show ?case using DateNow.IH [OF rangeI, of "cf_time c" "tick w c"] by simp
next
  case (Uuid k)
  then show ?case using Uuid.IH [OF rangeI, of "w_ids w (cf_steps c)" "tick w c"] by simp
next
  case (OnLine k)
  then show ?case using OnLine.IH [OF rangeI, of "w_online w (cf_steps c)" "tick w c"] by simp
next
  case (Await rq k)
  then show ?case
    using Await.IH [OF rangeI, of "w_net w (cf_steps c) rq" "tick w (emit (Requested rq) c)"] by simp
next
  case (Yield p)
  then show ?case using Yield.IH [of "tick w c"] by simp
next
  case (Spawn t p)
  then show ?case using Spawn.IH [of "tick w (emit (Spawned t) c)"] by simp
next
  case (Browser b p)
  then show ?case using Browser.IH [of "tick w (emit (Called b) c)"] by simp
qed auto

end

end
