(* ===== verification/TypedStore.thy ===== *)
theory TypedStore
  imports TypedLoop Page
begin

text \<open>
  What the board's answers are made of, and what the store then holds. The types of the data are
  the interfaces of the slices and, where a slice declares none, what the handlers of the firmware
  build (src/dashboard). \<open>api_answer\<close> is a hypothesis on the board, and a weak one: a request may
  fail, time out, get an error, get a body that is no JSON, or data that is \<open>null\<close>; only an answer
  that is JSON has the envelope all of them share. \<open>root_typed\<close> types every field of the store
  that keeps a dynamic value. The reducers keep it, which makes the root reducer a \<open>typed_store\<close>.
\<close>

section \<open>Values of a type\<close>

lemma conforms_basic:
  "conforms TString v \<longleftrightarrow> (\<exists>s. v = JStr s)"
  "conforms TBoolean v \<longleftrightarrow> (\<exists>b. v = JBool b)"
  "conforms (TOneOf ss) v \<longleftrightarrow> (\<exists>s \<in> set ss. v = JStr s)"
  "conforms (TNullable t) v \<longleftrightarrow> v = JNull \<or> conforms t v"
  "conforms (TArray t) v \<longleftrightarrow> (\<exists>xs. v = JArr xs \<and> (\<forall>x \<in> set xs. conforms t x))"
  by (auto simp: list_all_iff split: jsval.splits)

lemma conforms_interface:
  "conforms (TInterface ps) v \<longleftrightarrow>
     (\<exists>fs. v = JObj fs \<and> (\<forall>(k, req, t) \<in> set ps.
        conforms t (own_prop v k) \<or> \<not> req \<and> own_prop v k = JUndefined))"
proof -
  have "has_props ps v \<longleftrightarrow> (\<forall>(k, req, t) \<in> set ps.
      conforms t (own_prop v k) \<or> \<not> req \<and> own_prop v k = JUndefined)" for v
    by (induction ps) (auto simp del: conforms.simps own_prop.simps)
  then show ?thesis by (cases v) auto
qed

declare conforms.simps [simp del] own_prop.simps [simp del]

lemma conforms_of_number [simp]: "conforms TNumber (of_number x)"
  by (cases x) (simp_all add: of_number_def conforms.simps)

lemma conforms_js_round [simp]: "conforms TNumber (js_round v)"
  by (simp add: js_round_def)

text \<open>A property that may be absent, or null.\<close>

abbreviation perhaps :: "string \<Rightarrow> ts_type \<Rightarrow> string \<times> bool \<times> ts_type" where
  "perhaps k t \<equiv> optional k (TNullable t)"

lemma perhaps_default:
  assumes "conforms (TNullable t) v \<or> v = JUndefined" and "conforms t d"
  shows "conforms t (js_coalesce v d)"
  using assms by (cases v) (auto simp: js_coalesce_def conforms_basic)

lemma perhaps_null:
  assumes "conforms (TNullable t) v \<or> v = JUndefined"
  shows "conforms (TNullable t) (js_coalesce v JNull)"
  using assms by (cases v) (auto simp: js_coalesce_def conforms_basic)

section \<open>What the board answers\<close>

definition auth_status_data :: ts_type where
  "auth_status_data = TInterface [perhaps ''authenticated'' TBoolean]"

definition connection_status_data :: ts_type where
  "connection_status_data = TInterface [required ''connection_name'' TString]"

definition saved_networks_data :: ts_type where
  "saved_networks_data = TInterface [required ''networks'' (TArray TString)]"

definition connection_modes :: "string list" where
  "connection_modes = [''connecting'', ''connected'', ''ap'']"

definition connection_mode_props :: "(string \<times> bool \<times> ts_type) list" where
  "connection_mode_props =
    [perhaps ''mode'' (TOneOf connection_modes), perhaps ''ssid'' TString, perhaps ''ap_ssid'' TString,
     perhaps ''ap_password'' TString, perhaps ''server_connected'' TBoolean,
     perhaps ''server_offline_secs'' TNumber, perhaps ''server_last_contact_at'' TNumber,
     perhaps ''last_failed_secs_ago'' TNumber]"

definition connection_mode_data :: ts_type where
  "connection_mode_data = TInterface connection_mode_props"

definition night_styles :: "string list" where
  "night_styles = map night_style_str [Slower, Hold, Pause]"

definition now_showing_data :: ts_type where
  "now_showing_data = TInterface
    [required ''seq'' TNumber, required ''state'' (TOneOf [''empty'', ''image'', ''cleared'']),
     perhaps ''image_id'' TNumber, perhaps ''sender'' TString]"

definition night_mode_data :: ts_type where
  "night_mode_data = TInterface
    [required ''enabled'' TBoolean, required ''start_hour'' TNumber, required ''end_hour'' TNumber,
     required ''style'' (TOneOf night_styles), optional ''active_now'' TBoolean]"

definition slideshow_status_data :: ts_type where
  "slideshow_status_data = TInterface
    [required ''active'' TBoolean, perhaps ''loop_started'' TBoolean,
     perhaps ''now_showing'' now_showing_data, perhaps ''night_mode'' night_mode_data]"

definition services_data :: ts_type where
  "services_data = TInterface [perhaps ''services'' (TArray ServiceStatus)]"

definition update_history_data :: ts_type where
  "update_history_data = TInterface [required ''history'' (TArray UpdateHistoryEntry)]"

definition logs_data_type :: ts_type where
  "logs_data_type = TInterface [perhaps ''service_name'' TString, perhaps ''logs'' TString]"

text \<open>The firmware sends \<open>os_sha\<close> as a number when it looks like one, so nothing is asked of it.\<close>

fun without_prop :: "string \<Rightarrow> ts_type \<Rightarrow> ts_type" where
  "without_prop k (TInterface ps) = TInterface (filter (\<lambda>(k', _). k' \<noteq> k) ps)"
| "without_prop k t = t"

definition frame_info_data :: ts_type where
  "frame_info_data = without_prop ''os_sha'' FrameInfo"

definition api_types :: "(string \<times> ts_type) list" where
  "api_types =
    [(getAuthStatusUrl, auth_status_data), (getConnectionStatusUrl, connection_status_data),
     (getConnectionSavedNetworksUrl, saved_networks_data), (getConnectionModeUrl, connection_mode_data),
     (getSlideshowStatusUrl, slideshow_status_data), (getDisplayStatsUrl, DisplayStats),
     (getDisplayCustomizationUrl, DisplayCustomization), (getSlideshowImagesUrl, SlideshowImagesPayload),
     (getServicesUrl, services_data), (getSystemInfoUrl, frame_info_data),
     (getFrameLogsUrl, logs_data_type), (getLatestReleaseUrl, Release),
     (getUpdateStatusUrl, UpdateStatus), (getUpdateHistoryUrl, update_history_data)]"

text \<open>The type of the data that answers a request; nothing is known of the others.\<close>

definition data_type :: "request \<Rightarrow> ts_type option" where
  "data_type rq =
     (if rq_method rq = ''GET'' then map_of api_types (takeWhile (\<lambda>ch. ch \<noteq> CHR ''?'') (rq_url rq)) else None)"

definition envelope :: "ts_type option \<Rightarrow> ts_type" where
  "envelope data = TInterface
    ([required ''success'' TBoolean, required ''message'' TString] @
     (case data of None \<Rightarrow> [] | Some t \<Rightarrow> [required ''data'' (TNullable t)]))"

definition api_answer :: "request \<Rightarrow> net_event \<Rightarrow> bool" where
  "api_answer rq ev \<longleftrightarrow>
     (\<forall>r v. ne_answer ev = Inr r \<longrightarrow> rs_body r = Inr v \<longrightarrow> conforms (envelope (data_type rq)) v)"

lemma api_answer_body:
  assumes "api_answer rq ev" and "fetch_settles t ev = Inr r" and "rs_body r = Inr v"
  shows "conforms (envelope (data_type rq)) v"
  using assms by (auto simp: api_answer_def fetch_settles_def split: if_splits)

lemma envelope_object:
  assumes "conforms (envelope data) v"
  shows "\<not> nullish v" and "\<exists>b. own_prop v ''success'' = JBool b" and "\<exists>m. own_prop v ''message'' = JStr m"
  using assms unfolding envelope_def conforms_interface by (auto simp: conforms_basic)

lemma envelope_data:
  assumes "conforms (envelope (Some t)) v"
  shows "own_prop v ''data'' = JNull \<or> conforms t (own_prop v ''data'')"
  using assms unfolding envelope_def conforms_interface by (auto simp: conforms_basic)

lemmas url_simps =
  getAuthStatusUrl_def getConnectionStatusUrl_def getConnectionSavedNetworksUrl_def getConnectionModeUrl_def
  getSlideshowStatusUrl_def getDisplayStatsUrl_def getDisplayCustomizationUrl_def getSlideshowImagesUrl_def
  getServicesUrl_def getSystemInfoUrl_def getFrameLogsUrl_def getLatestReleaseUrl_def getUpdateStatusUrl_def
  getUpdateHistoryUrl_def getConnectionBaseUrl_def frameBaseUrl_def systemBaseUrl_def authBaseUrl_def
  servicesBaseUrl_def apiBaseUrl_def

lemma data_type_get:
  "data_type (get_req getAuthStatusUrl) = Some auth_status_data"
  "data_type (get_req getConnectionStatusUrl) = Some connection_status_data"
  "data_type (get_req getConnectionSavedNetworksUrl) = Some saved_networks_data"
  "data_type (get_req getConnectionModeUrl) = Some connection_mode_data"
  "data_type (get_req getSlideshowStatusUrl) = Some slideshow_status_data"
  "data_type (get_req getDisplayStatsUrl) = Some DisplayStats"
  "data_type (get_req getDisplayCustomizationUrl) = Some DisplayCustomization"
  "data_type (get_req getSlideshowImagesUrl) = Some SlideshowImagesPayload"
  "data_type (get_req getServicesUrl\<lparr>rq_headers := hs\<rparr>) = Some services_data"
  "data_type (get_req getSystemInfoUrl) = Some frame_info_data"
  "data_type (get_req (logs_url params)\<lparr>rq_headers := hs\<rparr>) = Some logs_data_type"
  "data_type (get_req getLatestReleaseUrl) = Some Release"
  "data_type (get_req getUpdateStatusUrl) = Some UpdateStatus"
  "data_type (get_req getUpdateHistoryUrl) = Some update_history_data"
  by (simp_all add: data_type_def get_req_def api_types_def url_simps logs_url_def)

section \<open>A typed store\<close>

abbreviation textual :: "jsval \<Rightarrow> bool" where "textual \<equiv> conforms TString"
abbreviation textual_or_null :: "jsval \<Rightarrow> bool" where "textual_or_null \<equiv> conforms (TNullable TString)"
abbreviation numeric :: "jsval \<Rightarrow> bool" where "numeric \<equiv> conforms TNumber"
abbreviation boolean :: "jsval \<Rightarrow> bool" where "boolean \<equiv> conforms TBoolean"

definition snackbars_typed :: "snackbars_state \<Rightarrow> bool" where
  "snackbars_typed st \<longleftrightarrow>
     (\<forall>x \<in> set (sn_alerts st). textual (sb_message x)) \<and> (\<forall>x \<in> set (sn_loading st). textual (sb_message x))"

definition auth_typed :: "auth_state \<Rightarrow> bool" where
  "auth_typed st \<longleftrightarrow> boolean (au_isAuthenticated st) \<and> textual_or_null (au_error st)"

definition operation_typed :: "operation_state \<Rightarrow> bool" where
  "operation_typed st \<longleftrightarrow>
     numeric (op_displayImagesIntervalMins st) \<and> boolean (op_nightModeEnabled st) \<and>
     boolean (op_nightModeActiveNow st) \<and> numeric (op_nightStartHour st) \<and> numeric (op_nightEndHour st) \<and>
     numeric (op_nightIntervalMins st) \<and> conforms (TOneOf night_styles) (op_nightStyle st) \<and>
     textual_or_null (op_error st)"

definition now_showing_typed :: "now_showing option \<Rightarrow> bool" where
  "now_showing_typed x \<longleftrightarrow> (case x of
     None \<Rightarrow> True
   | Some ns \<Rightarrow> numeric (ns_seq ns) \<and> conforms (TOneOf [''empty'', ''image'', ''cleared'']) (ns_state ns) \<and>
       conforms (TNullable TNumber) (ns_imageId ns) \<and> textual_or_null (ns_sender ns))"

definition status_typed :: "slideshow_status_state \<Rightarrow> bool" where
  "status_typed st \<longleftrightarrow>
     boolean (ss_isActive st) \<and> boolean (ss_loopStarted st) \<and> conforms (TNullable TNumber) (ss_imageCount st) \<and>
     conforms (TNullable TNumber) (ss_secondsUntilNext st) \<and> now_showing_typed (ss_nowShowing st) \<and>
     textual_or_null (ss_error st)"

definition network_typed :: "network_state \<Rightarrow> bool" where
  "network_typed st \<longleftrightarrow>
     textual (nw_currentConnection st) \<and> conforms (TArray TString) (nw_savedNetworks st) \<and> textual_or_null (nw_error st)"

definition connection_typed :: "connection_mode_state \<Rightarrow> bool" where
  "connection_typed st \<longleftrightarrow>
     conforms (TOneOf connection_modes) (cm_mode st) \<and> textual (cm_ssid st) \<and> textual (cm_ap_ssid st) \<and>
     textual (cm_ap_password st) \<and> conforms (TNullable TBoolean) (cm_server_connected st) \<and>
     numeric (cm_server_offline_secs st) \<and> numeric (cm_server_last_contact_at st) \<and>
     conforms (TNullable TNumber) (cm_last_failed_secs_ago st) \<and>
     conforms (TNullable TNumber) (cm_last_failed_at st)"

definition updates_typed :: "updates_state \<Rightarrow> bool" where
  "updates_typed st \<longleftrightarrow>
     conforms (TNullable Release) (up_latest_release st) \<and> conforms (TNullable UpdateStatus) (up_update_status st) \<and>
     conforms (TArray UpdateHistoryEntry) (up_history st)"

definition logs_typed :: "logs_state \<Rightarrow> bool" where
  "logs_typed st \<longleftrightarrow> textual_or_null (lg_error st) \<and>
     (case lg_logsData st of None \<Rightarrow> True | Some d \<Rightarrow> textual (ld_service d))"

definition services_typed :: "services_state \<Rightarrow> bool" where
  "services_typed st \<longleftrightarrow> conforms (TArray ServiceStatus) (sv_services st) \<and> textual_or_null (sv_error st)"

definition image_typed :: "slideshow_image \<Rightarrow> bool" where
  "image_typed im \<longleftrightarrow>
     numeric (im_id im) \<and> textual (im_sender im) \<and> conforms (TNullable TNumber) (im_receivedAt im) \<and>
     numeric (im_expiresAt im) \<and> numeric (im_width im) \<and> numeric (im_height im) \<and> numeric (im_sizeBytes im) \<and>
     numeric (im_position im)"

definition playback_modes :: "string list" where
  "playback_modes = map playback_mode_str [Shuffle, Chronological, NewestFirst, CustomOrder]"

definition images_typed :: "slideshow_images_state \<Rightarrow> bool" where
  "images_typed st \<longleftrightarrow>
     (\<forall>im \<in> set (si_images st). image_typed im) \<and> conforms (TNullable (TOneOf playback_modes)) (si_mode st) \<and>
     conforms (TNullable TNumber) (si_currentImageId st) \<and> textual_or_null (si_error st)"

definition root_typed :: "root_state \<Rightarrow> bool" where
  "root_typed s \<longleftrightarrow>
     snackbars_typed (rs_snackbars s) \<and> auth_typed (rs_auth s) \<and> operation_typed (rs_slideshowOperation s) \<and>
     status_typed (rs_slideshowStatus s) \<and> network_typed (rs_network s) \<and>
     connection_typed (rs_connectionMode s) \<and>
     conforms (TNullable frame_info_data) (fi_frameInfo (rs_frameInfo s)) \<and>
     conforms (TNullable DisplayStats) (ds_displayStats (rs_displayStats s)) \<and>
     updates_typed (rs_updates s) \<and> logs_typed (rs_frameLogs s) \<and> services_typed (rs_services s) \<and>
     images_typed (rs_slideshowImages s) \<and> boolean (dc_showSender (rs_displayCustomization s))"

lemmas state_types =
  snackbars_typed_def auth_typed_def operation_typed_def now_showing_typed_def status_typed_def
  network_typed_def connection_typed_def updates_typed_def logs_typed_def services_typed_def
  image_typed_def images_typed_def

section \<open>Typed actions\<close>

text \<open>
  The payload of an action is of the type its slice stores. A rejected action's payload is asked
  for only where the slice keeps it as its error.
\<close>

fun snackbars_act :: "snackbars_action \<Rightarrow> bool" where
  "snackbars_act (AlertSnackbarAdded x) = textual (sb_message x)"
| "snackbars_act (LoadingSnackbarAdded x) = textual (sb_message x)"
| "snackbars_act _ = True"

fun auth_act :: "auth_action \<Rightarrow> bool" where
  "auth_act (CheckStatusFulfilled v) = boolean v"
| "auth_act (LoginRejected p m) = textual_or_null p"
| "auth_act _ = True"

fun operation_act :: "operation_action \<Rightarrow> bool" where
  "operation_act (SetDisplayRefreshInterval v) = numeric v"
| "operation_act (SetNightMode p) =
     (boolean (np_enabled p) \<and> numeric (np_startHour p) \<and> numeric (np_endHour p) \<and> numeric (np_intervalMins p) \<and>
      conforms (TOneOf night_styles) (np_style p) \<and> (boolean (np_activeNow p) \<or> np_activeNow p = JUndefined))"
| "operation_act (SetError e) = textual_or_null e"
| "operation_act _ = True"

fun status_act :: "slideshow_status_action \<Rightarrow> bool" where
  "status_act (CheckSlideshowFulfilled v) =
     (boolean (sp_active v) \<and> boolean (sp_loopStarted v) \<and> conforms (TNullable TNumber) (sp_imageCount v) \<and>
      conforms (TNullable TNumber) (sp_secondsUntilNext v) \<and> now_showing_typed (sp_nowShowing v))"
| "status_act (CheckSlideshowRejected p m) = textual_or_null p"
| "status_act _ = True"

fun network_act :: "network_action \<Rightarrow> bool" where
  "network_act (FetchNetworkDataFulfilled current saved) = (textual current \<and> conforms (TArray TString) saved)"
| "network_act (FetchNetworkDataRejected p m) = textual_or_null p"
| "network_act (AddNetworkRejected p m) = textual_or_null p"
| "network_act (ForgetNetworkRejected p m) = textual_or_null p"
| "network_act _ = True"

fun connection_act :: "connection_mode_action \<Rightarrow> bool" where
  "connection_act (FetchConnectionModeFulfilled v) = conforms (TNullable connection_mode_data) v"
| "connection_act _ = True"

fun updates_act :: "updates_action \<Rightarrow> bool" where
  "updates_act (FetchLatestReleaseFulfilled v) = conforms (TNullable Release) v"
| "updates_act (FetchUpdateStatusFulfilled v) = conforms (TNullable UpdateStatus) v"
| "updates_act (FetchUpdateHistoryFulfilled v) = conforms (TArray UpdateHistoryEntry) v"
| "updates_act _ = True"

fun logs_act :: "logs_action \<Rightarrow> bool" where
  "logs_act (FetchFrameLogsFulfilled arg d) = textual (ld_service d)"
| "logs_act (FetchFrameLogsRejected arg p m) = textual_or_null p"
| "logs_act _ = True"

fun services_act :: "services_action \<Rightarrow> bool" where
  "services_act (FetchServicesFulfilled v) = conforms (TArray ServiceStatus) v"
| "services_act (FetchServicesRejected p m) = textual_or_null p"
| "services_act _ = True"

fun images_act :: "slideshow_images_action \<Rightarrow> bool" where
  "images_act (FetchImagesFulfilled v) =
     ((\<forall>im \<in> set (ip_images v). image_typed im) \<and> conforms (TNullable (TOneOf playback_modes)) (ip_mode v) \<and>
      conforms (TNullable TNumber) (ip_currentImageId v))"
| "images_act (FetchImagesRejected p m) = textual_or_null p"
| "images_act _ = True"

fun action_typed :: "action \<Rightarrow> bool" where
  "action_typed (SnackbarsA a) = snackbars_act a"
| "action_typed (AuthA a) = auth_act a"
| "action_typed (OperationA a) = operation_act a"
| "action_typed (StatusA a) = status_act a"
| "action_typed (NetworkA a) = network_act a"
| "action_typed (ConnectionModeA a) = connection_act a"
| "action_typed (FrameInfoA a) =
     (case a of FetchFrameInfosFulfilled v \<Rightarrow> conforms (TNullable frame_info_data) v | _ \<Rightarrow> True)"
| "action_typed (DisplayStatsA a) =
     (case a of FetchDisplayStatsFulfilled v \<Rightarrow> conforms (TNullable DisplayStats) v | _ \<Rightarrow> True)"
| "action_typed (UpdatesA a) = updates_act a"
| "action_typed (FrameLogsA a) = logs_act a"
| "action_typed (ServicesA a) = services_act a"
| "action_typed (ImagesA a) = images_act a"
| "action_typed (CustomizationA a) =
     (case a of FetchCustomizationFulfilled v \<Rightarrow> conforms DisplayCustomization v | _ \<Rightarrow> True)"
| "action_typed _ = True"

section \<open>The reducers keep the types\<close>

lemma text_simps [simp]: "textual (JStr s)" "textual_or_null (JStr s)" "textual_or_null JNull" "boolean (JBool b)"
  "numeric (JNum x)" "conforms (TNullable t) JNull"
  by (simp_all add: conforms_basic conforms.simps)

lemma message_or_text [simp]: "textual_or_null (message_or m fb)" "textual (message_or m fb)"
  by (simp_all add: message_or_def)

lemma in_tl: "x \<in> set (tl xs) \<Longrightarrow> x \<in> set xs"
  by (cases xs) simp_all

lemma snackbars_keep: "snackbars_typed st \<Longrightarrow> snackbars_act a \<Longrightarrow> snackbars_typed (snackbarsReducer st a)"
  by (cases a) (auto simp: snackbars_typed_def Let_def dest: in_tl)

lemma auth_keep: "auth_typed st \<Longrightarrow> auth_act a \<Longrightarrow> auth_typed (authReducer st a)"
  by (cases a) (auto simp: auth_typed_def)

lemma operation_keep: "operation_typed st \<Longrightarrow> operation_act a \<Longrightarrow> operation_typed (operationReducer now st a)"
  by (cases a) (auto simp: operation_typed_def Let_def)

lemma status_keep: "status_typed st \<Longrightarrow> status_act a \<Longrightarrow> status_typed (slideshowStatusReducer now st a)"
  by (cases a) (auto simp: status_typed_def now_showing_typed_def)

lemma network_keep: "network_typed st \<Longrightarrow> network_act a \<Longrightarrow> network_typed (networkReducer now st a)"
  by (cases a) (auto simp: network_typed_def)

lemma updates_keep: "updates_typed st \<Longrightarrow> updates_act a \<Longrightarrow> updates_typed (updatesReducer st a)"
  by (cases a) (auto simp: updates_typed_def)

lemma logs_keep: "logs_typed st \<Longrightarrow> logs_act a \<Longrightarrow> logs_typed (frameLogsReducer now st a)"
  by (cases a) (auto simp: logs_typed_def)

lemma services_keep: "services_typed st \<Longrightarrow> services_act a \<Longrightarrow> services_typed (servicesReducer st a)"
  by (cases a) (auto simp: services_typed_def)

lemma images_keep: "images_typed st \<Longrightarrow> images_act a \<Longrightarrow> images_typed (slideshowImagesReducer now st a)"
proof (cases a)
  case (UpdateOrderFulfilled m)
  then show "images_typed st \<Longrightarrow> ?thesis" by (cases m) (simp_all add: images_typed_def playback_modes_def conforms_basic)
qed (auto simp: images_typed_def)

text \<open>The defaults of the connection mode make up for what the board left out.\<close>

lemma numeric_or_null_rsub [simp]: "conforms (TNullable TNumber) (js_rsub q v)"
  by (simp add: js_rsub_def conforms_basic(4))

lemma connection_mode_of_typed:
  assumes "conforms (TNullable connection_mode_data) v"
  shows "connection_typed (connection_mode_of now v)"
proof -
  let ?d = "js_coalesce v (JObj [])"
  have field: "conforms (TNullable t) (own_prop ?d k) \<or> own_prop ?d k = JUndefined"
    if "(k, False, TNullable t) \<in> set connection_mode_props" for k t
  proof (cases "v = JNull")
    case False
    with assms have "conforms (TInterface connection_mode_props) v"
      by (simp add: conforms_basic(4) connection_mode_data_def)
    with that show ?thesis by (fastforce simp: conforms_interface js_coalesce_def)
  qed (simp add: js_coalesce_def own_prop.simps)
  have null: "conforms (TNullable t) (js_coalesce (own_prop ?d k) JNull)"
    if "(k, False, TNullable t) \<in> set connection_mode_props" for k t
    using field [OF that] by (rule perhaps_null)
  have default: "conforms t (js_coalesce (own_prop ?d k) e)"
    if "(k, False, TNullable t) \<in> set connection_mode_props" and "conforms t e" for k t e
    using field [OF that(1)] that(2) by (rule perhaps_default)
  have "conforms (TOneOf connection_modes) (JStr ''connecting'')"
    by (simp add: conforms_basic connection_modes_def)
  then show ?thesis
    by (simp add: connection_typed_def connection_mode_of_def Let_def null default connection_mode_props_def)
qed

lemma connection_keep: "connection_typed st \<Longrightarrow> connection_act a \<Longrightarrow> connection_typed (connectionModeReducer now st a)"
  by (cases a) (simp_all add: connection_mode_of_typed)

lemma root_keep:
  assumes "root_typed s" and "action_typed a"
  shows "root_typed (root_reducer now s a)"
proof (cases a)
  case (FrameInfoA x)
  with assms show ?thesis by (cases x) (simp_all add: root_typed_def)
next
  case (DisplayStatsA x)
  with assms show ?thesis by (cases x) (simp_all add: root_typed_def)
next
  case (CustomizationA x)
  with assms show ?thesis
    by (cases x) (auto simp: root_typed_def DisplayCustomization_def conforms_interface)
qed (use assms in \<open>simp_all add: root_typed_def snackbars_keep auth_keep operation_keep status_keep
      network_keep updates_keep logs_keep services_keep images_keep connection_keep\<close>)

interpretation root_types: typed_store root_reducer root_typed action_typed
  by unfold_locales (rule root_keep)

lemma root_typed_initial: "root_typed (root_initial now)"
  by (simp add: root_typed_def root_initial_def state_types snackbars_initial_def auth_initial_def
      operation_initial_def slideshowStatus_initial_def network_initial_def connectionMode_initial_def
      frameInfo_initial_def displayStats_initial_def updates_initial_def frameLogs_initial_def
      services_initial_def slideshowImages_initial_def displayCustomization_initial_def
      conforms_basic(3,5) night_styles_def connection_modes_def)

end
