(* ===== verification/TypedThunks.thy ===== *)
theory TypedThunks
  imports TypedStore
begin

text \<open>
  Every thunk of the store dispatches typed actions as long as the board's answers are typed, so the
  store stays typed on every run of the page.
\<close>

section \<open>Rules for the calls\<close>

abbreviation fits :: "(thrown \<Rightarrow> bool) \<Rightarrow> ('r \<Rightarrow> bool) \<Rightarrow> 'r thunk \<Rightarrow> bool" where
  "fits \<equiv> typed api_answer root_typed action_typed"

abbreviation fits_creator :: "('v \<Rightarrow> action) \<Rightarrow> (jsval \<Rightarrow> string \<Rightarrow> action) \<Rightarrow> 'v creator_result thunk \<Rightarrow> bool" where
  "fits_creator ful rej \<equiv> fits (\<lambda>e. action_typed (rej JUndefined (thrown_text e)))
     (\<lambda>r. case r of Value v \<Rightarrow> action_typed (ful v) | RejectWithValue x \<Rightarrow> action_typed (rej x ''Rejected''))"

lemma fits_getP [simp]:
  "fits E R (getP v k f) \<longleftrightarrow> (if nullish v then E (type_error v k) else fits E R (f (own_prop v k)))"
  by (simp add: getP_def js_get_def)

lemma fits_jsonP [simp]:
  "fits E R (jsonP r f) \<longleftrightarrow> (case rs_body r of Inl e \<Rightarrow> E e | Inr v \<Rightarrow> fits E R (f v))"
  by (simp add: jsonP_def split: sum.splits)

lemma fits_fetch [simp]:
  "fits E R (fetchWithTimeout rq t k) \<longleftrightarrow>
     (\<forall>ev. api_answer rq ev \<longrightarrow> (case fetch_settles t ev of Inl e \<Rightarrow> E e | Inr r \<Rightarrow> fits E R (k r)))"
  by (simp add: fetchWithTimeout_def split: sum.splits)

lemma fits_case_sum [simp]:
  "fits E R (case x of Inl e \<Rightarrow> pl e | Inr r \<Rightarrow> pr r) \<longleftrightarrow>
     (case x of Inl e \<Rightarrow> fits E R (pl e) | Inr r \<Rightarrow> fits E R (pr r))"
  by (simp split: sum.splits)

lemma fits_answer:
  assumes "api_answer rq ev" and "fetch_settles t ev = Inr r" and "rs_body r = Inr v"
  obtains b m where "\<not> nullish v" and "own_prop v ''success'' = JBool b" and "own_prop v ''message'' = JStr m"
    and "\<forall>T. data_type rq = Some T \<longrightarrow> own_prop v ''data'' = JNull \<or> conforms T (own_prop v ''data'')"
proof -
  note v = api_answer_body [OF assms]
  moreover have "own_prop v ''data'' = JNull \<or> conforms T (own_prop v ''data'')" if "data_type rq = Some T" for T
    using envelope_data [of T v] v that by simp
  ultimately show ?thesis using that envelope_object by metis
qed

lemma boardErrorMessage_text [simp]: "textual (boardErrorMessage fallback status (JStr m))"
  by (auto simp: boardErrorMessage_def js_simps Let_def conforms_basic split: option.splits)

lemma js_or_text [simp]: "textual (js_or (JStr m) (JStr d))" "textual_or_null (js_or (JStr m) (JStr d))"
  by (simp_all add: js_or_def)

lemma unknown_error_text [simp]: "textual (unknown_error e)" "textual_or_null (unknown_error e)"
  by (simp_all add: unknown_error_def)

lemma conforms_no_null:
  "conforms (TInterface ps) v \<Longrightarrow> \<not> nullish v" "conforms (TInterface ps) v \<Longrightarrow> truthy v"
  by (auto simp: conforms_interface)

lemma conforms_field:
  "conforms (TInterface ps) v \<Longrightarrow> (k, req, t) \<in> set ps \<Longrightarrow>
     conforms t (own_prop v k) \<or> \<not> req \<and> own_prop v k = JUndefined"
  by (auto simp: conforms_interface)

section \<open>What the creators make of an answer\<close>

lemma opt_get_simps [simp]:
  "\<not> nullish v \<Longrightarrow> js_opt_get v k = own_prop v k" "js_opt_get JNull k = JUndefined" "js_coalesce JUndefined e = e"
  by (simp_all add: js_opt_get_def js_coalesce_def)

lemma field_default:
  assumes "conforms (TInterface ps) d" and "(k, False, TNullable t) \<in> set ps" and "conforms t e"
  shows "conforms t (js_coalesce (js_opt_get d k) e)"
proof -
  from assms have "conforms (TNullable t) (own_prop d k) \<or> own_prop d k = JUndefined" and "\<not> nullish d"
    by (auto dest: conforms_field conforms_no_null)
  with perhaps_default [OF _ assms(3)] show ?thesis by simp
qed

lemma authenticated_boolean [simp]:
  "conforms auth_status_data d \<Longrightarrow> boolean (js_coalesce (js_opt_get d ''authenticated'') (JBool False))"
  unfolding auth_status_data_def by (erule field_default) simp_all

lemma networks_typed [simp]:
  "conforms connection_status_data d \<Longrightarrow> textual (own_prop d ''connection_name'')"
  "conforms saved_networks_data d \<Longrightarrow> conforms (TArray TString) (own_prop d ''networks'')"
  by (auto simp: connection_status_data_def saved_networks_data_def dest: conforms_field)

lemma services_field [simp]:
  "conforms services_data d \<Longrightarrow> conforms (TArray ServiceStatus) (js_coalesce (js_opt_get d ''services'') (JArr []))"
  "conforms (TArray ServiceStatus) (JArr [])"
  unfolding services_data_def by (erule field_default) (simp_all add: conforms_basic)

lemma history_field [simp]:
  "conforms update_history_data d \<Longrightarrow> conforms (TArray UpdateHistoryEntry) (own_prop d ''history'')"
  by (auto simp: update_history_data_def dest: conforms_field)

section \<open>Session and network\<close>

lemma auth_fits:
  "fits_creator (AuthA \<circ> CheckStatusFulfilled) (\<lambda>p m. AuthA (CheckStatusRejected p m)) checkAuthStatus_creator"
  "fits_creator (AuthA \<circ> LoginFulfilled) (\<lambda>p m. AuthA (LoginRejected p m)) (login_creator cr)"
  "fits_creator (AuthA \<circ> ChangePasswordFulfilled) (\<lambda>p m. AuthA (ChangePasswordRejected p m)) (changePassword_creator a b)"
  "fits_creator (AuthA \<circ> LogoutFulfilled) (\<lambda>p m. AuthA (LogoutRejected p m)) logout_creator"
  by (auto simp: prog_simps reducer_simps boardAlertP_def data_type_get elim!: fits_answer split: sum.splits)

lemma network_fits:
  "fits_creator (ConnectionModeA \<circ> FetchConnectionModeFulfilled) (\<lambda>p m. ConnectionModeA (FetchConnectionModeRejected p m))
     fetchConnectionMode_creator"
  "fits_creator (\<lambda>(current, saved). NetworkA (FetchNetworkDataFulfilled current saved))
     (\<lambda>p m. NetworkA (FetchNetworkDataRejected p m)) fetchNetworkData_creator"
  "fits_creator (NetworkA \<circ> AddNetworkFulfilled) (\<lambda>p m. NetworkA (AddNetworkRejected p m)) (addNetwork_creator nc)"
  "fits_creator (NetworkA \<circ> ForgetNetworkFulfilled) (\<lambda>p m. NetworkA (ForgetNetworkRejected p m)) (forgetNetwork_creator ssid)"
  "fits_creator (NetworkA \<circ> ChangeApPasswordFulfilled) (\<lambda>p m. NetworkA (ChangeApPasswordRejected p m)) (changeApPassword_creator pw)"
  "fits_creator (NetworkA \<circ> ConnectToSavedFulfilled) (\<lambda>p m. NetworkA (ConnectToSavedRejected p m)) connectToSavedNetworks_creator"
  by (auto simp: prog_simps reducer_simps boardAlertP_def data_type_get conforms_basic(4) elim!: fits_answer split: sum.splits)

section \<open>Board data\<close>

lemma board_fits:
  "fits_creator (FrameInfoA \<circ> FetchFrameInfosFulfilled) (\<lambda>p m. FrameInfoA (FetchFrameInfosRejected p m)) fetchFrameInfos_creator"
  "fits_creator (DisplayStatsA \<circ> FetchDisplayStatsFulfilled) (\<lambda>p m. DisplayStatsA (FetchDisplayStatsRejected p m))
     fetchDisplayStats_creator"
  "fits_creator (UpdatesA \<circ> FetchLatestReleaseFulfilled) (\<lambda>p m. UpdatesA (FetchLatestReleaseRejected p m)) fetchLatestRelease_creator"
  "fits_creator (UpdatesA \<circ> PerformUpdateFulfilled) (\<lambda>p m. UpdatesA (PerformUpdateRejected p m)) performUpdate_creator"
  "fits_creator (UpdatesA \<circ> FetchUpdateStatusFulfilled) (\<lambda>p m. UpdatesA (FetchUpdateStatusRejected p m)) fetchUpdateStatus_creator"
  "fits_creator (UpdatesA \<circ> FetchUpdateHistoryFulfilled) (\<lambda>p m. UpdatesA (FetchUpdateHistoryRejected p m)) fetchUpdateHistory_creator"
  "fits_creator (ServicesA \<circ> FetchServicesFulfilled) (\<lambda>p m. ServicesA (FetchServicesRejected p m)) fetchServices_creator"
  "fits_creator (ServicesA \<circ> RestartServiceFulfilled) (\<lambda>p m. ServicesA (RestartServiceRejected p m)) (restartService_creator i)"
  "fits_creator (CustomizationA \<circ> FetchCustomizationFulfilled) (\<lambda>p m. CustomizationA (FetchCustomizationRejected p m))
     fetchDisplayCustomization_creator"
  "fits_creator (CustomizationA \<circ> UpdateShowSenderFulfilled) (\<lambda>p m. CustomizationA (UpdateShowSenderRejected p m))
     (updateShowSender_creator b)"
  by (auto simp: prog_simps reducer_simps boardAlertP_def data_type_get conforms_basic(4) elim!: fits_answer split: sum.splits)

section \<open>Logs\<close>

lemma logs_result_typed:
  assumes "d = JNull \<or> conforms logs_data_type d" and "logs_result now d = Inr x"
  shows "textual (ld_service x)"
proof -
  from assms(1) have "textual (js_coalesce (js_opt_get d ''service_name'') (JStr []))"
  proof
    assume "conforms logs_data_type d"
    then show ?thesis using field_default [of _ d "''service_name''" TString "JStr []"]
      by (simp add: logs_data_type_def)
  qed simp
  with assms(2) show ?thesis by (auto simp: logs_result_def Let_def split: jsval.splits)
qed

lemma logs_fits:
  "fits_creator (FrameLogsA \<circ> FetchFrameLogsFulfilled params) (\<lambda>p m. FrameLogsA (FetchFrameLogsRejected params p m))
     (fetchFrameLogs_creator params)"
  by (auto simp: prog_simps reducer_simps data_type_get logs_cached_def root_typed_def logs_typed_def
      elim!: fits_answer dest: logs_result_typed [rotated] split: sum.splits option.splits if_splits)

section \<open>Slideshow\<close>

lemma positive_or_null: "numeric v \<or> v = JNull \<or> v = JUndefined \<Longrightarrow>
    conforms (TNullable TNumber) (if js_gt v 0 then v else JNull)"
  by (auto simp: conforms_basic js_gt_def)

lemma nonneg_or_null_typed: "conforms (TNullable TNumber) (nonneg_or_null v)"
  using nonneg_or_null_cases [of v] by (auto simp: conforms_basic(4))

lemma image_of_typed:
  assumes "conforms SlideshowImagePayload x" and "image_of x = Inr im"
  shows "image_typed im"
proof -
  note field = conforms_field [OF assms(1) [unfolded SlideshowImagePayload_def]]
  have "numeric (own_prop x ''id'')" "numeric (own_prop x ''received_at'')" "numeric (own_prop x ''expires_at'')"
    "numeric (own_prop x ''width'')" "numeric (own_prop x ''height'')" "numeric (own_prop x ''size_bytes'')"
    "numeric (own_prop x ''position'')" "textual (own_prop x ''sender'')"
    using field [of "''id''" True TNumber] field [of "''received_at''" True TNumber]
      field [of "''expires_at''" True TNumber] field [of "''width''" True TNumber] field [of "''height''" True TNumber]
      field [of "''size_bytes''" True TNumber] field [of "''position''" True TNumber] field [of "''sender''" True TString]
    by simp_all
  with assms(2) positive_or_null [of "own_prop x ''received_at''"] show ?thesis
    by (cases "nullish x") (auto simp: image_of_def image_typed_def)
qed

lemma images_of_typed:
  assumes "conforms SlideshowImagesPayload d" and "images_of d = Inr v"
  shows "images_act (FetchImagesFulfilled v)"
proof -
  note field = conforms_field [OF assms(1) [unfolded SlideshowImagesPayload_def]]
  obtain xs where xs: "own_prop d ''images'' = JArr xs" "list_all2 (\<lambda>x im. image_of x = Inr im) xs (ip_images v)"
    using assms(2) by (rule images_of_keeps)
  have "\<forall>x \<in> set xs. conforms SlideshowImagePayload x"
    using field [of "''images''" True "TArray SlideshowImagePayload"] xs(1) by (auto simp: conforms_basic)
  with xs(2) have "\<forall>im \<in> set (ip_images v). image_typed im"
    by (auto simp: list_all2_conv_all_nth all_set_conv_all_nth intro: image_of_typed)
  moreover have "conforms (TOneOf playback_modes) (own_prop d ''mode'')" "numeric (own_prop d ''current_image_id'')"
    using field [of "''mode''" True "TOneOf playback_modes"] field [of "''current_image_id''" True TNumber]
    by (simp_all add: playback_modes_def)
  ultimately show ?thesis
    using assms(2)
    by (auto simp: images_of_def conforms_basic(4) split: jsval.splits sum.splits if_splits)
qed

lemma now_showing_of_typed:
  assumes "conforms now_showing_data x"
  shows "now_showing_typed (Some
    \<lparr>ns_seq = own_prop x ''seq'', ns_state = own_prop x ''state'',
     ns_imageId = (if js_gt (own_prop x ''image_id'') 0 then own_prop x ''image_id'' else JNull),
     ns_sender = (if truthy (own_prop x ''sender'') then own_prop x ''sender'' else JNull)\<rparr>)"
proof -
  note field = conforms_field [OF assms [unfolded now_showing_data_def]]
  have "numeric (own_prop x ''seq'')" "conforms (TOneOf [''empty'', ''image'', ''cleared'']) (own_prop x ''state'')"
    using field [of "''seq''" True] field [of "''state''" True] by simp_all
  moreover have "conforms (TNullable TNumber) (own_prop x ''image_id'') \<or> own_prop x ''image_id'' = JUndefined"
    using field [of "''image_id''" False "TNullable TNumber"] by simp
  then have "conforms (TNullable TNumber) (if js_gt (own_prop x ''image_id'') 0 then own_prop x ''image_id'' else JNull)"
    by (intro positive_or_null) (auto simp: conforms_basic(4))
  moreover have "conforms (TNullable TString) (own_prop x ''sender'') \<or> own_prop x ''sender'' = JUndefined"
    using field [of "''sender''" False "TNullable TString"] by simp
  then have "textual_or_null (if truthy (own_prop x ''sender'') then own_prop x ''sender'' else JNull)"
    by auto
  ultimately show ?thesis by (simp add: now_showing_typed_def)
qed

lemma status_of_typed:
  assumes "conforms slideshow_status_data d" and "status_of d = Inr v"
  shows "status_act (CheckSlideshowFulfilled v)"
proof -
  note field = conforms_field [OF assms(1) [unfolded slideshow_status_data_def]]
  have active: "boolean (own_prop d ''active'')"
    using field [of "''active''" True TBoolean] by simp
  have "conforms (TNullable TBoolean) (own_prop d ''loop_started'') \<or> own_prop d ''loop_started'' = JUndefined"
    using field [of "''loop_started''" False "TNullable TBoolean"] by simp
  then have started: "boolean (js_coalesce (own_prop d ''loop_started'') (JBool False))"
    by (rule perhaps_default) simp
  have shown: "conforms now_showing_data (own_prop d ''now_showing'')" if "truthy (own_prop d ''now_showing'')"
    using field [of "''now_showing''" False "TNullable now_showing_data"] that
    by (auto simp: conforms_basic(4) now_showing_data_def)
  have "\<not> nullish d" using assms(2) by (auto simp: status_of_def)
  with assms(2) active started shown show ?thesis
    by (auto simp: status_of_def Let_def nonneg_or_null_typed now_showing_of_typed now_showing_typed_def [of None])
qed

lemma images_fits:
  "fits_creator (ImagesA \<circ> FetchImagesFulfilled) (\<lambda>p m. ImagesA (FetchImagesRejected p m)) fetchSlideshowImages_creator"
  "fits_creator (ImagesA \<circ> UpdateOrderFulfilled) (\<lambda>p m. ImagesA (UpdateOrderRejected p m)) (updatePlaybackOrder_creator mode ids)"
  by (auto simp: prog_simps reducer_simps boardAlertP_def data_type_get elim!: fits_answer dest!: images_of_typed
      simp del: images_act.simps(1) split: sum.splits)

lemma status_fits:
  "fits_creator (StatusA \<circ> CheckSlideshowFulfilled) (\<lambda>p m. StatusA (CheckSlideshowRejected p m)) checkSlideshowStatus_creator"
  by (auto simp: prog_simps status_of_def [of JNull] data_type_get elim!: fits_answer dest!: status_of_typed
      simp del: status_act.simps(1) split: sum.splits)

section \<open>Operations\<close>

lemma night_mode_of_typed:
  assumes "conforms slideshow_status_data d" and "truthy (js_opt_get d ''night_mode'')"
  shows "operation_act (SetNightMode (night_mode_of (js_opt_get d ''night_mode'')))"
proof -
  have [simp]: "js_opt_get d ''night_mode'' = own_prop d ''night_mode''"
    using assms(2) by (auto simp: js_opt_get_def)
  have "conforms night_mode_data (own_prop d ''night_mode'')"
    using conforms_field [OF assms(1) [unfolded slideshow_status_data_def], of "''night_mode''" False "TNullable night_mode_data"]
      assms(2) by (auto simp: conforms_basic(4))
  note field = conforms_field [OF this [unfolded night_mode_data_def]]
  from field [of "''enabled''" True] field [of "''start_hour''" True] field [of "''end_hour''" True]
    field [of "''style''" True] field [of "''active_now''" False TBoolean]
  show ?thesis by (simp add: night_mode_of_def)
qed

abbreviation quiet_fits :: "unit thunk \<Rightarrow> bool" where
  "quiet_fits \<equiv> fits (\<lambda>_. False) (\<lambda>_. True)"

lemma night_style_typed: "conforms (TOneOf night_styles) (JStr (night_style_str sty))"
  by (cases sty) (simp_all add: conforms_basic night_styles_def)

lemma interval_fits:
  "quiet_fits fetchDisplayImagesLoopInterval"
  "quiet_fits (updateDisplayImagesLoopInterval mins)"
  by (auto simp: prog_simps reducer_simps Let_def elim!: fits_answer split: sum.splits)

lemma night_fits:
  "quiet_fits fetchNightMode"
  by (auto simp: prog_simps reducer_simps Let_def data_type_get elim!: fits_answer
      dest: night_mode_of_typed simp del: operation_act.simps(2) split: sum.splits)

lemma update_night_fits: "quiet_fits (updateNightMode en sh eh im sty)"
  by (auto simp: prog_simps reducer_simps Let_def night_style_typed elim!: fits_answer split: sum.splits)

lemma skip_show_clear_fits:
  "quiet_fits skipImageThunk"
  "quiet_fits (showImageThunk i)"
  "quiet_fits clearDisplayThunk"
  by (auto simp: prog_simps reducer_simps Let_def elim!: fits_answer split: sum.splits)

lemma monitor_fits: "fits (\<lambda>_. False) (\<lambda>_. True) (monitor_round wasActive actionId)"
  by (auto simp: monitor_round_def reducer_simps Let_def elim!: fits_answer split: sum.splits)

lemma monitorOperation_fits: "quiet_fits (monitorOperation fuel wasActive actionId startTime)"
  by (induction fuel wasActive actionId startTime rule: monitorOperation.induct)
    (auto simp: reducer_simps intro!: typed_bindP [OF monitor_fits])

lemma toggle_fits: "quiet_fits (toggleSlideshowThunk fuel)"
  by (auto simp: toggleSlideshowThunk_def reducer_simps Let_def elim!: fits_answer
      intro!: typed_tryP [OF monitorOperation_fits] split: sum.splits)

section \<open>Power and timers\<close>

text \<open>Polling dispatches nothing.\<close>

lemma isReachable_fits: "fits (\<lambda>_. False) (\<lambda>_. True) (isReachable t)"
  by (auto simp: isReachable_def split: sum.splits)

lemma sendPowerCommand_fits: "fits (\<lambda>_. False) (\<lambda>_. True) (sendPowerCommand url)"
  by (auto simp: sendPowerCommand_def split: sum.splits)

lemma pollHealth_fits: "fits (\<lambda>_. False) (\<lambda>_. True) (pollHealth fuel goal opts)"
proof -
  have "fits (\<lambda>_. False) (\<lambda>_. True) (poll_loop fuel goal opts start streak)" for start streak
    by (induction fuel goal opts start streak rule: poll_loop.induct)
      (auto simp: Let_def intro!: typed_bindP [OF isReachable_fits])
  then show ?thesis by (simp add: pollHealth_def)
qed

lemma power_calls_fit:
  "fits (\<lambda>_. True) (\<lambda>_. True) (sendPowerCommand url)"
  "fits (\<lambda>_. True) (\<lambda>_. True) (pollHealth fuel goal opts)"
  by (rule typed_mono [OF sendPowerCommand_fits] typed_mono [OF pollHealth_fits]; simp)+

lemma power_creators_fit:
  "fits (\<lambda>_. True) (\<lambda>_. True) (restartPi_creator fuel)"
  "fits (\<lambda>_. True) (\<lambda>_. True) (shutdownPi_creator fuel)"
  "fits (\<lambda>_. True) (\<lambda>_. True) (factoryResetPi_creator fuel)"
  by (auto simp: prog_simps power_pushes reducer_simps bindP_assoc
      intro!: typed_bindP [OF power_calls_fit(1)] typed_bindP [OF power_calls_fit(2)] split: sum.splits)

lemma unhandled_fits:
  assumes "fits (\<lambda>_. True) (\<lambda>_. True) p"
  shows "quiet_fits (standard_async_thunk (UnhandledA a) (\<lambda>_. UnhandledA b) (\<lambda>x m. UnhandledA c) p)"
  by (intro typed_standard typed_mono [OF assms]) (auto split: creator_result.split)

lemma power_fits:
  "quiet_fits (restartPi standard_async_thunk fuel)"
  "quiet_fits (shutdownPi standard_async_thunk fuel)"
  "quiet_fits (factoryResetPi standard_async_thunk fuel)"
  by (simp_all add: thunk_defs unhandled_fits power_creators_fit)

lemma timers_fits:
  "quiet_fits (syncTimers standard_async_thunk)"
  "quiet_fits (syncSpecificTimer standard_async_thunk t)"
proof -
  have each: "fits E R (sync_each n ts (Return x)) \<longleftrightarrow> R x" for E R n ts x
    by (induction ts) (auto simp: set_remainingP_def split: if_splits)
  show "quiet_fits (syncTimers standard_async_thunk)" "quiet_fits (syncSpecificTimer standard_async_thunk t)"
    by (auto simp: thunk_defs syncTimers_creator_def syncSpecificTimer_creator_def set_remainingP_def each Let_def
        intro!: typed_standard split: option.splits)
qed

section \<open>Every thunk of the store\<close>

lemma standard_fits:
  assumes "fits_creator ful rej p" and "action_typed pend"
  shows "quiet_fits (standard_async_thunk pend ful rej p)"
  using assms by (rule typed_standard)

lemmas creators_fit =
  auth_fits network_fits board_fits logs_fits images_fits status_fits

lemma store_thunks_fit:
  assumes "p \<in> store_thunks"
  shows "quiet_fits p"
  using assms
  unfolding store_thunks_def read_thunks_def write_thunks_def
  by (auto simp: power_fits timers_fits interval_fits night_fits update_night_fits skip_show_clear_fits toggle_fits
      auth_thunk_defs network_thunk_defs board_data_thunk_defs slideshow_thunk_defs
      intro!: standard_fits creators_fit)

section \<open>Properties\<close>

abbreviation typed_page :: "root_state \<Rightarrow> (root_state, action, thunk_call, unit) loop_state \<Rightarrow> bool" where
  "typed_page s0 \<equiv> reachable_with api_answer root_reducer (\<lambda>p. p \<in> store_thunks) action_typed (s0, {#})"

lemma page_stays_typed:
  assumes "typed_page s0 x" and "root_typed s0"
  shows "root_typed (fst x)"
  using root_types.reachable_typed [OF assms(1), of "\<lambda>_. False" "\<lambda>_. True"] assms(2)
  by (simp add: store_thunks_fit)

text \<open>C2: As long as the board's answers, where they are JSON at all, have the envelope and the types
  its handlers build (any request may also fail, time out, be refused or get no data), every field
  of the store keeps a value of its type: whatever thunks are started, in any number and any
  interleaving, and whatever typed actions the pages dispatch in between.\<close>

lemma store_stays_typed:
  assumes "reachable_with api_answer root_reducer (\<lambda>p. p \<in> store_thunks) action_typed (s0, {#}) (s, ps)"
    and "root_typed s0"
  shows "root_typed s"
  using page_stays_typed [OF assms] by simp

text \<open>A session check that the board answers, as a run of the loop.\<close>

definition still_env :: env where
  "still_env = \<lparr>en_now = \<lambda>_. 1, en_ids = \<lambda>_. ''u'', en_online = \<lambda>_. True\<rparr>"

definition session_answer :: net_event where
  "session_answer = \<lparr>ne_latency = 5, ne_answer = Inr \<lparr>rs_status = 200, rs_body = Inr (JObj
     [(''success'', JBool True), (''message'', JStr []), (''data'', JObj [(''authenticated'', JBool True)])])\<rparr>\<rparr>"

lemma session_answer_typed: "api_answer (get_req getAuthStatusUrl) session_answer"
  by (auto simp: api_answer_def session_answer_def data_type_get envelope_def auth_status_data_def
      conforms_interface conforms_basic own_prop.simps)

definition session_checked :: root_state where
  "session_checked = root_reducer 1 (root_reducer 1 (root_initial 0) (AuthA CheckStatusPending))
     (AuthA (CheckStatusFulfilled (JBool True)))"

lemma session_check_run: "\<exists>ps. typed_page (root_initial 0) (session_checked, ps)"
proof -
  let ?seg = "\<lambda>p s. seg root_reducer still_env p 0 s"
  obtain s1 q1 where q1: "?seg (checkAuthStatusThunk standard_async_thunk) (root_initial 0) = (s1, q1)" by fastforce
  have await: "case q1 of Await rq k \<Rightarrow> api_answer rq session_answer | _ \<Rightarrow> True"
    using q1 by (auto simp: checkAuthStatusThunk_def checkAuthStatus_creator_def standard_async_thunk_def session_answer_typed)
  have "\<exists>p2 q2 p3 q3. resume q1 session_answer = Some p2 \<and> ?seg p2 s1 = (s1, q2) \<and>
      (case q2 of Await rq k \<Rightarrow> api_answer rq session_answer | _ \<Rightarrow> True) \<and>
      resume q2 session_answer = Some p3 \<and> ?seg p3 s1 = (session_checked, q3)"
    using q1 by (auto simp: checkAuthStatusThunk_def checkAuthStatus_creator_def standard_async_thunk_def
        session_answer_def fetch_settles_def default_timeout_def jsonP_def own_prop.simps session_checked_def still_env_def js_coalesce_def)
  then obtain p2 q2 p3 q3 where run: "resume q1 session_answer = Some p2" "?seg p2 s1 = (s1, q2)"
    "case q2 of Await rq k \<Rightarrow> api_answer rq session_answer | _ \<Rightarrow> True"
    "resume q2 session_answer = Some p3" "?seg p3 s1 = (session_checked, q3)" by blast
  have "typed_page (root_initial 0) (s1, add_mset q1 {#})"
    using reachable_with.start [OF reachable_with.init _ q1] by (simp add: store_thunks_def read_thunks_def)
  from reachable_with.resume [OF this await run(1,2)] have "typed_page (root_initial 0) (s1, add_mset q2 {#})" .
  from reachable_with.resume [OF this run(3,4,5)] show ?thesis by blast
qed

lemma store_stays_typed_witness: "root_typed session_checked \<and> au_isAuthenticated (rs_auth session_checked) = JBool True"
proof -
  obtain ps where "typed_page (root_initial 0) (session_checked, ps)" using session_check_run by blast
  from store_stays_typed [OF this root_typed_initial] show ?thesis by (simp add: session_checked_def)
qed

text \<open>So what the pages look up in the store they find: a service by its id, or none.\<close>

lemma select_service_safe:
  assumes "typed_page s0 (s, ps)" and "root_typed s0"
  shows "\<exists>v. selectService i (rs_services s) = Inr v \<and> (v = JNull \<or> conforms ServiceStatus v \<and> own_prop v ''id'' = JStr i)"
proof -
  have "root_typed s" using page_stays_typed [OF assms] by simp
  then obtain ss where "sv_services (rs_services s) = JArr ss" "list_all (conforms ServiceStatus) ss"
    by (auto simp: root_typed_def services_typed_def conforms_basic list_all_iff)
  with find_service_conforms [of ss i] show ?thesis by (auto simp: selectService_def)
qed

end
