(* ===== verification/Hooks.thy ===== *)
theory Hooks
  imports Prelude
begin

text \<open>
  The hooks that are state machines of their own: a loading flag shown late (hooks/loading/
  useDelayedLoading.tsx), a loading flag held for a while (useMinimumLoading.tsx), and overlays
  that the back button closes (hooks/navigation/useBackToClose.ts).

  A render whose dependencies changed runs the cleanup of the last effect and then the effect;
  render and effect are one step here. A \<open>setTimeout\<close> is the time from which its callback may run:
  it runs at that time or later, and not once it is cleared.
\<close>

section \<open>A flag shown late\<close>

record delayed =
  dl_loading :: bool
  dl_passed :: bool
  dl_due :: "int option"

(* src: hooks/loading/useDelayedLoading.tsx 3-3: DELAY_MS *)
definition DELAY_MS :: int where
  "DELAY_MS = 600"

(* src: hooks/loading/useDelayedLoading.tsx 9-18: the effect of useDelayedLoading *)
definition delayed_effect :: "int \<Rightarrow> int \<Rightarrow> delayed \<Rightarrow> delayed" where
  "delayed_effect delayMs now st =
     (if \<not> dl_loading st then st else st\<lparr>dl_due := Some (now + delayMs)\<rparr>)"

(* src: hooks/loading/useDelayedLoading.tsx 14-17: the cleanup of useDelayedLoading *)
definition delayed_cleanup :: "delayed \<Rightarrow> delayed" where
  "delayed_cleanup st = (if \<not> dl_loading st then st else st\<lparr>dl_due := None, dl_passed := False\<rparr>)"

(* src: hooks/loading/useDelayedLoading.tsx 6-7: the state of useDelayedLoading *)
definition delayed_mount :: "int \<Rightarrow> int \<Rightarrow> bool \<Rightarrow> delayed" where
  "delayed_mount delayMs now loading =
     delayed_effect delayMs now \<lparr>dl_loading = loading, dl_passed = False, dl_due = None\<rparr>"

definition delayed_render :: "int \<Rightarrow> int \<Rightarrow> bool \<Rightarrow> delayed \<Rightarrow> delayed" where
  "delayed_render delayMs now loading st =
     (if loading = dl_loading st then st
      else delayed_effect delayMs now ((delayed_cleanup st)\<lparr>dl_loading := loading\<rparr>))"

definition delayed_fire :: "delayed \<Rightarrow> delayed" where
  "delayed_fire st = st\<lparr>dl_due := None, dl_passed := True\<rparr>"

(* src: hooks/loading/useDelayedLoading.tsx 20-20: useDelayedLoading *)
definition useDelayedLoading :: "delayed \<Rightarrow> bool" where
  "useDelayedLoading st \<longleftrightarrow> dl_loading st \<and> dl_passed st"

text \<open>\<open>delayed_runs d s t st\<close>: at time \<open>t\<close> the hook can be in \<open>st\<close>, with its flag as it is since \<open>s\<close>.\<close>

inductive delayed_runs :: "int \<Rightarrow> int \<Rightarrow> int \<Rightarrow> delayed \<Rightarrow> bool" for delayMs where
  mount: "delayed_runs delayMs t t (delayed_mount delayMs t loading)"
| same: "delayed_runs delayMs s t st \<Longrightarrow> t \<le> t' \<Longrightarrow>
    delayed_runs delayMs s t' (delayed_render delayMs t' (dl_loading st) st)"
| change: "delayed_runs delayMs s t st \<Longrightarrow> t \<le> t' \<Longrightarrow>
    delayed_runs delayMs t' t' (delayed_render delayMs t' (\<not> dl_loading st) st)"
| fire: "delayed_runs delayMs s t st \<Longrightarrow> t \<le> t' \<Longrightarrow> dl_due st = Some d \<Longrightarrow> d \<le> t' \<Longrightarrow>
    delayed_runs delayMs s t' (delayed_fire st)"

lemmas delayed_defs =
  delayed_mount_def delayed_render_def delayed_cleanup_def delayed_effect_def delayed_fire_def
  useDelayedLoading_def

lemma delayed_runs_invariant:
  "delayed_runs delayMs s t st \<Longrightarrow>
     (if dl_loading st
      then (if dl_passed st then s + delayMs \<le> t \<and> dl_due st = None else dl_due st = Some (s + delayMs))
      else dl_due st = None \<and> \<not> dl_passed st)"
  by (induction rule: delayed_runs.induct) (auto simp: delayed_defs split: if_splits)

section \<open>A flag held for a while\<close>

record held =
  hl_loading :: bool
  hl_visible :: bool
  hl_startedAt :: "int option"
  hl_due :: "int option"

(* src: hooks/loading/useMinimumLoading.tsx 3-3: MINIMUM_LOADING_MS *)
definition MINIMUM_LOADING_MS :: int where
  "MINIMUM_LOADING_MS = 400"

(* src: hooks/loading/useMinimumLoading.tsx 10-31: the effect of useMinimumLoading *)
definition held_effect :: "int \<Rightarrow> int \<Rightarrow> held \<Rightarrow> held" where
  "held_effect minimumMs now st =
     (if hl_loading st then st\<lparr>hl_startedAt := Some now, hl_visible := True\<rparr>
      else
        case hl_startedAt st of
          None \<Rightarrow> st
        | Some startedAt \<Rightarrow>
            let remaining = minimumMs - (now - startedAt);
                st' = st\<lparr>hl_startedAt := None\<rparr>
            in if remaining \<le> 0 then st'\<lparr>hl_visible := False\<rparr>
               else st'\<lparr>hl_due := Some (now + remaining)\<rparr>)"

(* src: hooks/loading/useMinimumLoading.tsx 6-8: the state of useMinimumLoading *)
definition held_mount :: "int \<Rightarrow> int \<Rightarrow> bool \<Rightarrow> held" where
  "held_mount minimumMs now loading =
     held_effect minimumMs now
       \<lparr>hl_loading = loading, hl_visible = loading, hl_startedAt = None, hl_due = None\<rparr>"

(* src: hooks/loading/useMinimumLoading.tsx 28-31: the cleanup of useMinimumLoading *)
definition held_render :: "int \<Rightarrow> int \<Rightarrow> bool \<Rightarrow> held \<Rightarrow> held" where
  "held_render minimumMs now loading st =
     (if loading = hl_loading st then st
      else held_effect minimumMs now (st\<lparr>hl_due := None, hl_loading := loading\<rparr>))"

definition held_fire :: "held \<Rightarrow> held" where
  "held_fire st = st\<lparr>hl_due := None, hl_visible := False\<rparr>"

(* src: hooks/loading/useMinimumLoading.tsx 33-33: useMinimumLoading *)
definition useMinimumLoading :: "held \<Rightarrow> bool" where
  "useMinimumLoading st = hl_visible st"

text \<open>\<open>held_runs m s t st\<close>: at time \<open>t\<close> the hook can be in \<open>st\<close>, its last loading having begun at
  \<open>s\<close>, if there was one.\<close>

inductive held_runs :: "int \<Rightarrow> int option \<Rightarrow> int \<Rightarrow> held \<Rightarrow> bool" for minimumMs where
  mount: "held_runs minimumMs (if loading then Some t else None) t (held_mount minimumMs t loading)"
| same: "held_runs minimumMs s t st \<Longrightarrow> t \<le> t' \<Longrightarrow>
    held_runs minimumMs s t' (held_render minimumMs t' (hl_loading st) st)"
| start: "held_runs minimumMs s t st \<Longrightarrow> t \<le> t' \<Longrightarrow> \<not> hl_loading st \<Longrightarrow>
    held_runs minimumMs (Some t') t' (held_render minimumMs t' True st)"
| stop: "held_runs minimumMs s t st \<Longrightarrow> t \<le> t' \<Longrightarrow> hl_loading st \<Longrightarrow>
    held_runs minimumMs s t' (held_render minimumMs t' False st)"
| fire: "held_runs minimumMs s t st \<Longrightarrow> t \<le> t' \<Longrightarrow> hl_due st = Some d \<Longrightarrow> d \<le> t' \<Longrightarrow>
    held_runs minimumMs s t' (held_fire st)"

lemmas held_defs =
  held_mount_def held_render_def held_effect_def held_fire_def useMinimumLoading_def

lemma held_runs_invariant:
  "held_runs minimumMs s t st \<Longrightarrow>
     (if hl_loading st then hl_visible st \<and> hl_due st = None \<and> s \<noteq> None \<and> hl_startedAt st = s
      else hl_startedAt st = None \<and>
        (if hl_visible st then (\<exists>a. s = Some a \<and> hl_due st = Some (a + minimumMs))
         else hl_due st = None \<and> (\<forall>a. s = Some a \<longrightarrow> a + minimumMs \<le> t)))"
  by (induction rule: held_runs.induct) (auto simp: held_defs Let_def split: if_splits option.splits)

section \<open>Overlays that the back button closes\<close>

text \<open>
  The browser's history as its entries, the current one first, each with the marker of its
  \<open>history.state\<close> if it has one; the overlays whose effect is in force, the newest first, by
  their markers; and the overlays whose \<open>onClose\<close> was called, in order. \<open>history.back()\<close> and the
  \<open>popstate\<close> event it leads to are one step.
\<close>

record back_state =
  bk_entries :: "string option list"
  bk_open :: "string list"
  bk_closed :: "string list"

definition bk_current :: "back_state \<Rightarrow> string option" where
  "bk_current st = (case bk_entries st of [] \<Rightarrow> None | m # _ \<Rightarrow> m)"

(* src: hooks/navigation/useBackToClose.ts 19-23: the effect of useBackToClose *)
definition open_overlay :: "string \<Rightarrow> back_state \<Rightarrow> back_state" where
  "open_overlay i st = st\<lparr>bk_entries := Some i # bk_entries st, bk_open := i # bk_open st\<rparr>"

text \<open>Every listening overlay hears the event, in the order of registration.\<close>

(* src: hooks/navigation/useBackToClose.ts 25-33: onPopState *)
definition onPopState :: "back_state \<Rightarrow> back_state" where
  "onPopState st =
     st\<lparr>bk_open := filter (\<lambda>i. bk_current st = Some i) (bk_open st),
        bk_closed := bk_closed st @ rev (filter (\<lambda>i. bk_current st \<noteq> Some i) (bk_open st))\<rparr>"

definition go_back :: "back_state \<Rightarrow> back_state" where
  "go_back st = onPopState (st\<lparr>bk_entries := tl (bk_entries st)\<rparr>)"

text \<open>The cleanup of an overlay that was not closed by the back button.\<close>

(* src: hooks/navigation/useBackToClose.ts 35-38: the cleanup of useBackToClose *)
definition close_overlay :: "string \<Rightarrow> back_state \<Rightarrow> back_state" where
  "close_overlay i st =
     (let st' = st\<lparr>bk_open := removeAll i (bk_open st)\<rparr>
      in if bk_current st' = Some i then go_back st' else st')"

lemmas back_defs = open_overlay_def onPopState_def go_back_def close_overlay_def bk_current_def

text \<open>Overlays lie on each other: their markers are the newest entries of the history.\<close>

definition nested :: "back_state \<Rightarrow> bool" where
  "nested st \<longleftrightarrow> distinct (bk_open st) \<and>
     (\<exists>page rest. bk_entries st = map Some (bk_open st) @ page # rest \<and> page \<notin> Some ` set (bk_open st))"

text \<open>A new overlay has a new marker.\<close>

lemma nested_open: "nested st \<Longrightarrow> Some i \<notin> set (bk_entries st) \<Longrightarrow> nested (open_overlay i st)"
  by (fastforce simp: nested_def open_overlay_def)

lemma go_back_one:
  assumes "nested st" and "bk_open st = [a]"
  shows "bk_open (go_back st) = []" and "bk_closed (go_back st) = bk_closed st @ [a]" and "nested (go_back st)"
  using assms by (auto simp: nested_def back_defs)

lemma go_back_two:
  assumes "nested st" and "bk_open st = [b, a]"
  shows "bk_open (go_back st) = [a]" and "bk_closed (go_back st) = bk_closed st @ [b]" and "nested (go_back st)"
  using assms by (auto simp: nested_def back_defs)

lemma close_overlay_top:
  assumes "nested st" and "bk_open st = b # below" and "length below \<le> 1"
  shows "bk_open (close_overlay b st) = below \<and> bk_closed (close_overlay b st) = bk_closed st \<and>
    nested (close_overlay b st)"
proof (cases below)
  case Nil
  with assms show ?thesis by (auto simp: nested_def back_defs Let_def)
next
  case (Cons a rest)
  with assms(3) have "below = [a]" by simp
  with assms show ?thesis by (auto simp: nested_def back_defs Let_def)
qed

section \<open>Properties\<close>

text \<open>A flag shown late is only shown once it has been on, without a break, for the delay; and
  while it is on and not yet shown, the timeout that will show it is running.\<close>

lemma delayed_loading_waits:
  assumes "delayed_runs delayMs s t st" and "dl_loading st"
  shows "if useDelayedLoading st then s + delayMs \<le> t else dl_due st = Some (s + delayMs)"
  using delayed_runs_invariant [OF assms(1)] assms(2) by (auto simp: useDelayedLoading_def split: if_splits)

lemma delayed_loading_waits_witness:
  "useDelayedLoading (delayed_fire (delayed_mount 600 0 True)) \<and>
   (if useDelayedLoading (delayed_fire (delayed_mount 600 0 True)) then (0::int) + 600 \<le> 700
    else dl_due (delayed_fire (delayed_mount 600 0 True)) = Some (0 + 600))"
proof -
  have "delayed_runs 600 0 700 (delayed_fire (delayed_mount 600 0 True))"
    by (rule delayed_runs.fire [OF delayed_runs.mount, of 0 700 _ True 600]) (simp_all add: delayed_defs)
  moreover have "dl_loading (delayed_fire (delayed_mount 600 0 True))" by (simp add: delayed_defs)
  ultimately show ?thesis
    using delayed_loading_waits [of 600 0 700 "delayed_fire (delayed_mount 600 0 True)"]
    by (simp add: delayed_defs)
qed

text \<open>A held flag is shown as long as it is on; it goes off no earlier than the minimum after
  the last loading began, and while it is only held the timeout that will hide it is running.\<close>

lemma minimum_loading_holds:
  assumes "held_runs minimumMs s t st"
  shows "(hl_loading st \<longrightarrow> useMinimumLoading st) \<and>
    (\<not> useMinimumLoading st \<longrightarrow> (\<forall>a. s = Some a \<longrightarrow> a + minimumMs \<le> t)) \<and>
    (useMinimumLoading st \<and> \<not> hl_loading st \<longrightarrow> (\<exists>a. s = Some a \<and> hl_due st = Some (a + minimumMs)))"
  using held_runs_invariant [OF assms] by (auto simp: useMinimumLoading_def split: if_splits)

lemma minimum_loading_holds_witness:
  "hl_due (held_render 400 100 False (held_mount 400 0 True)) = Some 400"
proof -
  have "held_runs 400 (Some 0) 0 (held_mount 400 0 True)"
    using held_runs.mount [of 400 True 0] by simp
  then have "held_runs 400 (Some 0) 100 (held_render 400 100 False (held_mount 400 0 True))"
    by (rule held_runs.stop) (simp_all add: held_defs)
  from minimum_loading_holds [OF this] show ?thesis by (simp add: held_defs Let_def)
qed

text \<open>C37: With at most two overlays on each other, the back button closes the top one and no other,
  and an overlay that is closed in another way takes its entry of the history with it; but under
  three, the back button closes the lowest one as well.\<close>

lemma back_closes_top:
  assumes "nested st" and "bk_open st = upper # below"
  shows "(length below \<le> 1 \<longrightarrow>
      bk_open (go_back st) = below \<and> bk_closed (go_back st) = bk_closed st @ [upper] \<and> nested (go_back st) \<and>
      bk_open (close_overlay upper st) = below \<and> bk_closed (close_overlay upper st) = bk_closed st \<and>
      nested (close_overlay upper st)) \<and>
    (\<forall>b a. below = [b, a] \<longrightarrow> bk_open (go_back st) = [b] \<and> bk_closed (go_back st) = bk_closed st @ [a, upper])"
proof (intro conjI [of "length below \<le> 1 \<longrightarrow> _"] impI allI)
  assume short: "length below \<le> 1"
  have "bk_open (go_back st) = below \<and> bk_closed (go_back st) = bk_closed st @ [upper] \<and> nested (go_back st)"
  proof (cases below)
    case Nil
    with assms go_back_one show ?thesis by simp
  next
    case (Cons a rest)
    with short have "below = [a]" by simp
    with assms go_back_two show ?thesis by simp
  qed
  with close_overlay_top [OF assms short]
  show "bk_open (go_back st) = below \<and> bk_closed (go_back st) = bk_closed st @ [upper] \<and> nested (go_back st) \<and>
      bk_open (close_overlay upper st) = below \<and> bk_closed (close_overlay upper st) = bk_closed st \<and>
      nested (close_overlay upper st)" by simp
next
  fix b a
  assume "below = [b, a]"
  with assms show "bk_open (go_back st) = [b] \<and> bk_closed (go_back st) = bk_closed st @ [a, upper]"
    by (auto simp: nested_def back_defs)
qed

lemma back_closes_top_witness:
  "let st = open_overlay ''dialog'' (open_overlay ''drawer'' \<lparr>bk_entries = [None], bk_open = [], bk_closed = []\<rparr>)
   in bk_open (go_back st) = [''drawer''] \<and> bk_closed (go_back st) = [''dialog'']"
proof -
  let ?st = "open_overlay ''dialog'' (open_overlay ''drawer'' \<lparr>bk_entries = [None], bk_open = [], bk_closed = []\<rparr>)"
  have "nested ?st" and "bk_open ?st = ''dialog'' # [''drawer'']"
    by (auto simp: nested_def open_overlay_def)
  from back_closes_top [OF this] show ?thesis by (simp add: open_overlay_def)
qed

end
