(* ===== verification/Formatting.thy ===== *)
theory Formatting
  imports Formats
begin

text \<open>
  What the pages print: durations, uptimes, sizes, percentages
  (main/slideshowImages/slideshowImagesUtils.ts, main/services/formatUptime.ts, and the helpers at
  the top of main/general/general.tsx and main/displayHealth/displayHealth.tsx).

  An optional argument is an option, \<open>None\<close> for \<open>undefined\<close>; the numbers are whole where the board
  counts (seconds, milliseconds, bytes) and exact rationals where it measures. What the browser's
  locale prints (\<open>toLocaleString\<close>) is an argument.
\<close>

section \<open>Arithmetic\<close>

text \<open>\<open>a % b\<close> for a positive \<open>b\<close>: it has the sign of \<open>a\<close>.\<close>

definition js_rem :: "int \<Rightarrow> int \<Rightarrow> int" where
  "js_rem a b = (if a < 0 then - (- a mod b) else a mod b)"

lemma js_rem_nonneg [simp]: "0 \<le> a \<Longrightarrow> js_rem a b = a mod b"
  by (simp add: js_rem_def)

text \<open>\<open>x.toFixed (n)\<close>: of two decimals equally near, the larger.\<close>

definition toFixed :: "nat \<Rightarrow> rat \<Rightarrow> string" where
  "toFixed n x =
     (let k = nat \<lfloor>\<bar>x\<bar> * 10 ^ n + 1 / 2\<rfloor>;
          whole = nat_str (k div 10 ^ n);
          frac = padStart n (CHR ''0'') (nat_str (k mod 10 ^ n))
      in (if x < 0 then ''-'' else []) @ whole @ (if n = 0 then [] else ''.'' @ frac))"

section \<open>Durations\<close>

(* src: main/slideshowImages/slideshowImagesUtils.ts 5-6: plural *)
definition plural :: "int \<Rightarrow> string \<Rightarrow> string \<Rightarrow> string" where
  "plural count singular pluralForm =
     int_str count @ '' '' @ (if count = 1 then singular else pluralForm)"

(* src: main/slideshowImages/slideshowImagesUtils.ts 8-19: formatDuration *)
definition formatDuration :: "rat \<Rightarrow> string" where
  "formatDuration durationMs =
     (let totalMinutes = round (durationMs / 60000);
          days = totalMinutes div (24 * 60);
          hours = js_rem totalMinutes (24 * 60) div 60;
          minutes = js_rem totalMinutes 60;
          parts =
            (if 0 < days then [plural days ''Tag'' ''Tage''] else []) @
            (if 0 < hours then [plural hours ''Stunde'' ''Stunden''] else []) @
            (if 0 < minutes then [plural minutes ''Minute'' ''Minuten''] else [])
      in if 0 < length parts then join '' '' parts else ''weniger als 1 Minute'')"

(* src: main/slideshowImages/slideshowImagesUtils.ts 21-22: formatUnix *)
definition formatUnix :: "(rat \<Rightarrow> string) \<Rightarrow> rat option \<Rightarrow> string" where
  "formatUnix formatGermanDateTime seconds =
     (case seconds of None \<Rightarrow> s_endash | Some s \<Rightarrow> formatGermanDateTime (s * 1000))"

(* src: main/slideshowImages/slideshowImagesUtils.ts 24-27: formatTimeLeft *)
definition formatTimeLeft :: "rat \<Rightarrow> rat \<Rightarrow> string" where
  "formatTimeLeft expiresAt now =
     (let left = expiresAt * 1000 - now
      in if left \<le> 0 then ''Abgelaufen'' else ''noch '' @ formatDuration left)"

(* src: main/services/formatUptime.ts 1-8: formatUptime *)
definition formatUptime :: "int option \<Rightarrow> string" where
  "formatUptime uptime =
     (case uptime of
        None \<Rightarrow> s_endash
      | Some s \<Rightarrow>
          if s < 60 then int_str s @ ''s''
          else
            let m = s div 60; h = m div 60; d = h div 24
            in if 0 < d then int_str d @ ''d '' @ int_str (js_rem h 24) @ ''h''
               else if 0 < h then int_str h @ ''h '' @ int_str (js_rem m 60) @ ''m''
               else int_str m @ ''m'')"

section \<open>The system page\<close>

(* src: main/general/general.tsx 23-28: fmtBytes *)
definition fmtBytes :: "rat option \<Rightarrow> string" where
  "fmtBytes bytes =
     (case bytes of
        None \<Rightarrow> s_emdash
      | Some n \<Rightarrow>
          let gb = n / 1024 ^ 3
          in if 1 \<le> gb then toFixed 1 gb @ '' GB'' else toFixed 0 (n / 1024 ^ 2) @ '' MB'')"

(* src: main/general/general.tsx 31-36: fmtUsage *)
definition fmtUsage :: "rat option \<Rightarrow> rat option \<Rightarrow> string" where
  "fmtUsage free all =
     (case (free, all) of
        (Some f, Some t) \<Rightarrow>
          if t = 0 then s_emdash
          else
            let used = t - f; pct = round (used / t * 100)
            in fmtBytes (Some used) @ '' / '' @ fmtBytes all @ '' ('' @ int_str pct @ ''%)''
      | _ \<Rightarrow> s_emdash)"

(* src: main/general/general.tsx 38-48: fmtUptime *)
definition fmtUptime :: "int option \<Rightarrow> string" where
  "fmtUptime uptime =
     (case uptime of
        None \<Rightarrow> s_emdash
      | Some s \<Rightarrow>
          let d = s div 86400;
              h = js_rem s 86400 div 3600;
              m = js_rem s 3600 div 60
          in join '' ''
               ((if d \<noteq> 0 then [int_str d @ ''d''] else []) @
                (if h \<noteq> 0 \<or> d \<noteq> 0 then [int_str h @ ''h''] else []) @
                [int_str m @ ''m'']))"

(* src: main/general/general.tsx 50-50: fmtTemp *)
definition fmtTemp :: "rat option \<Rightarrow> string" where
  "fmtTemp temp = (case temp of None \<Rightarrow> s_emdash | Some c \<Rightarrow> toFixed 1 c @ '' '' @ [CHR 0xC2, CHR 0xB0] @ ''C'')"

(* src: main/general/general.tsx 51-51: fmtPct *)
definition fmtPct :: "rat option \<Rightarrow> string" where
  "fmtPct pct = (case pct of None \<Rightarrow> s_emdash | Some p \<Rightarrow> toFixed 0 p @ '' %'')"

(* src: main/general/general.tsx 52-53: fmtLoad *)
definition fmtLoad :: "rat option \<Rightarrow> rat option \<Rightarrow> rat option \<Rightarrow> string" where
  "fmtLoad a b c =
     (let show = (\<lambda>v. case v of None \<Rightarrow> ''?'' | Some x \<Rightarrow> rat_str x)
      in if list_all (\<lambda>v. v = None) [a, b, c] then s_emdash
         else show a @ '' / '' @ show b @ '' / '' @ show c)"

(* src: main/general/general.tsx 54-54: fmtSignal *)
definition fmtSignal :: "rat option \<Rightarrow> string" where
  "fmtSignal dbm = (case dbm of None \<Rightarrow> s_emdash | Some d \<Rightarrow> rat_str d @ '' dBm'')"

(* src: main/general/general.tsx 60-60: orDash *)
definition orDash :: "string option \<Rightarrow> string" where
  "orDash text = (case text of None \<Rightarrow> s_emdash | Some v \<Rightarrow> if 0 < length v then v else s_emdash)"

(* src: main/general/general.tsx 66-67: fmtSlot *)
definition fmtSlot :: "string option \<Rightarrow> bool \<Rightarrow> string" where
  "fmtSlot slot trial =
     (case slot of
        None \<Rightarrow> s_emdash
      | Some s \<Rightarrow> if s = [] then s_emdash else s @ (if trial then '' (Trial, nicht best'' @ s_ae @ ''tigt)'' else []))"

(* src: main/general/general.tsx 68-68: fmtFreq *)
definition fmtFreq :: "rat option \<Rightarrow> string" where
  "fmtFreq freq = (case freq of None \<Rightarrow> s_emdash | Some mhz \<Rightarrow> rat_str mhz @ '' MHz'')"

(* src: main/general/general.tsx 69-69: HEALTH_LABELS *)
definition HEALTH_LABELS :: "(string \<times> string) list" where
  "HEALTH_LABELS = [(''ok'', ''OK''), (''warn'', ''Warnung''), (''critical'', ''Kritisch'')]"

text \<open>\<open>s ? LABELS[s] ?? s : DASH\<close>\<close>

definition labelled :: "(string \<times> string) list \<Rightarrow> string option \<Rightarrow> string" where
  "labelled labels key =
     (case key of
        None \<Rightarrow> s_emdash
      | Some s \<Rightarrow> if s = [] then s_emdash else (case map_of labels s of None \<Rightarrow> s | Some l \<Rightarrow> l))"

(* src: main/general/general.tsx 70-70: fmtHealth *)
definition fmtHealth :: "string option \<Rightarrow> string" where
  "fmtHealth s = labelled HEALTH_LABELS s"

(* src: main/general/general.tsx 71-71: WIFI_MODE_LABELS *)
definition WIFI_MODE_LABELS :: "(string \<times> string) list" where
  "WIFI_MODE_LABELS =
    [(''connected'', ''Verbunden''), (''connecting'', ''Verbinde '' @ s_dots), (''ap'', ''Hotspot'')]"

(* src: main/general/general.tsx 72-72: fmtWifiMode *)
definition fmtWifiMode :: "string option \<Rightarrow> string" where
  "fmtWifiMode m = labelled WIFI_MODE_LABELS m"

section \<open>The page of the display's health\<close>

(* src: main/displayHealth/displayHealth.tsx 16-16: fmtInt *)
definition fmtInt :: "(rat \<Rightarrow> string) \<Rightarrow> rat option \<Rightarrow> string" where
  "fmtInt toLocaleString n = (case n of None \<Rightarrow> s_emdash | Some x \<Rightarrow> toLocaleString x)"

(* src: main/displayHealth/displayHealth.tsx 17-17: fmtMs *)
definition fmtMs :: "(rat \<Rightarrow> string) \<Rightarrow> rat option \<Rightarrow> string" where
  "fmtMs toLocaleString n = (case n of None \<Rightarrow> s_emdash | Some x \<Rightarrow> toLocaleString x @ '' ms'')"

(* src: main/displayHealth/displayHealth.tsx 19-30: fmtDuration *)
definition fmtDuration :: "int option \<Rightarrow> string" where
  "fmtDuration duration =
     (case duration of
        None \<Rightarrow> s_emdash
      | Some ms \<Rightarrow>
          let s = ms div 1000;
              h = s div 3600;
              m = js_rem s 3600 div 60;
              sec = js_rem s 60
          in join '' ''
               ((if h \<noteq> 0 then [int_str h @ ''h''] else []) @
                (if m \<noteq> 0 \<or> h \<noteq> 0 then [int_str m @ ''m''] else []) @
                [int_str sec @ ''s'']))"

(* src: main/displayHealth/displayHealth.tsx 38-38: fmtWear *)
definition fmtWear :: "rat option \<Rightarrow> string" where
  "fmtWear wear = (case wear of None \<Rightarrow> s_emdash | Some p \<Rightarrow> toFixed 4 p @ '' %'')"

(* src: main/displayHealth/displayHealth.tsx 41-45: HEALTH_CHIP *)
definition HEALTH_CHIP :: "(string \<times> string \<times> string) list" where
  "HEALTH_CHIP =
    [(''ok'', ''OK'', ''success''), (''degraded'', ''Eingeschr'' @ s_ae @ ''nkt'', ''warning''),
     (''failed'', ''Ausgefallen'', ''error'')]"

section \<open>Reading a duration back\<close>

definition unit_minutes :: "string \<Rightarrow> int" where
  "unit_minutes u =
     (if u \<in> {''Tag'', ''Tage''} then 1440 else if u \<in> {''Stunde'', ''Stunden''} then 60 else 1)"

fun read_words :: "string list \<Rightarrow> int" where
  "read_words (n # u # ws) = int (parse_digits n) * unit_minutes u + read_words ws"
| "read_words _ = 0"

definition read_duration :: "string \<Rightarrow> int" where
  "read_duration text =
     (if text = ''weniger als 1 Minute'' then 0 else read_words (split_on (CHR '' '') text))"

lemma split_on_word: "c \<notin> set w \<Longrightarrow> split_on c w = [w]"
  by (induction w) auto

lemma split_on_step: "c \<notin> set w \<Longrightarrow> split_on c (w @ c # s) = w # split_on c s"
  by (induction w) auto

lemma no_space_int_str: "0 \<le> n \<Longrightarrow> CHR '' '' \<notin> set (int_str n)"
proof
  assume "0 \<le> n" and "CHR '' '' \<in> set (int_str n)"
  then obtain d where "d < 10" and "CHR '' '' = digit_char d"
    using digit_chars_nat_str [of "nat n"] by (auto simp: int_str_def)
  then have "(of_char (CHR '' '') :: nat) = 48 + d" using of_char_digit by metis
  then show False by simp
qed

lemma parse_int_str: "0 \<le> n \<Longrightarrow> int (parse_digits (int_str n)) = n"
  by (simp add: int_str_def)

lemma read_plural_last:
  assumes "0 \<le> n" and "CHR '' '' \<notin> set a" and "CHR '' '' \<notin> set b" and "unit_minutes b = unit_minutes a"
  shows "read_words (split_on (CHR '' '') (plural n a b)) = n * unit_minutes a"
  using assms by (simp add: plural_def split_on_step no_space_int_str split_on_word parse_int_str)

lemma read_plural_more:
  assumes "0 \<le> n" and "CHR '' '' \<notin> set a" and "CHR '' '' \<notin> set b" and "unit_minutes b = unit_minutes a"
  shows "read_words (split_on (CHR '' '') (plural n a b @ CHR '' '' # rest)) =
    n * unit_minutes a + read_words (split_on (CHR '' '') rest)"
  using assms by (simp add: plural_def split_on_step no_space_int_str parse_int_str)

lemma plural_not_less: "0 \<le> n \<Longrightarrow> plural n a b @ rest \<noteq> ''weniger als 1 Minute''"
proof
  assume "0 \<le> n" and eq: "plural n a b @ rest = ''weniger als 1 Minute''"
  have "int_str n \<noteq> []" using \<open>0 \<le> n\<close> by (simp add: int_str_def)
  then obtain ch cs where cs: "int_str n = ch # cs" by (cases "int_str n") auto
  then have "ch = CHR ''w''" using eq by (simp add: plural_def)
  then have "CHR ''w'' \<in> set (nat_str (nat n))" using cs \<open>0 \<le> n\<close> by (simp add: int_str_def)
  then obtain d where "d < 10" and "CHR ''w'' = digit_char d" using digit_chars_nat_str by blast
  then have "(of_char (CHR ''w'') :: nat) = 48 + d" using of_char_digit by metis
  with \<open>d < 10\<close> show False by simp
qed

lemma minutes_split:
  fixes t :: int
  shows "t div 1440 * 1440 + t mod 1440 div 60 * 60 + t mod 60 = t"
proof -
  have "t mod 1440 mod 60 = t mod 60" by (simp add: mod_mod_cancel)
  then have "t mod 1440 div 60 * 60 + t mod 60 = t mod 1440"
    using div_mult_mod_eq [of "t mod 1440" 60] by simp
  with div_mult_mod_eq [of t 1440] show ?thesis by linarith
qed

lemma unit_minutes_values:
  "unit_minutes ''Tag'' = 1440" "unit_minutes ''Tage'' = 1440" "unit_minutes ''Stunde'' = 60"
  "unit_minutes ''Stunden'' = 60" "unit_minutes ''Minute'' = 1" "unit_minutes ''Minuten'' = 1"
  by (simp_all add: unit_minutes_def)

lemma read_parts:
  fixes d h m :: int
  defines "parts \<equiv> (if 0 < d then [plural d ''Tag'' ''Tage''] else []) @
      (if 0 < h then [plural h ''Stunde'' ''Stunden''] else []) @
      (if 0 < m then [plural m ''Minute'' ''Minuten''] else [])"
  assumes "0 \<le> d" and "0 \<le> h" and "0 \<le> m"
  shows "read_duration (if 0 < length parts then join '' '' parts else ''weniger als 1 Minute'') =
    d * 1440 + h * 60 + m"
proof -
  note less = plural_not_less plural_not_less [where rest = "[]", simplified]
  show ?thesis
  proof (cases "0 < d"; cases "0 < h"; cases "0 < m")
  qed (use assms(2-4) in \<open>simp_all add: parts_def read_duration_def less read_plural_last read_plural_more
      unit_minutes_values\<close>)
qed

lemma read_formatDuration:
  assumes "0 \<le> durationMs"
  shows "read_duration (formatDuration durationMs) = round (durationMs / 60000)"
proof -
  define t where "t = round (durationMs / 60000)"
  have t: "0 \<le> t"
    using assms by (simp add: t_def round_def)
  then have "0 \<le> t div 1440" "0 \<le> t mod 1440 div 60" "0 \<le> t mod 60"
    by (simp_all add: pos_imp_zdiv_nonneg_iff)
  moreover have "(24 :: int) * 60 = 1440" by simp
  ultimately show ?thesis
    using t by (simp only: formatDuration_def t_def [symmetric] Let_def js_rem_nonneg read_parts minutes_split)
qed

section \<open>Property\<close>

text \<open>C38: The text shown for a duration says the whole duration: read back word by word, its days,
  hours and minutes add up to the duration rounded to minutes.\<close>

lemma duration_roundtrip:
  assumes "0 \<le> durationMs"
  shows "read_duration (formatDuration durationMs) = round (durationMs / 60000)"
  by (rule read_formatDuration [OF assms])

lemma duration_roundtrip_witness: "read_duration (formatDuration 93660000) = 1561"
  using duration_roundtrip [of 93660000] by simp

end
