(* ===== verification/Utils.thy ===== *)
theory Utils
  imports Formats "HOL-Library.Word" "HOL-Library.Sublist"
begin

text \<open>
  The helpers under common/utils: badge numbers, the board's address, the parser of release
  notes, the reload after an update, the colour of a name, and the size of a file.
\<close>

section \<open>Badge and address\<close>

(* src: common/utils/badge.ts 1-3: getBadgeNumber *)
definition getBadgeNumber :: "bool list \<Rightarrow> nat" where
  "getBadgeNumber conditions = length (filter (\<lambda>b. b) conditions)"

(* src: common/utils/boardAddress.ts 2-2: boardAddress *)
definition boardAddress :: "string \<Rightarrow> string" where
  "boardAddress apSsid =
     ''http://'' @ (if apSsid \<noteq> [] then apSsid else ''shareframe-board'') @ ''.local''"

section \<open>Release notes\<close>

(* src: common/utils/releaseNotes.ts 1-3: ReleaseNotesBlock *)
datatype ReleaseNotesBlock = Paragraph string | Bullets "string list"

text \<open>\<open>\s\<close> and \<open>trim\<close>, on ASCII.\<close>

definition is_space :: "char \<Rightarrow> bool" where
  "is_space ch \<longleftrightarrow> ch \<in> {CHR 0x20, CHR 0x09, CHR 0x0A, CHR 0x0B, CHR 0x0C, CHR 0x0D}"

definition trim :: "string \<Rightarrow> string" where
  "trim s = rev (dropWhile is_space (rev (dropWhile is_space s)))"

text \<open>\<open>notes.split(/\r?\n/)\<close>: every line but the last loses the carriage return at its end.\<close>

definition strip_cr :: "string \<Rightarrow> string" where
  "strip_cr l = (if l \<noteq> [] \<and> last l = CHR 0x0D then butlast l else l)"

definition split_lines :: "string \<Rightarrow> string list" where
  "split_lines s =
     (let ls = split_on (CHR 0x0A) s in map strip_cr (butlast ls) @ [last ls])"

(* src: common/utils/releaseNotes.ts 5-5: bulletPattern *)
definition is_bullet :: "string \<Rightarrow> bool" where
  "is_bullet line =
     (case line of c # w # rest \<Rightarrow> (c = CHR ''-'' \<or> c = CHR ''*'') \<and> is_space w | _ \<Rightarrow> False)"

definition bullet_item :: "string \<Rightarrow> string" where
  "bullet_item line = dropWhile is_space (tl line)"

definition add_item :: "string \<Rightarrow> ReleaseNotesBlock list \<Rightarrow> ReleaseNotesBlock list" where
  "add_item item blocks =
     (if blocks = [] then [Bullets [item]]
      else case last blocks of
        Bullets items \<Rightarrow> butlast blocks @ [Bullets (items @ [item])]
      | Paragraph _ \<Rightarrow> blocks @ [Bullets [item]])"

definition add_line :: "ReleaseNotesBlock list \<Rightarrow> string \<Rightarrow> ReleaseNotesBlock list" where
  "add_line blocks rawLine =
     (let line = trim rawLine
      in if line = [] then blocks
         else if is_bullet line then add_item (bullet_item line) blocks
         else blocks @ [Paragraph line])"

(* src: common/utils/releaseNotes.ts 7-22: parseReleaseNotes *)
definition parseReleaseNotes :: "string \<Rightarrow> ReleaseNotesBlock list" where
  "parseReleaseNotes notes = foldl add_line [] (split_lines notes)"

text \<open>What a reader should see of the notes: their lines that are not blank, in order, each with
  what it is.\<close>

fun block_lines :: "ReleaseNotesBlock \<Rightarrow> (bool \<times> string) list" where
  "block_lines (Paragraph t) = [(False, t)]"
| "block_lines (Bullets items) = map (Pair True) items"

definition note_line :: "string \<Rightarrow> (bool \<times> string) list" where
  "note_line rawLine =
     (let line = trim rawLine
      in if line = [] then [] else if is_bullet line then [(True, bullet_item line)] else [(False, line)])"

fun is_list :: "ReleaseNotesBlock \<Rightarrow> bool" where
  "is_list (Bullets items) = True"
| "is_list (Paragraph t) = False"

fun merged :: "ReleaseNotesBlock list \<Rightarrow> bool" where
  "merged [] = True"
| "merged [b] = (b \<noteq> Bullets [])"
| "merged (b # c # bs) = (b \<noteq> Bullets [] \<and> \<not> (is_list b \<and> is_list c) \<and> merged (c # bs))"

lemma merged_snoc:
  "merged (bs @ [x]) \<longleftrightarrow> merged bs \<and> x \<noteq> Bullets [] \<and> (bs = [] \<or> \<not> (is_list (last bs) \<and> is_list x))"
  by (induction bs rule: merged.induct) auto

lemma add_item_lines: "concat (map block_lines (add_item x bs)) = concat (map block_lines bs) @ [(True, x)]"
proof (cases bs rule: rev_cases)
  case (snoc ys y)
  then show ?thesis by (cases y) (simp_all add: add_item_def)
qed (simp add: add_item_def)

lemma add_item_merged:
  assumes "merged bs"
  shows "merged (add_item x bs)"
proof (cases bs rule: rev_cases)
  case (snoc ys y)
  with assms show ?thesis
    using merged_snoc [of bs "Bullets [x]"] by (cases y) (auto simp: add_item_def merged_snoc)
qed (simp add: add_item_def)

lemma add_line_lines:
  "concat (map block_lines (add_line bs l)) = concat (map block_lines bs) @ note_line l"
  by (simp add: add_line_def note_line_def Let_def add_item_lines)

lemma add_line_merged: "merged bs \<Longrightarrow> merged (add_line bs l)"
  by (simp add: add_line_def Let_def add_item_merged merged_snoc)

lemma parse_fold:
  "merged bs \<Longrightarrow> merged (foldl add_line bs ls) \<and>
     concat (map block_lines (foldl add_line bs ls)) = concat (map block_lines bs) @ concat (map note_line ls)"
  by (induction ls arbitrary: bs) (auto simp: add_line_lines add_line_merged)

section \<open>Stale chunks\<close>

(* src: common/utils/staleChunkReload.ts 3-3: RETRY_AFTER_MS *)
definition RETRY_AFTER_MS :: int where
  "RETRY_AFTER_MS = 30000"

definition lower :: "char \<Rightarrow> char" where
  "lower ch = (if 65 \<le> (of_char ch :: nat) \<and> (of_char ch :: nat) \<le> 90 then char_of ((of_char ch :: nat) + 32) else ch)"

definition mentions :: "string \<Rightarrow> string \<Rightarrow> bool" where
  "mentions pat s \<longleftrightarrow> sublist (map lower pat) (map lower s)"

(* src: common/utils/staleChunkReload.ts 2-2: STALE_CHUNK_MESSAGE *)
definition STALE_CHUNK_MESSAGE :: "string list" where
  "STALE_CHUNK_MESSAGE =
    [''dynamically imported module'', ''Importing a module script failed'', ''error loading dynamically'']"

(* src: common/utils/staleChunkReload.ts 5-6: isStaleChunkError *)
definition isStaleChunkError :: "thrown \<Rightarrow> bool" where
  "isStaleChunkError error =
     (case error of
        ErrorObj m \<Rightarrow> list_ex (\<lambda>pat. mentions pat m) STALE_CHUNK_MESSAGE
      | OtherThrown t \<Rightarrow> False)"

text \<open>
  The stored item is \<open>sessionStorage.getItem(..)\<close>; \<open>now\<close> and \<open>now'\<close> are the two readings of the
  clock. The result is whether the page is reloaded and the item afterwards.
\<close>

(* src: common/utils/staleChunkReload.ts 9-15: reloadForStaleChunk *)
definition reloadForStaleChunk :: "int \<Rightarrow> int \<Rightarrow> string option \<Rightarrow> bool \<times> string option" where
  "reloadForStaleChunk now now' item =
     (let last = js_to_number (case item of None \<Rightarrow> JNum 0 | Some s \<Rightarrow> JStr s)
      in if (case last of None \<Rightarrow> False | Some l \<Rightarrow> of_int now - l < of_int RETRY_AFTER_MS)
         then (False, item)
         else (True, Some (int_str now')))"

text \<open>The reloads among the errors at the given times, both readings of the clock being the same.\<close>

fun reload_times :: "int list \<Rightarrow> string option \<Rightarrow> int list" where
  "reload_times [] item = []"
| "reload_times (t # ts) item =
     (case reloadForStaleChunk t t item of
        (reload, item') \<Rightarrow> (if reload then t # reload_times ts item' else reload_times ts item'))"

lemma all_digits_nat_str: "all_digits (nat_str n)"
proof -
  have "is_digit ch" if "ch \<in> set (nat_str n)" for ch
    using that digit_chars_nat_str [of n] by (auto simp: is_digit_def of_char_digit)
  then show ?thesis by (simp add: all_digits_def list_all_iff)
qed

lemma js_number_of_time: "0 \<le> t \<Longrightarrow> js_to_number (JStr (int_str t)) = Some (of_int t)"
  by (simp add: int_str_def all_digits_nat_str)

lemma reload_times_spaced:
  assumes "sorted ts" and "\<forall>t \<in> set ts. 0 \<le> t" and "0 \<le> prev"
    and "\<forall>t \<in> set ts. prev \<le> t"
  shows "sorted_wrt (\<lambda>a b. a + RETRY_AFTER_MS \<le> b) (prev # reload_times ts (Some (int_str prev)))"
  using assms
proof (induction ts arbitrary: prev)
  case Nil
  then show ?case by simp
next
  case (Cons t ts)
  show ?case
  proof (cases "t - prev < RETRY_AFTER_MS")
    case True
    then have "reloadForStaleChunk t t (Some (int_str prev)) = (False, Some (int_str prev))"
      using Cons.prems(3) by (simp add: reloadForStaleChunk_def js_number_of_time del: js_to_number.simps)
    with Cons show ?thesis by simp
  next
    case False
    then have "reloadForStaleChunk t t (Some (int_str prev)) = (True, Some (int_str t))"
      using Cons.prems(3) by (simp add: reloadForStaleChunk_def js_number_of_time del: js_to_number.simps)
    moreover have "sorted_wrt (\<lambda>a b. a + RETRY_AFTER_MS \<le> b) (t # reload_times ts (Some (int_str t)))"
      using Cons by (intro Cons.IH) auto
    ultimately show ?thesis using False by (fastforce simp: RETRY_AFTER_MS_def)
  qed
qed

section \<open>The size of a file\<close>

definition filePowers :: "string list" where
  "filePowers = [''Bytes'', ''KB'', ''MB'', ''GB'', ''TB'', ''PB'']"

text \<open>The loop, on what is left of the size and the index of its unit.\<close>

function size_loop :: "rat \<Rightarrow> nat \<Rightarrow> rat \<times> nat" where
  "size_loop tempSize i =
     (if 900 < tempSize \<and> i < length filePowers - 1 then size_loop (tempSize / 1000) (Suc i)
      else (tempSize, i))"
  by pat_completeness auto
termination by (relation "measure (\<lambda>(_, i). length filePowers - i)") auto

declare size_loop.simps [simp del]

(* src: common/utils/files/fileSize.helpers.tsx 1-14: getReadablyFileSize *)
definition getReadablyFileSize :: "rat \<Rightarrow> string" where
  "getReadablyFileSize byteFileSize =
     (case size_loop byteFileSize 0 of
        (tempSize, i) \<Rightarrow> rat_str (of_int (round (tempSize * 100)) / 100) @ '' '' @ filePowers ! i)"

lemma size_loop_spec:
  assumes "i < length filePowers" and "size_loop x i = (y, j)"
  shows "i \<le> j \<and> j < length filePowers \<and> y * 1000 ^ (j - i) = x \<and> (y \<le> 900 \<or> j = length filePowers - 1) \<and>
    (\<forall>k. i \<le> k \<and> k < j \<longrightarrow> 900 < x / 1000 ^ (k - i))"
  using assms
proof (induction x i rule: size_loop.induct)
  case (1 x i)
  show ?case
  proof (cases "900 < x \<and> i < length filePowers - 1")
    case True
    with "1.prems" have "size_loop (x / 1000) (Suc i) = (y, j)" "Suc i < length filePowers"
      by (auto simp: size_loop.simps [of x])
    from "1.IH" [OF True this(2,1)]
    have ih: "Suc i \<le> j" "j < length filePowers" "y * 1000 ^ (j - Suc i) = x / 1000"
      "y \<le> 900 \<or> j = length filePowers - 1"
      "\<And>k. Suc i \<le> k \<Longrightarrow> k < j \<Longrightarrow> 900 < x / 1000 / 1000 ^ (k - Suc i)" by auto
    from ih(1) have "j - i = Suc (j - Suc i)" by simp
    with ih(3) have "y * 1000 ^ (j - i) = x" by (simp add: field_simps)
    moreover have "900 < x / 1000 ^ (k - i)" if "i \<le> k" "k < j" for k
    proof (cases "k = i")
      case True
      with \<open>900 < x \<and> i < length filePowers - 1\<close> show ?thesis by simp
    next
      case False
      with that have "Suc i \<le> k" "k - i = Suc (k - Suc i)" by auto
      with ih(5) [OF this(1) that(2)] show ?thesis by (simp add: field_simps)
    qed
    ultimately show ?thesis using ih(1,2,4) by auto
  next
    case False
    with "1.prems" have "y = x" "j = i" by (auto simp: size_loop.simps [of x])
    with False "1.prems"(1) show ?thesis by auto
  qed
qed

section \<open>The colour of a name\<close>

text \<open>
  A string is here the list of its UTF-16 code units. \<open>hash\<close> is a JavaScript number that is never
  cut to 32 bits as a whole: only the shift cuts, so it may leave the range of an int32.
\<close>

definition to_int32 :: "int \<Rightarrow> int" where
  "to_int32 x = sint (word_of_int x :: 32 word)"

definition hash_step :: "int \<Rightarrow> nat \<Rightarrow> int" where
  "hash_step hash c = int c + (to_int32 (to_int32 hash * 32) - hash)"

definition name_hash :: "nat list \<Rightarrow> int" where
  "name_hash units = foldl hash_step 0 units"

text \<open>\<open>(hash >> (i * 8)) & 0xff\<close>\<close>

definition hash_byte :: "int \<Rightarrow> nat \<Rightarrow> nat" where
  "hash_byte hash i = nat (to_int32 hash div 2 ^ (8 * i) mod 256)"

definition lower_hex :: "nat \<Rightarrow> char" where
  "lower_hex n = (if n < 10 then char_of (48 + n) else char_of (87 + n))"

text \<open>\<open>`00${value.toString(16)}`.slice(-2)\<close> for a byte\<close>

definition hex_byte :: "nat \<Rightarrow> string" where
  "hex_byte v =
     (let digits = (if v < 16 then [lower_hex v] else [lower_hex (v div 16), lower_hex (v mod 16)])
      in last_n 2 (''00'' @ digits))"

(* src: common/utils/color/color.ts 1-17: stringToColor *)
definition stringToColor :: "nat list \<Rightarrow> string" where
  "stringToColor units =
     ''#'' @ concat (map (\<lambda>i. hex_byte (hash_byte (name_hash units) i)) [0, 1, 2])"

text \<open>What it should be: the polynomial hash with base 31, modulo \<open>2 ^ 32\<close>, its low three bytes in hex.\<close>

definition poly_hash :: "nat list \<Rightarrow> 32 word" where
  "poly_hash units = foldl (\<lambda>h c. 31 * h + of_nat c) 0 units"

definition byte_hex :: "nat \<Rightarrow> string" where
  "byte_hex v = [lower_hex (v div 16), lower_hex (v mod 16)]"

lemma word_of_to_int32 [simp]: "(word_of_int (to_int32 x) :: 32 word) = word_of_int x"
  by (simp add: to_int32_def)

lemma hash_step_word:
  "(word_of_int (hash_step h c) :: 32 word) = 31 * word_of_int h + of_nat c"
proof -
  have "(word_of_int (hash_step h c) :: 32 word) =
      of_nat c + (word_of_int (to_int32 (to_int32 h * 32)) - word_of_int h)"
    by (simp add: hash_step_def wi_hom_syms)
  also have "\<dots> = of_nat c + (word_of_int h * 32 - word_of_int h)"
    by (simp flip: wi_hom_mult)
  finally show ?thesis by (simp add: algebra_simps)
qed

lemma name_hash_word: "(word_of_int (name_hash units) :: 32 word) = poly_hash units"
proof -
  have "(word_of_int (foldl hash_step h units) :: 32 word) =
      foldl (\<lambda>h c. 31 * h + of_nat c) (word_of_int h) units" for h
    by (induction units arbitrary: h) (simp_all add: hash_step_word)
  then show ?thesis by (simp add: name_hash_def poly_hash_def)
qed

lemma hash_byte_word:
  assumes "i < 3"
  shows "hash_byte h i = unat (word_of_int h :: 32 word) div 2 ^ (8 * i) mod 256"
proof -
  let ?w = "word_of_int h :: 32 word"
  have bits: "x div 2 ^ (8 * i) mod 256 = drop_bit (8 * i) (take_bit (8 + 8 * i) x)" for x :: int
  proof -
    have "x div 2 ^ (8 * i) mod 256 = take_bit 8 (drop_bit (8 * i) x)"
      by (simp add: take_bit_eq_mod drop_bit_eq_div)
    then show ?thesis by (simp only: take_bit_drop_bit)
  qed
  have "8 + 8 * i \<le> Suc 31" using assms by simp
  then have "take_bit (8 + 8 * i) (sint ?w) = take_bit (8 + 8 * i) (uint ?w)"
    by (simp add: sint_uint take_bit_signed_take_bit)
  then have "sint ?w div 2 ^ (8 * i) mod 256 = uint ?w div 2 ^ (8 * i) mod 256"
    by (simp only: bits)
  then have "hash_byte h i = nat (uint ?w div 2 ^ (8 * i) mod 256)"
    by (simp add: hash_byte_def to_int32_def)
  moreover have "uint ?w div 2 ^ (8 * i) mod 256 = int (unat ?w div 2 ^ (8 * i) mod 256)"
    by (simp only: uint_nat [of ?w]) (simp add: zdiv_int zmod_int)
  ultimately show ?thesis by simp
qed

lemma hex_byte_byte: "hex_byte v = byte_hex v"
proof -
  have "char_of (48 :: nat) = CHR ''0''" by code_simp
  then show ?thesis by (simp add: hex_byte_def byte_hex_def last_n_def Let_def lower_hex_def)
qed

lemma stringToColor_poly:
  "stringToColor units =
     ''#'' @ concat (map (\<lambda>i. byte_hex (unat (poly_hash units) div 2 ^ (8 * i) mod 256)) [0, 1, 2])"
  by (simp add: stringToColor_def hash_byte_word name_hash_word hex_byte_byte)

section \<open>Properties\<close>

text \<open>The parser of release notes shows exactly the lines of the notes that are not blank, in
  order, a bullet without its mark and any other line as it is; lists are never empty and never
  two in a row.\<close>

lemma release_notes_complete:
  "concat (map block_lines (parseReleaseNotes notes)) = concat (map note_line (split_lines notes)) \<and>
   merged (parseReleaseNotes notes)"
  using parse_fold [of "[]" "split_lines notes"] by (simp add: parseReleaseNotes_def)

text \<open>Reloads for missing chunks are at least thirty seconds apart, however often and whenever
  chunks are missing, so a chunk that is really gone cannot make the page loop.\<close>

lemma stale_reloads_apart:
  assumes "sorted ts" and "\<forall>t \<in> set ts. RETRY_AFTER_MS \<le> t"
  shows "sorted_wrt (\<lambda>a b. a + RETRY_AFTER_MS \<le> b) (reload_times ts None)"
proof (cases ts)
  case (Cons t ts')
  have "0 \<le> t" using assms(2) Cons by (simp add: RETRY_AFTER_MS_def)
  have "reloadForStaleChunk t t None = (True, Some (int_str t))"
    using assms(2) Cons by (simp add: reloadForStaleChunk_def not_less flip: of_int_less_iff)
  moreover have "sorted_wrt (\<lambda>a b. a + RETRY_AFTER_MS \<le> b) (t # reload_times ts' (Some (int_str t)))"
    using assms Cons \<open>0 \<le> t\<close> by (intro reload_times_spaced) (auto simp: RETRY_AFTER_MS_def)
  ultimately show ?thesis using Cons by simp
qed simp

lemma stale_reloads_apart_witness:
  "sorted_wrt (\<lambda>a b. a + RETRY_AFTER_MS \<le> b) (reload_times [100000, 110000, 131000] None)"
  by (rule stale_reloads_apart) (simp_all add: RETRY_AFTER_MS_def)

text \<open>The size shown for a file is its size divided by the power of 1000 that its unit stands
  for: at most 900 unless the unit is the largest, and no smaller unit would have done.\<close>

lemma file_size_unit:
  assumes "size_loop bytes 0 = (y, j)"
  shows "getReadablyFileSize bytes = rat_str (of_int (round (y * 100)) / 100) @ '' '' @ filePowers ! j \<and>
    j < length filePowers \<and> y * 1000 ^ j = bytes \<and> (y \<le> 900 \<or> filePowers ! j = ''PB'') \<and>
    (\<forall>k < j. 900 < bytes / 1000 ^ k)"
  using size_loop_spec [OF _ assms] by (auto simp: getReadablyFileSize_def assms filePowers_def)

lemma file_size_unit_witness:
  "getReadablyFileSize 1234567 = ''1.23 MB''"
proof -
  have loop: "size_loop 1234567 0 = (1234567 / 1000000, 2)"
    by (simp add: size_loop.simps filePowers_def)
  from file_size_unit [OF loop] have
    "getReadablyFileSize 1234567 = rat_str (of_int (round (1234567 / 1000000 * 100 :: rat)) / 100) @ '' '' @ filePowers ! 2"
    by simp
  also have "\<dots> = ''1.23 MB''" by code_simp
  finally show ?thesis .
qed

text \<open>The colour of a name is the low three bytes, in hex, of the polynomial hash with base 31
  over its code units modulo \<open>2 ^ 32\<close>, although the code never cuts its running hash to 32 bits.\<close>

lemma color_is_polynomial_hash:
  "stringToColor units =
     ''#'' @ concat (map (\<lambda>i. byte_hex (unat (poly_hash units) div 2 ^ (8 * i) mod 256)) [0, 1, 2])"
  by (rule stringToColor_poly)

end
