(* ===== verification/Shell.thy ===== *)
theory Shell
  imports NetworkThunks Formatting Utils Endpoints
begin

text \<open>
  The shell around the pages: the effects of App.tsx (loading wall, first load), the connection
  check (context/piConnection), the colour mode (context/colorTheme), the table of routes and the
  protected route, the side menu, the connection chip and the network banner, and the error
  boundary. What is rendered is a value; icons, colours and layout are left out.
\<close>

section \<open>The application's effects\<close>

datatype app_view = WallView | LogoView | RouterView

(* src: App.tsx 34-39: the reconnect effect of App *)
definition reconnect_effect :: "bool \<Rightarrow> bool \<Rightarrow> bool \<Rightarrow> loading_wall_action option \<times> bool" where
  "reconnect_effect isLoadingWallVisible isConnected prevConnected =
     (if isLoadingWallVisible \<and> isConnected \<and> \<not> prevConnected then Some hideLoadingWall else None,
      isConnected)"

text \<open>The time from which the timeout may hide the wall.\<close>

(* src: App.tsx 42-49: the deadline effect of App *)
definition deadline_effect :: "int \<Rightarrow> loading_wall_state \<Rightarrow> int option" where
  "deadline_effect now wall =
     (if \<not> lw_isLoadingWallVisible wall then None
      else
        case lw_hideAfter wall of
          None \<Rightarrow> None
        | Some hideAfter \<Rightarrow> if hideAfter = 0 then None else Some (now + max 0 (hideAfter - now)))"

text \<open>The end of the first load: the timer that the completed check starts runs out.\<close>

(* src: App.tsx 52-60: the first-load effect of App *)
definition first_load_effect :: "int \<Rightarrow> bool \<Rightarrow> bool \<Rightarrow> int \<times> bool" where
  "first_load_effect now authCheckComplete initialLoad =
     (now + 3000, if authCheckComplete then False else initialLoad)"

(* src: App.tsx 87-121: App *)
definition app_view :: "loading_wall_state \<Rightarrow> bool \<Rightarrow> app_view" where
  "app_view wall initialLoad =
     (if lw_isLoadingWallVisible wall then WallView else if initialLoad then LogoView else RouterView)"

section \<open>The connection to the board\<close>

(* src: context/piConnection/piConnectionContext.tsx 10-17: checkPiConnection *)
definition checkPiConnection :: "bool thunk" where
  "checkPiConnection =
     tryP
       (fetchP (get_req getSystemHealthUrl) (\<lambda>response.
        jsonP response (\<lambda>payload.
        Return (truthy (js_opt_get (js_opt_get payload ''data'') ''running'')))))
       (\<lambda>error. Browser ConsoleError (Return False))"

section \<open>Colour mode\<close>

datatype ColorMode = Light | Dark

fun color_mode_str :: "ColorMode \<Rightarrow> string" where
  "color_mode_str Light = ''light''"
| "color_mode_str Dark = ''dark''"

text \<open>The state is what \<open>localStorage\<close> has or the system wants: any text, with \<open>dark\<close> the one that
  chooses the dark theme.\<close>

(* src: context/colorTheme/colorThemeContext.tsx 10-13: the initial colorMode *)
definition initial_color_mode :: "string option \<Rightarrow> bool \<Rightarrow> string" where
  "initial_color_mode savedMode prefersDark =
     (case savedMode of
        Some m \<Rightarrow> if m \<noteq> [] then m else color_mode_str (if prefersDark then Dark else Light)
      | None \<Rightarrow> color_mode_str (if prefersDark then Dark else Light))"

(* src: context/colorTheme/colorThemeContext.tsx 15-21: toggleColorMode *)
definition toggleColorMode :: "string \<Rightarrow> string" where
  "toggleColorMode mode = color_mode_str (if mode = color_mode_str Light then Dark else Light)"

section \<open>Routes\<close>

datatype guard = RouterContextG | SnackbarsG | AuthenticationLayoutG | ProtectedRouteG | MainLayoutG

datatype page =
    NotFoundPage | SignInPage | SignOutPage | FrameActionsPage | SlideshowImagesPage | CustomizationPage
  | NetworkPage | UpdatesPage | UpdateHistoryPage | GeneralPage | DisplayHealthPage | FrameLogsPage
  | ServicesOverviewPage | ServiceDetailPage ServiceType

text \<open>An inner node has the layout elements around its children, a leaf the path, the title and
  the page.\<close>

datatype route = Layout "guard list" "route list" | Leaf string "string option" page

(* src: routes/routing.tsx 18-23: serviceDetail *)
definition serviceDetail :: "ServiceType \<Rightarrow> page" where
  "serviceDetail serviceId = ServiceDetailPage serviceId"

(* src: routes/routing.tsx 26-137: routes *)
definition routes :: "route list" where
  "routes =
    [Layout [RouterContextG]
      [Layout [SnackbarsG]
        [Leaf ''*'' None NotFoundPage,
         Layout [AuthenticationLayoutG]
          [Leaf ''*'' None NotFoundPage,
           Leaf (getAuthenticationUrl @ getSignInUrl) (Some ''Anmelden'') SignInPage,
           Leaf (getAuthenticationUrl @ getSignOutUrl) (Some ''Abmelden'') SignOutPage],
         Layout [ProtectedRouteG]
          [Layout [MainLayoutG]
            [Layout []
              [Leaf ''*'' None NotFoundPage,
               Leaf getHomeUrl (Some ''Steuerung'') FrameActionsPage,
               Leaf getSlideshowPageUrl (Some ''Diashow'') SlideshowImagesPage,
               Leaf getCustomizationUrl (Some ''Anpassung'') CustomizationPage,
               Leaf getNetworkUrl (Some ''Netzwerk'') NetworkPage,
               Leaf getUpdatesyUrl (Some ''Updates'') UpdatesPage,
               Leaf getUpdateHistoryPageUrl (Some ''Update-Verlauf'') UpdateHistoryPage,
               Leaf getGeneralSettingsUrl (Some ''System'') GeneralPage,
               Leaf getDisplayHealthUrl (Some ''Display-Zustand'') DisplayHealthPage,
               Leaf getLogsUrl (Some ''Protokolle'') FrameLogsPage,
               Leaf getServicesOverviewUrl (Some ''Dienste'') ServicesOverviewPage,
               Leaf (getServiceDetailUrl ''display'') (Some ''Display'') (serviceDetail DISPLAY),
               Leaf (getServiceDetailUrl ''websocket'') (Some ''WebSocket'') (serviceDetail WEBSOCKET),
               Leaf (getServiceDetailUrl ''dashboard'') (Some ''Dashboard'') (serviceDetail DASHBOARD),
               Leaf (getServiceDetailUrl ''heartbeat'') (Some ''Heartbeat'') (serviceDetail HEARTBEAT),
               Leaf (getServiceDetailUrl ''update'') (Some ''Update-Dienst'') (serviceDetail UPDATE)]]]]]]"

text \<open>The leaves of the table, each with the layout elements around it from the outside in.\<close>

fun leaves :: "route \<Rightarrow> (guard list \<times> string \<times> string option \<times> page) list" where
  "leaves (Leaf path title pg) = [([], path, title, pg)]"
| "leaves (Layout gs rs) = map (\<lambda>(hs, l). (gs @ hs, l)) (concat (map leaves rs))"

definition all_leaves :: "(guard list \<times> string \<times> string option \<times> page) list" where
  "all_leaves = concat (map leaves routes)"

text \<open>Where the protected route sends the user, if anywhere.\<close>

(* src: common/components/protectedRoute.tsx 10-20: ProtectedRoute *)
definition ProtectedRoute :: "auth_state \<Rightarrow> string option" where
  "ProtectedRoute auth =
     (if \<not> truthy (au_isAuthenticated auth) then Some (getAuthenticationUrl @ getSignInUrl) else None)"

(* src: hooks/navigation/usePageTitle.ts 6-13: usePageTitle *)
definition usePageTitle :: "string option \<Rightarrow> string" where
  "usePageTitle title =
     (case title of
        None \<Rightarrow> ''ShareFrame''
      | Some t \<Rightarrow> if t \<noteq> [] then t @ '' '' @ s_endash @ '' ShareFrame'' else ''ShareFrame'')"

section \<open>The side menu\<close>

text \<open>An entry is its name and URL; its icon is left out.\<close>

(* src: types/types.app.ts 15-19: ISidebarSection *)
record sidebar_section =
  sb_section :: "string option"
  sb_advanced :: bool
  sb_items :: "(string \<times> string) list"

(* src: assets/sidebarMenu/sideBarMenu.ts 32-59: sidebarSections *)
definition sidebarSections :: "sidebar_section list" where
  "sidebarSections =
    [\<lparr>sb_section = Some ''Steuerung'', sb_advanced = False,
      sb_items =
       [(''Steuerung'', getHomeUrl), (''Diashow'', getSlideshowPageUrl), (''Anpassung'', getCustomizationUrl),
        (''Netzwerk'', getNetworkUrl), (''Updates'', getUpdatesyUrl)]\<rparr>,
     \<lparr>sb_section = Some ''Verwaltung'', sb_advanced = True,
      sb_items =
       [(''Dienste'', getServicesOverviewUrl), (''Display'', getServiceDetailUrl ''display''),
        (''WebSocket'', getServiceDetailUrl ''websocket''), (''Dashboard'', getServiceDetailUrl ''dashboard''),
        (''Heartbeat'', getServiceDetailUrl ''heartbeat''), (''Update-Dienst'', getServiceDetailUrl ''update''),
        (''System'', getGeneralSettingsUrl), (''Display-Zustand'', getDisplayHealthUrl),
        (''Update-Verlauf'', getUpdateHistoryPageUrl), (''Protokolle'', getLogsUrl)]\<rparr>]"

(* src: common/components/layout/sidebar/sidebar.tsx 30-30: toPath *)
definition toPath :: "string \<Rightarrow> string" where
  "toPath url = (if take 1 url = ''/'' then url else ''/'' @ url)"

(* src: common/components/layout/sidebar/sidebar.tsx 167-178: the entries of Sidebar *)
definition sidebar_entries :: "bool \<Rightarrow> (string \<times> string) list" where
  "sidebar_entries advancedMode =
     concat (map sb_items (filter (\<lambda>sec. \<not> sb_advanced sec \<or> advancedMode) sidebarSections))"

(* src: common/components/layout/sidebar/sidebar.tsx 75-78: renderListItem *)
definition item_active :: "string \<Rightarrow> string \<Rightarrow> bool" where
  "item_active pathname url \<longleftrightarrow> \<not> sublist getSignOutUrl url \<and> pathname = toPath url"

(* src: common/components/layout/sidebar/sidebar.tsx 56-58: handleItemClick *)
definition handleItemClick :: "bool \<Rightarrow> string \<Rightarrow> string \<Rightarrow> navigation_action option" where
  "handleItemClick isDesktop pathname itemPath =
     (if \<not> isDesktop \<and> itemPath = pathname then Some closeSidebar else None)"

text \<open>The two effects: a desktop opens the menu, a page change on anything smaller closes it.\<close>

(* src: common/components/layout/sidebar/sidebar.tsx 43-50: the effects of Sidebar *)
definition sidebar_effects :: "bool \<Rightarrow> navigation_action list" where
  "sidebar_effects isDesktop =
     (if isDesktop then [openSidedbar] else []) @ (if \<not> isDesktop then [closeSidebar] else [])"

section \<open>The connection on every page\<close>

text \<open>\<open>`...${v || 'shareframe-board'}...`\<close>\<close>

definition quoted :: "string \<Rightarrow> string" where
  "quoted s = s_lquote @ s @ s_rquote"

definition hotspot_name :: "jsval \<Rightarrow> string" where
  "hotspot_name ap_ssid = (if truthy ap_ssid then js_string ap_ssid else ''shareframe-board'')"

text \<open>Label, hint and colour of the chip, if it is shown.\<close>

(* src: common/components/layout/topLayout/connectionModeChip.tsx 10-17: ConnectionModeChip *)
definition ConnectionModeChip :: "connection_mode_state \<Rightarrow> (string \<times> string \<times> string) option" where
  "ConnectionModeChip cm =
     (if \<not> cm_loaded cm then None
      else Some
       (if cm_mode cm = JStr ''ap'' then
          (''Hotspot'', ''Rahmen stellt den Hotspot '' @ quoted (hotspot_name (cm_ap_ssid cm)) @ '' bereit'', ''error'')
        else if cm_mode cm = JStr ''connecting'' then
          (''Verbinde '' @ s_dots, ''Rahmen sucht ein gespeichertes WLAN'', ''warning'')
        else if cm_internet cm then
          (''Online'',
           if truthy (cm_ssid cm) then ''Mit '' @ quoted (js_string (cm_ssid cm)) @ '' verbunden''
           else ''Mit dem Internet verbunden'', ''success'')
        else
          (''Kein Internet'',
           if truthy (cm_ssid cm) then ''Mit '' @ quoted (js_string (cm_ssid cm)) @ '' verbunden, aber ohne Internet''
           else ''Keine Internetverbindung'', ''warning'')))"

(* src: common/components/networkStatusBanner.tsx 10-10: SERVER_GRACE_SECS *)
definition SERVER_GRACE_SECS :: rat where
  "SERVER_GRACE_SECS = 120"

(* src: common/components/networkStatusBanner.tsx 18-18: serverDown *)
definition serverDown :: "connection_mode_state \<Rightarrow> bool" where
  "serverDown cm \<longleftrightarrow> cm_server_connected cm = JBool False \<and>
     (cm_server_last_contact_at cm = JNum 0 \<or> js_gt (cm_server_offline_secs cm) SERVER_GRACE_SECS)"

definition offline_duration :: "connection_mode_state \<Rightarrow> string" where
  "offline_duration cm =
     (case js_to_number (cm_server_offline_secs cm) of
        None \<Rightarrow> ''weniger als 1 Minute''
      | Some s \<Rightarrow> formatDuration (s * 1000))"

text \<open>Colour, title and detail of the banner, if it is shown.\<close>

(* src: common/components/networkStatusBanner.tsx 14-47: NetworkStatusBanner *)
definition NetworkStatusBanner :: "connection_mode_state \<Rightarrow> (string \<times> string \<times> string) option" where
  "NetworkStatusBanner cm =
     (if \<not> cm_loaded cm then None
      else if cm_mode cm = JStr ''connected'' \<and> cm_internet cm \<and> \<not> serverDown cm then None
      else Some
       (if cm_mode cm = JStr ''ap'' then
          (''error.main'', ''Hotspot aktiv'',
           ''WLAN '' @ quoted (hotspot_name (cm_ap_ssid cm)) @
             (if truthy (cm_ap_password cm)
              then '' '' @ [CHR 0xC2, CHR 0xB7] @ '' Passwort: '' @ js_string (cm_ap_password cm) else []) @
             ''. F'' @ s_ue @ ''ge unter '' @ quoted ''Netzwerk'' @ '' ein WLAN hinzu und w'' @ s_ae @ ''hle '' @
             quoted ''Jetzt verbinden'' @ ''.'')
        else if cm_mode cm = JStr ''connecting'' then
          (''warning.main'', ''Verbindet '' @ s_dots,
           if truthy (cm_ssid cm) then ''Verbindung zu '' @ quoted (js_string (cm_ssid cm)) @ '' wird hergestellt.''
           else ''Suche nach bekannten Netzwerken.'')
        else if cm_internet cm then
          (''warning.main'', ''Server nicht erreichbar'',
           if js_gt (cm_server_last_contact_at cm) 0 then
             ''Letzter Kontakt vor '' @ offline_duration cm @
             ''. Neue Fotos kommen an, sobald die Verbindung wieder steht.''
           else ''Noch keine Verbindung zum Server. Neue Fotos kommen an, sobald die Verbindung steht.'')
        else
          (''warning.main'', ''Kein Internet'',
           if truthy (cm_ssid cm) then ''Mit '' @ quoted (js_string (cm_ssid cm)) @ '' verbunden, aber keine Internetverbindung.''
           else ''Keine Internetverbindung.'')))"

section \<open>The top bar\<close>

(* src: common/components/layout/topLayout/topAppBar.tsx 44-44: isNewVersion *)
definition isNewVersion :: "updates_state \<Rightarrow> bool" where
  "isNewVersion st = truthy (js_coalesce (js_opt_get (up_latest_release st) ''is_newer'') (JBool False))"

(* src: common/components/layout/topLayout/topAppBar.tsx 50-52: handleSidebarButtonClick *)
definition handleSidebarButtonClick :: "bool \<Rightarrow> navigation_action" where
  "handleSidebarButtonClick sidebarOpen = (if sidebarOpen then closeSidebar else openSidedbar)"

(* src: common/components/layout/topLayout/topAppBar.tsx 71-71: badgeNumber *)
definition badgeNumber :: "bool \<Rightarrow> updates_state \<Rightarrow> nat" where
  "badgeNumber isConnected st = getBadgeNumber [\<not> isConnected, isNewVersion st]"

section \<open>The wall over the checks\<close>

text \<open>The wall after a number of checks of the connection, the last one before them being \<open>prev\<close>.\<close>

fun wall_after :: "int \<Rightarrow> loading_wall_state \<Rightarrow> bool \<Rightarrow> bool list \<Rightarrow> loading_wall_state" where
  "wall_after now wall prev [] = wall"
| "wall_after now wall prev (c # cs) =
     (case reconnect_effect (lw_isLoadingWallVisible wall) c prev of
        (a, prev') \<Rightarrow>
          wall_after now (case a of None \<Rightarrow> wall | Some act \<Rightarrow> loadingWallReducer now wall act) prev' cs)"

lemma wall_after_visible:
  "lw_isLoadingWallVisible (wall_after now wall prev cs) \<longleftrightarrow>
     lw_isLoadingWallVisible wall \<and> successively (\<ge>) (prev # cs)"
  by (induction cs arbitrary: wall prev) (auto simp: reconnect_effect_def hideLoadingWall_def)

section \<open>Properties\<close>

text \<open>Every entry of the side menu leads to a page of the protected part whose title is the
  entry's name, no two to the same; every page but sign-in, sign-out and the not-found page is
  protected; and the page a visitor who is not signed in is sent to is not itself protected.\<close>

lemma sidebar_leads_to_pages:
  "list_all (\<lambda>(name, url). list_ex (\<lambda>(gs, path, title, pg).
       ProtectedRouteG \<in> set gs \<and> toPath path = toPath url \<and> title = Some name \<and> pg \<noteq> NotFoundPage) all_leaves)
     (sidebar_entries True) \<and>
   distinct (map (\<lambda>(name, url). toPath url) (sidebar_entries True)) \<and>
   list_all (\<lambda>(gs, path, title, pg).
       pg \<in> {NotFoundPage, SignInPage, SignOutPage} \<or> ProtectedRouteG \<in> set gs) all_leaves \<and>
   list_ex (\<lambda>(gs, path, title, pg).
       pg = SignInPage \<and> ProtectedRouteG \<notin> set gs \<and> ProtectedRoute auth \<in> {None, Some path}) all_leaves"
  by (simp add: all_leaves_def routes_def sidebar_entries_def sidebarSections_def serviceDetail_def toPath_def
      ProtectedRoute_def getHomeUrl_def getSlideshowPageUrl_def getCustomizationUrl_def getNetworkUrl_def
      getUpdatesyUrl_def getUpdateHistoryPageUrl_def getGeneralSettingsUrl_def getDisplayHealthUrl_def
      getLogsUrl_def getServicesOverviewUrl_def getServiceDetailUrl_def)


end
