(* ===== verification/OperationRefinement.thy ===== *)
theory OperationRefinement
  imports OperationLoop
begin

text \<open>
  What the five operation flags are for, as an abstract machine: a mutex. Its state is the
  operation that holds it, if one does. It changes on two occasions: a thunk that is started may
  take it when it is free, and a thunk that goes on after an answer may give it back. The event
  loop over the slice of the operations is simulated by it, step by step: no step hands the mutex
  from one operation to another, none that starts a thunk takes it away, and none that continues
  one takes it.
\<close>

section \<open>The abstract machine\<close>

datatype mutex_event = Started | Continued

inductive mutex_step :: "'k option \<Rightarrow> mutex_event \<Rightarrow> 'k option \<Rightarrow> bool" where
  acquire: "mutex_step None Started (Some k)"
| release: "mutex_step (Some k) Continued None"
| idle: "mutex_step h ev h"

code_pred (modes: i \<Rightarrow> i \<Rightarrow> i \<Rightarrow> bool) mutex_step .

inductive_simps mutex_step_iff: "mutex_step h ev h'"

text \<open>The state of the mutex that a set of at most one flag stands for.\<close>

lemma mutex_stepI:
  assumes "H = set_option h" and "H' = set_option h'"
    and "H' = H \<or> H = {} \<and> ev = Started \<or> H' = {} \<and> ev = Continued"
  shows "mutex_step h ev h'"
  using assms by (cases h; cases h') (auto intro: mutex_step.intros)

text \<open>The event a step of the loop is: only a start adds to the thunks in flight.\<close>

definition step_event :: "('s, 'a, 't, 'r) loop_state \<Rightarrow> ('s, 'a, 't, 'r) loop_state \<Rightarrow> mutex_event" where
  "step_event x y = (if size (snd x) < size (snd y) then Started else Continued)"

section \<open>The steps of a lock\<close>

context flag_lock
begin

lemma weak_inv_reachable:
  assumes "reachable_from red (weak_startable eff held) (\<lambda>a. eff a = NoLock) (s0, {#}) x" and "held s0 = {}"
  shows "weak_inv eff held x"
proof (rule reachable_invariant [OF assms(1)])
  show "weak_inv eff held (s0, {#})" using assms(2) by (simp add: weak_inv_def)
qed (rule weak_inv_step)

lemma held_step:
  assumes "weak_inv eff held x"
    and "loop_step red (stops_when_held eff held) (\<lambda>a. eff a = NoLock) x y"
  shows "held (fst y) = held (fst x) \<or> held (fst x) = {} \<and> step_event x y = Started
    \<or> held (fst y) = {} \<and> step_event x y = Continued"
  using assms(2)
proof cases
  case (start p e s s' q ps)
  show ?thesis
  proof (cases "held s = {}")
    case True
    with start(1,2) show ?thesis by (simp add: step_event_def)
  next
    case False
    from stopped_start [OF start(3) False start(4)] start(1,2) show ?thesis by simp
  qed
next
  case (resume p ev p' e s s' q ps)
  have "shrinks eff p'"
    using assms(1) resume(1,3) tracked_resume [of p ev p' "shrink_step eff" "{}"]
    by (auto simp: weak_inv_def shrinks_def)
  from seg_shrinks [OF this resume(4)] assms(1) resume(1,2) show ?thesis
    by (auto simp: weak_inv_def step_event_def subset_singleton_iff)
qed (simp add: held_other)

end

section \<open>The operations\<close>

text \<open>The holder of the mutex, read off the slice in the order of the guard (\<open>op_busy\<close>).\<close>

definition op_holder :: "operation_state \<Rightarrow> op_flag option" where
  "op_holder st =
     (if op_isToggling st then Some Toggling
      else if op_isClearingDisplay st then Some Clearing
      else if op_isSkippingImage st then Some Skipping
      else if op_isShowingImage st then Some Showing
      else if op_isUpdatingInterval st then Some UpdatingInterval
      else None)"

lemma op_holder_in: "set_option (op_holder (rs_slideshowOperation s)) \<subseteq> op_held s"
  by (auto simp: op_holder_def op_held_def root_flags_def op_flags_def guarded_flags_def)

lemma op_holder_None: "op_holder (rs_slideshowOperation s) = None \<longleftrightarrow> op_held s = {}"
  using op_busy_held [of s] by (auto simp: op_holder_def op_busy_def split: if_splits)

lemma op_holder_held:
  assumes "op_held s \<subseteq> {k}"
  shows "op_held s = set_option (op_holder (rs_slideshowOperation s))"
  using assms op_holder_in [of s] op_holder_None [of s]
  by (cases "op_holder (rs_slideshowOperation s)") auto

lemma page_reaches_weak_inv:
  "page_reaches page_thunk_or_toggle s0 x \<Longrightarrow> \<not> op_busy (rs_slideshowOperation s0) \<Longrightarrow> weak_inv op_effect op_held x"
  by (rule op_lock.weak_inv_reachable [OF page_reaches_weak]) (simp_all add: op_busy_held)

lemma reached_holder:
  assumes "page_reaches page_thunk_or_toggle s0 x" and "\<not> op_busy (rs_slideshowOperation s0)"
  shows "op_held (fst x) = set_option (op_holder (rs_slideshowOperation (fst x)))"
  using page_reaches_weak_inv [OF assms] op_holder_held by (auto simp: weak_inv_def)

section \<open>Property\<close>

text \<open>C4: The operations refine a mutex: in every state the page can reach, the flags that are set
  are those of the holder, and every step of the event loop is a step of the mutex. It is taken
  only by a thunk that starts, only when it is free, and given back only by one that continues; no
  step passes it from one operation to another, and all this holds with toggles among them.\<close>

lemma operations_refine_mutex:
  assumes "page_reaches page_thunk_or_toggle s0 x" and "\<not> op_busy (rs_slideshowOperation s0)"
    and "loop_step root_reducer page_thunk_or_toggle other_action x y"
  shows "op_held (fst x) = set_option (op_holder (rs_slideshowOperation (fst x)))
    \<and> op_held (fst y) = set_option (op_holder (rs_slideshowOperation (fst y)))
    \<and> mutex_step (op_holder (rs_slideshowOperation (fst x))) (step_event x y)
        (op_holder (rs_slideshowOperation (fst y)))"
proof -
  note abs = reached_holder [OF assms(1,2)] reached_holder [OF reachable_from.step [OF assms(1,3)] assms(2)]
  have "loop_step root_reducer (stops_when_held op_effect op_held) (\<lambda>a. op_effect a = NoLock) x y"
    using assms(3) by (rule loop_step_mono) (auto simp: other_action_def page_thunk_or_toggle_stops)
  with page_reaches_weak_inv [OF assms(1,2)]
  have "mutex_step (op_holder (rs_slideshowOperation (fst x))) (step_event x y)
      (op_holder (rs_slideshowOperation (fst y)))"
    by (intro mutex_stepI [OF abs] op_lock.held_step)
  with abs show ?thesis by blast
qed

lemma operations_refine_mutex_witness:
  "mutex_step (op_holder (rs_slideshowOperation (root_initial 0))) Started
     (op_holder (rs_slideshowOperation (fst skip_start)))"
proof -
  have "loop_step root_reducer page_thunk_or_toggle other_action (root_initial 0, {#})
      (fst skip_start, add_mset (snd skip_start) {#})"
    by (rule loop_step.start [of _ skipImageThunk])
      (simp_all add: page_thunk_or_toggle_def page_thunk_def skip_start_def)
  from operations_refine_mutex [OF reachable_from.init not_busy_initial this]
  show ?thesis by (simp add: step_event_def)
qed

end
