(* ===== verification/PowerProofs.thy ===== *)
theory PowerProofs
  imports PowerThunks
begin

text \<open>
  The three power actions as a whole: they always come to an end, and what a restart leaves behind
  when the board stays away. \<open>ends w p\<close> says that \<open>p\<close> does not run out of fuel in the world \<open>w\<close>,
  wherever it starts; it goes through the combinators of the programs.
\<close>

section \<open>Programs that end\<close>

definition ends :: "world \<Rightarrow> 'r thunk \<Rightarrow> bool" where
  "ends w p \<longleftrightarrow> (\<forall>c. fst (runR w p c) \<noteq> Exhausted)"

named_theorems endsI \<open>rules for programs that end\<close>

lemma ends_leaves [endsI]: "ends w (Return x)" "ends w (Throw e)"
  by (simp_all add: ends_def)

lemma ends_effects [endsI]:
  "ends w p \<Longrightarrow> ends w (Dispatch a p)"
  "(\<And>i. ends w (k i)) \<Longrightarrow> ends w (Uuid k)"
  "ends w p \<Longrightarrow> ends w (Browser b p)"
  by (simp_all add: ends_def)

lemma ends_bindP [endsI]: "ends w p \<Longrightarrow> (\<And>x. ends w (f x)) \<Longrightarrow> ends w (bindP p f)"
  by (auto simp: ends_def run_bindP split: prod.splits outcome.splits) (metis fst_conv)

lemma ends_tryP [endsI]: "ends w p \<Longrightarrow> (\<And>e. ends w (h e)) \<Longrightarrow> ends w (tryP p h)"
  by (auto simp: ends_def run_tryP split: prod.splits outcome.splits) (metis fst_conv)

lemma ends_finallyP [endsI]: "ends w p \<Longrightarrow> ends w f \<Longrightarrow> ends w (finallyP p f)"
  by (auto simp: ends_def run_finallyP run_bindP split: prod.splits outcome.splits) (metis fst_conv)+

lemma ends_if [endsI]: "ends w p \<Longrightarrow> ends w q \<Longrightarrow> ends w (if b then p else q)"
  by simp

lemma ends_fetch [endsI]: "(\<And>r. ends w (k r)) \<Longrightarrow> ends w (fetchWithTimeout rq t k)"
  by (simp add: ends_def fetchWithTimeout_def split: sum.splits)

lemma ends_sendPowerCommand [endsI]: "ends w (sendPowerCommand url)"
  by (simp add: ends_def run_no_outage power_programs_ok)

lemma ends_pollHealth:
  assumes "forward_time w" and "0 < po_intervalMs opts" and "poll_rounds opts \<le> fuel"
  shows "ends w (pollHealth fuel goal opts)"
  unfolding ends_def
proof
  fix c
  from pollHealth_enough [OF assms] obtain b where "fst (runR w (pollHealth fuel goal opts) c) = Returned b"
    by blast
  then show "fst (runR w (pollHealth fuel goal opts) c) \<noteq> Exhausted" by simp
qed

lemma power_creators_end:
  assumes "forward_time w" and "61 \<le> fuel"
  shows "ends w (restartPi_creator fuel)" and "ends w (shutdownPi_creator fuel)"
    and "ends w (factoryResetPi_creator fuel)"
proof -
  have polls: "ends w (pollHealth fuel Down restart_down)" "ends w (pollHealth fuel Up restart_up)"
      "ends w (pollHealth fuel Down (poll_defaults\<lparr>po_maxWaitMs := 120000, po_consecutive := 2\<rparr>))"
    using assms by (auto intro!: ends_pollHealth simp: poll_rounds_def restart_down_def restart_up_def poll_defaults_def)
  show "ends w (restartPi_creator fuel)" "ends w (shutdownPi_creator fuel)" "ends w (factoryResetPi_creator fuel)"
    unfolding restartPi_creator_def shutdownPi_creator_def factoryResetPi_creator_def
    by (intro endsI polls)+
qed

text \<open>An async thunk whose creator ends returns.\<close>

lemma lifecycle_returns:
  assumes "rtk_lifecycle cat" and "ends w p"
  shows "fst (runR w (cat pend ful rej p) c) = Returned ()"
proof -
  obtain r c' where run: "runR w p (tick w (dispatch root_reducer pend c)) = (r, c')" by fastforce
  with assms(2) have "r \<noteq> Exhausted" unfolding ends_def by (metis fst_conv)
  then have "settled_action ful rej r \<noteq> None"
    by (cases r) (auto simp: settled_action_def split: creator_result.splits)
  then obtain a where "settled_action ful rej r = Some a" by blast
  with run show ?thesis by (simp add: rtk_lifecycle_run [OF assms(1)])
qed

section \<open>A restart that gives up\<close>

lemma poll_gives_up_late:
  assumes "forward_time w"
  shows "runR w (poll_loop fuel goal opts start streak) c = (Returned False, c') \<Longrightarrow>
    po_maxWaitMs opts \<le> cf_time c' - start"
proof (induction fuel arbitrary: streak c)
  case (Suc fuel)
  then show ?case
    using forward_lag [OF assms, of "cf_steps c"]
    by (auto simp: run_poll_Suc Let_def simp del: poll_loop.simps split: if_splits)
qed simp

lemma pollHealth_gives_up_late:
  assumes "forward_time w" and "runR w (pollHealth fuel goal opts) c = (Returned False, c')"
  shows "po_maxWaitMs opts \<le> cf_time c' - cf_time c"
  using poll_gives_up_late [OF assms(1)] assms(2) by (simp add: pollHealth_def)

lemma poll_loop_sleeps: "0 \<le> po_intervalMs opts \<Longrightarrow> sleeps_ok (poll_loop fuel goal opts start streak)"
  by (induction fuel arbitrary: streak) (auto simp: Let_def intro!: sleeps_ok_bindP power_programs_ok)

lemma pollHealth_later:
  assumes "forward_time w" and "0 \<le> po_intervalMs opts"
  shows "cf_time c \<le> cf_time (snd (runR w (pollHealth fuel goal opts) c))"
  using assms by (intro run_time) (simp_all add: pollHealth_def poll_loop_sleeps)

text \<open>The wait of a restart from the loading wall on; \<open>g\<close> is what ends the thunk.\<close>

definition restart_wait :: "nat \<Rightarrow> unit creator_result thunk \<Rightarrow> unit creator_result thunk" where
  "restart_wait fuel g =
     bindP (pollHealth fuel Down restart_down) (\<lambda>_.
     bindP (pollHealth fuel Up restart_up) (\<lambda>backUp.
     if backUp then Browser ReloadPage g else g))"

lemma restart_wait_late:
  assumes "forward_time w" and "runR w (restart_wait fuel g) c = (Returned r, c')"
    and "Called ReloadPage \<notin> set (cf_trace c')"
    and "\<And>c1 c2. runR w g c1 = (Returned r, c2) \<Longrightarrow> set (cf_trace c1) \<subseteq> set (cf_trace c2)"
  obtains c1 where "runR w g c1 = (Returned r, c')" and "cf_store c1 = cf_store c"
    and "cf_time c + 180000 \<le> cf_time c1"
proof -
  from assms(2) obtain x c0 where down: "runR w (pollHealth fuel Down restart_down) c = (Returned x, c0)"
    and up: "runR w (bindP (pollHealth fuel Up restart_up) (\<lambda>backUp. if backUp then Browser ReloadPage g else g)) c0 =
      (Returned r, c')"
    by (auto simp: restart_wait_def run_bindP split: prod.splits outcome.splits)
  from up obtain b c1 where poll: "runR w (pollHealth fuel Up restart_up) c0 = (Returned b, c1)"
    and rest: "runR w (if b then Browser ReloadPage g else g) c1 = (Returned r, c')"
    by (auto simp: run_bindP split: prod.splits outcome.splits)
  have "\<not> b"
  proof
    assume "b"
    with rest have "runR w g (tick w (emit (Called ReloadPage) c1)) = (Returned r, c')" by simp
    from assms(4) [OF this] assms(3) show False by auto
  qed
  with rest poll have "runR w g c1 = (Returned r, c')"
    and "runR w (pollHealth fuel Up restart_up) c0 = (Returned False, c1)" by simp_all
  moreover have "cf_store c0 = cf_store c" "cf_store c1 = cf_store c0"
    using run_quiet [OF pollHealth_ok(1), of root_reducer w] down poll by (metis snd_conv)+
  moreover have "cf_time c \<le> cf_time c0"
    using pollHealth_later [OF assms(1), of restart_down c fuel Down] down
    by (simp add: restart_down_def poll_defaults_def)
  moreover from pollHealth_gives_up_late [OF assms(1) calculation(2)]
  have "cf_time c0 + 180000 \<le> cf_time c1" by (simp add: restart_up_def)
  ultimately show thesis by (intro that [of c1]) simp_all
qed

lemma restart_shape:
  "\<exists>m m' k. restartPi_creator fuel =
     Uuid (\<lambda>i. loadingP i m (bindP (sendPowerCommand getRestartPiUrl) (\<lambda>result.
       if result = Rejected then k i
       else Browser (NavigateTo getHomeUrl) (Dispatch (LoadingWallA (showLoadingWall m'))
         (restart_wait fuel (unloadP i (Return (Value ()))))))))
   \<and> (\<forall>i w c. fst (runR w (k i) c) \<noteq> Returned (Value ()))"
  unfolding restartPi_creator_def restart_wait_def
  by (simp add: power_pushes cong: if_cong) (intro exI conjI, rule refl, simp)

section \<open>Properties\<close>

text \<open>C17: Restart, shutdown and factory reset always come to an end, whatever the board and the
  network do: 61 rounds of polling are enough for each of them.\<close>

lemma power_actions_end:
  assumes "rtk_lifecycle cat" and "forward_time w" and "61 \<le> fuel"
  shows "fst (runR w (restartPi cat fuel) c) = Returned () \<and> fst (runR w (shutdownPi cat fuel) c) = Returned ()
    \<and> fst (runR w (factoryResetPi cat fuel) c) = Returned ()"
  unfolding restartPi_def shutdownPi_def factoryResetPi_def
  using power_creators_end [OF assms(2,3)] by (simp add: lifecycle_returns [OF assms(1)])

lemma power_actions_end_witness:
  "fst (runR silent_world (restartPi standard_async_thunk 61) fresh_cfg) = Returned ()"
  using power_actions_end [of standard_async_thunk silent_world 61 fresh_cfg]
  by (simp add: rtk_lifecycle_standard forward_time_def silent_world_def)

text \<open>C18: A restart that ends without an error and without reloading the page has waited longer than
  the loading wall stays: when it ends, the deadline of the wall it has put up is over.\<close>

lemma restart_outlives_wall:
  assumes "forward_time w" and "runR w (restartPi_creator fuel) c = (Returned (Value ()), c')"
    and "Called ReloadPage \<notin> set (cf_trace c')"
  shows "\<exists>d. lw_hideAfter (rs_loadingWall (cf_store c')) = Some d \<and> d \<le> cf_time c'"
proof -
  obtain m m' k where shape: "restartPi_creator fuel =
     Uuid (\<lambda>i. loadingP i m (bindP (sendPowerCommand getRestartPiUrl) (\<lambda>result.
       if result = Rejected then k i
       else Browser (NavigateTo getHomeUrl) (Dispatch (LoadingWallA (showLoadingWall m'))
         (restart_wait fuel (unloadP i (Return (Value ()))))))))"
    and k: "fst (runR w (k i) c1) \<noteq> Returned (Value ())" for i c1
    using restart_shape [of fuel] by blast
  let ?g = "unloadP (w_ids w (cf_steps c)) (Return (Value ()))"
  from assms(2) k obtain c0 where
    "runR w (Browser (NavigateTo getHomeUrl) (Dispatch (LoadingWallA (showLoadingWall m')) (restart_wait fuel ?g))) c0
      = (Returned (Value ()), c')"
    by (auto simp: shape run_bindP split: prod.splits outcome.splits if_splits) (metis fst_conv)
  then obtain c1 where wait: "runR w (restart_wait fuel ?g) c1 = (Returned (Value ()), c')"
    and deadline: "\<exists>d. lw_hideAfter (rs_loadingWall (cf_store c1)) = Some d \<and> d \<le> cf_time c1 + 180000"
    using forward_lag [OF assms(1)] by (auto simp: showLoadingWall_def)
  from restart_wait_late [OF assms(1) wait assms(3)] obtain c2 where
    "runR w ?g c2 = (Returned (Value ()), c')" "cf_store c2 = cf_store c1" "cf_time c1 + 180000 \<le> cf_time c2"
    by auto
  then have "rs_loadingWall (cf_store c') = rs_loadingWall (cf_store c1)" and "cf_time c1 + 180000 \<le> cf_time c'"
    using forward_lag [OF assms(1), of "cf_steps c2"] by auto
  with deadline show ?thesis by fastforce
qed

text \<open>A board that accepts the command and is never seen again, in a world where every effect takes
  five minutes.\<close>

definition slow_world :: world where
  "slow_world = silent_world\<lparr>w_lag := \<lambda>_. 300000\<rparr>"

lemma restart_outlives_wall_witness:
  "\<exists>c' d. runR slow_world (restartPi_creator 61) fresh_cfg = (Returned (Value ()), c')
     \<and> lw_hideAfter (rs_loadingWall (cf_store c')) = Some d \<and> d \<le> cf_time c'"
proof -
  have "map_prod id (\<lambda>c'. Called ReloadPage \<in> set (cf_trace c')) (runR slow_world (restartPi_creator 61) fresh_cfg) =
    (Returned (Value ()), False)"
    by code_simp
  then obtain c' where c': "runR slow_world (restartPi_creator 61) fresh_cfg = (Returned (Value ()), c')"
    and "Called ReloadPage \<notin> set (cf_trace c')"
    by (cases "runR slow_world (restartPi_creator 61) fresh_cfg") auto
  moreover have "forward_time slow_world" by (simp add: forward_time_def slow_world_def)
  ultimately show ?thesis
    using restart_outlives_wall [OF _ c'] by blast
qed

end
