(* ===== verification/FramePage.thy ===== *)
theory FramePage
  imports OperationProofs TimerThunks SlideshowThunks Formatting "HOL-Library.Multiset"
begin

text \<open>
  The two pages that control the frame: main/frame (frameActions.tsx, nowShowingCard.tsx) and
  main/slideshowImages (the list, its order and the preview). What a page decides is modelled:
  which buttons are enabled, what a click starts, what its form sends, what the countdown says.
  The numbers a form holds are exact; layout and icons are left out.
\<close>

section \<open>The frame page: countdown\<close>

text \<open>The countdown of the page, in whole seconds: what is left, and the status it was last seeded from.\<close>

record countdown =
  cd_remaining :: jsval
  cd_seeded :: "jsval \<times> int option"

(* src: main/frame/frameActions.tsx 101-106: the seeding of remaining *)
definition seed_countdown :: "jsval \<Rightarrow> int option \<Rightarrow> countdown \<Rightarrow> countdown" where
  "seed_countdown secondsUntilNext lastCheckedAt cd =
     (if fst (cd_seeded cd) \<noteq> secondsUntilNext \<or> snd (cd_seeded cd) \<noteq> lastCheckedAt
      then \<lparr>cd_remaining = secondsUntilNext, cd_seeded = (secondsUntilNext, lastCheckedAt)\<rparr>
      else cd)"

(* src: main/frame/frameActions.tsx 107-112: the tick of remaining *)
definition tick_countdown :: "countdown \<Rightarrow> countdown" where
  "tick_countdown cd =
     cd\<lparr>cd_remaining :=
       (if nullish (cd_remaining cd) then cd_remaining cd
        else of_number (map_option (\<lambda>x. max 0 (x - 1)) (js_to_number (cd_remaining cd))))\<rparr>"

(* src: main/frame/frameActions.tsx 114-114: formatCountdown *)
definition formatCountdown :: "int \<Rightarrow> string" where
  "formatCountdown s = int_str (s div 60) @ '':'' @ padStart 2 (CHR ''0'') (int_str (js_rem s 60))"

(* src: main/frame/frameActions.tsx 115-119: countdownText *)
definition countdownText :: "bool \<Rightarrow> slideshow_status_state \<Rightarrow> countdown \<Rightarrow> string" where
  "countdownText isConnected st cd =
     (if \<not> (isConnected \<and> ss_lastCheckedAt st \<noteq> None) then ''Unbekannt''
      else if \<not> truthy (ss_isActive st) then ''Pausiert''
      else if ss_isRefreshing st then ''Wird aktualisiert'' @ s_dots
      else
        case js_to_number (cd_remaining cd) of
          None \<Rightarrow> if nullish (cd_remaining cd) then s_emdash else ''NaN:NaN''
        | Some x \<Rightarrow> if nullish (cd_remaining cd) then s_emdash else formatCountdown \<lfloor>x\<rfloor>)"

section \<open>The frame page: forms\<close>

datatype intervalUnit = Minutes | Hours

(* src: main/frame/frameActions.tsx 170-178: getMinMaxValues *)
definition getMinMaxValues :: "intervalUnit \<Rightarrow> rat \<times> rat" where
  "getMinMaxValues unit = (case unit of Minutes \<Rightarrow> (5, 1440) | Hours \<Rightarrow> (5 / 60, 24))"

(* src: main/frame/frameActions.tsx 164-166: handleUpdateInterval *)
definition intervalMins :: "intervalUnit \<Rightarrow> rat \<Rightarrow> rat" where
  "intervalMins unit intervalValue = (if unit = Minutes then intervalValue else intervalValue * 60)"

record night_form =
  nf_enabled :: bool
  nf_start :: rat
  nf_end :: rat
  nf_interval :: rat
  nf_style :: NightStyle

(* src: main/frame/frameActions.tsx 180-180: NIGHT_MIN_MINS *)
definition NIGHT_MIN_MINS :: rat where
  "NIGHT_MIN_MINS = 5"

(* src: main/frame/frameActions.tsx 181-181: NIGHT_MAX_MINS *)
definition NIGHT_MAX_MINS :: rat where
  "NIGHT_MAX_MINS = 1440"

(* src: main/frame/frameActions.tsx 188-190: isNightFormInvalid *)
definition isNightFormInvalid :: "night_form \<Rightarrow> bool" where
  "isNightFormInvalid f \<longleftrightarrow> nf_start f = nf_end f \<or> nf_interval f < NIGHT_MIN_MINS \<or> nf_interval f > NIGHT_MAX_MINS"

(* src: main/frame/frameActions.tsx 184-186: handleUpdateNightMode *)
definition handleUpdateNightMode :: "night_form \<Rightarrow> unit thunk" where
  "handleUpdateNightMode f = updateNightMode (nf_enabled f) (nf_start f) (nf_end f) (nf_interval f) (nf_style f)"

section \<open>The frame page: buttons\<close>

text \<open>What the page reads: the connection, the operations, the status and whether each of its two
  timers is active.\<close>

(* src: main/frame/frameActions.tsx 66-68: what FrameActions reads *)
record frame_view =
  fv_isConnected :: bool
  fv_operation :: operation_state
  fv_status :: slideshow_status_state
  fv_actionsTimer :: bool
  fv_initialTimer :: bool

(* src: main/frame/frameActions.tsx 192-192: isLoopLoading *)
definition isLoopLoading :: "frame_view \<Rightarrow> bool" where
  "isLoopLoading v \<longleftrightarrow> truthy (ss_isActive (fv_status v)) \<and> \<not> truthy (ss_loopStarted (fv_status v)) \<and>
     fv_isConnected v \<and> ss_lastCheckedAt (fv_status v) \<noteq> None"

(* src: main/frame/frameActions.tsx 193-193: isTimerRunning *)
definition isTimerRunning :: "frame_view \<Rightarrow> bool" where
  "isTimerRunning v \<longleftrightarrow> fv_actionsTimer v \<or> fv_initialTimer v"

(* src: main/frame/frameActions.tsx 194-194: isButtonsDisabled *)
definition isButtonsDisabled :: "frame_view \<Rightarrow> bool" where
  "isButtonsDisabled v \<longleftrightarrow> isTimerRunning v \<or> isLoopLoading v \<or> op_isToggling (fv_operation v) \<or>
     op_isClearingDisplay (fv_operation v) \<or> op_isSkippingImage (fv_operation v) \<or>
     ss_isRefreshing (fv_status v) \<or> \<not> fv_isConnected v \<or> ss_lastCheckedAt (fv_status v) = None"

(* src: main/frame/frameActions.tsx 195-195: isNightModeDisabled *)
definition isNightModeDisabled :: "frame_view \<Rightarrow> bool" where
  "isNightModeDisabled v \<longleftrightarrow> \<not> fv_isConnected v \<or> ss_lastCheckedAt (fv_status v) = None \<or>
     op_isUpdatingNightMode (fv_operation v)"

datatype frame_button = ToggleButton | IntervalButton intervalUnit rat | SkipButton | ClearButton

text \<open>The \<open>disabled\<close> of the four buttons (lines 347, 428, 592 and 641) and what a click starts.\<close>

(* src: main/frame/frameActions.tsx 428-428: the disabled of the interval's button *)
fun button_disabled :: "frame_view \<Rightarrow> frame_button \<Rightarrow> bool" where
  "button_disabled v ToggleButton = isButtonsDisabled v"
| "button_disabled v (IntervalButton unit intervalValue) =
     (isButtonsDisabled v \<or> op_isUpdatingInterval (fv_operation v) \<or> op_isFetchingInterval (fv_operation v) \<or>
      intervalValue < fst (getMinMaxValues unit) \<or> intervalValue > snd (getMinMaxValues unit))"
| "button_disabled v SkipButton = (isButtonsDisabled v \<or> \<not> truthy (ss_isActive (fv_status v)))"
| "button_disabled v ClearButton = (isButtonsDisabled v \<or> truthy (ss_isActive (fv_status v)))"

(* src: main/frame/frameActions.tsx 151-161: the click handlers *)
fun button_click :: "nat \<Rightarrow> frame_button \<Rightarrow> unit thunk" where
  "button_click fuel ToggleButton = toggleSlideshowThunk fuel"
| "button_click fuel (IntervalButton unit intervalValue) =
     updateDisplayImagesLoopInterval (intervalMins unit intervalValue)"
| "button_click fuel SkipButton = skipImageThunk"
| "button_click fuel ClearButton = clearDisplayThunk"

section \<open>What the frame shows now\<close>

(* src: main/frame/nowShowingCard.tsx 11-16: describe *)
definition describe :: "now_showing option \<Rightarrow> string" where
  "describe shown =
     (case shown of
        None \<Rightarrow> ''Noch nichts angezeigt''
      | Some s \<Rightarrow>
          if ns_state s = JStr ''empty'' then ''Noch nichts angezeigt''
          else if ns_state s = JStr ''cleared'' then ''Display geleert''
          else if ns_imageId s \<noteq> JNull then
            (if truthy (ns_sender s) then ''Foto von '' @ js_string (ns_sender s) else ''Foto aus der Diashow'')
          else ''Standardbild oder Systemanzeige'')"

(* src: main/frame/nowShowingCard.tsx 19-19: imageId *)
definition now_showing_image :: "now_showing option \<Rightarrow> jsval" where
  "now_showing_image shown =
     (case shown of None \<Rightarrow> JNull | Some s \<Rightarrow> if ns_state s = JStr ''image'' then ns_imageId s else JNull)"

section \<open>The images page\<close>

text \<open>\<open>byId.get(id)\<close> of \<open>new Map(images.map(..))\<close>: of two images with one id, the later.\<close>

definition byId :: "slideshow_image list \<Rightarrow> jsval \<Rightarrow> slideshow_image option" where
  "byId images = map_of (rev (map (\<lambda>img. (im_id img, img)) images))"

(* src: main/slideshowImages/slideshowImages.tsx 35-36: shown *)
definition shown_images :: "slideshow_image list \<Rightarrow> jsval list option \<Rightarrow> slideshow_image list" where
  "shown_images images draft =
     (case draft of
        None \<Rightarrow> images
      | Some ids \<Rightarrow> concat (map (\<lambda>i. case byId images i of None \<Rightarrow> [] | Some img \<Rightarrow> [img]) ids))"

text \<open>The draft afterwards, and the mode that is sent at once, if one is.\<close>

(* src: main/slideshowImages/slideshowImages.tsx 39-46: handleModeChange *)
definition handleModeChange ::
  "slideshow_image list \<Rightarrow> PlaybackMode \<Rightarrow> jsval list option \<times> PlaybackMode option" where
  "handleModeChange images next =
     (if next = CustomOrder then (Some (map im_id images), None) else (None, Some next))"

text \<open>The draft after the save has settled.\<close>

(* src: main/slideshowImages/slideshowImages.tsx 48-52: handleSave *)
definition handleSave_settled :: "bool \<Rightarrow> jsval list option \<Rightarrow> jsval list option" where
  "handleSave_settled fulfilled draft =
     (case draft of None \<Rightarrow> None | Some ids \<Rightarrow> if fulfilled then None else Some ids)"

text \<open>\<open>arrayMove\<close> is dnd-kit's: it gives the array with one element moved.\<close>

(* src: main/slideshowImages/slideshowImagesGrid.tsx 141-142: move *)
definition move_image ::
  "(jsval list \<Rightarrow> nat \<Rightarrow> nat \<Rightarrow> jsval list) \<Rightarrow> slideshow_image list \<Rightarrow> nat \<Rightarrow> nat \<Rightarrow> jsval list" where
  "move_image arrayMove images from to = arrayMove (map im_id images) from to"

(* src: main/slideshowImages/slideshowImagePreviewDialog.tsx 49-53: showBlockedReason *)
definition showBlockedReason :: "bool \<Rightarrow> slideshow_status_state \<Rightarrow> bool \<Rightarrow> string option" where
  "showBlockedReason isCurrent st isActionsTimerActive =
     (if isCurrent then Some ''Wird bereits angezeigt''
      else if \<not> truthy (ss_isActive st) then Some ''Diashow pausiert''
      else if ss_isRefreshing st \<or> isActionsTimerActive then Some ''Display wird gerade aktualisiert''
      else None)"

(* src: main/slideshowImages/slideshowImagePreviewDialog.tsx 77-84: primaryAction *)
definition show_disabled :: "bool \<Rightarrow> slideshow_status_state \<Rightarrow> bool \<Rightarrow> operation_state \<Rightarrow> bool" where
  "show_disabled isCurrent st isActionsTimerActive ops \<longleftrightarrow>
     showBlockedReason isCurrent st isActionsTimerActive \<noteq> None \<or> op_isToggling ops \<or>
     op_isClearingDisplay ops \<or> op_isSkippingImage ops \<or> op_isShowingImage ops"

section \<open>Facts\<close>

text \<open>An enabled button is enabled by the flags it looks at, which leaves two out.\<close>

lemma enabled_flags:
  assumes "\<not> button_disabled v b"
  shows "op_busy (fv_operation v) \<longleftrightarrow>
    op_isShowingImage (fv_operation v) \<or> op_isUpdatingInterval (fv_operation v)"
  using assms by (cases b) (auto simp: isButtonsDisabled_def op_busy_def)

lemma button_click_busy:
  "op_busy (rs_slideshowOperation (cf_store c)) \<Longrightarrow> runR w (button_click fuel b) c = (Returned (), c)"
  by (cases b) (simp_all add: skip_operation.busy_noop clear_operation.busy_noop interval_operation.busy_noop
      toggle_operation.busy_noop)

lemma interval_request:
  assumes "\<not> op_busy (rs_slideshowOperation (cf_store c))"
  shows "\<exists>c'. runR w (updateDisplayImagesLoopInterval mins) c = (Returned (), c') \<and>
    requests_of (cf_trace c') = requests_of (cf_trace c) @
      [post_json getSlideshowIntervalUrl (JObj [(''interval_seconds'', JNum (mins * 60))])]"
  using assms by (auto simp: updateDisplayImagesLoopInterval_def split: sum.splits)

lemma enabled_interval_bounds:
  assumes "\<not> button_disabled v (IntervalButton unit x)"
  shows "5 \<le> intervalMins unit x" and "intervalMins unit x \<le> 1440"
  using assms by (cases unit; simp add: getMinMaxValues_def intervalMins_def field_simps)+

text \<open>The drafts of an edit: each move acts on what the grid shows.\<close>

definition edit_draft ::
  "(jsval list \<Rightarrow> nat \<Rightarrow> nat \<Rightarrow> jsval list) \<Rightarrow> slideshow_image list \<Rightarrow> (nat \<times> nat) list \<Rightarrow> jsval list" where
  "edit_draft arrayMove images moves =
     foldl (\<lambda>draft (i, j). move_image arrayMove (shown_images images (Some draft)) i j) (map im_id images) moves"

lemma edit_draft_snoc:
  "edit_draft arrayMove images (moves @ [(i, j)]) =
     move_image arrayMove (shown_images images (Some (edit_draft arrayMove images moves))) i j"
  by (simp add: edit_draft_def)

lemma byId_image:
  assumes "distinct (map im_id images)" and "img \<in> set images"
  shows "byId images (im_id img) = Some img"
proof -
  have "distinct (map fst (rev (map (\<lambda>img. (im_id img, img)) images)))"
    using assms(1) by (simp add: rev_map comp_def flip: rev_map)
  moreover have "(im_id img, img) \<in> set (rev (map (\<lambda>img. (im_id img, img)) images))"
    using assms(2) by auto
  ultimately show ?thesis unfolding byId_def by (rule map_of_is_SomeI)
qed

lemma shown_of_ids:
  assumes "distinct (map im_id images)" and "set imgs \<subseteq> set images"
  shows "shown_images images (Some (map im_id imgs)) = imgs"
  using assms(2) by (induction imgs) (simp_all add: shown_images_def byId_image [OF assms(1)])

lemma edit_draft_invariant:
  assumes "distinct (map im_id images)" and "\<And>xs i j. mset (arrayMove xs i j) = mset xs"
  shows "\<exists>imgs. edit_draft arrayMove images moves = map im_id imgs \<and> mset imgs = mset images"
proof (induction moves rule: rev_induct)
  case Nil
  then show ?case by (auto simp: edit_draft_def)
next
  case (snoc m ms)
  obtain i j where m: "m = (i, j)" by fastforce
  from snoc obtain imgs where ids: "edit_draft arrayMove images ms = map im_id imgs" and perm: "mset imgs = mset images"
    by blast
  from perm have "set imgs \<subseteq> set images" by (metis order_refl set_mset_mset)
  from shown_of_ids [OF assms(1) this]
  have step: "edit_draft arrayMove images (ms @ [m]) = arrayMove (map im_id imgs) i j"
    by (simp add: edit_draft_snoc m move_image_def ids)
  let ?ids = "arrayMove (map im_id imgs) i j"
  have ms: "mset ?ids = mset (map im_id images)" using assms(2) perm by (metis mset_map)
  define imgs' where "imgs' = map (\<lambda>k. the (byId images k)) ?ids"
  have again: "map (\<lambda>k. the (byId images k)) (map im_id images) = images"
    by (auto simp: map_idI byId_image [OF assms(1)])
  from again have "mset imgs' = mset images" using ms unfolding imgs'_def by (metis mset_map)
  moreover have "map im_id imgs' = ?ids"
  proof -
    have "im_id (the (byId images k)) = k" if "k \<in> set ?ids" for k
    proof -
      have "k \<in> im_id ` set images" using that ms by (metis set_map set_mset_mset)
      then show ?thesis using byId_image [OF assms(1)] by auto
    qed
    then show ?thesis unfolding imgs'_def by (simp add: map_idI)
  qed
  ultimately show ?case using step by metis
qed

section \<open>Properties\<close>



text \<open>Saving the interval, when its button is enabled and nothing runs, sends one request, with
  a number of seconds between five minutes and a day, whichever unit the user chose.\<close>

lemma interval_sent_in_bounds:
  assumes "\<not> button_disabled v (IntervalButton unit x)"
    and "\<not> op_busy (rs_slideshowOperation (cf_store c))"
  shows "\<exists>c' s. runR w (button_click fuel (IntervalButton unit x)) c = (Returned (), c') \<and>
    requests_of (cf_trace c') = requests_of (cf_trace c) @
      [post_json getSlideshowIntervalUrl (JObj [(''interval_seconds'', JNum s)])] \<and> 300 \<le> s \<and> s \<le> 86400"
proof -
  from interval_request [OF assms(2), of w "intervalMins unit x"] obtain c' where
    "runR w (button_click fuel (IntervalButton unit x)) c = (Returned (), c')" and
    "requests_of (cf_trace c') = requests_of (cf_trace c) @
      [post_json getSlideshowIntervalUrl (JObj [(''interval_seconds'', JNum (intervalMins unit x * 60))])]" by auto
  then show ?thesis using enabled_interval_bounds [OF assms(1)] by fastforce
qed

lemma interval_sent_in_bounds_witness:
  "\<exists>c' s. runR silent_world (updateDisplayImagesLoopInterval (24 * 60)) fresh_cfg = (Returned (), c') \<and>
    requests_of (cf_trace c') = requests_of (cf_trace fresh_cfg) @
      [post_json getSlideshowIntervalUrl (JObj [(''interval_seconds'', JNum s)])] \<and> 300 \<le> s \<and> s \<le> 86400"
  using interval_sent_in_bounds [of "\<lparr>fv_isConnected = True, fv_operation = operation_initial,
      fv_status = slideshowStatus_initial\<lparr>ss_lastCheckedAt := Some 0\<rparr>, fv_actionsTimer = False,
      fv_initialTimer = False\<rparr>" Hours 24 fresh_cfg silent_world 1]
  by (simp add: isButtonsDisabled_def isTimerRunning_def isLoopLoading_def operation_initial_def
      slideshowStatus_initial_def getMinMaxValues_def intervalMins_def fresh_cfg_def root_initial_def op_busy_def)

text \<open>However the user drags the images of an order, the order that is saved has every image
  the page showed, each as often as it was there, and the grid shows them all while it is edited.\<close>

lemma edit_keeps_images:
  assumes "distinct (map im_id images)" and "\<forall>xs i j. mset (arrayMove xs i j) = mset xs"
  shows "mset (edit_draft arrayMove images moves) = mset (map im_id images) \<and>
    mset (shown_images images (Some (edit_draft arrayMove images moves))) = mset images"
proof -
  from edit_draft_invariant [OF assms(1)] assms(2) obtain imgs where
    imgs: "edit_draft arrayMove images moves = map im_id imgs" "mset imgs = mset images" by blast
  then have "set imgs \<subseteq> set images" by (metis order_refl set_mset_mset)
  from shown_of_ids [OF assms(1) this] imgs show ?thesis by simp
qed

definition move_item :: "'a list \<Rightarrow> nat \<Rightarrow> nat \<Rightarrow> 'a list" where
  "move_item xs i j =
     (if i < length xs
      then (let ys = take i xs @ drop (Suc i) xs in take j ys @ xs ! i # drop j ys) else xs)"

lemma mset_move_item: "mset (move_item xs i j) = mset xs"
proof (cases "i < length xs")
  case True
  have "mset xs = mset (take i xs @ xs ! i # drop (Suc i) xs)" using id_take_nth_drop [OF True] by simp
  moreover have "mset (take j ys @ x # drop j ys) = add_mset x (mset ys)" for ys and x :: 'a
    by (metis append_take_drop_id mset_append mset.simps(2) union_mset_add_mset_right)
  ultimately show ?thesis using True by (simp only: move_item_def Let_def if_True) simp
qed (simp add: move_item_def)

definition image_with_id :: "rat \<Rightarrow> slideshow_image" where
  "image_with_id i = \<lparr>im_id = JNum i, im_sender = JStr ''a'', im_receivedAt = JNull, im_expiresAt = JNull,
     im_width = JNum 800, im_height = JNum 480, im_sizeBytes = JNum 1, im_position = JNum i\<rparr>"

lemma edit_keeps_images_witness:
  "mset (edit_draft move_item (map image_with_id [1, 2, 3]) [(0, 2), (1, 0)]) = {#JNum 1, JNum 2, JNum 3#}"
proof -
  have "distinct (map im_id (map image_with_id [1, 2, 3]))" by (simp add: image_with_id_def)
  from edit_keeps_images [OF this, of move_item "[(0, 2), (1, 0)]"] show ?thesis
    by (simp add: mset_move_item image_with_id_def)
qed

end
