(* ===== verification/View.thy ===== *)
theory View
  imports Utils Endpoints Effects
begin

text \<open>
  What a component renders. A view is a list of nodes in the order of the page: texts, chips,
  alerts, controls and groups (a component or an element with children). Of a control it keeps its
  name (its text or its label for screen readers), the value shown, whether it is disabled, and
  what the user's action does, a handler of the type \<open>'e\<close> that the page chooses. Layout, styles,
  icons and animations are left out. Then the components that pages share
  (common/components).
\<close>

section \<open>Nodes\<close>

datatype 'e node =
    Text string
  | Chip string string
  | Alert string string
  | Button string bool 'e
  | Input string string bool "string \<Rightarrow> 'e"
  | NumberInput string rat bool "rat \<times> rat" "rat \<Rightarrow> 'e"
  | Switch string bool bool "bool \<Rightarrow> 'e"
  | Choice string string "(string \<times> string) list" bool "string \<Rightarrow> 'e"
  | Picture string string
  | Group string "'e node list"

text \<open>A number field has the bounds that the browser is told. A chip has a text and a colour, an alert a severity and a text, a choice the value that is
  chosen and its options with their texts, a picture a source and what it shows.\<close>

abbreviation showIf :: "bool \<Rightarrow> 'e node list \<Rightarrow> 'e node list" where
  "showIf b ns \<equiv> (if b then ns else [])"

text \<open>The buttons of a view, in order: name, disabled, handler; and the texts.\<close>

primrec node_buttons :: "'e node \<Rightarrow> (string \<times> bool \<times> 'e) list" where
  "node_buttons (Text s) = []"
| "node_buttons (Chip l c) = []"
| "node_buttons (Alert sev t) = []"
| "node_buttons (Button l d e) = [(l, d, e)]"
| "node_buttons (Input l v d f) = []"
| "node_buttons (NumberInput l v d b f) = []"
| "node_buttons (Switch l c d f) = []"
| "node_buttons (Choice l v os d f) = []"
| "node_buttons (Picture u a) = []"
| "node_buttons (Group t ns) = concat (map node_buttons ns)"

definition buttons :: "'e node list \<Rightarrow> (string \<times> bool \<times> 'e) list" where
  "buttons ns = concat (map node_buttons ns)"

primrec node_texts :: "'e node \<Rightarrow> string list" where
  "node_texts (Text s) = [s]"
| "node_texts (Chip l c) = [l]"
| "node_texts (Alert sev t) = [t]"
| "node_texts (Button l d e) = [l]"
| "node_texts (Input l v d f) = [l, v]"
| "node_texts (NumberInput l v d b f) = [l, rat_str v]"
| "node_texts (Switch l c d f) = [l]"
| "node_texts (Choice l v os d f) = [l, v]"
| "node_texts (Picture u a) = [a]"
| "node_texts (Group t ns) = concat (map node_texts ns)"

definition texts :: "'e node list \<Rightarrow> string list" where
  "texts ns = concat (map node_texts ns)"

text \<open>What the user can do with the buttons: the handlers of those that are not disabled.\<close>

definition offers :: "'e node list \<Rightarrow> 'e list" where
  "offers ns = map (\<lambda>(l, d, e). e) (filter (\<lambda>(l, d, e). \<not> d) (buttons ns))"

text \<open>Everything the user can do: what an enabled control may pass to its handler. A choice passes
  the value of one of its options.\<close>

primrec node_emits :: "'e node \<Rightarrow> 'e set" where
  "node_emits (Text s) = {}"
| "node_emits (Chip l c) = {}"
| "node_emits (Alert sev t) = {}"
| "node_emits (Button l d e) = (if d then {} else {e})"
| "node_emits (Input l v d f) = (if d then {} else range f)"
| "node_emits (NumberInput l v d b f) = (if d then {} else range f)"
| "node_emits (Switch l c d f) = (if d then {} else range f)"
| "node_emits (Choice l v os d f) = (if d then {} else f ` set (map fst os))"
| "node_emits (Picture u a) = {}"
| "node_emits (Group t ns) = \<Union> (set (map node_emits ns))"

definition emits :: "'e node list \<Rightarrow> 'e set" where
  "emits ns = \<Union> (set (map node_emits ns))"

named_theorems view_simps \<open>buttons and texts of nodes and components\<close>

lemma buttons_simps [view_simps, simp]:
  "buttons [] = []"
  "buttons (n # ns) = node_buttons n @ buttons ns"
  "buttons (ns @ ms) = buttons ns @ buttons ms"
  by (simp_all add: buttons_def)

lemma node_buttons_Group [view_simps, simp]: "node_buttons (Group t ns) = buttons ns"
  by (simp add: buttons_def)

declare node_buttons.simps(10) [simp del]

lemma buttons_concat [view_simps]: "buttons (concat nss) = concat (map buttons nss)"
  by (induction nss) simp_all

lemma buttons_map [view_simps]: "buttons (map f xs) = concat (map (\<lambda>x. node_buttons (f x)) xs)"
  by (induction xs) simp_all

lemma emits_simps [view_simps, simp]:
  "emits [] = {}"
  "emits (n # ns) = node_emits n \<union> emits ns"
  "emits (ns @ ms) = emits ns \<union> emits ms"
  by (simp_all add: emits_def)

lemma node_emits_Group [view_simps, simp]: "node_emits (Group t ns) = emits ns"
  by (simp add: emits_def)

declare node_emits.simps(10) [simp del]

lemma emits_concat [view_simps]: "emits (concat nss) = \<Union> (set (map emits nss))"
  by (induction nss) simp_all

lemma emits_map [view_simps]: "emits (map f xs) = (\<Union>x \<in> set xs. node_emits (f x))"
  by (induction xs) simp_all

lemma texts_simps [view_simps, simp]:
  "texts [] = []"
  "texts (n # ns) = node_texts n @ texts ns"
  "texts (ns @ ms) = texts ns @ texts ms"
  by (simp_all add: texts_def)

lemma node_texts_Group [view_simps, simp]: "node_texts (Group t ns) = texts ns"
  by (simp add: texts_def)

declare node_texts.simps(10) [simp del]

lemma texts_map [view_simps]: "texts (map f xs) = concat (map (\<lambda>x. node_texts (f x)) xs)"
  by (induction xs) simp_all

lemma offers_append [view_simps]: "offers (ns @ ms) = offers ns @ offers ms"
  by (simp add: offers_def)

section \<open>Cards and dialogs\<close>

text \<open>A section of a card has a label, maybe, and a content; one without content is left out.\<close>

(* src: common/components/shareframeInfoCard.tsx 64-93: the sections of ShareframeInfoCard *)
definition card_section :: "string \<times> 'e node list \<Rightarrow> 'e node list" where
  "card_section sec =
     (case sec of (label, content) \<Rightarrow>
        case content of
          [] \<Rightarrow> []
        | _ # _ \<Rightarrow> showIf (label \<noteq> []) [Text label] @ content)"

(* src: common/components/shareframeInfoCard.tsx 32-106: ShareframeInfoCard *)
definition ShareframeInfoCard ::
  "string \<Rightarrow> (string \<times> 'e node list) list \<Rightarrow> 'e node list \<Rightarrow> 'e node" where
  "ShareframeInfoCard title sections actions =
     Group ''card'' (showIf (title \<noteq> []) [Text title] @ concat (map card_section sections) @ actions)"

lemma card_emits: "node_emits (ShareframeInfoCard t secs as) = (\<Union>(l, c) \<in> set secs. emits c) \<union> emits as"
proof -
  have "emits (card_section sec) = emits (snd sec)" for sec :: "string \<times> 'a node list"
    by (cases sec) (simp add: card_section_def split: list.split)
  then show ?thesis
    by (auto simp: ShareframeInfoCard_def emits_concat split_beta)
qed

(* src: common/components/dialogHeader.tsx 15-39: DialogHeader *)
definition DialogHeader :: "string \<Rightarrow> string \<Rightarrow> 'e option \<Rightarrow> bool \<Rightarrow> 'e node list \<Rightarrow> 'e node list \<Rightarrow> 'e node" where
  "DialogHeader title subtitle onClose closeDisabled start actions =
     Group ''header'' (start @ showIf (title \<noteq> []) [Text title] @ showIf (subtitle \<noteq> []) [Text subtitle] @ actions @
       (case onClose of None \<Rightarrow> [] | Some e \<Rightarrow> [Button (''Schlie'' @ s_ss @ ''en'') closeDisabled e]))"

text \<open>\<open>loading\<close> takes the handlers away but leaves the buttons enabled, so that the focus stays: such
  a button is disabled for us, it does nothing.\<close>

(* src: common/components/confirmDialog.tsx 21-68: ConfirmDialog *)
definition ConfirmDialog ::
  "bool \<Rightarrow> string \<Rightarrow> 'e node list \<Rightarrow> string \<Rightarrow> 'e \<Rightarrow> 'e \<Rightarrow> string \<Rightarrow> bool \<Rightarrow> bool \<Rightarrow> 'e node list" where
  "ConfirmDialog isOpen title children confirmLabel onConfirm onCancel cancelLabel loading confirmDisabled =
     showIf isOpen
       [Group ''dialog''
         ([Text title] @ children @
          [Button cancelLabel loading onCancel, Button confirmLabel (loading \<or> confirmDisabled) onConfirm])]"

definition Abbrechen :: string where
  "Abbrechen = ''Abbrechen''"

text \<open>A form is also submitted with Enter, in one of its fields: \<open>handleSubmit\<close>.\<close>

(* src: common/components/formDialog.tsx 24-27: handleSubmit *)
definition handleSubmit :: "bool \<Rightarrow> bool \<Rightarrow> 'e \<Rightarrow> 'e option" where
  "handleSubmit submitDisabled loading onSubmit = (if \<not> submitDisabled \<and> \<not> loading then Some onSubmit else None)"

(* src: common/components/formDialog.tsx 29-49: FormDialog *)
definition FormDialog ::
  "bool \<Rightarrow> string \<Rightarrow> string \<Rightarrow> 'e \<Rightarrow> 'e \<Rightarrow> bool \<Rightarrow> bool \<Rightarrow> 'e node list \<Rightarrow> 'e node list" where
  "FormDialog isOpen title submitLabel onSubmit onClose submitDisabled loading children =
     showIf isOpen
       [Group ''dialog''
         ([DialogHeader title [] (Some onClose) False [] []] @ children @
          [Button submitLabel (submitDisabled \<or> loading) onSubmit])]"

(* src: common/components/dataNotFound.tsx 10-43: DataNotFound *)
definition DataNotFound :: "string \<Rightarrow> (string \<times> 'e) option \<Rightarrow> 'e node" where
  "DataNotFound notFoundMessage action =
     Group ''empty'' (Text notFoundMessage #
       (case action of None \<Rightarrow> [] | Some (label, onClick) \<Rightarrow> [Button label False onClick]))"

section \<open>Page actions\<close>

(* src: types/types.app.ts 21-28: DialogAction *)
record 'e dialog_action =
  da_onClick :: 'e
  da_label :: "string option"
  da_tooltip :: "string option"
  da_disabled :: bool

text \<open>\<open>isDesktop\<close> is \<open>useDesktopActions()\<close>: the window is at least of the width \<open>md\<close>.\<close>

definition action_name :: "'e dialog_action \<Rightarrow> string" where
  "action_name a = (case da_label a of Some l \<Rightarrow> l | None \<Rightarrow> (case da_tooltip a of Some t \<Rightarrow> t | None \<Rightarrow> []))"

(* src: common/components/pageActionsBar.tsx 14-41: PageActionsBar *)
definition PageActionsBar :: "bool \<Rightarrow> 'e dialog_action list \<Rightarrow> 'e node list" where
  "PageActionsBar isDesktop actions =
     (if \<not> isDesktop \<or> actions = [] then []
      else [Group ''actions'' (map (\<lambda>a. Button (action_name a) (da_disabled a) (da_onClick a)) actions)])"

text \<open>A floating button shows its label, and has the tooltip as its name when it has none.\<close>

(* src: common/components/bottomFloatingActions.tsx 73-97: the primary action *)
definition floating_button :: "bool \<Rightarrow> 'e dialog_action option \<Rightarrow> 'e node list" where
  "floating_button allActionsdisabled action =
     (case action of
        None \<Rightarrow> []
      | Some a \<Rightarrow>
          [Button (case da_label a of
                     None \<Rightarrow> action_name a
                   | Some l \<Rightarrow> if l = [] then (case da_tooltip a of None \<Rightarrow> [] | Some t \<Rightarrow> t) else l)
             (allActionsdisabled \<or> da_disabled a) (da_onClick a)])"

text \<open>The additional actions are in a speed dial: a button that opens it, and when it is open one
  button for each. \<open>setOpen\<close> is the handler of the dial, and \<open>closing\<close> makes the handler of an
  action close it first.\<close>

(* src: common/components/bottomFloatingActions.tsx 125-196: the speed dial *)
definition speed_dial ::
  "bool \<Rightarrow> (bool \<Rightarrow> 'e) \<Rightarrow> ('e \<Rightarrow> 'e) \<Rightarrow> 'e dialog_action list \<Rightarrow> bool \<Rightarrow> bool \<Rightarrow> 'e node list" where
  "speed_dial speedDialOpen setOpen closing actionsAdditional allActionsdisabled speedDialDisabled =
     showIf (actionsAdditional \<noteq> [])
       [Group ''dial''
         (Button ''Aktionen'' (allActionsdisabled \<or> speedDialDisabled) (setOpen (\<not> speedDialOpen)) #
          showIf speedDialOpen
            (map (\<lambda>a. Button (case da_label a of None \<Rightarrow> [] | Some l \<Rightarrow> l)
               (allActionsdisabled \<or> speedDialDisabled \<or> da_disabled a) (closing (da_onClick a))) actionsAdditional))]"

(* src: common/components/bottomFloatingActions.tsx 60-124: BottomFloatingActions *)
definition BottomFloatingActions ::
  "bool \<Rightarrow> (bool \<Rightarrow> 'e) \<Rightarrow> ('e \<Rightarrow> 'e) \<Rightarrow> 'e dialog_action option \<Rightarrow> 'e dialog_action option
    \<Rightarrow> 'e dialog_action list \<Rightarrow> bool \<Rightarrow> bool \<Rightarrow> 'e node list" where
  "BottomFloatingActions speedDialOpen setOpen closing actionPrimary actionSecondary actionsAdditional
      allActionsdisabled speedDialDisabled =
     floating_button allActionsdisabled actionPrimary @ floating_button allActionsdisabled actionSecondary @
     speed_dial speedDialOpen setOpen closing actionsAdditional allActionsdisabled speedDialDisabled"

(* src: common/components/shareframeMainDialog.tsx 48-52: actions *)
definition main_dialog_actions ::
  "bool \<Rightarrow> 'e dialog_action option \<Rightarrow> 'e dialog_action list \<Rightarrow> bool \<Rightarrow> 'e dialog_action list" where
  "main_dialog_actions actionsShown actionPrimary actionsAdditional actionsDisabled =
     (if actionsShown
      then map (\<lambda>a. a\<lparr>da_disabled := actionsDisabled \<or> da_disabled a\<rparr>)
        (actionsAdditional @ (case actionPrimary of None \<Rightarrow> [] | Some a \<Rightarrow> [a]))
      else [])"

(* src: common/components/shareframeMainDialog.tsx 54-105: ShareframeMainDialog *)
definition ShareframeMainDialog ::
  "bool \<Rightarrow> bool \<Rightarrow> (bool \<Rightarrow> 'e) \<Rightarrow> ('e \<Rightarrow> 'e) \<Rightarrow> bool \<Rightarrow> string \<Rightarrow> string \<Rightarrow> 'e \<Rightarrow> bool
    \<Rightarrow> 'e dialog_action option \<Rightarrow> 'e dialog_action list \<Rightarrow> bool \<Rightarrow> 'e node list \<Rightarrow> 'e node list" where
  "ShareframeMainDialog isDesktop speedDialOpen setOpen closing isOpen dialogTitle dialogSubtitle onDialogClose
      actionsShown actionPrimary actionsAdditional actionsDisabled children =
     (let actions = main_dialog_actions actionsShown actionPrimary actionsAdditional actionsDisabled
      in showIf isOpen
           [Group ''dialog''
             ([DialogHeader dialogTitle dialogSubtitle (Some onDialogClose) False [] []] @
              PageActionsBar isDesktop actions @ children @
              showIf (\<not> isDesktop \<and> actions \<noteq> [])
                (BottomFloatingActions speedDialOpen setOpen closing actionPrimary None actionsAdditional
                   actionsDisabled False))])"

lemma ShareframeMainDialog_emits:
  assumes "m \<in> emits (ShareframeMainDialog desktop dial setOpen closing isOpen title subtitle onDialogClose shown
    (Some primary) additional disabled children)"
  shows "m = onDialogClose \<or> m \<in> range setOpen \<or> m \<in> emits children \<or>
    m = da_onClick primary \<and> \<not> da_disabled primary \<or>
    (\<exists>a \<in> set additional. \<not> da_disabled a \<and> (m = da_onClick a \<or> m = closing (da_onClick a)))"
  using assms
  by (auto simp: ShareframeMainDialog_def main_dialog_actions_def DialogHeader_def PageActionsBar_def
      BottomFloatingActions_def floating_button_def speed_dial_def Let_def emits_map split: if_splits)

section \<open>Units of a text\<close>

text \<open>The UTF-16 code units of a text, which are what \<open>length\<close> counts: one for a character of at
  most three bytes, two for one of four. Bytes that are not UTF-8 count as themselves.\<close>

fun utf16 :: "string \<Rightarrow> nat list" where
  "utf16 (a # b # c # d # s) =
     (let n = of_char a :: nat; x = of_char b - 128; y = of_char c - 128; z = of_char d - 128
      in if n < 192 then n # utf16 (b # c # d # s)
         else if n < 224 then ((n - 192) * 64 + x) # utf16 (c # d # s)
         else if n < 240 then (((n - 224) * 64 + x) * 64 + y) # utf16 (d # s)
         else
           let code = (((n - 240) * 64 + x) * 64 + y) * 64 + z - 65536
           in (55296 + code div 1024) # (56320 + code mod 1024) # utf16 s)"
| "utf16 (a # b # c # []) =
     (let n = of_char a :: nat; x = of_char b - 128; y = of_char c - 128
      in if n < 192 then n # utf16 [b, c]
         else if n < 224 then ((n - 192) * 64 + x) # utf16 [c]
         else [((n - 224) * 64 + x) * 64 + y])"
| "utf16 (a # b # []) =
     (let n = of_char a :: nat in if n < 192 then n # utf16 [b] else [(n - 192) * 64 + (of_char b - 128)])"
| "utf16 [a] = [of_char a]"
| "utf16 [] = []"

lemma utf16_ascii: "list_all (\<lambda>ch. of_char ch < (192 :: nat)) s \<Longrightarrow> utf16 s = map of_char s"
  by (induction s rule: utf16.induct) (simp_all add: Let_def)

section \<open>Images\<close>

text \<open>The URL of an image, for an id that is printed as it is; \<open>getImageFileUrl\<close> for a number.\<close>

definition image_src :: "jsval \<Rightarrow> string" where
  "image_src i = frameBaseUrl @ ''/images/file?id='' @ js_string i"

lemma image_src_num [simp]: "image_src (JNum x) = getImageFileUrl x"
  by (simp add: image_src_def getImageFileUrl_def)

text \<open>The initial is the first code unit in upper case, as the browser makes it: \<open>toUpperCase\<close>.\<close>

(* src: common/components/userAvatar.tsx 10-34: UserAvatar *)
definition UserAvatar :: "(nat list \<Rightarrow> string) \<Rightarrow> string \<Rightarrow> 'e node list" where
  "UserAvatar toUpperCase username =
     [Chip (toUpperCase (take 1 (utf16 username))) (stringToColor (utf16 username))]"

section \<open>Texts and error pages\<close>

(* src: common/components/releaseNotes.tsx 4-22: ReleaseNotes *)
definition ReleaseNotes :: "string \<Rightarrow> 'e node list" where
  "ReleaseNotes notes =
     map (\<lambda>block. case block of
            Bullets items \<Rightarrow> Group ''list'' (map Text items)
          | Paragraph t \<Rightarrow> Text t) (parseReleaseNotes notes)"

datatype page_event = ReloadThePage | ClearLocalData | GoTo string | OpenMail string

(* src: common/components/error/finalError/finalError.tsx 7-42: FinalError *)
definition FinalError :: "page_event node list" where
  "FinalError =
     [Text ''Kritischer Fehler'',
      Text (''Die Einstellungen sind wiederholt auf einen Fehler gesto'' @ s_ss @ ''en. Lade die Seite neu. Hilft das '' @
        ''nicht, l'' @ s_oe @ ''sche die lokalen Daten dieser Seite. Deine Fotos und Einstellungen auf dem Bilderrahmen '' @
        ''bleiben erhalten, eventuell musst du dich danach neu anmelden.''),
      Button ''Neu laden'' False ReloadThePage,
      Button (''Lokale Daten l'' @ s_oe @ ''schen'') False ClearLocalData,
      Text ''Besteht der Fehler weiter, schreib uns an '',
      Button ''info@shareframe.de'' False (OpenMail ''info@shareframe.de'')]"

(* src: common/components/error/notFound/notFound.tsx 5-46: NotFound *)
definition NotFound :: "page_event node list" where
  "NotFound = [Text ''404'', Text ''Seite nicht gefunden'', Button ''Zur Startseite'' False (GoTo ''/'')]"

(* src: common/components/error/routeError/routeError.tsx 18-50: RouteError *)
definition RouteError :: "bool \<Rightarrow> page_event node list" where
  "RouteError staleChunk =
     [Text (if staleChunk then ''Es gibt eine neue Version'' else ''Etwas ist schiefgelaufen''),
      Text (if staleChunk then ''Lade die Seite neu, um die Einstellungen zu aktualisieren.''
        else ''Diese Seite konnte nicht angezeigt werden. Lade sie neu oder geh zur'' @ s_ue @ ''ck zur '' @ s_UE @ ''bersicht.''),
      Button ''Neu laden'' False ReloadThePage,
      Button (''Zur '' @ s_UE @ ''bersicht'') False (GoTo getHomeUrl)]"

text \<open>The browser's storages; the caches as the list of their names.\<close>

record browser_storage =
  bs_local :: "(string \<times> string) list"
  bs_session :: "(string \<times> string) list"
  bs_caches :: "string list"

text \<open>Deleting a cache may fail, and then so does the whole, but the page is reloaded all the same
  (\<open>finally\<close>). \<open>deletes\<close> says which deletions work.\<close>

(* src: common/utils/localData.ts 2-13: clearLocalDataAndReload *)
definition clearLocalDataAndReload :: "(string \<Rightarrow> bool) \<Rightarrow> browser_storage \<Rightarrow> browser_storage \<times> page_event" where
  "clearLocalDataAndReload deletes st =
     (\<lparr>bs_local = [], bs_session = [], bs_caches = filter (\<lambda>key. \<not> deletes key) (bs_caches st)\<rparr>, ReloadThePage)"

section \<open>The contract of a form in a dialog\<close>

text \<open>
  What the forms of the dialogs promise (the network's, the hotspot's password, the device's
  password): while a request is in flight the dialog cannot be closed, a refusal leaves it open with
  what was typed, and closing or a success leaves it closed and blank.
\<close>

locale form_dialog =
  fixes is_open :: "'p \<Rightarrow> bool"
    and busy :: "'p \<Rightarrow> bool"
    and input :: "'p \<Rightarrow> 'i"
    and blank :: 'i
    and submit :: "'p \<Rightarrow> 'p"
    and dismiss :: "'p \<Rightarrow> 'p"
    and settle :: "bool \<Rightarrow> 'p \<Rightarrow> 'p"
  assumes submit: "busy (submit p)" "is_open (submit p) = is_open p" "input (submit p) = input p"
    and dismiss_busy: "busy p \<Longrightarrow> dismiss p = p"
    and dismiss_idle: "\<not> busy p \<Longrightarrow> \<not> is_open (dismiss p) \<and> input (dismiss p) = blank"
    and settle_idle: "\<not> busy (settle ok p)"
    and settle_failed: "is_open (settle False p) = is_open p" "input (settle False p) = input p"
    and settle_ok: "\<not> is_open (settle True p)" "input (settle True p) = blank"
begin

lemma dismiss_again: "busy p \<Longrightarrow> (dismiss ^^ n) p = p"
  by (induction n) (simp_all add: dismiss_busy)

text \<open>However often the user tries to close the dialog while the request is in flight.\<close>

lemma refused:
  "is_open (settle False ((dismiss ^^ n) (submit p))) = is_open p \<and>
   input (settle False ((dismiss ^^ n) (submit p))) = input p \<and> \<not> busy (settle False ((dismiss ^^ n) (submit p)))"
  by (simp add: dismiss_again submit settle_failed settle_idle)

lemma accepted:
  "\<not> is_open (settle True ((dismiss ^^ n) (submit p))) \<and> input (settle True ((dismiss ^^ n) (submit p))) = blank"
  by (simp add: settle_ok)

text \<open>A refused form can be dismissed, or sent again with the same input.\<close>

lemma dismissed_after: "\<not> is_open (dismiss (settle ok p)) \<and> input (dismiss (settle ok p)) = blank"
  using settle_idle dismiss_idle by blast

lemma retried: "input (submit (settle False ((dismiss ^^ n) (submit p)))) = input p"
  using refused [of n p] by (simp add: submit)

end

end
