(* ===== verification/FrameView.thy ===== *)
theory FrameView
  imports FramePage View
begin

text \<open>
  The frame page as it is rendered (main/frame): the values its forms hold, what it shows for
  them, and what each control does, a \<open>frame_msg\<close>. A message changes the forms
  (\<open>frame_update\<close>), or dispatches a thunk (\<open>frame_thunk\<close>). The stored settings of the night, of
  their declared types, are an argument of the seeding.
\<close>

section \<open>State and messages\<close>

record frame_page =
  fp_view :: frame_view
  fp_countdown :: countdown
  fp_interval :: rat
  fp_unit :: intervalUnit
  fp_night :: night_form
  fp_seededNight :: night_form
  fp_nightActiveNow :: bool
  fp_actionsTimerTime :: string

datatype frame_msg =
    IntervalTyped rat
  | UnitChosen intervalUnit
  | NightEnabledSet bool
  | NightStyleChosen NightStyle
  | NightStartChosen rat
  | NightEndChosen rat
  | NightIntervalTyped rat
  | ButtonClicked frame_button
  | SaveNightClicked
  | ToSlideshow

text \<open>The key that the code compares is the text of the five stored values; we compare the values.\<close>

(* src: main/frame/frameActions.tsx 87-96: the seeding of the night form *)
definition seed_night :: "night_form \<Rightarrow> frame_page \<Rightarrow> frame_page" where
  "seed_night stored p =
     (if stored \<noteq> fp_seededNight p then p\<lparr>fp_seededNight := stored, fp_night := stored\<rparr> else p)"

text \<open>The setters of the forms (\<open>onChange\<close>).\<close>

(* src: main/frame/frameActions.tsx 69-85: the state of the forms *)
fun frame_update :: "frame_msg \<Rightarrow> frame_page \<Rightarrow> frame_page" where
  "frame_update (IntervalTyped x) p = p\<lparr>fp_interval := x\<rparr>"
| "frame_update (UnitChosen u) p = p\<lparr>fp_unit := u\<rparr>"
| "frame_update (NightEnabledSet b) p = p\<lparr>fp_night := (fp_night p)\<lparr>nf_enabled := b\<rparr>\<rparr>"
| "frame_update (NightStyleChosen s) p = p\<lparr>fp_night := (fp_night p)\<lparr>nf_style := s\<rparr>\<rparr>"
| "frame_update (NightStartChosen h) p = p\<lparr>fp_night := (fp_night p)\<lparr>nf_start := h\<rparr>\<rparr>"
| "frame_update (NightEndChosen h) p = p\<lparr>fp_night := (fp_night p)\<lparr>nf_end := h\<rparr>\<rparr>"
| "frame_update (NightIntervalTyped x) p = p\<lparr>fp_night := (fp_night p)\<lparr>nf_interval := x\<rparr>\<rparr>"
| "frame_update _ p = p"

fun frame_thunk :: "nat \<Rightarrow> frame_page \<Rightarrow> frame_msg \<Rightarrow> unit thunk option" where
  "frame_thunk fuel p (ButtonClicked b) = Some (button_click fuel b)"
| "frame_thunk fuel p SaveNightClicked = Some (handleUpdateNightMode (fp_night p))"
| "frame_thunk fuel p _ = None"

section \<open>The cards\<close>

definition known :: "frame_page \<Rightarrow> bool" where
  "known p \<longleftrightarrow> fv_isConnected (fp_view p) \<and> ss_lastCheckedAt (fv_status (fp_view p)) \<noteq> None"

abbreviation fp_active :: "frame_page \<Rightarrow> bool" where
  "fp_active p \<equiv> truthy (ss_isActive (fv_status (fp_view p)))"

(* src: main/frame/frameActions.tsx 240-247: the chip of the number of images *)
definition image_count_text :: "frame_page \<Rightarrow> string" where
  "image_count_text p =
     (let n = ss_imageCount (fv_status (fp_view p))
      in if known p \<and> \<not> nullish n
         then js_string n @ '' '' @ (if n = JNum 1 then ''Foto'' else ''Fotos'') else s_emdash)"

(* src: main/frame/frameActions.tsx 201-258: the card of the next change *)
definition next_change_card :: "frame_page \<Rightarrow> frame_msg node" where
  "next_change_card p =
     ShareframeInfoCard (''N'' @ s_ae @ ''chster Fotowechsel'')
       [([], [Text (countdownText (fv_isConnected (fp_view p)) (fv_status (fp_view p)) (fp_countdown p))] @
             showIf (fp_nightActiveNow p) [Chip ''Nachtmodus'' ''primary''] @
             [Chip (image_count_text p) ''default''])] []"

(* src: main/frame/nowShowingCard.tsx 18-59: NowShowingCard *)
definition NowShowingCard :: "now_showing option \<Rightarrow> frame_msg node" where
  "NowShowingCard nowShowing =
     ShareframeInfoCard ''Aktuell angezeigt''
       [([], showIf (now_showing_image nowShowing \<noteq> JNull)
               [Picture (image_src (now_showing_image nowShowing)) ''Aktuell angezeigtes Foto''] @
             [Text (describe nowShowing), Button ''Zur Diashow'' False ToSlideshow])] []"

(* src: main/frame/frameActions.tsx 264-286: the notices *)
definition frame_notices :: "frame_page \<Rightarrow> frame_msg node list" where
  "frame_notices p =
     (let v = fp_view p
      in showIf (\<not> fv_actionsTimer v \<and> fv_initialTimer v)
           [Alert ''info'' ''Einen Moment, der Status der Diashow wird abgefragt.''] @
         showIf (\<not> isTimerRunning v \<and> isLoopLoading v)
           [Alert ''info'' ''Der Bilderrahmen startet noch. Einen Moment bitte.''] @
         showIf (fv_actionsTimer v)
           [Alert ''info'' (''Um das Display zu schonen ist die n'' @ s_ae @ ''chste Aktion erst wieder in '' @
              fp_actionsTimerTime p @ ''min m'' @ s_oe @ ''glich'')])"

(* src: main/frame/frameActions.tsx 293-353: the card of the slideshow *)
definition slideshow_card :: "frame_page \<Rightarrow> frame_msg node" where
  "slideshow_card p =
     ShareframeInfoCard ''Diashow''
       [([], [Text ''Starte oder stoppe die Diashow auf dem Bilderrahmen.'']),
        (''Status'',
         [Chip (if known p then if fp_active p then ''Wird ausgef'' @ s_ue @ ''hrt'' else ''Gestoppt'' else ''Unbekannt'')
            (if known p then if fp_active p then ''success'' else ''warning'' else ''error'')]),
        ([], [Text (''Beim Stoppen wird der Bildschirm zus'' @ s_ae @
           ''tzlich geleert, damit das Display keinen Schaden nimmt.'')])]
       [Button (if fp_active p then ''Stoppen'' else ''Starten'') (button_disabled (fp_view p) ToggleButton)
          (ButtonClicked ToggleButton)]"

definition unit_of :: "string \<Rightarrow> intervalUnit" where
  "unit_of s = (if s = ''hours'' then Hours else Minutes)"

(* src: main/frame/frameActions.tsx 361-434: the card of the interval *)
definition interval_card :: "frame_page \<Rightarrow> frame_msg node" where
  "interval_card p =
     (let v = fp_view p;
          d = (isButtonsDisabled v \<or> op_isUpdatingInterval (fv_operation v))
      in ShareframeInfoCard ''Wechselintervall''
           [([], [Text ''Lege fest, wie lange jedes Foto angezeigt wird.'', Text ''Minimum: 5 Minuten'',
                  Text ''Maximum: 24 Stunden'',
                  NumberInput ''Intervall'' (fp_interval p) d (getMinMaxValues (fp_unit p)) IntervalTyped,
                  Choice ''Einheit'' (if fp_unit p = Minutes then ''minutes'' else ''hours'')
                    [(''minutes'', ''Minuten''), (''hours'', ''Stunden'')] d (\<lambda>s. UnitChosen (unit_of s))])]
           [Button ''Intervall speichern'' (button_disabled v (IntervalButton (fp_unit p) (fp_interval p)))
              (ButtonClicked (IntervalButton (fp_unit p) (fp_interval p)))])"

(* src: main/frame/frameActions.tsx 54-58: NIGHT_STYLE_OPTIONS *)
definition NIGHT_STYLE_OPTIONS :: "(NightStyle \<times> string) list" where
  "NIGHT_STYLE_OPTIONS =
    [(Slower, ''Seltener wechseln''), (Hold, ''Aktuelles Foto behalten''), (Pause, ''Bildschirm pausieren'')]"

definition style_of :: "string \<Rightarrow> NightStyle" where
  "style_of s = (if s = ''slower'' then Slower else if s = ''hold'' then Hold else Pause)"

(* src: main/frame/frameActions.tsx 182-182: hours *)
definition hour_options :: "(string \<times> string) list" where
  "hour_options = map (\<lambda>h. (nat_str h, nat_str h @ '':00'')) [0..<24]"

(* src: main/frame/frameActions.tsx 442-543: the card of the night mode *)
definition night_card :: "frame_page \<Rightarrow> frame_msg node" where
  "night_card p =
     (let v = fp_view p; f = fp_night p; off = isNightModeDisabled v
      in ShareframeInfoCard ''Nachtmodus''
           [([], [Text (''Wechsle nachts seltener, behalte das aktuelle Foto oder pausiere den Bildschirm, um ihn zu schonen.''),
                  Switch ''Nachtmodus aktivieren'' (nf_enabled f) off NightEnabledSet,
                  Choice ''Verhalten in der Nacht'' (night_style_str (nf_style f))
                    (map (\<lambda>(x, l). (night_style_str x, l)) NIGHT_STYLE_OPTIONS) (off \<or> \<not> nf_enabled f)
                    (\<lambda>s. NightStyleChosen (style_of s)),
                  Choice ''Von'' (rat_str (nf_start f)) hour_options (off \<or> \<not> nf_enabled f)
                    (\<lambda>s. NightStartChosen (of_nat (parse_digits s))),
                  Choice ''Bis'' (rat_str (nf_end f)) hour_options (off \<or> \<not> nf_enabled f)
                    (\<lambda>s. NightEndChosen (of_nat (parse_digits s))),
                  NumberInput ''Intervall in der Nacht (Minuten)'' (nf_interval f)
                    (off \<or> \<not> nf_enabled f \<or> nf_style f \<noteq> Slower) (NIGHT_MIN_MINS, NIGHT_MAX_MINS) NightIntervalTyped] @
                 showIf (nf_start f = nf_end f)
                   [Text (''Start und Ende d'' @ s_ue @ ''rfen nicht gleich sein.'')])]
           [Button ''Nachtmodus speichern'' (off \<or> op_isFetchingNightMode (fv_operation v) \<or> isNightFormInvalid f)
              SaveNightClicked])"

(* src: main/frame/frameActions.tsx 551-598: the card of the skip *)
definition skip_card :: "frame_page \<Rightarrow> frame_msg node" where
  "skip_card p =
     ShareframeInfoCard (''Foto '' @ s_ue @ ''berspringen'')
       [([], [Text (''Springe zum n'' @ s_ae @ ''chsten Foto der Diashow.''),
              Text (''Der Bilderrahmen zeigt sofort das n'' @ s_ae @ ''chste Foto.''),
              Text (''Das geht nur, w'' @ s_ae @ ''hrend die Diashow l'' @ s_ae @ ''uft.'')])]
       [Button (''Foto '' @ s_ue @ ''berspringen'') (button_disabled (fp_view p) SkipButton) (ButtonClicked SkipButton)]"

(* src: main/frame/frameActions.tsx 600-647: the card of the clear *)
definition clear_card :: "frame_page \<Rightarrow> frame_msg node" where
  "clear_card p =
     ShareframeInfoCard ''Bildschirm leeren''
       [([], [Text (''L'' @ s_oe @ ''scht die aktuelle Anzeige und zeigt einen leeren Bildschirm.''),
              Text (''Leere den Bildschirm, wenn der Bilderrahmen l'' @ s_ae @
                ''nger nicht benutzt wird. Sonst nimmt das Display Schaden.''),
              Text (''Stoppe daf'' @ s_ue @ ''r zuerst die Diashow.'')])]
       [Button ''Bildschirm leeren'' (button_disabled (fp_view p) ClearButton) (ButtonClicked ClearButton)]"

(* src: main/frame/frameActions.tsx 197-650: the page *)
definition FrameActions :: "frame_page \<Rightarrow> frame_msg node list" where
  "FrameActions p =
     [next_change_card p, NowShowingCard (ss_nowShowing (fv_status (fp_view p)))] @ frame_notices p @
     [slideshow_card p, interval_card p, night_card p, skip_card p, clear_card p]"

section \<open>What the user can do\<close>

text \<open>The page over time: the stored settings arrive (the board's hours are hours), the store and the
  countdown change, and the user uses a control that is enabled.\<close>

definition legal_hours :: "night_form \<Rightarrow> bool" where
  "legal_hours f \<longleftrightarrow> nf_start f \<in> of_nat ` {..<24} \<and> nf_end f \<in> of_nat ` {..<24}"

inductive frame_reaches :: "frame_page \<Rightarrow> frame_page \<Rightarrow> bool" for p0 where
  opened: "frame_reaches p0 p0"
| seeded: "frame_reaches p0 p \<Longrightarrow> legal_hours stored \<Longrightarrow> frame_reaches p0 (seed_night stored p)"
| store: "frame_reaches p0 p \<Longrightarrow>
    frame_reaches p0 (p\<lparr>fp_view := v, fp_countdown := cd, fp_nightActiveNow := b, fp_actionsTimerTime := t\<rparr>)"
| user: "frame_reaches p0 p \<Longrightarrow> m \<in> emits (FrameActions p) \<Longrightarrow> frame_reaches p0 (frame_update m p)"

lemmas card_simps = ShareframeInfoCard_def card_section_def Let_def

lemma hour_option: "h \<in> set (map fst hour_options) \<Longrightarrow> parse_digits h < 24"
  by (auto simp: hour_options_def)

text \<open>Which cards set the hours, save the night mode and save the interval.\<close>

lemma other_cards:
  "NightStartChosen h \<notin> node_emits (c p)" "NightEndChosen h \<notin> node_emits (c p)" "SaveNightClicked \<notin> node_emits (c p)"
  if "c \<in> {next_change_card, slideshow_card, interval_card, skip_card, clear_card}"
  using that
  by (auto simp: next_change_card_def slideshow_card_def interval_card_def skip_card_def clear_card_def card_simps
      split: if_splits)

lemma other_nodes:
  "NightStartChosen h \<notin> node_emits (NowShowingCard ns) \<union> emits (frame_notices p)"
  "NightEndChosen h \<notin> node_emits (NowShowingCard ns) \<union> emits (frame_notices p)"
  "SaveNightClicked \<notin> node_emits (NowShowingCard ns) \<union> emits (frame_notices p)"
  by (auto simp: NowShowingCard_def frame_notices_def card_simps split: if_splits)

lemma frame_emits_night:
  "NightStartChosen h \<in> emits (FrameActions p) \<longleftrightarrow> NightStartChosen h \<in> node_emits (night_card p)"
  "NightEndChosen h \<in> emits (FrameActions p) \<longleftrightarrow> NightEndChosen h \<in> node_emits (night_card p)"
  "SaveNightClicked \<in> emits (FrameActions p) \<longleftrightarrow> SaveNightClicked \<in> node_emits (night_card p)"
  using other_cards other_nodes by (simp_all add: FrameActions_def)

lemma night_card_emits:
  "NightStartChosen h \<in> node_emits (night_card p) \<Longrightarrow> h \<in> of_nat ` {..<24}"
  "NightEndChosen h \<in> node_emits (night_card p) \<Longrightarrow> h \<in> of_nat ` {..<24}"
  "SaveNightClicked \<in> node_emits (night_card p) \<Longrightarrow>
     \<not> isNightModeDisabled (fp_view p) \<and> \<not> isNightFormInvalid (fp_night p)"
  using hour_option by (auto simp: night_card_def card_simps split: if_splits)

lemma frame_emits_hours:
  assumes "m \<in> emits (FrameActions p)" and "legal_hours (fp_night p)"
  shows "legal_hours (fp_night (frame_update m p))"
  using assms frame_emits_night night_card_emits
  by (cases m) (simp_all add: legal_hours_def)

lemma frame_reaches_hours:
  "frame_reaches p0 p \<Longrightarrow> legal_hours (fp_night p0) \<Longrightarrow> legal_hours (fp_night p)"
  by (induction rule: frame_reaches.induct) (auto simp: seed_night_def frame_emits_hours)

lemma night_request:
  assumes "\<not> op_isUpdatingNightMode (rs_slideshowOperation (cf_store c))"
  shows "\<exists>c'. runR w (handleUpdateNightMode f) c = (Returned (), c') \<and>
    requests_of (cf_trace c') = requests_of (cf_trace c) @
      [post_json getSlideshowNightModeUrl
        (JObj [(''enabled'', JBool (nf_enabled f)), (''start_hour'', JNum (nf_start f)), (''end_hour'', JNum (nf_end f)),
          (''interval_seconds'', JNum (nf_interval f * 60)), (''style'', JStr (night_style_str (nf_style f)))])]"
  using assms by (auto simp: handleUpdateNightMode_def updateNightMode_def split: sum.splits)

lemma night_start_offered:
  assumes "\<not> isNightModeDisabled (fp_view p)" and "nf_enabled (fp_night p)" and "h < 24"
  shows "NightStartChosen (of_nat h) \<in> node_emits (night_card p)"
proof -
  have "nat_str h \<in> fst ` set hour_options"
    using assms(3) by (force simp: hour_options_def)
  then have "NightStartChosen (of_nat h) \<in> (\<lambda>s. NightStartChosen (of_nat (parse_digits s))) ` fst ` set hour_options"
    by (intro image_eqI [where x = "nat_str h"]) simp_all
  with assms(1,2) show ?thesis by (simp add: night_card_def card_simps)
qed

section \<open>Property\<close>

text \<open>C23: Whatever the user does with the controls that the frame page enables, saving the night mode
  sends one request, with two different hours of the day and a pause between five minutes and a day.\<close>

lemma night_settings_in_bounds:
  assumes "frame_reaches p0 p" and "legal_hours (fp_night p0)"
    and "SaveNightClicked \<in> emits (FrameActions p)" and "frame_thunk fuel p SaveNightClicked = Some q"
    and "rs_slideshowOperation (cf_store c) = fv_operation (fp_view p)"
  shows "\<exists>c' en sh eh pause sty. runR w q c = (Returned (), c') \<and>
    requests_of (cf_trace c') = requests_of (cf_trace c) @
      [post_json getSlideshowNightModeUrl
        (JObj [(''enabled'', en), (''start_hour'', JNum (of_nat sh)), (''end_hour'', JNum (of_nat eh)),
          (''interval_seconds'', JNum pause), (''style'', sty)])] \<and>
    sh < 24 \<and> eh < 24 \<and> sh \<noteq> eh \<and> 300 \<le> pause \<and> pause \<le> 86400"
proof -
  let ?f = "fp_night p"
  from night_card_emits(3) assms(3) have enabled: "\<not> isNightModeDisabled (fp_view p)" "\<not> isNightFormInvalid ?f"
    by (simp_all add: frame_emits_night)
  from frame_reaches_hours [OF assms(1,2)] obtain sh eh where
    hours: "nf_start ?f = of_nat sh" "sh < 24" "nf_end ?f = of_nat eh" "eh < 24"
    by (auto simp: legal_hours_def)
  with enabled(2) have "sh \<noteq> eh" "300 \<le> nf_interval ?f * 60" "nf_interval ?f * 60 \<le> 86400"
    by (auto simp: isNightFormInvalid_def NIGHT_MIN_MINS_def NIGHT_MAX_MINS_def)
  moreover from enabled(1) have "\<not> op_isUpdatingNightMode (rs_slideshowOperation (cf_store c))"
    by (simp add: isNightModeDisabled_def assms(5))
  from night_request [OF this, of w ?f] obtain c' where "runR w q c = (Returned (), c')"
    and "requests_of (cf_trace c') = requests_of (cf_trace c) @
      [post_json getSlideshowNightModeUrl
        (JObj [(''enabled'', JBool (nf_enabled ?f)), (''start_hour'', JNum (of_nat sh)), (''end_hour'', JNum (of_nat eh)),
          (''interval_seconds'', JNum (nf_interval ?f * 60)), (''style'', JStr (night_style_str (nf_style ?f)))])]"
    using assms(4) hours by auto
  ultimately show ?thesis using hours by blast
qed

definition open_page :: frame_page where
  "open_page =
    \<lparr>fp_view = \<lparr>fv_isConnected = True, fv_operation = operation_initial,
       fv_status = slideshowStatus_initial\<lparr>ss_lastCheckedAt := Some 0\<rparr>, fv_actionsTimer = False, fv_initialTimer = False\<rparr>,
     fp_countdown = \<lparr>cd_remaining = JNull, cd_seeded = (JNull, None)\<rparr>, fp_interval = 5, fp_unit = Minutes,
     fp_night = \<lparr>nf_enabled = True, nf_start = 22, nf_end = 7, nf_interval = 60, nf_style = Slower\<rparr>,
     fp_seededNight = \<lparr>nf_enabled = True, nf_start = 22, nf_end = 7, nf_interval = 60, nf_style = Slower\<rparr>,
     fp_nightActiveNow = False, fp_actionsTimerTime = []\<rparr>"

text \<open>The user sets the start to 23 and saves.\<close>

lemma night_settings_in_bounds_witness:
  "\<exists>c' rq. runR silent_world (handleUpdateNightMode ((fp_night open_page)\<lparr>nf_start := 23\<rparr>)) fresh_cfg
      = (Returned (), c') \<and> requests_of (cf_trace c') = requests_of (cf_trace fresh_cfg) @ [rq]"
proof -
  let ?p = "frame_update (NightStartChosen 23) open_page"
  have enabled: "\<not> isNightModeDisabled (fp_view open_page)" "op_isFetchingNightMode (fv_operation (fp_view open_page)) = False"
    by (simp_all add: open_page_def isNightModeDisabled_def operation_initial_def slideshowStatus_initial_def)
  have "NightStartChosen (of_nat 23) \<in> node_emits (night_card open_page)"
    by (rule night_start_offered) (simp_all add: enabled, simp add: open_page_def)
  then have "frame_reaches open_page ?p"
    by (intro frame_reaches.user [OF frame_reaches.opened]) (simp add: frame_emits_night)
  moreover have "legal_hours (fp_night open_page)"
    by (auto simp: legal_hours_def open_page_def intro: image_eqI [where x = 22] image_eqI [where x = 7])
  moreover have "SaveNightClicked \<in> emits (FrameActions ?p)"
    using enabled by (simp add: frame_emits_night night_card_def card_simps open_page_def isNightFormInvalid_def
        NIGHT_MIN_MINS_def NIGHT_MAX_MINS_def)
  moreover have "rs_slideshowOperation (cf_store fresh_cfg) = fv_operation (fp_view ?p)"
    by (simp add: fresh_cfg_def root_initial_def open_page_def)
  moreover have "frame_thunk 1 ?p SaveNightClicked =
      Some (handleUpdateNightMode ((fp_night open_page)\<lparr>nf_start := 23\<rparr>))"
    by simp
  ultimately have "\<exists>c' en sh eh pause sty.
      runR silent_world (handleUpdateNightMode ((fp_night open_page)\<lparr>nf_start := 23\<rparr>)) fresh_cfg = (Returned (), c') \<and>
      requests_of (cf_trace c') = requests_of (cf_trace fresh_cfg) @
        [post_json getSlideshowNightModeUrl
          (JObj [(''enabled'', en), (''start_hour'', JNum (of_nat sh)), (''end_hour'', JNum (of_nat eh)),
            (''interval_seconds'', JNum pause), (''style'', sty)])] \<and>
      sh < 24 \<and> eh < 24 \<and> sh \<noteq> eh \<and> 300 \<le> pause \<and> pause \<le> 86400"
    by (intro night_settings_in_bounds) assumption+
  then show ?thesis by blast
qed

end
