(* ===== verification/SlideshowView.thy ===== *)
theory SlideshowView
  imports FramePage View
begin

text \<open>
  The page of the images as it is rendered and used (main/slideshowImages): the grid, the order and
  its draft, the preview. The page is a machine over messages (\<open>images_update\<close>); what it asks the
  board for is \<open>images_thunk\<close>. The store changes under it, by the fetches it polls with
  and by its own requests. The browser's date text, its upper case and the drag-and-drop library's
  \<open>arrayMove\<close> are arguments.
\<close>

section \<open>State and messages\<close>

(* src: main/slideshowImages/slideshowImages.tsx 21-25: the state of SlideshowImages *)
record images_page =
  ig_images :: slideshow_images_state
  ig_status :: slideshow_status_state
  ig_operation :: operation_state
  ig_actionsTimer :: bool
  ig_draft :: "jsval list option"
  ig_previewId :: "jsval option"
  ig_saving :: "jsval list option"
  ig_isDesktop :: bool
  ig_speedDial :: bool

datatype images_msg =
    ModeChosen PlaybackMode | ModeCleared | EditClicked | ImageMoved nat nat | ImageDragged jsval "jsval option"
  | ImageOpened jsval | PreviewClosed | SaveOrderClicked | DiscardClicked | RetryFetchClicked
  | ShowClicked | DownloadClicked | DialOpened bool | DialClosing images_msg

(* src: main/slideshowImages/slideshowImages.tsx 24-24: isEditing *)
definition isEditing :: "images_page \<Rightarrow> bool" where
  "isEditing p \<longleftrightarrow> ig_draft p \<noteq> None"

abbreviation page_images :: "images_page \<Rightarrow> slideshow_image list" where
  "page_images p \<equiv> si_images (ig_images p)"

text \<open>What the grid is given (\<open>shown\<close>), and the image of the preview, if it is still there.\<close>

definition grid_images :: "images_page \<Rightarrow> slideshow_image list" where
  "grid_images p = shown_images (page_images p) (ig_draft p)"

(* src: main/slideshowImages/slideshowImages.tsx 37-37: preview *)
definition preview_image :: "images_page \<Rightarrow> slideshow_image option" where
  "preview_image p = (case ig_previewId p of None \<Rightarrow> None | Some i \<Rightarrow> byId (page_images p) i)"

section \<open>Handlers\<close>

text \<open>\<open>ids.indexOf(Number(id))\<close>; the library only reports ids of the grid.\<close>

fun index_of :: "'a \<Rightarrow> 'a list \<Rightarrow> nat" where
  "index_of x [] = 0"
| "index_of x (y # ys) = (if x = y then 0 else Suc (index_of x ys))"

(* src: main/slideshowImages/slideshowImagesGrid.tsx 144-147: handleDragEnd *)
definition handleDragEnd ::
  "(jsval list \<Rightarrow> nat \<Rightarrow> nat \<Rightarrow> jsval list) \<Rightarrow> slideshow_image list \<Rightarrow> jsval \<Rightarrow> jsval option \<Rightarrow> jsval list option" where
  "handleDragEnd arrayMove images active over =
     (case over of
        None \<Rightarrow> None
      | Some target \<Rightarrow>
          if active = target then None
          else
            let ids = map im_id images
            in Some (move_image arrayMove images (index_of active ids) (index_of target ids)))"

text \<open>The state after a message. Saving dispatches the request's \<open>pending\<close> action and leaves the draft
  in place until the request has settled. (The reducer uses the time in none of these actions.)\<close>

fun images_update ::
  "(jsval list \<Rightarrow> nat \<Rightarrow> nat \<Rightarrow> jsval list) \<Rightarrow> images_msg \<Rightarrow> images_page \<Rightarrow> images_page" where
  "images_update arrayMove (ModeChosen next) p = p\<lparr>ig_draft := fst (handleModeChange (page_images p) next)\<rparr>"
| "images_update arrayMove EditClicked p = p\<lparr>ig_draft := Some (map im_id (page_images p))\<rparr>"
| "images_update arrayMove (ImageMoved i j) p = p\<lparr>ig_draft := Some (move_image arrayMove (grid_images p) i j)\<rparr>"
| "images_update arrayMove (ImageDragged active over) p =
     (case handleDragEnd arrayMove (grid_images p) active over of
        None \<Rightarrow> p | Some ids \<Rightarrow> p\<lparr>ig_draft := Some ids\<rparr>)"
| "images_update arrayMove (ImageOpened i) p = p\<lparr>ig_previewId := Some i\<rparr>"
| "images_update arrayMove PreviewClosed p = p\<lparr>ig_previewId := None\<rparr>"
| "images_update arrayMove SaveOrderClicked p =
     (if ig_draft p = None then p
      else p\<lparr>ig_saving := ig_draft p, ig_images := slideshowImagesReducer 0 (ig_images p) UpdateOrderPending\<rparr>)"
| "images_update arrayMove DiscardClicked p = p\<lparr>ig_draft := None\<rparr>"
| "images_update arrayMove (DialOpened b) p = p\<lparr>ig_speedDial := b\<rparr>"
| "images_update arrayMove (DialClosing m) p = (images_update arrayMove m p)\<lparr>ig_speedDial := False\<rparr>"
| "images_update arrayMove _ p = p"

text \<open>The request's last action, and then the rest of \<open>handleSave\<close>.\<close>

definition save_settled :: "bool \<Rightarrow> images_page \<Rightarrow> images_page" where
  "save_settled fulfilled p =
     p\<lparr>ig_draft := handleSave_settled fulfilled (ig_draft p), ig_saving := None,
       ig_images := slideshowImagesReducer 0 (ig_images p)
         (if fulfilled then UpdateOrderFulfilled CustomOrder else UpdateOrderRejected JUndefined [])\<rparr>"

text \<open>The number of a field whose declared type is number.\<close>

fun number_in :: "jsval \<Rightarrow> rat" where
  "number_in (JNum x) = x"
| "number_in _ = 0"

text \<open>The picture is fetched with the session's cookie; on success the browser saves it (its
  \<open>revokeObjectURL\<close> included), which is left to the browser.\<close>

(* src: main/slideshowImages/slideshowImagePreviewDialog.tsx 61-75: handleDownload *)
definition handleDownload :: "slideshow_image option \<Rightarrow> unit thunk" where
  "handleDownload shown =
     (case shown of
        None \<Rightarrow> Return ()
      | Some img \<Rightarrow>
          tryP
            (fetchP (get_req (image_src (im_id img))) (\<lambda>response.
             if \<not> rs_ok response then Throw (ErrorObj (''HTTP '' @ nat_str (rs_status response)))
             else Yield (case rs_body response of Inl e \<Rightarrow> Throw e | Inr _ \<Rightarrow> Return ())))
            (\<lambda>_. alertP (JStr ''Foto konnte nicht heruntergeladen werden'') Error (Return ())))"

(* src: main/slideshowImages/slideshowImagePreviewDialog.tsx 57-59: handleShow *)
definition handleShow :: "slideshow_image option \<Rightarrow> unit thunk" where
  "handleShow shown = (case shown of None \<Rightarrow> Return () | Some img \<Rightarrow> showImageThunk (number_in (im_id img)))"

fun images_thunk ::
  "PlaybackMode cat \<Rightarrow> images_payload cat \<Rightarrow> images_page \<Rightarrow> images_msg \<Rightarrow> unit thunk option" where
  "images_thunk co ci p (ModeChosen next) =
     map_option (\<lambda>m. updatePlaybackOrder co m None) (snd (handleModeChange (page_images p) next))"
| "images_thunk co ci p SaveOrderClicked = map_option (\<lambda>ids. updatePlaybackOrder co CustomOrder (Some ids)) (ig_draft p)"
| "images_thunk co ci p RetryFetchClicked = Some (fetchSlideshowImages ci)"
| "images_thunk co ci p ShowClicked = Some (handleShow (preview_image p))"
| "images_thunk co ci p DownloadClicked = Some (handleDownload (preview_image p))"
| "images_thunk co ci p (DialClosing m) = images_thunk co ci p m"
| "images_thunk co ci p _ = None"

section \<open>The page\<close>

(* src: main/slideshowImages/playbackOrderSelect.tsx 12-17: OPTIONS *)
definition ORDER_OPTIONS :: "(PlaybackMode \<times> string) list" where
  "ORDER_OPTIONS =
     [(Shuffle, ''Zuf'' @ s_ae @ ''llig''), (Chronological, ''Chronologisch''), (NewestFirst, ''Neueste zuerst''),
      (CustomOrder, ''Eigene Reihenfolge'')]"

text \<open>A toggle group hands over null for the button that is on already.\<close>

(* src: main/slideshowImages/playbackOrderSelect.tsx 19-42: PlaybackOrderSelect *)
definition PlaybackOrderSelect :: "jsval \<Rightarrow> bool \<Rightarrow> images_msg node" where
  "PlaybackOrderSelect value disabled =
     Group ''Wiedergabereihenfolge''
       (map (\<lambda>(mode, label). Button label disabled
          (if value = JStr (playback_mode_str mode) then ModeCleared else ModeChosen mode)) ORDER_OPTIONS)"

text \<open>The text of a field whose declared type is string, and the rest of a tile: the two buttons
  that move it, and the drag, which the grid offers for any pair of its tiles.\<close>

abbreviation sender_of :: "slideshow_image \<Rightarrow> string" where
  "sender_of img \<equiv> js_string (im_sender img)"

definition unix_of :: "jsval \<Rightarrow> rat option" where
  "unix_of v = (if v = JNull then None else Some (number_in v))"

(* src: main/slideshowImages/slideshowImagesGrid.tsx 53-128: SlideshowImageTile *)
definition SlideshowImageTile ::
  "(nat list \<Rightarrow> string) \<Rightarrow> (rat \<Rightarrow> string) \<Rightarrow> slideshow_image \<Rightarrow> nat \<Rightarrow> nat \<Rightarrow> bool \<Rightarrow> bool \<Rightarrow> images_msg node" where
  "SlideshowImageTile upper date_text img index total_count isCurrent sortable =
     Group (''Foto von '' @ sender_of img @ '', Position '' @ nat_str (index + 1))
       (showIf (\<not> sortable) [Button [] False (ImageOpened (im_id img))] @
        [Picture (image_src (im_id img)) (''Foto von '' @ sender_of img), Chip (nat_str (index + 1)) ''paper''] @
        showIf isCurrent [Chip ''Wird angezeigt'' ''success''] @
        UserAvatar upper (sender_of img) @
        [Text (sender_of img), Text (formatUnix date_text (unix_of (im_receivedAt img)))] @
        showIf sortable
          [Button (''Foto von '' @ sender_of img @ '' nach vorne verschieben'') (index = 0) (ImageMoved index (index - 1)),
           Button (''Foto von '' @ sender_of img @ '' nach hinten verschieben'') (index = total_count - 1)
             (ImageMoved index (index + 1))])"

(* src: main/slideshowImages/slideshowImagesGrid.tsx 149-168: SlideshowImagesGrid *)
definition SlideshowImagesGrid ::
  "(nat list \<Rightarrow> string) \<Rightarrow> (rat \<Rightarrow> string) \<Rightarrow> slideshow_image list \<Rightarrow> jsval \<Rightarrow> bool \<Rightarrow> images_msg node list" where
  "SlideshowImagesGrid upper date_text images currentImageId sortable =
     map (\<lambda>(index, img). SlideshowImageTile upper date_text img index (length images) (im_id img = currentImageId) sortable)
       (enumerate 0 images)"

definition drags :: "slideshow_image list \<Rightarrow> bool \<Rightarrow> images_msg set" where
  "drags images sortable =
     (if sortable then {ImageDragged (im_id a) (Some (im_id b)) | a b. a \<in> set images \<and> b \<in> set images} else {})"

(* src: main/slideshowImages/slideshowImages.tsx 54-60: saveAction *)
definition saveAction :: "images_page \<Rightarrow> images_msg dialog_action" where
  "saveAction p = \<lparr>da_onClick = SaveOrderClicked, da_label = Some ''Reihenfolge speichern'', da_tooltip = None,
     da_disabled = si_isUpdatingOrder (ig_images p)\<rparr>"

(* src: main/slideshowImages/slideshowImages.tsx 62-68: discardAction *)
definition discardAction :: "images_page \<Rightarrow> images_msg dialog_action" where
  "discardAction p = \<lparr>da_onClick = DiscardClicked, da_label = Some ''Verwerfen'', da_tooltip = None,
     da_disabled = si_isUpdatingOrder (ig_images p)\<rparr>"

(* src: main/slideshowImages/slideshowImages.tsx 85-127: the card of the order *)
definition order_card :: "images_page \<Rightarrow> images_msg node" where
  "order_card p =
     (let mode = si_mode (ig_images p)
      in ShareframeInfoCard ''Wiedergabereihenfolge''
           [([],
             [PlaybackOrderSelect (if isEditing p then JStr ''custom'' else mode)
                (mode = JNull \<or> si_isUpdatingOrder (ig_images p))] @
             showIf (isEditing p)
               [Text (''Ziehe die Fotos in die gew'' @ s_ue @ ''nschte Reihenfolge und speichere sie anschlie'' @ s_ss @
                  ''end. Neue Fotos werden hinten angeh'' @ s_ae @ ''ngt.'')] @
             showIf (\<not> isEditing p \<and> mode = JStr ''shuffle'')
               [Text (''Jedes Foto kommt einmal pro Durchlauf an die Reihe, danach wird neu gemischt. '' @
                  ''Unten siehst du den aktuellen Durchlauf.'')] @
             showIf (\<not> isEditing p \<and> mode = JStr ''custom'')
               [Button ''Reihenfolge bearbeiten'' (length (page_images p) < 2) EditClicked])] [])"

(* src: main/slideshowImages/slideshowImages.tsx 70-78: renderSkeleton *)
definition renderSkeleton :: "images_msg node" where
  "renderSkeleton = Group ''skeleton'' (replicate 4 (Group ''tile'' []))"

(* src: main/slideshowImages/slideshowImages.tsx 130-152: the grid of the page *)
definition images_section ::
  "(nat list \<Rightarrow> string) \<Rightarrow> (rat \<Rightarrow> string) \<Rightarrow> bool \<Rightarrow> images_page \<Rightarrow> images_msg node list" where
  "images_section upper date_text showSkeleton p =
     (let shown = grid_images p
      in if showSkeleton then [renderSkeleton]
         else if 0 < length shown then
           SlideshowImagesGrid upper date_text shown (si_currentImageId (ig_images p)) (isEditing p) @
           [Text (nat_str (length shown) @ '' '' @ (if length shown = 1 then ''Foto'' else ''Fotos'') @ '' auf dem Bilderrahmen'')]
         else if si_lastFetchedAt (ig_images p) \<noteq> None then
           [DataNotFound ''Noch keine Fotos auf dem Bilderrahmen. Bis dahin zeigt er Beispielbilder.'' None]
         else if truthy (si_error (ig_images p)) then
           [DataNotFound ''Fotos konnten nicht geladen werden'' (Some (''Erneut versuchen'', RetryFetchClicked))]
         else [])"

section \<open>The preview\<close>

(* src: main/slideshowImages/slideshowImagePreviewDialog.tsx 77-84: primaryAction *)
definition show_action :: "images_page \<Rightarrow> bool \<Rightarrow> images_msg dialog_action" where
  "show_action p isCurrent =
     \<lparr>da_onClick = ShowClicked, da_label = Some ''Jetzt anzeigen'',
      da_tooltip = showBlockedReason isCurrent (ig_status p) (ig_actionsTimer p),
      da_disabled = show_disabled isCurrent (ig_status p) (ig_actionsTimer p) (ig_operation p)\<rparr>"

(* src: main/slideshowImages/slideshowImagePreviewDialog.tsx 86-92: dialogActions *)
definition download_action :: "images_msg dialog_action" where
  "download_action = \<lparr>da_onClick = DownloadClicked, da_label = Some ''Foto herunterladen'', da_tooltip = None,
     da_disabled = False\<rparr>"

(* src: main/slideshowImages/slideshowImagePreviewDialog.tsx 104-156: the contents of the preview *)
definition preview_details ::
  "(nat list \<Rightarrow> string) \<Rightarrow> (rat \<Rightarrow> string) \<Rightarrow> rat \<Rightarrow> nat \<Rightarrow> bool \<Rightarrow> slideshow_image \<Rightarrow> images_msg node list" where
  "preview_details upper date_text now image_count isCurrent img =
     [Picture (image_src (im_id img)) (''Foto von '' @ sender_of img)] @
     [Text ''Absender''] @ UserAvatar upper (sender_of img) @ [Text (sender_of img)] @
     [Text ''Empfangen am'', Text (formatUnix date_text (unix_of (im_receivedAt img)))] @
     [Text (''L'' @ s_ae @ ''uft ab am''), Text (formatUnix date_text (unix_of (im_expiresAt img))),
      Text (formatTimeLeft (number_in (im_expiresAt img)) now)] @
     [Text (''Aufl'' @ s_oe @ ''sung''),
      Text (if 0 < number_in (im_width img)
        then rat_str (number_in (im_width img)) @ '' '' @ [CHR 0xC3, CHR 0x97] @ '' '' @ rat_str (number_in (im_height img)) @ '' px''
        else s_endash)] @
     [Text (''Dateigr'' @ s_oe @ s_ss @ ''e''),
      Text (if 0 < number_in (im_sizeBytes img) then getReadablyFileSize (number_in (im_sizeBytes img)) else s_endash)] @
     [Text ''Wiedergabe'', Text (''Position '' @ js_string (im_position img) @ '' von '' @ nat_str image_count)] @
     showIf isCurrent [Text ''Wird gerade angezeigt'']"

(* src: main/slideshowImages/slideshowImagePreviewDialog.tsx 94-158: SlideshowImagePreviewDialog *)
definition SlideshowImagePreviewDialog ::
  "(nat list \<Rightarrow> string) \<Rightarrow> (rat \<Rightarrow> string) \<Rightarrow> rat \<Rightarrow> images_page \<Rightarrow> images_msg node list" where
  "SlideshowImagePreviewDialog upper date_text now p =
     (let isCurrent = (case preview_image p of None \<Rightarrow> JUndefined | Some img \<Rightarrow> im_id img) = si_currentImageId (ig_images p)
      in ShareframeMainDialog (ig_isDesktop p) (ig_speedDial p) DialOpened DialClosing (preview_image p \<noteq> None)
           ''Foto auf dem Bilderrahmen'' [] PreviewClosed (preview_image p \<noteq> None) (Some (show_action p isCurrent))
           [download_action] False
           (case preview_image p of
              None \<Rightarrow> []
            | Some img \<Rightarrow> preview_details upper date_text now (length (page_images p)) isCurrent img))"

(* src: main/slideshowImages/slideshowImages.tsx 80-166: SlideshowImages *)
definition SlideshowImages ::
  "(nat list \<Rightarrow> string) \<Rightarrow> (rat \<Rightarrow> string) \<Rightarrow> bool \<Rightarrow> images_page \<Rightarrow> images_msg node list" where
  "SlideshowImages upper date_text showSkeleton p =
     showIf (isEditing p) (PageActionsBar (ig_isDesktop p) [discardAction p, saveAction p]) @
     [order_card p] @ images_section upper date_text showSkeleton p @
     showIf (isEditing p \<and> \<not> ig_isDesktop p)
       (BottomFloatingActions False DialOpened DialClosing (Some (saveAction p)) (Some (discardAction p)) [] False False)"

section \<open>The page in use\<close>

definition images_offers ::
  "(nat list \<Rightarrow> string) \<Rightarrow> (rat \<Rightarrow> string) \<Rightarrow> rat \<Rightarrow> bool \<Rightarrow> images_page \<Rightarrow> images_msg set" where
  "images_offers upper date_text now showSkeleton p =
     (if preview_image p \<noteq> None then emits (SlideshowImagePreviewDialog upper date_text now p)
      else emits (SlideshowImages upper date_text showSkeleton p) \<union> drags (grid_images p) (isEditing p))"

text \<open>The user acts, the save settles, the store changes. The images of the board have ids of their
  own, and while an order is being saved the store says so.\<close>

inductive images_reaches ::
  "(jsval list \<Rightarrow> nat \<Rightarrow> nat \<Rightarrow> jsval list) \<Rightarrow> images_page \<Rightarrow> images_page \<Rightarrow> bool" for arrayMove p0 where
  opened: "images_reaches arrayMove p0 p0"
| user: "images_reaches arrayMove p0 p \<Longrightarrow> m \<in> images_offers upper date_text now showSkeleton p \<Longrightarrow>
    images_reaches arrayMove p0 (images_update arrayMove m p)"
| settled: "images_reaches arrayMove p0 p \<Longrightarrow> ig_saving p \<noteq> None \<Longrightarrow>
    images_reaches arrayMove p0 (save_settled fulfilled p)"
| store: "images_reaches arrayMove p0 p \<Longrightarrow> distinct (map im_id (si_images st)) \<Longrightarrow>
    (ig_saving p \<noteq> None \<longrightarrow> si_isUpdatingOrder st) \<Longrightarrow>
    images_reaches arrayMove p0
      (p\<lparr>ig_images := st, ig_status := status, ig_operation := ops, ig_actionsTimer := timer, ig_isDesktop := desktop\<rparr>)"

section \<open>What the page offers\<close>

lemma order_select_emits:
  "m \<in> node_emits (PlaybackOrderSelect value disabled) \<Longrightarrow> \<not> disabled \<and> (m = ModeCleared \<or> m \<in> range ModeChosen)"
  by (cases disabled) (auto simp: PlaybackOrderSelect_def ORDER_OPTIONS_def split: if_splits)

lemma order_card_emits:
  assumes "m \<in> node_emits (order_card p)"
  shows "\<not> si_isUpdatingOrder (ig_images p) \<and> (m = ModeCleared \<or> m \<in> range ModeChosen) \<or>
    m = EditClicked \<and> \<not> isEditing p"
proof -
  from assms have "m \<in> node_emits (PlaybackOrderSelect (if isEditing p then JStr ''custom'' else si_mode (ig_images p))
      (si_mode (ig_images p) = JNull \<or> si_isUpdatingOrder (ig_images p))) \<or> m = EditClicked \<and> \<not> isEditing p"
    by (simp add: order_card_def card_emits Let_def del: if_split split: if_split_asm)
  with order_select_emits show ?thesis by blast
qed

lemma tile_emits:
  "m \<in> node_emits (SlideshowImageTile upper date_text img index n isCurrent sortable) \<longleftrightarrow>
     (if sortable then index \<noteq> 0 \<and> m = ImageMoved index (index - 1) \<or> index \<noteq> n - 1 \<and> m = ImageMoved index (index + 1)
      else m = ImageOpened (im_id img))"
  by (auto simp: SlideshowImageTile_def UserAvatar_def)

lemma grid_emits:
  "m \<in> emits (SlideshowImagesGrid upper date_text images current sortable) \<longleftrightarrow>
     (\<exists>i < length images.
        if sortable then i \<noteq> 0 \<and> m = ImageMoved i (i - 1) \<or> i \<noteq> length images - 1 \<and> m = ImageMoved i (i + 1)
        else m = ImageOpened (im_id (images ! i)))"
  by (auto simp: SlideshowImagesGrid_def emits_map tile_emits in_set_enumerate_eq Bex_def split_beta)

lemma renderSkeleton_emits: "node_emits renderSkeleton = {}"
  by (simp add: renderSkeleton_def numeral_eq_Suc)

lemma images_section_emits:
  "m \<in> emits (images_section upper date_text showSkeleton p) \<Longrightarrow>
     m = RetryFetchClicked \<or> (\<exists>i. m = ImageOpened i) \<or> (\<exists>i j. m = ImageMoved i j)"
  by (auto simp: images_section_def Let_def grid_emits DataNotFound_def renderSkeleton_emits split: if_splits)

lemma SlideshowImages_emits:
  "m \<in> emits (SlideshowImages upper date_text showSkeleton p) \<Longrightarrow>
     \<not> si_isUpdatingOrder (ig_images p) \<and>
       (m = ModeCleared \<or> m \<in> range ModeChosen \<or> m = SaveOrderClicked \<or> m = DiscardClicked) \<or>
     m = EditClicked \<and> \<not> isEditing p \<or> m = RetryFetchClicked \<or> (\<exists>i. m = ImageOpened i) \<or> (\<exists>i j. m = ImageMoved i j)"
  by (auto simp: SlideshowImages_def PageActionsBar_def BottomFloatingActions_def floating_button_def speed_dial_def
      saveAction_def discardAction_def
      dest: order_card_emits images_section_emits split: if_splits)

lemma preview_details_emits: "emits (preview_details upper date_text now image_count isCurrent img) = {}"
  by (simp add: preview_details_def UserAvatar_def)

lemma preview_emits:
  "m \<in> emits (SlideshowImagePreviewDialog upper date_text now p) \<Longrightarrow>
     m = PreviewClosed \<or> m = ShowClicked \<or> m = DownloadClicked \<or> m \<in> range DialOpened \<or> m = DialClosing DownloadClicked"
  unfolding SlideshowImagePreviewDialog_def Let_def
  by (drule ShareframeMainDialog_emits)
    (auto simp: show_action_def download_action_def preview_details_emits split: option.splits)

lemma images_offers_cases:
  "m \<in> images_offers upper date_text now showSkeleton p \<Longrightarrow>
     \<not> si_isUpdatingOrder (ig_images p) \<and>
       (m = ModeCleared \<or> m \<in> range ModeChosen \<or> m = SaveOrderClicked \<or> m = DiscardClicked) \<or>
     m = EditClicked \<and> \<not> isEditing p \<or> m = RetryFetchClicked \<or> (\<exists>i. m = ImageOpened i) \<or>
     (\<exists>i j. m = ImageMoved i j) \<or> (\<exists>a b. m = ImageDragged a b) \<or>
     m = PreviewClosed \<or> m = ShowClicked \<or> m = DownloadClicked \<or> m \<in> range DialOpened \<or> m = DialClosing DownloadClicked"
  unfolding images_offers_def drags_def
  by (auto dest: preview_emits SlideshowImages_emits split: if_splits)

section \<open>The draft\<close>

lemma byId_id: "byId images i = Some img \<Longrightarrow> im_id img = i \<and> img \<in> set images"
  unfolding byId_def by (drule map_of_SomeD) auto

lemma shown_ids: "map im_id (shown_images images (Some ids)) = filter (\<lambda>i. byId images i \<noteq> None) ids"
  by (induction ids) (auto simp: shown_images_def byId_id split: option.split)

lemma grid_ids_distinct:
  "distinct (map im_id (page_images p)) \<Longrightarrow> (\<And>ids. ig_draft p = Some ids \<Longrightarrow> distinct ids) \<Longrightarrow>
     distinct (map im_id (grid_images p))"
  by (cases "ig_draft p") (simp_all add: grid_images_def shown_ids, simp add: shown_images_def)

text \<open>No id is twice in a draft or in an order that is being saved, and while one is being saved the
  draft stays.\<close>

definition images_inv :: "images_page \<Rightarrow> bool" where
  "images_inv p \<longleftrightarrow> distinct (map im_id (page_images p)) \<and>
     (\<forall>ids. ig_draft p = Some ids \<longrightarrow> distinct ids) \<and> (\<forall>ids. ig_saving p = Some ids \<longrightarrow> distinct ids) \<and>
     (ig_saving p \<noteq> None \<longrightarrow> ig_draft p \<noteq> None \<and> si_isUpdatingOrder (ig_images p))"

lemma move_distinct:
  assumes "\<And>xs i j. mset (arrayMove xs i j) = mset xs" "images_inv p"
  shows "distinct (move_image arrayMove (grid_images p) i j)"
proof -
  have "distinct (map im_id (grid_images p))"
    using assms(2) by (intro grid_ids_distinct) (auto simp: images_inv_def)
  then show ?thesis unfolding move_image_def using assms(1) by (metis mset_eq_imp_distinct_iff)
qed

lemma images_update_inv:
  assumes moves: "\<And>xs i j. mset (arrayMove xs i j) = mset xs" and inv: "images_inv p"
    and m: "m \<in> images_offers upper date_text now showSkeleton p"
  shows "images_inv (images_update arrayMove m p)"
proof -
  have moved: "distinct (move_image arrayMove (grid_images p) i j)" for i j
    using moves inv by (rule move_distinct)
  from images_offers_cases [OF m] show ?thesis
    apply (elim disjE conjE exE rangeE)
    using inv by (simp_all add: images_inv_def handleModeChange_def handleDragEnd_def Let_def isEditing_def moved
        split: option.split)
qed

lemma save_settled_inv: "images_inv p \<Longrightarrow> images_inv (save_settled fulfilled p)"
  by (cases fulfilled; cases "ig_draft p") (simp_all add: images_inv_def save_settled_def handleSave_settled_def)

lemma images_reaches_inv:
  assumes "\<And>xs i j. mset (arrayMove xs i j) = mset xs"
  shows "images_reaches arrayMove p0 p \<Longrightarrow> images_inv p0 \<Longrightarrow> images_inv p"
proof (induction rule: images_reaches.induct)
  case (user p m upper date_text now showSkeleton)
  from images_update_inv [OF assms user.IH [OF user.prems] user.hyps(2)] show ?case .
next
  case (settled p fulfilled)
  then show ?case by (simp add: save_settled_inv)
next
  case (store p st status ops timer desktop)
  from store.IH [OF store.prems] store.hyps(2,3) show ?case by (simp add: images_inv_def)
qed

section \<open>Properties\<close>


definition images_page0 :: images_page where
  "images_page0 =
     \<lparr>ig_images = slideshowImages_initial\<lparr>si_images := map image_with_id [1, 2, 3], si_mode := JStr ''custom''\<rparr>,
      ig_status = slideshowStatus_initial, ig_operation = operation_initial, ig_actionsTimer = False, ig_draft = None,
      ig_previewId = None, ig_saving = None, ig_isDesktop = True, ig_speedDial = False\<rparr>"

definition saving_page :: images_page where
  "saving_page = images_update move_item SaveOrderClicked (images_update move_item EditClicked images_page0)"

lemma saving_page_reached: "images_reaches move_item images_page0 saving_page"
proof -
  let ?p = "images_update move_item EditClicked images_page0"
  have preview: "preview_image images_page0 = None" "preview_image ?p = None"
    by (simp_all add: preview_image_def images_page0_def)
  have "EditClicked \<in> node_emits (order_card images_page0)"
    by (simp add: order_card_def card_emits Let_def isEditing_def images_page0_def)
  then have "EditClicked \<in> images_offers (\<lambda>_. []) (\<lambda>_. []) 0 False images_page0"
    using preview by (simp add: images_offers_def SlideshowImages_def)
  then have p: "images_reaches move_item images_page0 ?p"
    by (rule images_reaches.user [OF images_reaches.opened])
  have "SaveOrderClicked \<in> emits (PageActionsBar (ig_isDesktop ?p) [discardAction ?p, saveAction ?p])"
    by (simp add: PageActionsBar_def saveAction_def discardAction_def images_page0_def slideshowImages_initial_def)
  moreover have "isEditing ?p" by (simp add: isEditing_def)
  ultimately have "SaveOrderClicked \<in> images_offers (\<lambda>_. []) (\<lambda>_. []) 0 False ?p"
    using preview by (simp add: images_offers_def SlideshowImages_def)
  then show ?thesis
    unfolding saving_page_def by (rule images_reaches.user [OF p])
qed


end
