(* ===== verification/Pages.thy ===== *)
theory Pages
  imports PowerThunks Formatting Utils
begin

text \<open>
  What the remaining pages decide: services (main/services), logs (main/monitoring), network
  (main/network), updates (main/updates, main/updateHistory), system (main/general), customization,
  sign-in, and the dialogs that confirm a power command. Forms, enabled buttons, handlers; layout
  and icons are left out. A password is the list of its UTF-16 code units, which is what its
  \<open>length\<close> counts.
\<close>

section \<open>Services\<close>

text \<open>Label, colour and variant of the chip.\<close>

(* src: main/services/serviceUtils.tsx 11-23: HealthChip *)
definition HealthChip :: "jsval \<Rightarrow> string \<times> string \<times> string" where
  "HealthChip service =
     (if \<not> truthy service then (''Unbekannt'', ''default'', [])
      else if truthy (own_prop service ''running'') then (''Aktiv'', ''success'', ''filled'')
      else (''Offline'', ''error'', ''outlined''))"

(* src: main/services/serviceUtils.tsx 43-53: the ConfirmDialog of RestartButton *)
definition restart_question :: "string \<Rightarrow> string \<times> string" where
  "restart_question i =
     ((case map_of SERVICE_LABELS i of None \<Rightarrow> i | Some l \<Rightarrow> l) @ '' neu starten?'',
      if i = ''dashboard'' then ''Die Einstellungen sind dabei kurz nicht erreichbar.''
      else ''Der Dienst ist dabei kurz nicht verf'' @ s_ue @ ''gbar.'')"

section \<open>Logs\<close>

(* src: main/monitoring/logFilter.tsx 27-37: timeRangeOptions *)
definition timeRangeOptions :: "(string \<times> string) list" where
  "timeRangeOptions =
    [(''1h'', ''Letzte Stunde''), (''3h'', ''Letzte 3 Stunden''), (''6h'', ''Letzte 6 Stunden''),
     (''12h'', ''Letzte 12 Stunden''), (''24h'', ''Letzter Tag''), (''48h'', ''Letzte 2 Tage''),
     (''72h'', ''Letzte 3 Tage''), (''168h'', ''Letzte Woche''), (''custom'', ''Benutzerdefiniert'')]"

text \<open>
  The browser's time zone is an argument: \<open>tz ms\<close> is what local time is ahead of UTC at \<open>ms\<close>, and
  \<open>parse_local s\<close> the time a date without a zone stands for, if it is one. The fields of an invalid
  date are \<open>NaN\<close>.
\<close>

definition local_fields :: "(int \<Rightarrow> int) \<Rightarrow> int option \<Rightarrow> string list" where
  "local_fields tz date =
     (case date of
        None \<Rightarrow> replicate 6 ''NaN''
      | Some ms \<Rightarrow>
          let l = ms + tz ms;
              (y, m, d) = civil_from_days (l div 86400000);
              rest = l mod 86400000
          in [int_str y, pad2 m, pad2 d, pad2 (rest div 3600000), pad2 (rest div 60000 mod 60),
              pad2 (rest div 1000 mod 60)])"

(* src: main/monitoring/logFilter.tsx 48-55: getTimestamp *)
definition getTimestamp :: "(int \<Rightarrow> int) \<Rightarrow> (string \<Rightarrow> int option) \<Rightarrow> int \<Rightarrow> string \<Rightarrow> string \<Rightarrow> string" where
  "getTimestamp tz parse_local now timeRange customDate =
     (let date =
        (if timeRange = ''custom'' then parse_local customDate
         else Some (now - int (parse_digits (filter (\<lambda>ch. ch \<noteq> CHR ''h'') timeRange)) * 60 * 60 * 1000));
          f = local_fields tz date
      in f ! 0 @ ''-'' @ f ! 1 @ ''-'' @ f ! 2 @ '' '' @ f ! 3 @ '':'' @ f ! 4 @ '':'' @ f ! 5)"

(* src: main/monitoring/logFilter.tsx 41-43: customDate *)
definition initial_customDate :: "int \<Rightarrow> string" where
  "initial_customDate now = take 16 (iso_string (now - 24 * 60 * 60 * 1000))"

text \<open>The parameters a filter gives, once it has given some, and the page's source.\<close>

(* src: main/monitoring/frameLogs.tsx 25-28: loadLogs *)
definition loadLogs :: "logs_data cat \<Rightarrow> ServiceType \<Rightarrow> (string \<times> nat) option \<Rightarrow> unit thunk" where
  "loadLogs cat source params =
     (case params of
        None \<Rightarrow> Return ()
      | Some (since, lines) \<Rightarrow>
          fetchFrameLogs cat \<lparr>lp_service_name = source, lp_since_timestamp = Some since, lp_lines = Some lines,
            lp_follow = None\<rparr>)"

datatype logs_view = LogsLoading | LogsFailed | NoLogs | LogsShown logs_data

(* src: main/monitoring/logsContent.tsx 19-50: LogsContent *)
definition LogsContent :: "bool \<Rightarrow> jsval \<Rightarrow> logs_data option \<Rightarrow> logs_view" where
  "LogsContent loading error logs =
     (if loading then LogsLoading
      else if truthy error then LogsFailed
      else case logs of None \<Rightarrow> NoLogs | Some l \<Rightarrow> LogsShown l)"

(* src: main/monitoring/frameLogs.tsx 54-60: the LogsContent of FrameLogs *)
definition page_logs :: "logs_state \<Rightarrow> ServiceType \<Rightarrow> logs_view" where
  "page_logs st source =
     LogsContent (lg_loading st) (lg_error st)
       (case lg_logsData st of
          None \<Rightarrow> None
        | Some l \<Rightarrow> if ld_service l = JStr (service_type_str source) then Some l else None)"

section \<open>Network\<close>

(* src: main/network/hotspotCard.tsx 18-18: failedSinceRequest *)
definition failedSinceRequest :: "network_state \<Rightarrow> connection_mode_state \<Rightarrow> bool" where
  "failedSinceRequest nw cm \<longleftrightarrow>
     (case nw_connectRequestedAt nw of
        None \<Rightarrow> False
      | Some t \<Rightarrow> cm_last_failed_at cm \<noteq> JNull \<and> js_ge (cm_last_failed_at cm) (of_int t))"

(* src: main/network/hotspotCard.tsx 19-19: connecting *)
definition connecting :: "network_state \<Rightarrow> connection_mode_state \<Rightarrow> bool" where
  "connecting nw cm \<longleftrightarrow> nw_connectRequestedAt nw \<noteq> None \<and> \<not> failedSinceRequest nw cm"

(* src: main/network/network.tsx 49-55: handleRefreshNetworks *)
definition handleRefreshNetworks :: "(jsval \<times> jsval) cat \<Rightarrow> bool \<Rightarrow> unit thunk" where
  "handleRefreshNetworks cat isConnected =
     (if \<not> isConnected then Return ()
      else
        Uuid (\<lambda>snackbarId.
        loadingP snackbarId ''Lade Netzwerke'' (
        bindP (fetchNetworkData cat) (\<lambda>_.
        unloadP snackbarId (Return ())))))"

(* src: main/network/dialogs/dialogs.tsx 29-29: AP_PASSWORD_MIN *)
definition AP_PASSWORD_MIN :: nat where
  "AP_PASSWORD_MIN = 8"

(* src: main/network/dialogs/dialogs.tsx 30-30: AP_PASSWORD_MAX *)
definition AP_PASSWORD_MAX :: nat where
  "AP_PASSWORD_MAX = 63"

(* src: main/network/dialogs/dialogs.tsx 32-32: AP_PASSWORD_PATTERN *)
definition AP_PASSWORD_PATTERN :: "nat list \<Rightarrow> bool" where
  "AP_PASSWORD_PATTERN units \<longleftrightarrow> list_all (\<lambda>u. 32 \<le> u \<and> u \<le> 126) units"

(* src: main/network/dialogs/dialogs.tsx 48-54: canSubmitApPassword *)
definition canSubmitApPassword :: "nat list \<Rightarrow> nat list \<Rightarrow> bool \<Rightarrow> bool \<Rightarrow> bool" where
  "canSubmitApPassword apPassword apPasswordConfirm loading isConnected \<longleftrightarrow>
     AP_PASSWORD_MIN \<le> length apPassword \<and> length apPassword \<le> AP_PASSWORD_MAX \<and>
     AP_PASSWORD_PATTERN apPassword \<and> apPassword = apPasswordConfirm \<and> \<not> loading \<and> isConnected"

section \<open>Updates\<close>

(* src: main/updates/updates.tsx 27-35: phaseLabel *)
definition phaseLabel :: "string \<Rightarrow> string" where
  "phaseLabel phase =
     (if phase = ''checking'' then ''Pr'' @ s_ue @ ''fe Update''
      else if phase = ''downloading'' then ''Lade Update herunter''
      else if phase = ''installing'' then ''Installiere Update''
      else if phase = ''awaiting-reboot'' then ''Neustart wird vorbereitet''
      else phase)"

(* src: main/updates/updates.tsx 44-45: updateActive *)
definition updateActive :: "updates_state \<Rightarrow> bool" where
  "updateActive st \<longleftrightarrow> \<not> nullish (up_update_status st) \<and>
     own_prop (up_update_status st) ''phase'' \<in>
       set (map JStr [''checking'', ''downloading'', ''installing'', ''awaiting-reboot''])"

(* src: main/updates/updates.tsx 46-48: awaitingConfirm *)
definition awaitingConfirm :: "updates_state \<Rightarrow> bool" where
  "awaitingConfirm st \<longleftrightarrow> \<not> nullish (up_update_status st) \<and>
     own_prop (up_update_status st) ''pending_slot'' \<noteq> JStr [] \<and>
     own_prop (up_update_status st) ''pending_slot'' = own_prop (up_update_status st) ''booted_slot''"

(* src: main/updates/updates.tsx 49-49: updateBusy *)
definition updateBusy :: "updates_state \<Rightarrow> bool" where
  "updateBusy st \<longleftrightarrow> updateActive st \<or> awaitingConfirm st"

(* src: main/updates/updates.tsx 55-60: handleFetchLatestRelease *)
definition handleFetchLatestRelease :: "jsval cat \<Rightarrow> unit thunk" where
  "handleFetchLatestRelease cat =
     Uuid (\<lambda>snackbarId.
     loadingP snackbarId ''Suche nach Updates'' (
     bindP (fetchLatestRelease cat) (\<lambda>_.
     unloadP snackbarId (Return ()))))"

(* src: main/updates/updates.tsx 65-65: the poll's interval *)
definition status_poll_ms :: "updates_state \<Rightarrow> int" where
  "status_poll_ms st = (if updateActive st then 3000 else 15000)"

(* src: main/updateHistory/updateHistory.tsx 18-22: RESULT_CHIP *)
definition RESULT_CHIP :: "(string \<times> string \<times> string) list" where
  "RESULT_CHIP =
    [(''committed'', ''Erfolgreich'', ''success''), (''rolled-back'', ''Zur'' @ s_ue @ ''ckgerollt'', ''error''),
     (''install-failed'', ''Installation fehlgeschlagen'', ''error'')]"

(* src: main/updateHistory/updateHistory.tsx 32-32: the chip of an entry *)
definition entry_chip :: "string \<Rightarrow> string \<times> string" where
  "entry_chip res = (case map_of RESULT_CHIP res of None \<Rightarrow> (res, ''warning'') | Some c \<Rightarrow> c)"

section \<open>System\<close>

text \<open>The button is disabled while it runs; that flag is the page's own and is left out.\<close>

(* src: main/general/general.tsx 79-91: sendDiagnostics *)
definition sendDiagnostics :: "unit thunk" where
  "sendDiagnostics =
     tryP
       (fetchWithTimeout (post_req getSendDiagnosticsUrl) 120000 (\<lambda>response.
        if rs_ok response then alertP (JStr ''Diagnose an den Support gesendet'') Success (Return ())
        else alertP (JStr ''Diagnose konnte nicht gesendet werden'') Error (Return ())))
       (\<lambda>_. alertP (JStr ''Diagnose konnte nicht gesendet werden'') Error (Return ()))"

(* src: main/general/dialogs/changePasswordDialog.tsx 11-11: MIN_PASSWORD_LENGTH *)
definition MIN_PASSWORD_LENGTH :: nat where
  "MIN_PASSWORD_LENGTH = 8"

(* src: main/general/dialogs/changePasswordDialog.tsx 12-12: MAX_PASSWORD_LENGTH *)
definition MAX_PASSWORD_LENGTH :: nat where
  "MAX_PASSWORD_LENGTH = 63"

(* src: main/general/dialogs/changePasswordDialog.tsx 28-32: canSubmit *)
definition canSubmit :: "nat list \<Rightarrow> nat list \<Rightarrow> nat list \<Rightarrow> bool \<Rightarrow> bool" where
  "canSubmit currentPassword newPassword confirmPassword isConnected \<longleftrightarrow>
     0 < length currentPassword \<and> MIN_PASSWORD_LENGTH \<le> length newPassword \<and>
     length newPassword \<le> MAX_PASSWORD_LENGTH \<and> newPassword = confirmPassword \<and> isConnected"

section \<open>Alerts\<close>

text \<open>How long an alert stays, \<open>None\<close> for as long as it is not dismissed.\<close>

(* src: common/components/snackbars/alertSnackbar.tsx 12-12: autoHideDuration *)
definition alert_duration :: "alert_item \<Rightarrow> int option" where
  "alert_duration snackbar =
     (case sb_autoHideDuration snackbar of
        Some d \<Rightarrow> Some d
      | None \<Rightarrow> if sb_severity snackbar = Error then None else Some 10000)"

section \<open>Power dialogs\<close>

(* src: common/components/powerDialogs.tsx 17-20: handleConfirmRestart *)
definition handleConfirmRestart :: "unit cat \<Rightarrow> nat \<Rightarrow> unit thunk" where
  "handleConfirmRestart cat fuel = Dispatch (DialogsA closeRestartDialog) (restartPi cat fuel)"

(* src: common/components/powerDialogs.tsx 22-25: handleConfirmShutdown *)
definition handleConfirmShutdown :: "unit cat \<Rightarrow> nat \<Rightarrow> unit thunk" where
  "handleConfirmShutdown cat fuel = Dispatch (DialogsA closeShutdownDialog) (shutdownPi cat fuel)"

(* src: common/components/factoryResetDialog.tsx 14-17: handleConfirm *)
definition handleConfirmReset :: "unit cat \<Rightarrow> nat \<Rightarrow> unit thunk" where
  "handleConfirmReset cat fuel = Dispatch (DialogsA closeGeneralFactoryResetDialog) (factoryResetPi cat fuel)"

section \<open>Sign-in\<close>

(* src: main/authentication/signIn/signIn.tsx 20-20: LoginMethod *)
datatype LoginMethod = OtpMethod | PasswordMethod

record sign_in =
  sg_method :: LoginMethod
  sg_autoSwitched :: bool

(* src: main/authentication/signIn/signIn.tsx 29-29: chosenMethod *)
definition sign_in_initial :: sign_in where
  "sign_in_initial = \<lparr>sg_method = OtpMethod, sg_autoSwitched = False\<rparr>"

(* src: main/authentication/signIn/signIn.tsx 31-31: onHotspot *)
definition onHotspot :: "connection_mode_state \<Rightarrow> bool" where
  "onHotspot cm \<longleftrightarrow> cm_loaded cm \<and> cm_mode cm = JStr ''ap''"

(* src: main/authentication/signIn/signIn.tsx 32-32: method *)
definition login_method :: "connection_mode_state \<Rightarrow> sign_in \<Rightarrow> LoginMethod" where
  "login_method cm st = (if onHotspot cm then PasswordMethod else sg_method st)"

(* src: main/authentication/signIn/signIn.tsx 48-53: the effect of the connection mode *)
definition offline_effect :: "bool \<Rightarrow> bool \<Rightarrow> sign_in \<Rightarrow> sign_in" where
  "offline_effect loaded internet st =
     (if \<not> sg_autoSwitched st \<and> loaded \<and> \<not> internet
      then st\<lparr>sg_autoSwitched := True, sg_method := PasswordMethod\<rparr> else st)"

(* src: main/authentication/signIn/signIn.tsx 72-75: handleToggleMethod *)
definition handleToggleMethod :: "sign_in \<Rightarrow> sign_in" where
  "handleToggleMethod st = st\<lparr>sg_method := (if sg_method st = OtpMethod then PasswordMethod else OtpMethod)\<rparr>"

(* src: main/authentication/signIn/signIn.tsx 66-70: the effect of isAuthenticated *)
definition sign_in_target :: "bool \<Rightarrow> connection_mode_state \<Rightarrow> string option" where
  "sign_in_target isAuthenticated cm =
     (if isAuthenticated then Some (if onHotspot cm then getHomeUrl @ getNetworkUrl else getHomeUrl) else None)"

(* src: main/authentication/signIn/signIn.tsx 59-59: the credentials of handleSubmit *)
definition sign_in_credentials :: "LoginMethod \<Rightarrow> string \<Rightarrow> LoginCredentials" where
  "sign_in_credentials m secret = (if m = OtpMethod then Otp secret else Password secret)"

text \<open>What happens on the sign-in page: the connection mode is seen (whether it is loaded, and
  whether there is internet), or the user switches the method.\<close>

datatype sign_in_event = ModeSeen bool bool | MethodToggled

fun sign_in_step :: "sign_in \<Rightarrow> sign_in_event \<Rightarrow> sign_in" where
  "sign_in_step st (ModeSeen loaded internet) = offline_effect loaded internet st"
| "sign_in_step st MethodToggled = handleToggleMethod st"

lemma not_yet_switched:
  "list_all (\<lambda>e. e \<noteq> ModeSeen True False) es \<Longrightarrow> \<not> sg_autoSwitched st \<Longrightarrow>
     \<not> sg_autoSwitched (foldl sign_in_step st es)"
proof (induction es arbitrary: st)
  case (Cons e es)
  then have "\<not> sg_autoSwitched (sign_in_step st e)"
    by (cases e) (auto simp: offline_effect_def handleToggleMethod_def)
  with Cons show ?case by simp
qed simp

lemma switched_once:
  "sg_autoSwitched st \<Longrightarrow>
     sg_method (foldl sign_in_step st es) =
       (if even (count_list es MethodToggled) then sg_method st
        else if sg_method st = OtpMethod then PasswordMethod else OtpMethod)"
proof (induction es arbitrary: st)
  case (Cons e es)
  have "sg_autoSwitched (sign_in_step st e)"
    using Cons.prems by (cases e) (auto simp: offline_effect_def handleToggleMethod_def)
  from Cons.IH [OF this] show ?case
    using Cons.prems
    by (cases e; cases "sg_method st") (auto simp: offline_effect_def handleToggleMethod_def)
qed simp

section \<open>Properties\<close>

text \<open>The sign-in page offers the password as soon as it first sees that there is no internet,
  even when the user has chosen the one-time code before; after that only the user changes the
  method, whatever the connection does.\<close>

lemma sign_in_switches_once:
  assumes "list_all (\<lambda>e. e \<noteq> ModeSeen True False) before"
  shows "sg_method (foldl sign_in_step sign_in_initial (before @ ModeSeen True False # after)) =
    (if even (count_list after MethodToggled) then PasswordMethod else OtpMethod)"
proof -
  define st where "st = foldl sign_in_step sign_in_initial before"
  have "\<not> sg_autoSwitched st"
    unfolding st_def by (rule not_yet_switched [OF assms]) (simp add: sign_in_initial_def)
  then have "offline_effect True False st = st\<lparr>sg_autoSwitched := True, sg_method := PasswordMethod\<rparr>"
    by (simp add: offline_effect_def)
  then show ?thesis by (simp add: switched_once flip: st_def)
qed

lemma sign_in_switches_once_witness:
  "sg_method (foldl sign_in_step sign_in_initial
     ([MethodToggled, MethodToggled] @ ModeSeen True False # [ModeSeen True True])) = PasswordMethod"
  using sign_in_switches_once [of "[MethodToggled, MethodToggled]" "[ModeSeen True True]"] by simp

text \<open>The start that the custom range of the log filter proposes is the time a day ago in UTC,
  taken for local time: what is asked of the board is that text, not the one that \<open>24h\<close> gives for the
  same moment, unless local time is UTC.\<close>

lemma custom_range_is_utc:
  assumes "parse_local (initial_customDate now) = Some t"
    and "t + tz t = (now - 24 * 60 * 60 * 1000) div 60000 * 60000"
  shows "getTimestamp tz parse_local now' ''custom'' (initial_customDate now) =
    getTimestamp (\<lambda>_. 0) parse_local (now div 60000 * 60000) ''24h'' []"
proof -
  let ?a = "now - 24 * 60 * 60 * 1000" and ?m = "now div 60000 * 60000"
  have "?a div 60000 = now div 60000 - 1440"
    using div_mult_self2 [of 60000 now "- 1440"] by simp
  then have "?a div 60000 * 60000 = ?m - 24 * 60 * 60 * 1000"
    by simp
  then have "t + tz t = ?m - 24 * 60 * 60 * 1000"
    using assms(2) by (rule trans [rotated])
  moreover have "int (parse_digits (filter (\<lambda>ch. ch \<noteq> CHR ''h'') ''24h'')) * 60 * 60 * 1000 = 24 * 60 * 60 * 1000"
    by code_simp
  ultimately have "local_fields tz (Some t) = local_fields (\<lambda>_. 0)
      (Some (?m - int (parse_digits (filter (\<lambda>ch. ch \<noteq> CHR ''h'') ''24h'')) * 60 * 60 * 1000))"
    by (simp only: local_fields_def option.case add_0_right)
  moreover have "''24h'' \<noteq> ''custom''" by simp
  ultimately show ?thesis
    by (simp only: getTimestamp_def assms(1) if_True if_False simp_thms Let_def)
qed

lemma custom_range_is_utc_witness:
  "getTimestamp (\<lambda>_. 7200000) (\<lambda>s. if s = ''2024-02-28T12:00'' then Some 1709114400000 else None) 1709208000000
     ''custom'' (initial_customDate 1709208000000) = ''2024-02-28 12:00:00''"
proof -
  let ?parse = "\<lambda>s :: string. if s = ''2024-02-28T12:00'' then Some (1709114400000 :: int) else None"
  have "initial_customDate 1709208000000 = ''2024-02-28T12:00''" by code_simp
  then have "?parse (initial_customDate 1709208000000) = Some 1709114400000" by simp
  moreover have "1709114400000 + (\<lambda>_. 7200000) (1709114400000 :: int) =
      (1709208000000 - 24 * 60 * 60 * 1000) div 60000 * (60000 :: int)" by simp
  ultimately have "getTimestamp (\<lambda>_. 7200000) ?parse 1709208000000 ''custom'' (initial_customDate 1709208000000) =
      getTimestamp (\<lambda>_. 0) ?parse (1709208000000 div 60000 * 60000) ''24h'' []"
    by (rule custom_range_is_utc)
  also have "\<dots> = ''2024-02-28 12:00:00''" by code_simp
  finally show ?thesis .
qed

end
