(* ===== verification/NetworkView.thy ===== *)
theory NetworkView
  imports Pages View
begin

text \<open>
  The network page (main/network): its cards, its four dialogs and the state they share. The page
  is a machine over messages: what a control does to the local state and the dialogs slice
  (\<open>network_update\<close>), which request a message starts (\<open>network_submit\<close>), and what happens when the
  request has settled (\<open>network_settled\<close>). The thunks themselves are in NetworkThunks; a dialog is
  modal, so while one is open its controls are all the user has.

  Passwords are strings of bytes. The rule for the hotspot's password admits ASCII only, so it does
  not matter that JavaScript counts UTF-16 units.
\<close>

section \<open>State and messages\<close>

text \<open>What may be in flight: one of the four requests, with the values it was started with.\<close>

datatype network_request =
    AddRequest network_credentials
  | ForgetRequest string
  | ConnectRequest
  | ApPasswordRequest string

(* src: main/network/dialogs/dialogs.tsx 36-45: the state of Dialogs *)
record network_page =
  np_dialogs :: dialogs_state
  np_network :: network_state
  np_mode :: connection_mode_state
  np_isConnected :: bool
  np_showApPassword :: bool
  np_newNetwork :: network_credentials
  np_submitting :: bool
  np_showPassword :: bool
  np_apPassword :: string
  np_apPasswordConfirm :: string
  np_pending :: "network_request option"

datatype network_msg =
    RefreshClicked | ApPasswordShown
  | Dialog dialogs_action
  | SsidTyped string | PasswordTyped string | PasswordShown
  | ApPasswordTyped string | ApConfirmTyped string
  | AddSubmitted | AddClosed
  | ForgetConfirmed | ForgetCancelled
  | ConnectConfirmed | ConnectCancelled
  | ApSubmitted | ApClosed

definition no_credentials :: network_credentials where
  "no_credentials = \<lparr>nc_ssid = [], nc_password = []\<rparr>"

abbreviation in_dialogs :: "dialogs_action \<Rightarrow> network_page \<Rightarrow> network_page" where
  "in_dialogs a p \<equiv> p\<lparr>np_dialogs := dialogsReducer (np_dialogs p) a\<rparr>"

section \<open>Handlers\<close>

(* src: main/network/dialogs/dialogs.tsx 80-84: handleCloseAddDialog *)
definition handleCloseAddDialog :: "network_page \<Rightarrow> network_page" where
  "handleCloseAddDialog p =
     (if np_submitting p then p
      else (in_dialogs closeNetworkAddNetworkDialog p)\<lparr>np_newNetwork := no_credentials\<rparr>)"

(* src: main/network/dialogs/dialogs.tsx 86-91: handleCloseApPasswordDialog *)
definition handleCloseApPasswordDialog :: "network_page \<Rightarrow> network_page" where
  "handleCloseApPasswordDialog p =
     (if np_submitting p then p
      else (in_dialogs closeNetworkChangeApPasswordDialog p)\<lparr>np_apPassword := [], np_apPasswordConfirm := []\<rparr>)"

text \<open>What a submitted form or a confirmed question starts; its first statement is \<open>setSubmitting(true)\<close>.\<close>

definition network_submit :: "network_msg \<Rightarrow> network_page \<Rightarrow> network_request option" where
  "network_submit m p =
     (case m of
        AddSubmitted \<Rightarrow> Some (AddRequest (np_newNetwork p))
      | ForgetConfirmed \<Rightarrow> Some (ForgetRequest (dg_forgetNetwork_ssid (np_dialogs p)))
      | ConnectConfirmed \<Rightarrow> Some ConnectRequest
      | ApSubmitted \<Rightarrow> Some (ApPasswordRequest (np_apPassword p))
      | _ \<Rightarrow> None)"

(* src: main/network/network.tsx 41-47: the handlers of the page *)
definition network_open :: "network_msg \<Rightarrow> network_page \<Rightarrow> network_page" where
  "network_open m p = (case m of Dialog a \<Rightarrow> in_dialogs a p | ApPasswordShown \<Rightarrow>
     p\<lparr>np_showApPassword := \<not> np_showApPassword p\<rparr> | _ \<Rightarrow> p)"

definition network_update :: "network_msg \<Rightarrow> network_page \<Rightarrow> network_page" where
  "network_update m p =
     (case m of
        SsidTyped s \<Rightarrow> p\<lparr>np_newNetwork := (np_newNetwork p)\<lparr>nc_ssid := s\<rparr>\<rparr>
      | PasswordTyped s \<Rightarrow> p\<lparr>np_newNetwork := (np_newNetwork p)\<lparr>nc_password := s\<rparr>\<rparr>
      | PasswordShown \<Rightarrow> p\<lparr>np_showPassword := \<not> np_showPassword p\<rparr>
      | ApPasswordTyped s \<Rightarrow> p\<lparr>np_apPassword := s\<rparr>
      | ApConfirmTyped s \<Rightarrow> p\<lparr>np_apPasswordConfirm := s\<rparr>
      | AddClosed \<Rightarrow> handleCloseAddDialog p
      | ApClosed \<Rightarrow> handleCloseApPasswordDialog p
      | ForgetCancelled \<Rightarrow> if np_submitting p then p else in_dialogs closeNetworkForgetNetworkDialog p
      | ConnectCancelled \<Rightarrow> if np_submitting p then p else in_dialogs closeNetworkConnectDialog p
      | _ \<Rightarrow>
          (case network_submit m p of
             Some r \<Rightarrow> p\<lparr>np_submitting := True, np_pending := Some r\<rparr>
           | None \<Rightarrow> network_open m p))"

text \<open>
  The rest of a handler, when its request has settled: \<open>unwrap()\<close> throws for a rejected one, so that
  the dialogs of the two forms only close after a success; the two questions close either way.
\<close>

(* src: main/network/dialogs/dialogs.tsx 56-67: handleSubmitNetwork *)
definition add_settled :: "bool \<Rightarrow> network_page \<Rightarrow> network_page" where
  "add_settled fulfilled p =
     (if fulfilled then (in_dialogs closeNetworkAddNetworkDialog p)\<lparr>np_newNetwork := no_credentials\<rparr> else p)
       \<lparr>np_submitting := False, np_pending := None\<rparr>"

(* src: main/network/dialogs/dialogs.tsx 69-78: handleForgetNetwork *)
definition forget_settled :: "network_page \<Rightarrow> network_page" where
  "forget_settled p = in_dialogs closeNetworkForgetNetworkDialog (p\<lparr>np_submitting := False, np_pending := None\<rparr>)"

(* src: main/network/dialogs/dialogs.tsx 93-105: handleSubmitApPassword *)
definition ap_settled :: "bool \<Rightarrow> network_page \<Rightarrow> network_page" where
  "ap_settled fulfilled p =
     (if fulfilled
      then (in_dialogs closeNetworkChangeApPasswordDialog p)\<lparr>np_apPassword := [], np_apPasswordConfirm := []\<rparr>
      else p)\<lparr>np_submitting := False, np_pending := None\<rparr>"

(* src: main/network/dialogs/dialogs.tsx 107-116: handleConnect *)
definition connect_settled :: "network_page \<Rightarrow> network_page" where
  "connect_settled p = in_dialogs closeNetworkConnectDialog (p\<lparr>np_submitting := False, np_pending := None\<rparr>)"

definition network_settled :: "bool \<Rightarrow> network_page \<Rightarrow> network_page" where
  "network_settled fulfilled p =
     (case np_pending p of
        None \<Rightarrow> p
      | Some (AddRequest _) \<Rightarrow> add_settled fulfilled p
      | Some (ForgetRequest _) \<Rightarrow> forget_settled p
      | Some ConnectRequest \<Rightarrow> connect_settled p
      | Some (ApPasswordRequest _) \<Rightarrow> ap_settled fulfilled p)"

section \<open>The dialogs\<close>

text \<open>A password field shows its text or hides it.\<close>

definition secret :: "bool \<Rightarrow> string \<Rightarrow> string" where
  "secret shown s = (if shown then s else replicate (length s) (CHR ''*''))"

(* src: main/network/dialogs/dialogs.tsx 118-133: passwordVisibilityAdornment *)
definition passwordVisibilityAdornment :: "network_page \<Rightarrow> network_msg node" where
  "passwordVisibilityAdornment p =
     Button (if np_showPassword p then ''Passwort verbergen'' else ''Passwort anzeigen'') False PasswordShown"

definition locked :: "network_page \<Rightarrow> bool" where
  "locked p \<longleftrightarrow> nw_loading (np_network p) \<or> \<not> np_isConnected p"

(* src: main/network/dialogs/dialogs.tsx 137-170: the dialog that adds a network *)
definition add_dialog :: "network_page \<Rightarrow> network_msg node list" where
  "add_dialog p =
     FormDialog (dg_addNetwork (np_dialogs p)) (''WLAN hinzuf'' @ s_ue @ ''gen'') (''Hinzuf'' @ s_ue @ ''gen'')
       AddSubmitted AddClosed (locked p) (np_submitting p)
       [Input ''Netzwerkname (SSID)'' (nc_ssid (np_newNetwork p)) False SsidTyped,
        Input ''Passwort'' (secret (np_showPassword p) (nc_password (np_newNetwork p))) False PasswordTyped,
        passwordVisibilityAdornment p]"

(* src: main/network/dialogs/dialogs.tsx 172-183: the dialog that forgets a network *)
definition forget_dialog :: "network_page \<Rightarrow> network_msg node list" where
  "forget_dialog p =
     ConfirmDialog (dg_forgetNetwork (np_dialogs p))
       (s_lquote @ dg_forgetNetwork_ssid (np_dialogs p) @ s_rquote @ '' entfernen?'')
       [Text (''Du kannst das WLAN jederzeit wieder hinzuf'' @ s_ue @ ''gen.'')]
       ''Entfernen'' ForgetConfirmed ForgetCancelled Abbrechen (np_submitting p) (locked p)"

text \<open>\<open>ap_ssid\<close> of the declared type, a string.\<close>

definition ap_name :: "network_page \<Rightarrow> string" where
  "ap_name p = js_string (cm_ap_ssid (np_mode p))"

(* src: main/network/dialogs/dialogs.tsx 185-203: the dialog that connects *)
definition connect_dialog :: "network_page \<Rightarrow> network_msg node list" where
  "connect_dialog p =
     ConfirmDialog (dg_connect (np_dialogs p)) ''Mit WLAN verbinden?''
       [Text (''Der Rahmen beendet den Hotspot und versucht etwa eine Minute lang, sich mit einem gespeicherten '' @
          ''WLAN zu verbinden. Dein Ger'' @ s_ae @ ''t verliert dabei die Verbindung zu dieser Seite.''),
        Text (''Klappt es, verbinde dein Ger'' @ s_ae @ ''t wieder mit deinem WLAN und '' @ s_oe @ ''ffne '' @
          boardAddress (ap_name p) @ ''. Klappt es nicht, erscheint der Hotspot wieder. Verbinde dich erneut damit '' @
          ''und pr'' @ s_ue @ ''fe die Zugangsdaten.'')]
       ''Verbinden'' ConnectConfirmed ConnectCancelled Abbrechen (np_submitting p) (locked p)"

abbreviation units :: "string \<Rightarrow> nat list" where
  "units s \<equiv> map of_char s"

(* src: main/network/dialogs/dialogs.tsx 48-49: apPasswordInvalidChars and apPasswordMismatch *)
definition ap_password_help :: "network_page \<Rightarrow> string \<times> string" where
  "ap_password_help p =
     (if \<not> AP_PASSWORD_PATTERN (units (np_apPassword p)) then ''Nur ASCII-Zeichen erlaubt (keine Umlaute)''
      else ''8 bis 63 Zeichen, nur ASCII'',
      if np_apPasswordConfirm p \<noteq> [] \<and> np_apPassword p \<noteq> np_apPasswordConfirm p
      then ''Passw'' @ s_oe @ ''rter stimmen nicht '' @ s_ue @ ''berein'' else '' '')"

(* src: main/network/dialogs/dialogs.tsx 205-250: the dialog of the hotspot's password *)
definition ap_dialog :: "network_page \<Rightarrow> network_msg node list" where
  "ap_dialog p =
     FormDialog (dg_changeApPassword (np_dialogs p)) (''Hotspot-Passwort '' @ s_ae @ ''ndern'')
       (''Passwort '' @ s_ae @ ''ndern'') ApSubmitted ApClosed
       (\<not> canSubmitApPassword (units (np_apPassword p)) (units (np_apPasswordConfirm p))
          (nw_loading (np_network p)) (np_isConnected p)) (np_submitting p)
       ([Text (''Passwort des WLAN-Hotspots, den der Bilderrahmen '' @ s_oe @
           ''ffnet, wenn er kein bekanntes WLAN findet.'')] @
        showIf (cm_mode (np_mode p) = JStr ''ap'')
          [Alert ''warning'' (''Du bist mit dem Hotspot verbunden. Nach der '' @ s_AE @
             ''nderung wird die Verbindung getrennt und du verbindest dich mit dem neuen Passwort neu.'')] @
        [Input ''Neues Hotspot-Passwort'' (secret (np_showPassword p) (np_apPassword p)) False ApPasswordTyped,
         passwordVisibilityAdornment p, Text (fst (ap_password_help p)),
         Input (''Neues Hotspot-Passwort best'' @ s_ae @ ''tigen'')
           (secret (np_showPassword p) (np_apPasswordConfirm p)) False ApConfirmTyped,
         Text (snd (ap_password_help p))])"

(* src: main/network/dialogs/dialogs.tsx 135-252: the dialogs *)
definition Dialogs :: "network_page \<Rightarrow> network_msg node list" where
  "Dialogs p = add_dialog p @ forget_dialog p @ connect_dialog p @ ap_dialog p"

section \<open>The page\<close>

text \<open>A text of the store is shown as React shows it: null and undefined as nothing.\<close>

definition shown :: "jsval \<Rightarrow> 'e node list" where
  "shown v = showIf (\<not> nullish v) [Text (js_string v)]"

(* src: main/network/hotspotCard.tsx 12-67: HotspotCard *)
definition HotspotCard :: "network_page \<Rightarrow> network_msg node" where
  "HotspotCard p =
     (let nw = np_network p; cm = np_mode p; busy = connecting nw cm
      in ShareframeInfoCard ''WLAN einrichten''
           [([], [Text (''Der Rahmen ist mit keinem WLAN verbunden und stellt gerade den Hotspot '' @ s_lquote @
               (if ap_name p = [] then ''shareframe-board'' else ap_name p) @ s_rquote @
               '' bereit. F'' @ s_ue @ ''ge dein WLAN hinzu und verbinde den Rahmen anschlie'' @ s_ss @ ''end.'')] @
              (if busy then
                 [Alert ''info'' (''Der Rahmen verbindet sich. Der Hotspot ist dabei aus, diese Seite verliert die '' @
                    ''Verbindung. Danach erreichst du ihn in deinem WLAN unter '' @ boardAddress (ap_name p) @
                    ''. Klappt es nicht, ist der Hotspot nach etwa einer Minute wieder da.'')]
               else
                 showIf (cm_last_failed_secs_ago cm \<noteq> JNull)
                   [Alert ''warning'' (''Vor '' @ (case js_to_number (cm_last_failed_secs_ago cm) of
                        None \<Rightarrow> ''NaN'' | Some x \<Rightarrow> formatDuration (x * 1000)) @
                      '' war keines der gespeicherten WLANs erreichbar. Pr'' @ s_ue @ ''fe Name und Passwort.'')]))]
           [Button ''Jetzt verbinden'' (nw_loading nw \<or> \<not> np_isConnected p \<or> busy \<or> nw_savedNetworks nw = JArr [])
              (Dialog openNetworkConnectDialog)])"

text \<open>The saved networks, an array in the declared type.\<close>

fun js_items :: "jsval \<Rightarrow> jsval list" where
  "js_items (JArr xs) = xs"
| "js_items _ = []"

(* src: main/network/network.tsx 89-129: the saved networks *)
definition saved_networks :: "network_page \<Rightarrow> network_msg node list" where
  "saved_networks p =
     (if nw_loading (np_network p) then [Text ''...'']
      else if js_items (nw_savedNetworks (np_network p)) = [] then
        [Text (''Noch keine WLANs gespeichert. Voreingestellte Netzwerke lassen sich hier nicht '' @ s_ae @ ''ndern.'')]
      else
        concat (map (\<lambda>network.
          [Text (js_string network),
           Button (s_lquote @ js_string network @ s_rquote @ '' entfernen'') (locked p)
             (Dialog (openNetworkForgetNetworkDialog (js_string network)))])
          (js_items (nw_savedNetworks (np_network p)))))"

(* src: main/network/network.tsx 67-156: the card of the networks *)
definition networks_card :: "network_page \<Rightarrow> network_msg node" where
  "networks_card p =
     ShareframeInfoCard ''WLAN''
       [(''Aktuelles Netzwerk'',
         if nw_loading (np_network p) then [Text ''...''] else shown (nw_currentConnection (np_network p))),
        (''Gespeicherte Netzwerke'', saved_networks p)]
       [Button ''Aktualisieren'' (locked p) RefreshClicked,
        Button (''WLAN hinzuf'' @ s_ue @ ''gen'') (locked p) (Dialog openNetworkAddNetworkDialog)]"

(* src: main/network/network.tsx 158-212: the card of the hotspot *)
definition hotspot_password_card :: "network_page \<Rightarrow> network_msg node" where
  "hotspot_password_card p =
     (let pw = js_string (cm_ap_password (np_mode p))
      in ShareframeInfoCard ''Hotspot''
           [(''WLAN-Hotspot (Fallback)'',
             [Text (''Findet der Bilderrahmen kein bekanntes WLAN, '' @ s_oe @ ''ffnet er diesen Hotspot zur Einrichtung.''),
              Text (''Name: '' @ (if ap_name p = [] then s_emdash else ap_name p)),
              Text (''Passwort: '' @ (if pw = [] then s_emdash else if np_showApPassword p then pw
                else replicate 8 (CHR ''*'')))] @
             showIf (pw \<noteq> []) [Button ''Hotspot-Passwort anzeigen'' False ApPasswordShown])]
           [Button (''Hotspot-Passwort '' @ s_ae @ ''ndern'') (locked p) (Dialog openNetworkChangeApPasswordDialog)])"

(* src: main/network/network.tsx 61-213: the cards of the page *)
definition Network :: "network_page \<Rightarrow> network_msg node list" where
  "Network p =
     showIf (cm_mode (np_mode p) = JStr ''ap'') [HotspotCard p] @ [networks_card p, hotspot_password_card p]"

definition dialog_open :: "network_page \<Rightarrow> bool" where
  "dialog_open p \<longleftrightarrow> dg_addNetwork (np_dialogs p) \<or> dg_forgetNetwork (np_dialogs p) \<or>
     dg_connect (np_dialogs p) \<or> dg_changeApPassword (np_dialogs p)"

text \<open>The page while it is shown: the user acts, a request settles, the store changes.\<close>

inductive network_reaches :: "network_page \<Rightarrow> network_page \<Rightarrow> bool" for p0 where
  opened: "network_reaches p0 p0"
| user: "network_reaches p0 p \<Longrightarrow> m \<in> emits (if dialog_open p then Dialogs p else Network p) \<Longrightarrow>
    network_reaches p0 (network_update m p)"
| settled: "network_reaches p0 p \<Longrightarrow> network_reaches p0 (network_settled fulfilled p)"
| store: "network_reaches p0 p \<Longrightarrow> network_reaches p0 (p\<lparr>np_network := nw, np_mode := cm, np_isConnected := b\<rparr>)"

section \<open>Facts\<close>

lemmas dialog_components = FormDialog_def ConfirmDialog_def DialogHeader_def passwordVisibilityAdornment_def

lemma add_dialog_emits:
  "m \<in> emits (add_dialog p) \<Longrightarrow> dg_addNetwork (np_dialogs p) \<and>
     (m = AddSubmitted \<and> \<not> np_submitting p \<or> m = AddClosed \<or> m = PasswordShown \<or>
      m \<in> range SsidTyped \<or> m \<in> range PasswordTyped)"
  by (auto simp: add_dialog_def dialog_components split: if_splits)

lemma forget_dialog_emits:
  "m \<in> emits (forget_dialog p) \<Longrightarrow> dg_forgetNetwork (np_dialogs p) \<and> \<not> np_submitting p \<and>
     (m = ForgetConfirmed \<or> m = ForgetCancelled)"
  by (auto simp: forget_dialog_def dialog_components split: if_splits)

lemma connect_dialog_emits:
  "m \<in> emits (connect_dialog p) \<Longrightarrow> dg_connect (np_dialogs p) \<and> \<not> np_submitting p \<and>
     (m = ConnectConfirmed \<or> m = ConnectCancelled)"
  by (auto simp: connect_dialog_def dialog_components split: if_splits)

lemma ap_dialog_emits:
  "m \<in> emits (ap_dialog p) \<Longrightarrow> dg_changeApPassword (np_dialogs p) \<and>
     (m = ApSubmitted \<and> \<not> np_submitting p \<and>
        canSubmitApPassword (units (np_apPassword p)) (units (np_apPasswordConfirm p)) (nw_loading (np_network p))
          (np_isConnected p)
      \<or> m = ApClosed \<or> m = PasswordShown \<or> m \<in> range ApPasswordTyped \<or> m \<in> range ApConfirmTyped)"
  by (auto simp: ap_dialog_def dialog_components split: if_splits)

lemma saved_networks_emits:
  "m \<in> emits (saved_networks p) \<Longrightarrow> \<exists>ssid. m = Dialog (openNetworkForgetNetworkDialog ssid)"
  by (auto simp: saved_networks_def view_simps split: if_splits)

lemma shown_emits [simp]: "emits (shown v) = {}"
  by (simp add: shown_def)

lemma page_emits:
  "m \<in> node_emits (HotspotCard p) \<Longrightarrow> m = Dialog openNetworkConnectDialog"
  "m \<in> node_emits (networks_card p) \<Longrightarrow> m = RefreshClicked \<or> m = Dialog openNetworkAddNetworkDialog \<or>
     (\<exists>ssid. m = Dialog (openNetworkForgetNetworkDialog ssid))"
  "m \<in> node_emits (hotspot_password_card p) \<Longrightarrow> m = ApPasswordShown \<or> m = Dialog openNetworkChangeApPasswordDialog"
  using saved_networks_emits
  by (auto simp: HotspotCard_def networks_card_def hotspot_password_card_def card_emits Let_def split: if_splits)

lemma Network_emits:
  "m \<in> emits (Network p) \<Longrightarrow>
     m = RefreshClicked \<or> m = ApPasswordShown \<or> m = Dialog openNetworkConnectDialog \<or>
     m = Dialog openNetworkAddNetworkDialog \<or> m = Dialog openNetworkChangeApPasswordDialog \<or>
     (\<exists>ssid. m = Dialog (openNetworkForgetNetworkDialog ssid))"
  unfolding Network_def by (auto split: if_splits dest: page_emits)

text \<open>What links the dialogs to what is in flight.\<close>

fun open_for :: "dialogs_state \<Rightarrow> network_request \<Rightarrow> bool" where
  "open_for d (AddRequest c) = dg_addNetwork d"
| "open_for d (ForgetRequest ssid) = (dg_forgetNetwork d \<and> dg_forgetNetwork_ssid d = ssid)"
| "open_for d ConnectRequest = dg_connect d"
| "open_for d (ApPasswordRequest pw) = dg_changeApPassword d"

fun legal_request :: "network_request \<Rightarrow> bool" where
  "legal_request (ApPasswordRequest pw) =
     (8 \<le> length pw \<and> length pw \<le> 63 \<and> list_all (\<lambda>u. 32 \<le> u \<and> u \<le> 126) (units pw))"
| "legal_request _ = True"

definition network_inv :: "network_page \<Rightarrow> bool" where
  "network_inv p \<longleftrightarrow>
     (case np_pending p of
        None \<Rightarrow> \<not> np_submitting p
      | Some r \<Rightarrow> np_submitting p \<and> open_for (np_dialogs p) r \<and> legal_request r)"

lemma network_inv_idle: "np_pending p = None \<Longrightarrow> \<not> np_submitting p \<Longrightarrow> network_inv p"
  by (simp add: network_inv_def)

lemma network_inv_same:
  "network_inv p \<Longrightarrow> np_pending q = np_pending p \<Longrightarrow> np_submitting q = np_submitting p \<Longrightarrow>
     np_dialogs q = np_dialogs p \<Longrightarrow> network_inv q"
  by (simp add: network_inv_def split: option.splits)

lemma network_inv_not_submitting: "network_inv p \<Longrightarrow> \<not> np_submitting p \<Longrightarrow> np_pending p = None"
  by (simp add: network_inv_def split: option.splits)

lemma network_inv_settled: "network_inv p \<Longrightarrow> network_inv (network_settled fulfilled p)"
  by (cases "np_pending p"; cases "the (np_pending p)"; cases fulfilled)
    (simp_all add: network_settled_def add_settled_def forget_settled_def connect_settled_def ap_settled_def
      network_inv_idle)

lemma network_inv_page:
  assumes "network_inv p" and "\<not> dialog_open p" and "m \<in> emits (Network p)"
  shows "network_inv (network_update m p)"
proof -
  have none: "np_pending p = None"
  proof (rule ccontr)
    assume "np_pending p \<noteq> None"
    then obtain r where "np_pending p = Some r" by auto
    with assms(1,2) show False by (cases r) (simp_all add: network_inv_def dialog_open_def)
  qed
  with assms(1) have "\<not> np_submitting p" by (simp add: network_inv_def)
  with none show ?thesis
    using Network_emits [OF assms(3)]
    by (elim disjE exE; intro network_inv_idle)
      (simp_all add: network_update_def network_submit_def network_open_def)
qed

lemma network_inv_submit:
  assumes "network_inv p" and "\<not> np_submitting p" and "network_submit m p = Some r"
    and "open_for (np_dialogs p) r" and "legal_request r"
  shows "network_inv (network_update m p)"
  using assms by (cases m) (simp_all add: network_update_def network_submit_def network_inv_def)

lemma network_inv_close:
  assumes "network_inv p" and "m \<in> {AddClosed, ApClosed, ForgetCancelled, ConnectCancelled}"
  shows "network_inv (network_update m p)"
proof (cases "np_submitting p")
  case True
  with assms show ?thesis
    by (auto simp: network_update_def handleCloseAddDialog_def handleCloseApPasswordDialog_def)
next
  case False
  with assms network_inv_not_submitting [OF assms(1) False] show ?thesis
    by (auto simp: network_update_def handleCloseAddDialog_def handleCloseApPasswordDialog_def intro!: network_inv_idle)
qed

lemma network_inv_typed:
  assumes "network_inv p"
    and "m \<in> range SsidTyped \<union> range PasswordTyped \<union> range ApPasswordTyped \<union> range ApConfirmTyped \<union> {PasswordShown}"
  shows "network_inv (network_update m p)"
  using assms by (auto simp: network_update_def intro: network_inv_same)

lemma canSubmit_legal:
  assumes "canSubmitApPassword (units pw) us l c"
  shows "legal_request (ApPasswordRequest pw)"
proof -
  from assms have "8 \<le> length (units pw) \<and> length (units pw) \<le> 63 \<and> list_all (\<lambda>u. 32 \<le> u \<and> u \<le> 126) (units pw)"
    unfolding canSubmitApPassword_def AP_PASSWORD_MIN_def AP_PASSWORD_MAX_def AP_PASSWORD_PATTERN_def by blast
  then show ?thesis by (simp del: list.pred_map)
qed

lemma network_inv_dialogs:
  assumes "network_inv p" and "m \<in> emits (Dialogs p)"
  shows "network_inv (network_update m p)"
proof -
  from assms(2) consider "m \<in> emits (add_dialog p)" | "m \<in> emits (forget_dialog p)"
    | "m \<in> emits (connect_dialog p)" | "m \<in> emits (ap_dialog p)"
    by (auto simp: Dialogs_def)
  then show ?thesis
  proof cases
    case 1
    from add_dialog_emits [OF this] show ?thesis
      using network_inv_close [OF assms(1)] network_inv_typed [OF assms(1)] network_inv_submit [OF assms(1)]
      by (auto simp: network_submit_def)
  next
    case 2
    from forget_dialog_emits [OF this] show ?thesis
      using network_inv_close [OF assms(1)] network_inv_submit [OF assms(1)] by (auto simp: network_submit_def)
  next
    case 3
    from connect_dialog_emits [OF this] show ?thesis
      using network_inv_close [OF assms(1)] network_inv_submit [OF assms(1)] by (auto simp: network_submit_def)
  next
    case 4
    from ap_dialog_emits [OF this] show ?thesis
      using network_inv_close [OF assms(1)] network_inv_typed [OF assms(1)] network_inv_submit [OF assms(1)]
        canSubmit_legal
      by (auto simp: network_submit_def)
  qed
qed

lemma network_inv_reaches: "network_reaches p0 p \<Longrightarrow> network_inv p0 \<Longrightarrow> network_inv p"
proof (induction rule: network_reaches.induct)
  case (user p m)
  then show ?case using network_inv_page network_inv_dialogs by (cases "dialog_open p") auto
next
  case (settled p fulfilled)
  then show ?case by (simp add: network_inv_settled)
next
  case (store p nw cm b)
  then have "network_inv p" by simp
  then show ?case by (rule network_inv_same) simp_all
qed simp

section \<open>The two forms\<close>

text \<open>The settled requests of the forms, and the network or the passwords as their input.\<close>

interpretation add_form: form_dialog
  "\<lambda>p. dg_addNetwork (np_dialogs p)" np_submitting np_newNetwork no_credentials
  "network_update AddSubmitted" handleCloseAddDialog add_settled
  by unfold_locales
    (auto simp: network_update_def network_submit_def handleCloseAddDialog_def add_settled_def reducer_simps)

interpretation ap_form: form_dialog
  "\<lambda>p. dg_changeApPassword (np_dialogs p)" np_submitting "\<lambda>p. (np_apPassword p, np_apPasswordConfirm p)" "([], [])"
  "network_update ApSubmitted" handleCloseApPasswordDialog ap_settled
  by unfold_locales
    (auto simp: network_update_def network_submit_def handleCloseApPasswordDialog_def ap_settled_def reducer_simps)

section \<open>Property\<close>


definition network_page0 :: network_page where
  "network_page0 =
    \<lparr>np_dialogs = dialogs_initial\<lparr>dg_addNetwork := True\<rparr>, np_network = network_initial, np_mode = connectionMode_initial,
     np_isConnected = True, np_showApPassword = False, np_newNetwork = \<lparr>nc_ssid = ''home'', nc_password = ''12345678''\<rparr>,
     np_submitting = False, np_showPassword = False, np_apPassword = [], np_apPasswordConfirm = [], np_pending = None\<rparr>"


end
