(* ===== verification/SystemView.thy ===== *)
theory SystemView
  imports NetworkView
begin

text \<open>
  The pages of the updates and of their history as they are rendered (main/updates,
  main/updateHistory). A handler is the thunk it starts, or a message where the component has state
  of its own.

  The browser's formatting of numbers and dates is an argument: \<open>de\<close> is \<open>toLocaleString('de-DE')\<close>, and
  \<open>date_text\<close> what \<open>new Date(x).toLocaleString('de-DE')\<close> is, unless the date is invalid.
\<close>

section \<open>Fields of the board's data\<close>

text \<open>The fields of the declared types: \<open>info?.k\<close> as a text or a number, if it is one.\<close>

definition text_field :: "jsval \<Rightarrow> string \<Rightarrow> string option" where
  "text_field v k = (case js_opt_get v k of JStr s \<Rightarrow> Some s | _ \<Rightarrow> None)"

definition num_field :: "jsval \<Rightarrow> string \<Rightarrow> rat option" where
  "num_field v k = (case js_opt_get v k of JNum x \<Rightarrow> Some x | _ \<Rightarrow> None)"

definition int_field :: "jsval \<Rightarrow> string \<Rightarrow> int option" where
  "int_field v k = map_option floor (num_field v k)"

section \<open>Updates\<close>

abbreviation dialogP :: "dialogs_action \<Rightarrow> unit thunk" where
  "dialogP a \<equiv> Dispatch (DialogsA a) (Return ())"

(* src: main/updates/updates.tsx 84-115: the card of a running update *)
definition update_progress_card :: "updates_state \<Rightarrow> 'e node list" where
  "update_progress_card st =
     (let status = up_update_status st;
          version = (case text_field status ''target_version'' of None \<Rightarrow> [] | Some v \<Rightarrow> v)
      in showIf (updateActive st)
           [ShareframeInfoCard []
             [([], [Text (phaseLabel (js_string (own_prop status ''phase'')) @
                 (if version = [] then [] else '' ('' @ version @ '')'')),
                    Text (case num_field status ''progress'' of
                       Some x \<Rightarrow> if own_prop status ''phase'' = JStr ''downloading'' \<and> 0 \<le> x
                         then ''Update-Fortschritt '' @ rat_str x else ''Update-Fortschritt''
                     | None \<Rightarrow> ''Update-Fortschritt'')])] []])"

(* src: main/updates/updates.tsx 117-142: the card of an update that waits to be confirmed *)
definition awaiting_confirm_card :: "updates_state \<Rightarrow> 'e node list" where
  "awaiting_confirm_card st =
     showIf (\<not> updateActive st \<and> awaitingConfirm st)
       [ShareframeInfoCard []
         [([], [Text (''Update wird best'' @ s_ae @ ''tigt'')]),
          ([], [Text (''Die neue Version l'' @ s_ae @ ''uft und wird nach der Pr'' @ s_ue @
             ''fung automatisch '' @ s_ue @ ''bernommen.'')])] []]"

(* src: main/updates/updates.tsx 144-169: the card of a failed update *)
definition update_failed_card :: "updates_state \<Rightarrow> 'e node list" where
  "update_failed_card st =
     showIf (\<not> updateActive st \<and> js_opt_get (up_update_status st) ''phase'' = JStr ''failed'')
       [ShareframeInfoCard []
         [([], [Text ''Update fehlgeschlagen'']), ([], shown (own_prop (up_update_status st) ''error''))] []]"

(* src: main/updates/updates.tsx 171-196: the card of an update that was rolled back *)
definition rolled_back_card :: "updates_state \<Rightarrow> 'e node list" where
  "rolled_back_card st =
     (let last_result = js_opt_get (up_update_status st) ''last_result''
      in showIf (\<not> updateActive st \<and> js_opt_get last_result ''result'' = JStr ''rolled-back'')
           [ShareframeInfoCard []
             [([], [Text (''Letztes Update zur'' @ s_ue @ ''ckgerollt'')]),
              ([], [Text (''Version '' @ js_string (own_prop last_result ''to_version'') @
                 '' konnte nicht gestartet werden '' @ s_emdash @ '' die vorherige Version '' @
                 js_string (own_prop last_result ''from_version'') @
                 '' wurde automatisch wiederhergestellt. Details im Update-Verlauf (Verwaltung).'')])] []])"

(* src: main/updates/updates.tsx 43-43: isNewVersion *)
definition is_newer :: "updates_state \<Rightarrow> bool" where
  "is_newer st \<longleftrightarrow> truthy (js_coalesce (js_opt_get (up_latest_release st) ''is_newer'') (JBool False))"

(* src: main/updates/updates.tsx 198-307: the card of the latest release *)
definition release_card :: "jsval cat \<Rightarrow> updates_state \<Rightarrow> bool \<Rightarrow> unit thunk node" where
  "release_card cat st isConnected =
     (let release = up_latest_release st;
          notes = (case text_field release ''release_notes'' of None \<Rightarrow> [] | Some s \<Rightarrow> s)
      in if up_loading st then ShareframeInfoCard [] [([], [Text ''Suche nach Updates''])] []
         else if is_newer st then
           ShareframeInfoCard []
             ([([], [Text (''Neue Version verf'' @ s_ue @ ''gbar'')]),
               (''Neue Version'', shown (js_opt_get release ''version''))] @
              (if trim notes = [] then [] else [(''Umfang'', ReleaseNotes notes)]))
             [Button ''Jetzt installieren'' (up_loading st \<or> \<not> isConnected \<or> updateBusy st)
                (dialogP openUpdatesConfirmUpdateDialog)]
         else
           ShareframeInfoCard []
             [([], [Text (''Keine Updates verf'' @ s_ue @ ''gbar'')]),
              ([], [Text ''Der Bilderrahmen ist auf dem neuesten Stand.''])]
             [Button (''Auf Updates pr'' @ s_ue @ ''fen'') (up_loading st \<or> \<not> isConnected) (handleFetchLatestRelease cat)])"

(* src: main/updates/updates.tsx 70-83: the overview of Updates *)
definition Updates :: "jsval cat \<Rightarrow> jsval \<Rightarrow> updates_state \<Rightarrow> bool \<Rightarrow> unit thunk node list" where
  "Updates cat frameInfo st isConnected =
     [ShareframeInfoCard (s_UE @ ''bersicht'') [(''Aktuelle Version'', shown (js_opt_get frameInfo ''version''))] []] @
     update_progress_card st @ awaiting_confirm_card st @ update_failed_card st @ rolled_back_card st @
     [release_card cat st isConnected]"

(* src: main/updates/dialogs/dialogs.tsx 13-16: handleConfirmUpdate *)
definition handleConfirmUpdate :: "unit cat \<Rightarrow> unit thunk" where
  "handleConfirmUpdate cat = Dispatch (DialogsA closeUpdatesConfirmUpdateDialog) (performUpdate cat)"

(* src: main/updates/dialogs/dialogs.tsx 18-28: the dialog that confirms an update *)
definition update_dialog :: "unit cat \<Rightarrow> dialogs_state \<Rightarrow> unit thunk node list" where
  "update_dialog cat dialogs =
     ConfirmDialog (dg_confirmUpdate dialogs) ''Neue Version installieren?''
       [Text (''Du wirst abgemeldet, die Diashow und die Einstellungen sind kurz nicht erreichbar. Danach startet der '' @
          ''Bilderrahmen neu und du l'' @ s_ae @ ''dst diese Seite neu. Schl'' @ s_ae @
          ''gt das Update fehl, stellt er die vorherige Version wieder her.'')]
       ''Installieren'' (handleConfirmUpdate cat) (dialogP closeUpdatesConfirmUpdateDialog) Abbrechen False False"

(* src: main/updateHistory/updateHistory.tsx 24-27: fmtTimestamp *)
definition fmtTimestamp :: "(string \<Rightarrow> string option) \<Rightarrow> string \<Rightarrow> string" where
  "fmtTimestamp date_text ts =
     (case date_text ts of None \<Rightarrow> if ts = [] then s_emdash else ts | Some s \<Rightarrow> s)"

definition str_prop :: "jsval \<Rightarrow> string \<Rightarrow> string" where
  "str_prop v k = (case text_field v k of None \<Rightarrow> [] | Some s \<Rightarrow> s)"

(* src: main/updateHistory/updateHistory.tsx 31-66: EntryAccordion *)
definition EntryAccordion :: "(string \<Rightarrow> string option) \<Rightarrow> jsval \<Rightarrow> 'e node" where
  "EntryAccordion date_text entry =
     (let (label, color) = entry_chip (str_prop entry ''result'');
          error = own_prop entry ''error''
      in Group ''accordion''
           ([Chip label color,
             Text (orDash (text_field entry ''from_version'') @ '' '' @ [CHR 0xE2, CHR 0x86, CHR 0x92] @ '' '' @
               orDash (text_field entry ''to_version'')),
             Text (fmtTimestamp date_text (str_prop entry ''timestamp''))] @
            showIf (truthy error) [Text (js_string error)]))"

(* src: main/updateHistory/updateHistory.tsx 76-98: UpdateHistory *)
definition UpdateHistory :: "(string \<Rightarrow> string option) \<Rightarrow> jsval cat \<Rightarrow> updates_state \<Rightarrow> unit thunk node" where
  "UpdateHistory date_text cat st =
     (let history = js_items (up_history st)
      in ShareframeInfoCard ''Update-Verlauf''
           (if up_historyFailed st \<and> history = [] then
              [([], [Text ''Update-Verlauf konnte nicht geladen werden'',
                     Button ''Erneut versuchen'' False (fetchUpdateHistory cat)])]
            else if history = [] then [([], [Text ''Noch keine Updates installiert.''])]
            else [([], map (EntryAccordion date_text) history)]) [])"

end
