(* ===== verification/GeneralView.thy ===== *)
theory GeneralView
  imports SystemView AuthThunks
begin

text \<open>
  The pages of the device: general (main/general) with its form for a new password, display health
  (main/displayHealth), customization (main/customization). The board's data are read as their
  declared types say: a text or a number, or missing. \<open>date_text\<close> is
  \<open>new Date(x).toLocaleString('de-DE')\<close>, \<open>None\<close> for an invalid date, and \<open>de\<close> the same for a number.
\<close>

section \<open>Polling while a page is open\<close>

text \<open>An effect that dispatches at once and sets an interval, which its cleanup clears: when it
  dispatches, between mount and unmount.\<close>

definition poll_starts :: "int \<Rightarrow> int \<Rightarrow> int \<Rightarrow> int list" where
  "poll_starts period mounted unmounted =
     map (\<lambda>i. mounted + int i * period) [0..<Suc (nat ((unmounted - mounted - 1) div period))]"

lemma poll_starts_open:
  assumes "0 < period" "mounted < unmounted"
  shows "t \<in> set (poll_starts period mounted unmounted) \<Longrightarrow> mounted \<le> t \<and> t < unmounted"
proof -
  assume "t \<in> set (poll_starts period mounted unmounted)"
  then obtain i where i: "t = mounted + int i * period" "i \<le> nat ((unmounted - mounted - 1) div period)"
    by (force simp: poll_starts_def less_Suc_eq_le simp del: upt_Suc)
  have "0 \<le> (unmounted - mounted - 1) div period"
    using assms by (simp add: pos_imp_zdiv_nonneg_iff)
  then have "int i \<le> (unmounted - mounted - 1) div period" using i(2) by simp
  then have "int i * period \<le> (unmounted - mounted - 1) div period * period"
    using assms(1) by simp
  also have "\<dots> \<le> unmounted - mounted - 1"
    using assms(1) div_mult_mod_eq [of "unmounted - mounted - 1" period] pos_mod_sign [of period "unmounted - mounted - 1"]
    by linarith
  finally show ?thesis using i(1) assms(1) by simp
qed

section \<open>General\<close>

(* src: main/general/general.tsx 17-17: RESOLUTION *)
definition RESOLUTION :: string where
  "RESOLUTION = ''800mm x 480mm''"

(* src: main/general/general.tsx 18-18: SYSTEM_INFO_POLL_MS *)
definition SYSTEM_INFO_POLL_MS :: int where
  "SYSTEM_INFO_POLL_MS = 5000"

(* src: main/general/general.tsx 55-59: fmtTime *)
definition fmtTime :: "(string \<Rightarrow> string option) \<Rightarrow> string option \<Rightarrow> string" where
  "fmtTime date_text stamp =
     (case stamp of
        None \<Rightarrow> s_emdash
      | Some t \<Rightarrow> if t = [] then s_emdash else (case date_text t of None \<Rightarrow> t | Some s \<Rightarrow> s))"

(* src: main/general/general.tsx 65-65: fmtSha *)
definition fmtSha :: "jsval \<Rightarrow> string" where
  "fmtSha sha = (if truthy sha then js_string sha else s_emdash)"

(* src: main/general/general.tsx 93-98: the poll of the system's data *)
definition general_polls :: "jsval cat \<Rightarrow> int \<Rightarrow> int \<Rightarrow> (int \<times> unit thunk) list" where
  "general_polls cat mounted unmounted =
     map (\<lambda>t. (t, fetchFrameInfos cat)) (poll_starts SYSTEM_INFO_POLL_MS mounted unmounted)"

text \<open>What the page's controls do: \<open>sendDiagnostics\<close> runs with its button disabled, the other two
  open a dialog.\<close>

datatype general_msg = DiagnosticsClicked | GeneralDialog dialogs_action

fun general_thunk :: "general_msg \<Rightarrow> unit thunk" where
  "general_thunk DiagnosticsClicked = sendDiagnostics"
| "general_thunk (GeneralDialog a) = dialogP a"

text \<open>A section of one text.\<close>

abbreviation line :: "string \<Rightarrow> string \<Rightarrow> string \<times> 'e node list" where
  "line label content \<equiv> (label, showIf (content \<noteq> []) [Text content])"

(* src: main/general/general.tsx 105-120: the card of the device *)
definition device_card :: "(string \<Rightarrow> string option) \<Rightarrow> jsval \<Rightarrow> 'e node" where
  "device_card date_text info =
     ShareframeInfoCard (''Ger'' @ s_ae @ ''t'')
       [line ''Seriennummer'' (orDash (text_field info ''serial_number'')),
        line ''Modell'' (orDash (text_field info ''host_model'')),
        line ''Hostname'' (orDash (text_field info ''hostname'')),
        line ''Version'' (orDash (text_field info ''version'')),
        line ''System'' (fmtSha (js_opt_get info ''os_sha'')),
        line ''Anwendung'' (fmtSha (js_opt_get info ''app_sha'')),
        line ''Boot-Slot'' (fmtSlot (text_field info ''boot_slot'') (truthy (js_opt_get info ''slot_trial''))),
        line ''Kernel'' (orDash (text_field info ''kernel'')),
        line ''Systemzeit'' (fmtTime date_text (text_field info ''time_iso'')),
        line ''Laufzeit'' (fmtUptime (int_field info ''uptime_seconds'')),
        line (''Boot-Z'' @ s_ae @ ''hler'')
          (if js_opt_get info ''boot_count'' \<noteq> JUndefined then js_string (js_opt_get info ''boot_count'') else s_emdash)]
       []"

(* src: main/general/general.tsx 122-131: the card of the network *)
definition wifi_card :: "jsval \<Rightarrow> 'e node" where
  "wifi_card info =
     ShareframeInfoCard ''Netzwerk''
       [line ''Modus'' (fmtWifiMode (text_field info ''wifi_mode'')),
        line ''WLAN'' (orDash (text_field info ''wlan_ssid'')),
        line ''Signal'' (fmtSignal (num_field info ''wlan_signal_dbm'')),
        line ''IP (WLAN)'' (orDash (text_field info ''ip_wlan0'')),
        line ''IP (USB)'' (orDash (text_field info ''ip_usb0''))] []"

(* src: main/general/general.tsx 133-144: the card of the system *)
definition system_card :: "jsval \<Rightarrow> 'e node" where
  "system_card info =
     ShareframeInfoCard ''System''
       [line ''Systemzustand'' (fmtHealth (text_field info ''health_state'')),
        line ''CPU-Auslastung'' (fmtPct (num_field info ''cpu_usage_percent'')),
        line ''CPU-Takt'' (fmtFreq (num_field info ''cpu_freq_mhz'')),
        line ''CPU-Temperatur'' (fmtTemp (num_field info ''cpu_temp_celsius'')),
        line ''Load (1/5/15 min)''
          (fmtLoad (num_field info ''load_1'') (num_field info ''load_5'') (num_field info ''load_15'')),
        line ''Arbeitsspeicher''
          (fmtUsage (num_field info ''ram_available_bytes'') (num_field info ''ram_total_bytes'')),
        line ''Speicher (/data)''
          (fmtUsage (num_field info ''storage_data_free_bytes'') (num_field info ''storage_data_total_bytes''))] []"

(* src: main/general/general.tsx 146-151: the card of the hardware *)
definition hardware_card :: "'e node" where
  "hardware_card =
     ShareframeInfoCard ''Hardwarespezifikation'' [line (''Display-Gr'' @ s_oe @ s_ss @ ''e'') RESOLUTION] []"

(* src: main/general/general.tsx 153-172: the card of the security *)
definition security_card :: "general_msg node" where
  "security_card =
     ShareframeInfoCard ''Sicherheit''
       [line (''Ger'' @ s_ae @ ''te-Passwort'') ''Damit meldest du dich auch ohne Internet in den Einstellungen an.'']
       [Button (''Passwort '' @ s_ae @ ''ndern'') False (GeneralDialog openGeneralChangePasswordDialog)]"

(* src: main/general/general.tsx 174-194: the card of the support *)
definition support_card :: "bool \<Rightarrow> general_msg node" where
  "support_card sendingDiagnostics =
     ShareframeInfoCard ''Support''
       [line ''Diagnose'' (''Sendet Protokolle und Systemzustand an den Support. Ohne Passw'' @ s_oe @
          ''rter, WLAN-Zugangsdaten und Fotos.'')]
       [Button (if sendingDiagnostics then ''Wird gesendet '' @ s_dots else ''Diagnose senden'')
          sendingDiagnostics DiagnosticsClicked]"

(* src: main/general/general.tsx 196-215: the card of the factory reset *)
definition reset_card :: "general_msg node" where
  "reset_card =
     ShareframeInfoCard ''Werkseinstellungen''
       [line (''Zur'' @ s_ue @ ''cksetzen'') (''L'' @ s_oe @ ''scht alle Fotos, WLANs, das Ger'' @ s_ae @
          ''te-Passwort und alle Einstellungen.'')]
       [Button (''Zur'' @ s_ue @ ''cksetzen'') False (GeneralDialog openGeneralFactoryResetDialog)]"

(* src: main/general/general.tsx 100-216: the cards of the page *)
definition General :: "(string \<Rightarrow> string option) \<Rightarrow> jsval \<Rightarrow> bool \<Rightarrow> general_msg node list" where
  "General date_text info sendingDiagnostics =
     [device_card date_text info, wifi_card info, system_card info, hardware_card, security_card,
      support_card sendingDiagnostics, reset_card]"

lemma line_emits [simp]: "emits (showIf b [Text s]) = {}"
  by simp

lemma General_emits:
  "emits (General date_text info sending) =
     {GeneralDialog openGeneralChangePasswordDialog, GeneralDialog openGeneralFactoryResetDialog} \<union>
     (if sending then {} else {DiagnosticsClicked})"
  by (auto simp: General_def device_card_def wifi_card_def system_card_def hardware_card_def security_card_def
      support_card_def reset_card_def card_emits)

section \<open>The form for a new password\<close>

(* src: main/general/dialogs/changePasswordDialog.tsx 16-23: the state of ChangePasswordDialog *)
record password_form =
  pw_dialogs :: dialogs_state
  pw_isConnected :: bool
  pw_current :: string
  pw_new :: string
  pw_confirm :: string
  pw_submitting :: bool
  pw_show :: bool

datatype password_msg =
    CurrentPasswordTyped string | NewPasswordTyped string | NewPasswordRepeated string
  | PasswordsShown | PasswordSubmitted | PasswordClosed

(* src: main/general/dialogs/changePasswordDialog.tsx 34-39: resetFields *)
definition resetFields :: "password_form \<Rightarrow> password_form" where
  "resetFields p = p\<lparr>pw_current := [], pw_new := [], pw_confirm := [], pw_show := False\<rparr>"

abbreviation close_password_dialog :: "password_form \<Rightarrow> password_form" where
  "close_password_dialog p \<equiv> p\<lparr>pw_dialogs := dialogsReducer (pw_dialogs p) closeGeneralChangePasswordDialog\<rparr>"

(* src: main/general/dialogs/changePasswordDialog.tsx 41-45: handleClose *)
definition password_handleClose :: "password_form \<Rightarrow> password_form" where
  "password_handleClose p = (if pw_submitting p then p else resetFields (close_password_dialog p))"

fun password_update :: "password_msg \<Rightarrow> password_form \<Rightarrow> password_form" where
  "password_update (CurrentPasswordTyped s) p = p\<lparr>pw_current := s\<rparr>"
| "password_update (NewPasswordTyped s) p = p\<lparr>pw_new := s\<rparr>"
| "password_update (NewPasswordRepeated s) p = p\<lparr>pw_confirm := s\<rparr>"
| "password_update PasswordsShown p = p\<lparr>pw_show := \<not> pw_show p\<rparr>"
| "password_update PasswordSubmitted p = p\<lparr>pw_submitting := True\<rparr>"
| "password_update PasswordClosed p = password_handleClose p"

text \<open>The handler of the submit button sets \<open>submitting\<close>, awaits the thunk, and goes on when that has
  settled: \<open>unwrap()\<close> throws for a change that was rejected.\<close>

definition password_thunk :: "bool cat \<Rightarrow> password_form \<Rightarrow> password_msg \<Rightarrow> unit thunk option" where
  "password_thunk cat p m =
     (if m = PasswordSubmitted then Some (changePasswordThunk cat (pw_current p) (pw_new p)) else None)"

(* src: main/general/dialogs/changePasswordDialog.tsx 47-58: handleSubmit *)
definition password_settled :: "bool \<Rightarrow> password_form \<Rightarrow> password_form" where
  "password_settled fulfilled p =
     (if fulfilled then resetFields (close_password_dialog p) else p)\<lparr>pw_submitting := False\<rparr>"

(* src: main/general/dialogs/changePasswordDialog.tsx 60-71: visibilityAdornment *)
definition visibilityAdornment :: "password_form \<Rightarrow> password_msg node" where
  "visibilityAdornment p =
     Button (if pw_show p then ''Passw'' @ s_oe @ ''rter verbergen'' else ''Passw'' @ s_oe @ ''rter anzeigen'')
       False PasswordsShown"

definition password_can_submit :: "password_form \<Rightarrow> bool" where
  "password_can_submit p \<longleftrightarrow>
     canSubmit (utf16 (pw_current p)) (utf16 (pw_new p)) (utf16 (pw_confirm p)) (pw_isConnected p)"

(* src: main/general/dialogs/changePasswordDialog.tsx 73-120: the dialog *)
definition password_dialog :: "password_form \<Rightarrow> password_msg node list" where
  "password_dialog p =
     FormDialog (dg_changePassword (pw_dialogs p)) (''Ger'' @ s_ae @ ''te-Passwort '' @ s_ae @ ''ndern'')
       (''Passwort '' @ s_ae @ ''ndern'') PasswordSubmitted PasswordClosed (\<not> password_can_submit p) (pw_submitting p)
       [Text ''Mit diesem Passwort meldest du dich auch ohne Internet in den Einstellungen an.'',
        Input ''Aktuelles Passwort'' (secret (pw_show p) (pw_current p)) False CurrentPasswordTyped,
        visibilityAdornment p,
        Input ''Neues Passwort'' (secret (pw_show p) (pw_new p)) False NewPasswordTyped,
        Text ''8 bis 63 Zeichen'',
        Input (''Neues Passwort best'' @ s_ae @ ''tigen'') (secret (pw_show p) (pw_confirm p)) False NewPasswordRepeated,
        Text (if pw_confirm p \<noteq> [] \<and> pw_new p \<noteq> pw_confirm p
          then ''Passw'' @ s_oe @ ''rter stimmen nicht '' @ s_ue @ ''berein'' else '' '')]"

text \<open>The dialog as the user and its request drive it. The store may also lose the connection.\<close>

inductive password_reaches :: "password_form \<Rightarrow> password_form \<Rightarrow> bool" for p0 where
  opened: "password_reaches p0 p0"
| user: "password_reaches p0 p \<Longrightarrow> m \<in> emits (password_dialog p) \<Longrightarrow> password_reaches p0 (password_update m p)"
| settled: "password_reaches p0 p \<Longrightarrow> pw_submitting p \<Longrightarrow> password_reaches p0 (password_settled fulfilled p)"
| connection: "password_reaches p0 p \<Longrightarrow> password_reaches p0 (p\<lparr>pw_isConnected := b\<rparr>)"

text \<open>It keeps the contract of a form in a dialog.\<close>

interpretation password_form: form_dialog
  "\<lambda>p. dg_changePassword (pw_dialogs p)" pw_submitting "\<lambda>p. (pw_current p, pw_new p, pw_confirm p)" "([], [], [])"
  "password_update PasswordSubmitted" "password_update PasswordClosed" password_settled
  by unfold_locales
    (auto simp: password_handleClose_def password_settled_def resetFields_def reducer_simps)

section \<open>The dialog of the factory reset\<close>

(* src: common/components/factoryResetDialog.tsx 19-31: FactoryResetDialog *)
definition FactoryResetDialog :: "unit cat \<Rightarrow> nat \<Rightarrow> dialogs_state \<Rightarrow> bool \<Rightarrow> unit thunk node list" where
  "FactoryResetDialog cat fuel dialogs isConnected =
     ConfirmDialog (dg_factoryReset dialogs) (''Auf Werkseinstellungen zur'' @ s_ue @ ''cksetzen?'')
       [Text (''Alle Fotos, gespeicherten WLANs, das Ger'' @ s_ae @
          ''te-Passwort und alle Einstellungen werden endg'' @ s_ue @ ''ltig gel'' @ s_oe @
          ''scht. Danach startet der Bilderrahmen im Einrichtungsmodus und sein Hotspot nutzt wieder das urspr'' @ s_ue @
          ''ngliche Passwort.'')]
       (''Zur'' @ s_ue @ ''cksetzen'') (handleConfirmReset cat fuel) (dialogP closeGeneralFactoryResetDialog) Abbrechen
       False (\<not> isConnected)"

section \<open>Display health\<close>

(* src: main/displayHealth/displayHealth.tsx 12-12: STATS_POLL_MS *)
definition STATS_POLL_MS :: int where
  "STATS_POLL_MS = 5000"

text \<open>The date of a time in milliseconds as text; \<open>None\<close> for an invalid one.\<close>

(* src: main/displayHealth/displayHealth.tsx 32-36: fmtUnix *)
definition fmtUnix :: "(rat \<Rightarrow> string option) \<Rightarrow> rat option \<Rightarrow> string" where
  "fmtUnix ms_text seconds =
     (case seconds of
        None \<Rightarrow> s_emdash
      | Some s \<Rightarrow> if s = 0 then s_emdash else (case ms_text (s * 1000) of None \<Rightarrow> s_emdash | Some t \<Rightarrow> t))"

(* src: main/displayHealth/displayHealth.tsx 54-63: the poll of the statistics *)
definition display_health_polls :: "jsval cat \<Rightarrow> jsval cat \<Rightarrow> int \<Rightarrow> int \<Rightarrow> (int \<times> unit thunk) list" where
  "display_health_polls cat_stats cat_info mounted unmounted =
     concat (map (\<lambda>t. [(t, fetchDisplayStats cat_stats), (t, fetchFrameInfos cat_info)])
       (poll_starts STATS_POLL_MS mounted unmounted))"

(* src: main/displayHealth/displayHealth.tsx 65-65: chip *)
definition health_chip :: "jsval \<Rightarrow> (string \<times> string) option" where
  "health_chip stats =
     (case text_field stats ''health'' of None \<Rightarrow> None | Some h \<Rightarrow> if h = [] then None else map_of HEALTH_CHIP h)"

(* src: main/displayHealth/displayHealth.tsx 72-88: the card of the state *)
definition health_card :: "(rat \<Rightarrow> string) \<Rightarrow> jsval \<Rightarrow> 'e node" where
  "health_card de stats =
     ShareframeInfoCard ''Zustand''
       [(''Status'', case health_chip stats of Some (label, color) \<Rightarrow> [Chip label color] | None \<Rightarrow> [Text s_emdash]),
        line ''Fehler in Folge'' (fmtInt de (num_field stats ''consecutive_failures'')),
        line ''Letzte Aktualisierung (Dauer)'' (fmtMs de (num_field stats ''epd_last_refresh_ms''))] []"

(* src: main/displayHealth/displayHealth.tsx 66-66: wear *)
definition wear_bar :: "jsval \<Rightarrow> rat" where
  "wear_bar stats = min 100 (max 0 (case num_field stats ''wear_percent'' of None \<Rightarrow> 0 | Some x \<Rightarrow> x))"

(* src: main/displayHealth/displayHealth.tsx 90-111: the card of the wear *)
definition wear_card :: "(rat \<Rightarrow> string) \<Rightarrow> jsval \<Rightarrow> 'e node" where
  "wear_card de stats =
     ShareframeInfoCard (''Verschlei'' @ s_ss)
       [(''Aktualisierungen gesamt (von '' @ fmtInt de (num_field stats ''rated_refreshes'') @ '' erwartet)'',
         [Text (fmtInt de (num_field stats ''epd_refresh_total'') @ '' ('' @ fmtWear (num_field stats ''wear_percent'') @ '')''),
          Text (''Verschlei'' @ s_ss @ '' '' @ rat_str (wear_bar stats))]),
        line ''Foto-Aktualisierungen'' (fmtInt de (num_field stats ''epd_image_refresh_total'')),
        line (''L'' @ s_oe @ ''schvorg'' @ s_ae @ ''nge'') (fmtInt de (num_field stats ''epd_clear_total''))] []"

(* src: main/displayHealth/displayHealth.tsx 113-120: the card of the reliability *)
definition reliability_card :: "(rat \<Rightarrow> string) \<Rightarrow> jsval \<Rightarrow> 'e node" where
  "reliability_card de stats =
     ShareframeInfoCard (''Zuverl'' @ s_ae @ ''ssigkeit'')
       [line ''Fehlgeschlagene Aktualisierungen'' (fmtInt de (num_field stats ''epd_refresh_fail_total'')),
        line (''Fehlgeschlagene Einschaltvorg'' @ s_ae @ ''nge'') (fmtInt de (num_field stats ''epd_poweron_fail_total'')),
        line (''Einschaltvorg'' @ s_ae @ ''nge (Panel)'') (fmtInt de (num_field stats ''epd_poweron_total''))] []"

(* src: main/displayHealth/displayHealth.tsx 122-131: the card of the use *)
definition use_card :: "(rat \<Rightarrow> string) \<Rightarrow> (rat \<Rightarrow> string option) \<Rightarrow> jsval \<Rightarrow> jsval \<Rightarrow> 'e node" where
  "use_card de ms_text stats info =
     ShareframeInfoCard ''Nutzung''
       [line ''Aktive Anzeigedauer (kumuliert)'' (fmtDuration (int_field stats ''epd_busy_ms_total'')),
        line ''Erste Nutzung'' (fmtUnix ms_text (num_field stats ''epd_first_use_at'')),
        line ''Letzte Aktualisierung'' (fmtUnix ms_text (num_field stats ''epd_last_refresh_at'')),
        line ''Dienst-Starts (Display)'' (fmtInt de (num_field stats ''app_boot_total'')),
        line (''Ger'' @ s_ae @ ''te-Neustarts'') (fmtInt de (num_field info ''boot_count''))] []"

(* src: main/displayHealth/displayHealth.tsx 68-133: the page *)
definition DisplayHealthPage ::
  "(rat \<Rightarrow> string) \<Rightarrow> (rat \<Rightarrow> string option) \<Rightarrow> jsval \<Rightarrow> jsval \<Rightarrow> 'e node list" where
  "DisplayHealthPage de ms_text stats info =
     [health_card de stats, wear_card de stats, reliability_card de stats, use_card de ms_text stats info]"

lemma wear_bar_bounds: "0 \<le> wear_bar stats \<and> wear_bar stats \<le> 100"
  by (simp add: wear_bar_def)

section \<open>Customization\<close>

(* src: main/customization/customization.tsx 18-54: Customization *)
definition Customization :: "bool cat \<Rightarrow> bool \<Rightarrow> display_customization_state \<Rightarrow> unit thunk node list" where
  "Customization cat isConnected st =
     [ShareframeInfoCard ''Anzeige''
        [([],
          [Text (''Zeigt oben rechts auf dem Foto, wer es geschickt hat. Gilt ab dem n'' @ s_ae @ ''chsten Fotowechsel.''),
           Switch ''Name des Absenders anzeigen'' (truthy (dc_showSender st))
             (\<not> isConnected \<or> dc_isFetching st \<or> dc_isUpdating st) (updateShowSender cat)])] []]"

section \<open>Properties\<close>

definition open_password_form :: password_form where
  "open_password_form =
     \<lparr>pw_dialogs = dialogsReducer dialogs_initial openGeneralChangePasswordDialog, pw_isConnected = True,
      pw_current = [], pw_new = [], pw_confirm = [], pw_submitting = False, pw_show = False\<rparr>"

lemma password_dialog_emits:
  "PasswordSubmitted \<in> emits (password_dialog p) \<longleftrightarrow>
     dg_changePassword (pw_dialogs p) \<and> password_can_submit p \<and> \<not> pw_submitting p"
  by (auto simp: password_dialog_def FormDialog_def DialogHeader_def visibilityAdornment_def)

lemma changePassword_request:
  assumes "rtk_lifecycle cat"
  shows "\<exists>c'. runR w (changePasswordThunk cat current new) c = (Returned (), c') \<and>
    requests_of (cf_trace c') = requests_of (cf_trace c) @
      [post_json getChangePasswordUrl
        (JObj [(''current_password'', JStr current), (''new_password'', JStr new)])]"
  by (auto simp: changePasswordThunk_def changePassword_creator_def boardAlertP_def
      rtk_lifecycle_run [OF assms] settled_action_def split: sum.splits)

text \<open>C21: When the user can submit the form for a new password, what is sent is the current password
  and the new one as they were typed, in one request, and the new one has 8 to 63 UTF-16 units and
  was repeated. While that runs the dialog cannot be closed; if the board refuses, the dialog is
  still open with the three fields as they were, and if it accepts, it is closed and the fields are
  empty.\<close>

lemma password_change_sent:
  assumes "rtk_lifecycle cat" and "PasswordSubmitted \<in> emits (password_dialog p)"
    and "password_thunk cat p PasswordSubmitted = Some q"
  shows "\<exists>c'. runR w q c = (Returned (), c') \<and>
    requests_of (cf_trace c') = requests_of (cf_trace c) @
      [post_json getChangePasswordUrl
        (JObj [(''current_password'', JStr (pw_current p)), (''new_password'', JStr (pw_new p))])] \<and>
    8 \<le> length (utf16 (pw_new p)) \<and> length (utf16 (pw_new p)) \<le> 63 \<and> utf16 (pw_new p) = utf16 (pw_confirm p) \<and>
    (let waiting = (password_update PasswordClosed ^^ n) (password_update PasswordSubmitted p);
         refused = password_settled False waiting; accepted = password_settled True waiting
     in dg_changePassword (pw_dialogs refused) \<and>
        (pw_current refused, pw_new refused, pw_confirm refused) = (pw_current p, pw_new p, pw_confirm p) \<and>
        \<not> dg_changePassword (pw_dialogs accepted) \<and>
        (pw_current accepted, pw_new accepted, pw_confirm accepted) = ([], [], []))"
proof -
  have "q = changePasswordThunk cat (pw_current p) (pw_new p)"
    using assms(3) by (simp add: password_thunk_def)
  with changePassword_request [OF assms(1)] obtain c' where "runR w q c = (Returned (), c')"
    and "requests_of (cf_trace c') = requests_of (cf_trace c) @
      [post_json getChangePasswordUrl
        (JObj [(''current_password'', JStr (pw_current p)), (''new_password'', JStr (pw_new p))])]"
    by blast
  moreover have "dg_changePassword (pw_dialogs p)" "password_can_submit p"
    using assms(2) by (simp_all add: password_dialog_emits)
  ultimately show ?thesis
    using password_form.refused [of n p] password_form.accepted [of n p]
    by - (rule exI [of _ c'],
        auto simp: password_can_submit_def canSubmit_def MIN_PASSWORD_LENGTH_def MAX_PASSWORD_LENGTH_def Let_def)
qed

definition typed_password_form :: password_form where
  "typed_password_form =
     password_update (NewPasswordRepeated ''new secret'') (password_update (NewPasswordTyped ''new secret'')
       (password_update (CurrentPasswordTyped ''old'') open_password_form))"

lemma password_change_sent_witness:
  "\<exists>c' q. password_thunk standard_async_thunk typed_password_form PasswordSubmitted = Some q \<and>
     runR silent_world q fresh_cfg = (Returned (), c') \<and>
     length (requests_of (cf_trace c')) = 1"
proof -
  let ?q = "changePasswordThunk standard_async_thunk ''old'' ''new secret''"
  have "utf16 ''new secret'' = map of_char ''new secret''" "utf16 ''old'' = map of_char ''old''"
    by (rule utf16_ascii; simp)+
  then have "PasswordSubmitted \<in> emits (password_dialog typed_password_form)"
    by (simp add: password_dialog_emits typed_password_form_def open_password_form_def password_can_submit_def
        canSubmit_def MIN_PASSWORD_LENGTH_def MAX_PASSWORD_LENGTH_def reducer_simps)
  moreover have thunk: "password_thunk standard_async_thunk typed_password_form PasswordSubmitted = Some ?q"
    by (simp add: password_thunk_def typed_password_form_def)
  ultimately show ?thesis
    using password_change_sent [OF rtk_lifecycle_standard, of typed_password_form ?q silent_world fresh_cfg 2]
    by (auto simp: fresh_cfg_def)
qed

end
