(* ===== verification/LogsView.thy ===== *)
theory LogsView
  imports GeneralView
begin

text \<open>
  The pages of the services and of the logs (main/services, main/monitoring): the log filter with its
  two effects, what is asked of the board, and what the pages show. \<open>tz\<close> and \<open>parse_local\<close> stand for
  the browser's time zone, as in Pages.
\<close>

section \<open>The log filter\<close>

record log_filter =
  lf_timeRange :: string
  lf_customDate :: string
  lf_linesParam :: nat
  lf_linesInput :: string

(* src: main/monitoring/logFilter.tsx 39-45: the state of LogFilter *)
definition log_filter_initial :: "int \<Rightarrow> string \<Rightarrow> nat \<Rightarrow> log_filter" where
  "log_filter_initial now defaultRange defaultLines =
     \<lparr>lf_timeRange = defaultRange, lf_customDate = initial_customDate now, lf_linesParam = defaultLines,
      lf_linesInput = nat_str defaultLines\<rparr>"

text \<open>\<open>parseInt\<close>: white space, a sign, and the digits up to the first other character; \<open>None\<close> is NaN.\<close>

definition parse_int :: "string \<Rightarrow> int option" where
  "parse_int s =
     (let t = dropWhile is_space s;
          minus = (case t of [] \<Rightarrow> False | c # _ \<Rightarrow> c = CHR ''-'');
          u = (case t of [] \<Rightarrow> [] | c # rest \<Rightarrow> if c \<in> {CHR ''-'', CHR ''+''} then rest else t);
          ds = takeWhile (\<lambda>c. all_digits [c]) u
      in if ds = [] then None else Some ((if minus then - 1 else 1) * int (parse_digits ds)))"

datatype filter_msg = RangeChosen string | LinesTyped string | LinesLeft | DateTyped string

(* src: main/monitoring/logFilter.tsx 101-106: the handlers of the number of lines *)
definition lines_typed :: "string \<Rightarrow> log_filter \<Rightarrow> log_filter" where
  "lines_typed s f =
     (let f' = f\<lparr>lf_linesInput := s\<rparr>
      in case parse_int s of
           None \<Rightarrow> f'
         | Some v \<Rightarrow> if 0 < v then f'\<lparr>lf_linesParam := nat v\<rparr> else f')"

fun filter_update :: "filter_msg \<Rightarrow> log_filter \<Rightarrow> log_filter" where
  "filter_update (RangeChosen r) f = f\<lparr>lf_timeRange := r\<rparr>"
| "filter_update (LinesTyped s) f = lines_typed s f"
| "filter_update LinesLeft f = f\<lparr>lf_linesInput := nat_str (lf_linesParam f)\<rparr>"
| "filter_update (DateTyped d) f = f\<lparr>lf_customDate := d\<rparr>"

definition filter_deps :: "log_filter \<Rightarrow> string \<times> string \<times> nat" where
  "filter_deps f = (lf_timeRange f, lf_customDate f, lf_linesParam f)"

text \<open>What the filter hands to its page, at the time its effect runs.\<close>

(* src: main/monitoring/logFilter.tsx 57-60: the effect of LogFilter *)
definition filter_params ::
  "(int \<Rightarrow> int) \<Rightarrow> (string \<Rightarrow> int option) \<Rightarrow> int \<Rightarrow> log_filter \<Rightarrow> string \<times> nat" where
  "filter_params tz parse_local now f =
     (getTimestamp tz parse_local now (lf_timeRange f) (lf_customDate f), lf_linesParam f)"

datatype logs_msg = FilterMsg filter_msg | RefreshLogs | SourceChosen ServiceType | SourceCleared

(* src: main/monitoring/logFilter.tsx 62-144: LogFilter *)
definition LogFilter :: "bool \<Rightarrow> log_filter \<Rightarrow> logs_msg node list" where
  "LogFilter loading f =
     [Group ''card''
        ([Text ''Filter'',
          Choice ''Zeitraum'' (lf_timeRange f) timeRangeOptions False (FilterMsg \<circ> RangeChosen),
          Text ''Zeitraum der abzurufenden Protokolle'',
          Input ''Anzahl Zeilen'' (lf_linesInput f) False (FilterMsg \<circ> LinesTyped),
          Button [] False (FilterMsg LinesLeft),
          Text ''Maximale Anzahl anzuzeigender Protokollzeilen''] @
         showIf (lf_timeRange f = ''custom'')
           [Input ''Datum und Uhrzeit'' (lf_customDate f) False (FilterMsg \<circ> DateTyped),
            Text (''Benutzerdefinierter Startzeitpunkt f'' @ s_ue @ ''r Protokolle'')] @
         [Button ''Aktualisieren'' loading RefreshLogs])]"

section \<open>The page of the logs\<close>

text \<open>\<open>lp_changed\<close> is when the filter last gave its parameters, \<open>lp_sent\<close> what it dispatched
  \<open>fetchFrameLogs\<close> with, and when, the newest first.\<close>

record logs_page =
  lp_filter :: log_filter
  lp_params :: "(string \<times> nat) option"
  lp_source :: ServiceType
  lp_changed :: int
  lp_sent :: "(int \<times> ServiceType \<times> string \<times> nat) list"

(* src: main/monitoring/frameLogs.tsx 25-28: loadLogs *)
definition send_logs :: "int \<Rightarrow> logs_page \<Rightarrow> logs_page" where
  "send_logs now p =
     (case lp_params p of
        None \<Rightarrow> p
      | Some (since, lines) \<Rightarrow> p\<lparr>lp_sent := (now, lp_source p, since, lines) # lp_sent p\<rparr>)"

text \<open>The filter's effect gives a new object, so the page's effect (line 30) asks the board.\<close>

definition filter_effect :: "(int \<Rightarrow> int) \<Rightarrow> (string \<Rightarrow> int option) \<Rightarrow> int \<Rightarrow> logs_page \<Rightarrow> logs_page" where
  "filter_effect tz parse_local now p =
     send_logs now (p\<lparr>lp_params := Some (filter_params tz parse_local now (lp_filter p)), lp_changed := now\<rparr>)"

(* src: main/monitoring/frameLogs.tsx 22-23: the state of FrameLogs *)
definition logs_page_mount :: "(int \<Rightarrow> int) \<Rightarrow> (string \<Rightarrow> int option) \<Rightarrow> int \<Rightarrow> logs_page" where
  "logs_page_mount tz parse_local now =
     filter_effect tz parse_local now
       \<lparr>lp_filter = log_filter_initial now ''3h'' 1000, lp_params = None, lp_source = SYSTEM, lp_changed = now, lp_sent = []\<rparr>"

(* src: main/monitoring/frameLogs.tsx 30-30: the effect of FrameLogs *)
fun logs_update ::
  "(int \<Rightarrow> int) \<Rightarrow> (string \<Rightarrow> int option) \<Rightarrow> int \<Rightarrow> logs_msg \<Rightarrow> logs_page \<Rightarrow> logs_page" where
  "logs_update tz parse_local now (FilterMsg m) p =
     (let f = filter_update m (lp_filter p); p' = p\<lparr>lp_filter := f\<rparr>
      in if filter_deps f = filter_deps (lp_filter p) then p' else filter_effect tz parse_local now p')"
| "logs_update tz parse_local now RefreshLogs p = send_logs now p"
| "logs_update tz parse_local now (SourceChosen s) p =
     (if s = lp_source p then p else send_logs now (p\<lparr>lp_source := s\<rparr>))"
| "logs_update tz parse_local now SourceCleared p = p"

(* src: main/monitoring/logsContent.tsx 50-98: the logs of LogsContent *)
definition shown_logs :: "(string \<Rightarrow> string) \<Rightarrow> logs_data \<Rightarrow> 'e node list" where
  "shown_logs date_text l =
     [Text (''Dienst: '' @ (let s = js_string (ld_service l)
        in case map_of SERVICE_LABELS s of None \<Rightarrow> s | Some label \<Rightarrow> label)),
      Text (''Zeitraum: '' @ ld_period l), Text (''Zeitpunkt: '' @ date_text (ld_timestamp l)),
      Text (''Anzahl Eintr'' @ s_ae @ ''ge: '' @ nat_str (ld_log_count l)),
      Group (''Protokolleintr'' @ s_ae @ ''ge'')
        (if 0 < length (ld_logs l) then map Text (ld_logs l) else [Text (''Keine Eintr'' @ s_ae @ ''ge gefunden'')])]"

(* src: main/monitoring/logsContent.tsx 19-48: the other cases of LogsContent *)
definition logs_content :: "(string \<Rightarrow> string) \<Rightarrow> logs_view \<Rightarrow> logs_msg node list" where
  "logs_content date_text v =
     (case v of
        LogsLoading \<Rightarrow> [Group ''progress'' []]
      | LogsFailed \<Rightarrow> [Text ''Protokolle konnten nicht geladen werden'', Button ''Erneut versuchen'' False RefreshLogs]
      | NoLogs \<Rightarrow> [Text (''Keine Protokolle verf'' @ s_ue @ ''gbar'')]
      | LogsShown l \<Rightarrow> shown_logs date_text l)"

(* src: main/monitoring/frameLogs.tsx 32-62: FrameLogs *)
definition FrameLogs :: "(string \<Rightarrow> string) \<Rightarrow> logs_state \<Rightarrow> logs_page \<Rightarrow> logs_msg node list" where
  "FrameLogs date_text st p =
     (let pick = (\<lambda>s. if s = lp_source p then SourceCleared else SourceChosen s)
      in [Group ''source'' [Button ''System'' False (pick SYSTEM), Button ''Ereignisse'' False (pick EVENTS)],
          Alert ''info''
            (if lp_source p = SYSTEM then
               ''Dies ist das System-Protokoll. Dienst-spezifische Protokolle (Display, WebSocket, Dashboard, Heartbeat) '' @
               ''findest du auf der jeweiligen Dienst-Seite unter '' @ s_lquote @ ''Verwaltung'' @ s_rquote @ ''.''
             else
               ''Ereignisse bleiben auch nach einem Neustart erhalten: Starts, Abst'' @ s_ue @
               ''rze, Updates, WLAN-Wechsel und Befehle, die der Support aus der Ferne ausgel'' @ s_oe @ ''st hat.'')] @
         LogFilter (lg_loading st) (lp_filter p) @ logs_content date_text (page_logs st (lp_source p)))"

text \<open>The page in use, with a clock that does not go back. The store's answers change what is shown,
  not the page.\<close>

inductive logs_reaches ::
  "(int \<Rightarrow> int) \<Rightarrow> (string \<Rightarrow> int option) \<Rightarrow> int \<Rightarrow> logs_page \<Rightarrow> bool" for tz parse_local where
  mounted: "logs_reaches tz parse_local now (logs_page_mount tz parse_local now)"
| user: "logs_reaches tz parse_local now p \<Longrightarrow> now \<le> now' \<Longrightarrow> m \<in> emits (FrameLogs date_text st p) \<Longrightarrow>
    logs_reaches tz parse_local now' (logs_update tz parse_local now' m p)"

section \<open>Services\<close>

text \<open>The restart button of a service and its question.\<close>

datatype service_msg = AskRestart string | ConfirmRestart string | CancelRestart | OpenDetails string

(* src: main/services/serviceUtils.tsx 27-56: RestartButton *)
definition RestartButton :: "string option \<Rightarrow> string \<Rightarrow> bool \<Rightarrow> service_msg node list" where
  "RestartButton restarting i isOpen =
     Button ''Neu starten'' (restarting = Some i) (AskRestart i) #
     ConfirmDialog isOpen (fst (restart_question i)) [Text (snd (restart_question i))] ''Neu starten''
       (ConfirmRestart i) CancelRestart Abbrechen False False"

text \<open>Which question is open, and the thunk that the answer dispatches.\<close>

fun service_update :: "service_msg \<Rightarrow> string option \<Rightarrow> string option" where
  "service_update (AskRestart i) asked = Some i"
| "service_update (OpenDetails i) asked = asked"
| "service_update _ asked = None"

definition service_thunk :: "string cat \<Rightarrow> service_msg \<Rightarrow> unit thunk option" where
  "service_thunk cat m = (case m of ConfirmRestart i \<Rightarrow> Some (restartService cat i) | _ \<Rightarrow> None)"

abbreviation service_label :: "string \<Rightarrow> string" where
  "service_label i \<equiv> (case map_of SERVICE_LABELS i of None \<Rightarrow> i | Some l \<Rightarrow> l)"

abbreviation health_chip_node :: "jsval \<Rightarrow> 'e node" where
  "health_chip_node svc \<equiv> (case HealthChip svc of (label, color, variant) \<Rightarrow> Chip label color)"

(* src: main/services/servicesOverview.tsx 12-12: POLL_MS *)
definition SERVICES_POLL_MS :: int where
  "SERVICES_POLL_MS = 10000"

(* src: main/services/servicesOverview.tsx 18-22: the poll of the services *)
definition services_polls :: "jsval cat \<Rightarrow> int \<Rightarrow> int \<Rightarrow> (int \<times> unit thunk) list" where
  "services_polls cat mounted unmounted =
     map (\<lambda>t. (t, fetchServices cat)) (poll_starts SERVICES_POLL_MS mounted unmounted)"

(* src: main/services/servicesOverview.tsx 38-57: the card of a service *)
definition service_card :: "string option \<Rightarrow> string option \<Rightarrow> string \<Rightarrow> jsval \<Rightarrow> service_msg node" where
  "service_card restarting asked i svc =
     ShareframeInfoCard (service_label i)
       [(''Status'', [health_chip_node svc]),
        line ''Supervision''
          (if truthy svc then str_prop svc ''status'' @
             (if nullish (own_prop svc ''uptime_seconds'') then []
              else '' '' @ [CHR 0xC2, CHR 0xB7] @ '' '' @ formatUptime (int_field svc ''uptime_seconds''))
           else s_endash)]
       (Button ''Details'' False (OpenDetails (''/'' @ getServiceDetailUrl i)) # RestartButton restarting i (asked = Some i))"

text \<open>\<open>services.find(..)\<close> throws when the store has no array of services; the page then does not render.\<close>

(* src: main/services/servicesOverview.tsx 24-29: byId *)
definition ServicesOverview :: "services_state \<Rightarrow> string option \<Rightarrow> thrown + service_msg node list" where
  "ServicesOverview st asked =
     map_throwing
       (\<lambda>t. case selectService (service_type_str t) st of
              Inl e \<Rightarrow> Inl e
            | Inr svc \<Rightarrow> Inr (service_card (sv_restarting st) asked (service_type_str t) svc)) MANAGED_SERVICES"

section \<open>The page of a service\<close>

(* src: main/services/serviceDetail.tsx 44-53: the card of ServiceDetail *)
definition service_detail_card :: "string option \<Rightarrow> string option \<Rightarrow> string \<Rightarrow> jsval \<Rightarrow> service_msg node" where
  "service_detail_card restarting asked i svc =
     ShareframeInfoCard (service_label i)
       [(''Status'', [health_chip_node svc]),
        line ''Supervision'' (if truthy svc then str_prop svc ''status'' else s_endash),
        line ''Laufzeit'' (if truthy svc then formatUptime (int_field svc ''uptime_seconds'') else s_endash),
        line ''PID'' (if nullish (js_opt_get svc ''pid'') then s_endash else js_string (js_opt_get svc ''pid''))]
       (RestartButton restarting i (asked = Some i))"

text \<open>What the effect dispatches when it runs (first mount, new service, new parameters), and what its
  cleanup dispatches, before the effect runs again and when the page is left.\<close>

(* src: main/services/serviceDetail.tsx 31-40: the effect of ServiceDetail *)
definition detail_effect ::
  "jsval cat \<Rightarrow> logs_data cat \<Rightarrow> ServiceType \<Rightarrow> (string \<times> nat) option \<Rightarrow> unit thunk list" where
  "detail_effect cs cl serviceId params = [fetchServices cs, loadLogs cl serviceId params]"

(* src: main/services/serviceDetail.tsx 15-15: POLL_MS *)
definition DETAIL_POLL_MS :: int where
  "DETAIL_POLL_MS = 10000"

text \<open>The interval between two runs of the effect; the first poll is the effect's own.\<close>

(* src: main/services/serviceDetail.tsx 34-34: the interval of ServiceDetail *)
definition detail_polls :: "jsval cat \<Rightarrow> int \<Rightarrow> int \<Rightarrow> (int \<times> unit thunk) list" where
  "detail_polls cs since until = map (\<lambda>t. (t, fetchServices cs)) (tl (poll_starts DETAIL_POLL_MS since until))"

(* src: main/services/serviceDetail.tsx 35-38: the cleanup of ServiceDetail *)
definition detail_cleanup :: "unit thunk list" where
  "detail_cleanup = [Dispatch (FrameLogsA ClearLogs) (Return ())]"

(* src: main/services/serviceDetail.tsx 55-73: the logs of ServiceDetail *)
definition detail_logs :: "(string \<Rightarrow> string) \<Rightarrow> logs_state \<Rightarrow> ServiceType \<Rightarrow> log_filter \<Rightarrow> logs_msg node list" where
  "detail_logs date_text st serviceId f =
     [Text ''Protokolle''] @ LogFilter (lg_loading st) f @ logs_content date_text (page_logs st serviceId)"

section \<open>Facts\<close>

lemma LogFilter_emits:
  "m \<in> emits (LogFilter loading f) \<Longrightarrow> m \<in> range FilterMsg \<or> m = RefreshLogs \<and> \<not> loading"
  by (auto simp: LogFilter_def timeRangeOptions_def split: if_splits)

lemma logs_content_emits: "m \<in> emits (logs_content date_text v) \<Longrightarrow> m = RefreshLogs"
  by (auto simp: logs_content_def shown_logs_def emits_map split: logs_view.splits if_splits)

lemma FrameLogs_emits:
  "SourceChosen s \<in> emits (FrameLogs date_text st p) \<Longrightarrow> s = SYSTEM \<or> s = EVENTS"
  by (auto simp: FrameLogs_def Let_def dest: LogFilter_emits logs_content_emits split: if_splits)

lemma lines_typed_positive: "0 < lf_linesParam f \<Longrightarrow> 0 < lf_linesParam (lines_typed s f)"
  by (auto simp: lines_typed_def Let_def split: option.split)

lemma filter_update_positive: "0 < lf_linesParam f \<Longrightarrow> 0 < lf_linesParam (filter_update m f)"
  by (cases m) (simp_all add: lines_typed_positive)

lemma filter_params_deps: "filter_deps f = filter_deps g \<Longrightarrow> filter_params tz parse_local t f = filter_params tz parse_local t g"
  by (simp add: filter_deps_def filter_params_def)

text \<open>The parameters are those of the filter's fields at the time they last changed.\<close>

definition logs_page_inv :: "(int \<Rightarrow> int) \<Rightarrow> (string \<Rightarrow> int option) \<Rightarrow> int \<Rightarrow> logs_page \<Rightarrow> bool" where
  "logs_page_inv tz parse_local now p \<longleftrightarrow>
     lp_params p = Some (filter_params tz parse_local (lp_changed p) (lp_filter p)) \<and> lp_changed p \<le> now \<and>
     0 < lf_linesParam (lp_filter p) \<and> lp_source p \<in> {SYSTEM, EVENTS} \<and>
     (\<forall>(t, s, since, lines) \<in> set (lp_sent p). 0 < lines \<and> s \<in> {SYSTEM, EVENTS})"

lemma send_logs_inv: "logs_page_inv tz parse_local now p \<Longrightarrow> logs_page_inv tz parse_local now (send_logs t p)"
  by (auto simp: logs_page_inv_def send_logs_def filter_params_def)

lemma logs_update_inv:
  assumes "logs_page_inv tz parse_local now p" "now \<le> now'" "m \<in> emits (FrameLogs date_text st p)"
  shows "logs_page_inv tz parse_local now' (logs_update tz parse_local now' m p)"
proof -
  from assms(1,2) have later: "logs_page_inv tz parse_local now' p" by (auto simp: logs_page_inv_def)
  show ?thesis
  proof (cases m)
    case (FilterMsg fm)
    let ?p = "p\<lparr>lp_filter := filter_update fm (lp_filter p)\<rparr>"
    from later have pos: "0 < lf_linesParam (filter_update fm (lp_filter p))"
      by (simp add: logs_page_inv_def filter_update_positive)
    show ?thesis
    proof (cases "filter_deps (filter_update fm (lp_filter p)) = filter_deps (lp_filter p)")
      case True
      with later pos FilterMsg show ?thesis
        by (simp add: logs_page_inv_def Let_def filter_params_deps [OF True])
    next
      case False
      have "logs_page_inv tz parse_local now'
          (?p\<lparr>lp_params := Some (filter_params tz parse_local now' (lp_filter ?p)), lp_changed := now'\<rparr>)"
        using later pos by (simp add: logs_page_inv_def)
      from send_logs_inv [OF this] False FilterMsg show ?thesis by (simp add: filter_effect_def Let_def)
    qed
  next
    case (SourceChosen s)
    with assms(3) have "s = SYSTEM \<or> s = EVENTS" by (simp add: FrameLogs_emits)
    with later have "logs_page_inv tz parse_local now' (p\<lparr>lp_source := s\<rparr>)" by (simp add: logs_page_inv_def)
    from send_logs_inv [OF this] later SourceChosen show ?thesis by simp
  qed (simp_all add: send_logs_inv later)
qed

lemma logs_reaches_inv: "logs_reaches tz parse_local now p \<Longrightarrow> logs_page_inv tz parse_local now p"
proof (induction rule: logs_reaches.induct)
  case (mounted now)
  have "logs_page_inv tz parse_local now
      \<lparr>lp_filter = log_filter_initial now ''3h'' 1000,
       lp_params = Some (filter_params tz parse_local now (log_filter_initial now ''3h'' 1000)), lp_source = SYSTEM,
       lp_changed = now, lp_sent = []\<rparr>"
    by (simp add: logs_page_inv_def log_filter_initial_def)
  from send_logs_inv [OF this] show ?case by (simp add: logs_page_mount_def filter_effect_def)
next
  case (user now p now' m date_text st)
  then show ?case by (blast intro: logs_update_inv)
qed

text \<open>Of two requests of a page the answer that comes last is shown, also when it is that of the earlier
  one, and the notice of the other is gone.\<close>

lemma late_answer_wins:
  assumes "ld_service va = JStr (service_type_str source)"
  shows "page_logs (foldl (frameLogsReducer now) st
     [FetchFrameLogsPending a, FetchFrameLogsPending b, FetchFrameLogsFulfilled b vb, FetchFrameLogsFulfilled a va]) source =
       LogsShown va"
  using assms by (simp add: page_logs_def LogsContent_def)

section \<open>Property\<close>

text \<open>C35: Every request for the logs page asks for at least one line and for one of its two sources,
  whatever was typed. But the button that refreshes sends the start of the range as it was when the
  filter last changed: ''the last three hours'' are those before that, and grow while the page is open.\<close>

lemma refresh_keeps_range:
  assumes "logs_reaches tz parse_local now p" and "now \<le> now'"
  shows "(\<forall>(t, s, since, lines) \<in> set (lp_sent p). 0 < lines \<and> s \<in> {SYSTEM, EVENTS}) \<and>
    hd (lp_sent (logs_update tz parse_local now' RefreshLogs p)) =
      (now', lp_source p,
       getTimestamp tz parse_local (lp_changed p) (lf_timeRange (lp_filter p)) (lf_customDate (lp_filter p)),
       lf_linesParam (lp_filter p))"
  using logs_reaches_inv [OF assms(1)] by (simp add: logs_page_inv_def send_logs_def filter_params_def)

lemma refresh_keeps_range_witness:
  "let p = logs_page_mount (\<lambda>_. 0) (\<lambda>_. None) 1709208000000;
       q = logs_update (\<lambda>_. 0) (\<lambda>_. None) 1709215200000 RefreshLogs p
   in hd (lp_sent q) = (1709215200000, SYSTEM, ''2024-02-29 09:00:00'', 1000) \<and>
      fst (filter_params (\<lambda>_. 0) (\<lambda>_. None) 1709215200000 (lp_filter p)) = ''2024-02-29 11:00:00''"
proof -
  let ?p = "logs_page_mount (\<lambda>_. 0) (\<lambda>_. None) 1709208000000"
  have state: "lp_source ?p = SYSTEM" "lp_changed ?p = 1709208000000" "lf_timeRange (lp_filter ?p) = ''3h''"
    "lf_linesParam (lp_filter ?p) = 1000"
    by (simp_all add: logs_page_mount_def filter_effect_def send_logs_def log_filter_initial_def filter_params_def)
  have stamps: "getTimestamp (\<lambda>_. 0) (\<lambda>_. None) 1709208000000 ''3h'' d = ''2024-02-29 09:00:00''"
    "getTimestamp (\<lambda>_. 0) (\<lambda>_. None) 1709215200000 ''3h'' d = ''2024-02-29 11:00:00''" for d
    by code_simp+
  show ?thesis
    using refresh_keeps_range [OF logs_reaches.mounted, of 1709208000000 1709215200000 "\<lambda>_. 0" "\<lambda>_. None"]
    by (simp add: state stamps filter_params_def Let_def)
qed

end
