(* ===== verification/ShellView.thy ===== *)
theory ShellView
  imports GeneralView Shell TimerThunks SlideshowThunks
begin

text \<open>
  The frame of the pages as it is rendered and used (common/components): the top bar, the side menu,
  the power menu and its dialogs, the notices on screen, and what the layout does when it is mounted
  and when the page changes. The frame is a machine over messages; the pages inside it are the
  other view theories.
\<close>

section \<open>The power menu and its dialogs\<close>

datatype shell_msg =
    SidebarToggled | DrawerOpened | DrawerClosed | AdvancedSwitched
  | NotificationsOpened | NotificationsClosed | ColorToggled
  | TopPowerOpened | SidePowerOpened | PowerMenuClosed | RestartChosen | ShutdownChosen
  | LinkFollowed string
  | RestartConfirmed | RestartCancelled | ShutdownConfirmed | ShutdownCancelled

(* src: common/components/powerMenu.tsx 38-52: the menu of PowerMenu *)
definition power_menu :: "bool \<Rightarrow> shell_msg node list" where
  "power_menu isOpen =
     showIf isOpen
       [Group ''menu''
         [Button ''Neu starten'' False RestartChosen, Button ''Herunterfahren'' False ShutdownChosen,
          Button [] False PowerMenuClosed]]"

(* src: common/components/powerDialogs.tsx 27-52: PowerDialogs *)
definition PowerDialogs :: "dialogs_state \<Rightarrow> bool \<Rightarrow> shell_msg node list" where
  "PowerDialogs dialogs isConnected =
     ConfirmDialog (dg_restart dialogs) ''Bilderrahmen neu starten?''
       [Text (''W'' @ s_ae @ ''hrend des Neustarts sind die Einstellungen kurz nicht erreichbar.'')]
       ''Neu starten'' RestartConfirmed RestartCancelled Abbrechen False (\<not> isConnected) @
     ConfirmDialog (dg_shutdown dialogs) ''Bilderrahmen herunterfahren?''
       [Text (''Die Diashow und die Einstellungen sind danach aus. Zum Einschalten trenne den Strom kurz und '' @
          ''stecke ihn wieder ein.'')]
       ''Herunterfahren'' ShutdownConfirmed ShutdownCancelled Abbrechen False (\<not> isConnected)"

section \<open>State\<close>

text \<open>Which of the two power menus is open is state of the component that shows it.\<close>

(* src: common/components/layout/topLayout/topAppBar.tsx 36-47: what TopAppBar reads *)
record shell =
  sh_navigation :: navigation_state
  sh_dialogs :: dialogs_state
  sh_notifications :: bool
  sh_powerTop :: bool
  sh_powerSide :: bool
  sh_color :: string
  sh_path :: string
  sh_isDesktop :: bool
  sh_isPhone :: bool
  sh_isConnected :: bool
  sh_isAuthenticated :: bool
  sh_updates :: updates_state
  sh_mode :: connection_mode_state

abbreviation navigate_in :: "navigation_action \<Rightarrow> shell \<Rightarrow> shell" where
  "navigate_in a s \<equiv> s\<lparr>sh_navigation := navigationReducer (sh_navigation s) a,
                       sh_dialogs := dialogsExtraReducer (sh_dialogs s) a\<rparr>"

abbreviation dialog_in :: "dialogs_action \<Rightarrow> shell \<Rightarrow> shell" where
  "dialog_in a s \<equiv> s\<lparr>sh_dialogs := dialogsReducer (sh_dialogs s) a\<rparr>"

section \<open>The top bar\<close>

(* src: common/components/layout/topLayout/topAppBar.tsx 48-48: themeToggleLabel *)
definition themeToggleLabel :: "string \<Rightarrow> string" where
  "themeToggleLabel colorMode =
     (if colorMode = ''dark'' then ''Wechsel in den hellen Modus'' else ''Wechsel in den dunklen Modus'')"

(* src: common/components/layout/topLayout/topAppBar.tsx 84-151: the bar of TopAppBar *)
definition top_bar :: "shell \<Rightarrow> shell_msg node list" where
  "top_bar s =
     (let badge = badgeNumber (sh_isConnected s) (sh_updates s)
      in [Button (''Men'' @ s_ue @ '' '' @ (if nv_sidebar_open (sh_navigation s) then ''schlie'' @ s_ss @ ''en'' else s_oe @ ''ffnen''))
            False SidebarToggled,
          Button (''ShareFrame '' @ s_endash @ '' Start'') False (LinkFollowed getHomeUrl)] @
         (case ConnectionModeChip (sh_mode s) of None \<Rightarrow> [] | Some (label, hint, color) \<Rightarrow> [Chip (''Verbindung: '' @ label) color]) @
         [Button (if 0 < badge then ''Benachrichtigungen ('' @ nat_str badge @ '')'' else ''Benachrichtigungen'')
            False NotificationsOpened,
          Button (themeToggleLabel (sh_color s)) False ColorToggled] @
         showIf (sh_isAuthenticated s \<and> \<not> sh_isPhone s)
           [Button ''Energieoptionen'' False TopPowerOpened,
            Button ''Abmelden'' False (LinkFollowed (getAuthenticationUrl @ getSignOutUrl))])"

(* src: common/components/layout/topLayout/topAppBar.tsx 155-189: the notifications of TopAppBar *)
definition notifications_menu :: "shell \<Rightarrow> shell_msg node list" where
  "notifications_menu s =
     showIf (sh_notifications s)
       [Group ''menu''
         (showIf (badgeNumber (sh_isConnected s) (sh_updates s) = 0)
            [Text (''Keine Benachrichtigungen verf'' @ s_ue @ ''gbar'')] @
          showIf (\<not> sh_isConnected s) [Text ''Keine Verbindung zum Bilderrahmen''] @
          showIf (isNewVersion (sh_updates s))
            [Text (''Neue Version ('' @ js_string (js_opt_get (up_latest_release (sh_updates s)) ''version'') @ '') verf'' @
               s_ue @ ''gbar'')] @
          [Button [] False NotificationsClosed])]"

section \<open>The side menu\<close>

(* src: common/components/layout/sidebar/sidebar.tsx 40-40: shouldShowIconsOnly *)
definition shouldShowIconsOnly :: "shell \<Rightarrow> bool" where
  "shouldShowIconsOnly s \<longleftrightarrow> sh_isDesktop s \<and> \<not> nv_sidebar_open (sh_navigation s)"

text \<open>An entry is named by its label for screen readers when only its icon is shown; the active one
  is a chip beside it.\<close>

(* src: common/components/layout/sidebar/sidebar.tsx 75-104: renderListItem *)
definition renderListItem :: "shell \<Rightarrow> string \<times> string \<Rightarrow> shell_msg node list" where
  "renderListItem s item =
     (case item of (name, url) \<Rightarrow>
        Button name False (LinkFollowed (toPath url)) # showIf (item_active (sh_path s) url) [Chip name ''page''])"

(* src: common/components/layout/sidebar/sidebar.tsx 107-148: renderAdvancedToggle *)
definition renderAdvancedToggle :: "shell \<Rightarrow> shell_msg node list" where
  "renderAdvancedToggle s =
     (if shouldShowIconsOnly s then [Button ''Erweiterter Modus'' False AdvancedSwitched]
      else [Text ''Erweitert'',
            Switch ''Erweiterter Modus'' (nv_advancedMode (sh_navigation s)) False (\<lambda>_. AdvancedSwitched)])"

(* src: common/components/layout/sidebar/sidebar.tsx 150-206: content *)
definition sidebar_content :: "shell \<Rightarrow> shell_msg node list" where
  "sidebar_content s =
     concat (map (\<lambda>sec.
       (case sb_section sec of
          None \<Rightarrow> []
        | Some title \<Rightarrow> showIf (title \<noteq> [] \<and> \<not> shouldShowIconsOnly s) [Text title]) @
       concat (map (renderListItem s) (sb_items sec)))
       (filter (\<lambda>sec. \<not> sb_advanced sec \<or> nv_advancedMode (sh_navigation s)) sidebarSections)) @
     renderAdvancedToggle s @
     [Button (if shouldShowIconsOnly s then ''Energieoptionen'' else ''Energie'') False SidePowerOpened] @
     renderListItem s (''Abmelden'', getAuthenticationUrl @ getSignOutUrl)"

text \<open>Below desktop the menu is a drawer that a press beside it closes; on a desktop it is always
  there, and as icons it opens with a press beside its entries.\<close>

(* src: common/components/layout/sidebar/sidebar.tsx 217-259: Sidebar *)
definition Sidebar :: "shell \<Rightarrow> shell_msg node list" where
  "Sidebar s =
     (if \<not> sh_isDesktop s then
        showIf (nv_sidebar_open (sh_navigation s)) [Group ''drawer'' (sidebar_content s @ [Button [] False DrawerClosed])]
      else [Group ''drawer'' (sidebar_content s @ showIf (shouldShowIconsOnly s) [Button [] False DrawerOpened])])"

section \<open>What a message does\<close>

text \<open>\<open>useBackToClose\<close> and the transitions are in Hooks; following a link changes the path, and with it
  the effects of the layout and the menu run: the old route's cleanup closes the dialogs, and below
  desktop the menu closes.\<close>

(* src: common/components/layout/layout.tsx 53-56: the effect of the path in MainLayout *)
definition route_left :: "shell \<Rightarrow> shell" where
  "route_left s = navigate_in RouteChanged s"

definition path_changed :: "string \<Rightarrow> shell \<Rightarrow> shell" where
  "path_changed path s =
     (let s' = route_left (s\<lparr>sh_path := path\<rparr>)
      in if \<not> sh_isDesktop s' then navigate_in closeSidebar s' else s')"

definition follow_link :: "string \<Rightarrow> shell \<Rightarrow> shell" where
  "follow_link path s =
     (if path = sh_path s
      then (case handleItemClick (sh_isDesktop s) (sh_path s) path of None \<Rightarrow> s | Some a \<Rightarrow> navigate_in a s)
      else path_changed path s)"

text \<open>A choice closes its menu and asks (\<open>handleRestart\<close>, \<open>handleShutdown\<close>).\<close>

(* src: common/components/powerMenu.tsx 31-35: the handlers of PowerMenu *)
definition power_menu_closed :: "shell \<Rightarrow> shell" where
  "power_menu_closed s = s\<lparr>sh_powerTop := False, sh_powerSide := False\<rparr>"

(* src: common/components/layout/topLayout/topAppBar.tsx 54-67: the handlers of TopAppBar *)
fun shell_update :: "shell_msg \<Rightarrow> shell \<Rightarrow> shell" where
  "shell_update SidebarToggled s = navigate_in (handleSidebarButtonClick (nv_sidebar_open (sh_navigation s))) s"
| "shell_update DrawerOpened s = navigate_in openSidedbar s"
| "shell_update DrawerClosed s = navigate_in closeSidebar s"
| "shell_update AdvancedSwitched s = navigate_in toggleAdvancedMode s"
| "shell_update NotificationsOpened s = s\<lparr>sh_notifications := True\<rparr>"
| "shell_update NotificationsClosed s = s\<lparr>sh_notifications := False\<rparr>"
| "shell_update ColorToggled s = s\<lparr>sh_color := toggleColorMode (sh_color s)\<rparr>"
| "shell_update TopPowerOpened s = s\<lparr>sh_powerTop := True\<rparr>"
| "shell_update SidePowerOpened s = s\<lparr>sh_powerSide := True\<rparr>"
| "shell_update PowerMenuClosed s = power_menu_closed s"
| "shell_update RestartChosen s = dialog_in openRestartDialog (power_menu_closed s)"
| "shell_update ShutdownChosen s = dialog_in openShutdownDialog (power_menu_closed s)"
| "shell_update (LinkFollowed path) s = follow_link path s"
| "shell_update RestartConfirmed s = dialog_in closeRestartDialog s"
| "shell_update RestartCancelled s = dialog_in closeRestartDialog s"
| "shell_update ShutdownConfirmed s = dialog_in closeShutdownDialog s"
| "shell_update ShutdownCancelled s = dialog_in closeShutdownDialog s"

definition shell_thunk :: "unit cat \<Rightarrow> nat \<Rightarrow> shell_msg \<Rightarrow> unit thunk option" where
  "shell_thunk cat fuel m =
     (case m of
        RestartConfirmed \<Rightarrow> Some (handleConfirmRestart cat fuel)
      | ShutdownConfirmed \<Rightarrow> Some (handleConfirmShutdown cat fuel)
      | _ \<Rightarrow> None)"

text \<open>Dialogs and menus are modal: while one is open its controls are all the user has.\<close>

definition shell_offers :: "shell \<Rightarrow> shell_msg set" where
  "shell_offers s =
     (if dg_restart (sh_dialogs s) \<or> dg_shutdown (sh_dialogs s) then emits (PowerDialogs (sh_dialogs s) (sh_isConnected s))
      else if sh_notifications s then emits (notifications_menu s)
      else if sh_powerTop s \<or> sh_powerSide s then emits (power_menu True)
      else emits (top_bar s) \<union> emits (Sidebar s))"

fun shell_run :: "shell_msg list \<Rightarrow> shell \<Rightarrow> shell option" where
  "shell_run [] s = Some s"
| "shell_run (m # ms) s = (if m \<in> shell_offers s then shell_run ms (shell_update m s) else None)"

section \<open>The effects of the layout\<close>

text \<open>The page gets the focus when its path is a new one, but not while the drawer is open.\<close>

(* src: common/components/layout/layout.tsx 45-51: the focus effect of MainLayout *)
definition focus_effect :: "string \<Rightarrow> bool \<Rightarrow> bool \<Rightarrow> string \<Rightarrow> string \<times> bool" where
  "focus_effect pathname sidebarOpen isDesktop focusedPathname =
     (if focusedPathname = pathname \<or> sidebarOpen \<and> \<not> isDesktop then (focusedPathname, False) else (pathname, True))"

definition initial_load_timer :: string where
  "initial_load_timer = ''app-initial-load-timer''"

(* src: common/components/layout/layout.tsx 71-76: restartInitialLoadTimer *)
definition restartInitialLoadTimer :: "string \<Rightarrow> action list" where
  "restartInitialLoadTimer prevPath =
     (if prevPath \<noteq> getAuthenticationUrl @ getSignOutUrl
      then map (timer_command_action initial_load_timer) [TimerReset, TimerStart] else [])"

(* src: common/components/layout/layout.tsx 63-69: the status check of MainLayout *)
definition layout_status_checks :: "status_payload cat \<Rightarrow> int \<Rightarrow> int \<Rightarrow> (int \<times> unit thunk) list" where
  "layout_status_checks cat mounted unmounted =
     map (\<lambda>t. (t, checkSlideshowStatusThunk cat)) (startContinuousStatusCheck mounted unmounted)"

(* src: common/components/layout/layout.tsx 78-85: the first effect of MainLayout *)
definition layout_mount :: "jsval cat \<Rightarrow> jsval cat \<Rightarrow> string \<Rightarrow> action list \<times> unit thunk list" where
  "layout_mount ci cr prevPath =
     (restartInitialLoadTimer prevPath,
      [fetchDisplayImagesLoopInterval, fetchNightMode, fetchFrameInfos ci, fetchLatestRelease cr])"

section \<open>Around the routes\<close>

text \<open>The effect of the path runs after those of the pages inside, so that a page that mounts with it
  still sees the path before.\<close>

(* src: common/components/routerContext.tsx 11-13: the path effect of RouterContext *)
definition current_path_effect :: "string \<Rightarrow> navigation_action" where
  "current_path_effect pathname = setCurrentPath pathname"

(* src: common/components/routerContext.tsx 15-20: the poll of RouterContext *)
definition connection_mode_polls :: "jsval cat \<Rightarrow> int \<Rightarrow> int \<Rightarrow> (int \<times> unit thunk) list" where
  "connection_mode_polls cat mounted unmounted =
     map (\<lambda>t. (t, fetchConnectionMode cat)) (poll_starts 10000 mounted unmounted)"

(* src: context/piConnection/piConnectionContext.tsx 19-26: the poll of PiConnectionProvider *)
definition connection_checks :: "int \<Rightarrow> int \<Rightarrow> (int \<times> bool thunk) list" where
  "connection_checks mounted unmounted =
     map (\<lambda>t. (t, checkPiConnection)) (poll_starts 30000 mounted unmounted)"

text \<open>The colour mode and what \<open>localStorage\<close> keeps of it, after the system's mode has changed.\<close>

(* src: context/colorTheme/colorThemeContext.tsx 23-32: handleSystemColorModeChange *)
definition handleSystemColorModeChange :: "bool \<Rightarrow> string \<times> string" where
  "handleSystemColorModeChange dark = (let m = color_mode_str (if dark then Dark else Light) in (m, m))"

section \<open>The notices on screen\<close>

text \<open>\<open>[..].sort((a, b) => b.id.localeCompare(a.id))\<close>: \<open>le a b\<close> is that \<open>a\<close> does not come after \<open>b\<close> in
  the browser's collation. The sort is stable.\<close>

fun insert_notice :: "(string \<Rightarrow> string \<Rightarrow> bool) \<Rightarrow> string \<times> 'e node \<Rightarrow> (string \<times> 'e node) list \<Rightarrow> (string \<times> 'e node) list" where
  "insert_notice le x [] = [x]"
| "insert_notice le x (y # ys) = (if le (fst y) (fst x) then x # y # ys else y # insert_notice le x ys)"

fun color_of :: "AlertColor \<Rightarrow> string" where
  "color_of Success = ''success''"
| "color_of Info = ''info''"
| "color_of Warning = ''warning''"
| "color_of Error = ''error''"

(* src: common/components/snackbars/alertSnackbar.tsx 21-34: AlertSnackbar *)
definition AlertSnackbar :: "alert_item \<Rightarrow> snackbars_action node" where
  "AlertSnackbar snackbar =
     Group ''snackbar''
       [Alert (color_of (sb_severity snackbar)) (js_string (sb_message snackbar)),
        Button (''Schlie'' @ s_ss @ ''en'') False (removeAlertSnackbar (sb_id snackbar))]"

text \<open>When its timeout closes it, from the time it came up.\<close>

(* src: common/components/snackbars/alertSnackbar.tsx 15-19: the effect of AlertSnackbar *)
definition alert_due :: "int \<Rightarrow> alert_item \<Rightarrow> int option" where
  "alert_due now snackbar = map_option ((+) now) (alert_duration snackbar)"

text \<open>A loading notice is there from the start and shows up late, see Hooks: \<open>late\<close> says which have.\<close>

(* src: common/components/snackbars/loadingSnackbar.tsx 11-37: LoadingSnackbar *)
definition LoadingSnackbar :: "(string \<Rightarrow> bool) \<Rightarrow> snackbar_item \<Rightarrow> snackbars_action node" where
  "LoadingSnackbar late snackbar =
     Group ''status'' (showIf (late (sb_id snackbar)) [Text (js_string (sb_message snackbar))])"

(* src: common/components/snackbars/snackbars.tsx 31-32: allSnackbars *)
definition allSnackbars ::
  "(string \<Rightarrow> string \<Rightarrow> bool) \<Rightarrow> (string \<Rightarrow> bool) \<Rightarrow> snackbars_state \<Rightarrow> (string \<times> snackbars_action node) list" where
  "allSnackbars le late st =
     foldr (insert_notice le)
       (map (\<lambda>a. (sb_id a, AlertSnackbar a)) (sn_alerts st) @
        map (\<lambda>l. (sb_id l, LoadingSnackbar late l)) (sn_loading st)) []"

(* src: common/components/snackbars/snackbars.tsx 61-69: the notices of Snackbars *)
definition Snackbars :: "(string \<Rightarrow> string \<Rightarrow> bool) \<Rightarrow> (string \<Rightarrow> bool) \<Rightarrow> snackbars_state \<Rightarrow> snackbars_action node list" where
  "Snackbars le late st = map snd (allSnackbars le late st)"

(* src: common/components/snackbars/snackbars.tsx 34-36: the effect of Snackbars *)
definition snackbars_mount :: snackbars_action where
  "snackbars_mount = removeAllLoadingSnackbars"

section \<open>Facts\<close>

lemma mset_insert_notice: "mset (insert_notice le x ys) = add_mset x (mset ys)"
  by (induction ys) auto

text \<open>Sorting loses no notice and shows none twice.\<close>

lemma allSnackbars_complete:
  "mset (allSnackbars le late st) =
     mset (map (\<lambda>a. (sb_id a, AlertSnackbar a)) (sn_alerts st) @
       map (\<lambda>l. (sb_id l, LoadingSnackbar late l)) (sn_loading st))"
proof -
  have "mset (foldr (insert_notice le) xs []) = mset xs" for xs :: "(string \<times> snackbars_action node) list"
    by (induction xs) (simp_all add: mset_insert_notice)
  then show ?thesis unfolding allSnackbars_def .
qed

lemma AlertSnackbar_emits: "node_emits (AlertSnackbar a) = {removeAlertSnackbar (sb_id a)}"
  by (simp add: AlertSnackbar_def)

lemma LoadingSnackbar_emits: "node_emits (LoadingSnackbar late l) = {}"
  by (simp add: LoadingSnackbar_def)

lemma Snackbars_close: "emits (Snackbars le late st) = removeAlertSnackbar ` sb_id ` set (sn_alerts st)"
proof -
  have "set (allSnackbars le late st) =
      (\<lambda>a. (sb_id a, AlertSnackbar a)) ` set (sn_alerts st) \<union> (\<lambda>l. (sb_id l, LoadingSnackbar late l)) ` set (sn_loading st)"
    using arg_cong [OF allSnackbars_complete, of set_mset] by simp
  then have "emits (Snackbars le late st) =
      (\<Union>a \<in> set (sn_alerts st). node_emits (AlertSnackbar a)) \<union>
      (\<Union>l \<in> set (sn_loading st). node_emits (LoadingSnackbar late l))"
    by (simp only: Snackbars_def emits_map set_map Union_Un_distrib image_Un image_image UN_simps(10) snd_conv)
  then show ?thesis by (simp only: AlertSnackbar_emits LoadingSnackbar_emits) blast
qed

lemma sidebar_content_power: "SidePowerOpened \<in> emits (sidebar_content s)"
  by (simp add: sidebar_content_def)

lemma sidebar_content_sign_out: "LinkFollowed (toPath (getAuthenticationUrl @ getSignOutUrl)) \<in> emits (sidebar_content s)"
  by (simp add: sidebar_content_def renderListItem_def)

lemma Sidebar_shown:
  "sh_isDesktop s \<or> nv_sidebar_open (sh_navigation s) \<Longrightarrow> emits (sidebar_content s) \<subseteq> emits (Sidebar s)"
  by (auto simp: Sidebar_def)

lemma PowerDialogs_restart:
  "\<not> dg_shutdown d \<Longrightarrow> dg_restart d \<Longrightarrow>
     emits (PowerDialogs d online) = {RestartCancelled} \<union> (if online then {RestartConfirmed} else {})"
  by (auto simp: PowerDialogs_def ConfirmDialog_def)

lemma PowerDialogs_shutdown:
  "dg_shutdown d \<Longrightarrow> \<not> dg_restart d \<Longrightarrow>
     emits (PowerDialogs d online) = {ShutdownCancelled} \<union> (if online then {ShutdownConfirmed} else {})"
  by (auto simp: PowerDialogs_def ConfirmDialog_def)

text \<open>A page starts with every dialog closed, and below desktop with the menu closed.\<close>

lemma path_changed_closes:
  "sh_dialogs (path_changed path s) = dialogs_initial \<and>
   (\<not> sh_isDesktop s \<longrightarrow> \<not> nv_sidebar_open (sh_navigation (path_changed path s)))"
  by (simp add: path_changed_def route_left_def Let_def closeSidebar_def)

definition at_rest :: "shell \<Rightarrow> bool" where
  "at_rest s \<longleftrightarrow> \<not> dg_restart (sh_dialogs s) \<and> \<not> dg_shutdown (sh_dialogs s) \<and> \<not> sh_notifications s \<and>
     \<not> sh_powerTop s \<and> \<not> sh_powerSide s"

text \<open>The side menu can be brought up with at most one press, and nothing else changes.\<close>

lemma sidebar_reached:
  assumes "at_rest s"
  obtains ms s' where "length ms \<le> 1" "shell_run ms s = Some s'" "at_rest s'" "emits (sidebar_content s') \<subseteq> shell_offers s'"
    "sh_isConnected s' = sh_isConnected s" "sh_path s' = sh_path s"
proof (cases "sh_isDesktop s \<or> nv_sidebar_open (sh_navigation s)")
  case True
  with assms Sidebar_shown [of s] have "emits (sidebar_content s) \<subseteq> shell_offers s"
    by (auto simp: shell_offers_def at_rest_def)
  with assms that [of "[]" s] show ?thesis by simp
next
  case False
  let ?s = "shell_update SidebarToggled s"
  have open_now: "nv_sidebar_open (sh_navigation ?s)" and rest: "at_rest ?s"
    using False assms by (auto simp: handleSidebarButtonClick_def openSidedbar_def at_rest_def)
  with Sidebar_shown [of ?s] have "emits (sidebar_content ?s) \<subseteq> shell_offers ?s"
    by (auto simp: shell_offers_def at_rest_def)
  moreover have "SidebarToggled \<in> shell_offers s"
    using assms by (simp add: shell_offers_def at_rest_def top_bar_def Let_def)
  ultimately show ?thesis using that [of "[SidebarToggled]" ?s] rest
    by (simp add: handleSidebarButtonClick_def)
qed

section \<open>Property\<close>

text \<open>Whatever the width of the window and whether or not the menu is open, from a page on which
  nothing is open the user reaches the question of a restart, that of a shutdown and the link that
  signs out within three presses, and the question can be answered with yes exactly while the board
  is connected.\<close>

lemma power_in_reach:
  assumes "at_rest s"
  shows "\<exists>ms s1 s2 s3. length ms \<le> 1 \<and>
    shell_run (ms @ [SidePowerOpened, RestartChosen]) s = Some s1 \<and> dg_restart (sh_dialogs s1) \<and>
    (RestartConfirmed \<in> shell_offers s1 \<longleftrightarrow> sh_isConnected s) \<and>
    shell_run (ms @ [SidePowerOpened, ShutdownChosen]) s = Some s2 \<and> dg_shutdown (sh_dialogs s2) \<and>
    (ShutdownConfirmed \<in> shell_offers s2 \<longleftrightarrow> sh_isConnected s) \<and>
    shell_run ms s = Some s3 \<and> LinkFollowed (toPath (getAuthenticationUrl @ getSignOutUrl)) \<in> shell_offers s3"
proof -
  from sidebar_reached [OF assms] obtain ms s' where ms: "length ms \<le> 1" "shell_run ms s = Some s'" "at_rest s'"
    "emits (sidebar_content s') \<subseteq> shell_offers s'" "sh_isConnected s' = sh_isConnected s" by blast
  have run_append: "shell_run (xs @ ys) t = (case shell_run xs t of None \<Rightarrow> None | Some t' \<Rightarrow> shell_run ys t')" for xs ys t
    by (induction xs arbitrary: t) simp_all
  let ?menu = "shell_update SidePowerOpened s'"
  let ?s1 = "shell_update RestartChosen ?menu" and ?s2 = "shell_update ShutdownChosen ?menu"
  have menu: "SidePowerOpened \<in> shell_offers s'" using ms(4) sidebar_content_power by blast
  have choices: "RestartChosen \<in> shell_offers ?menu" "ShutdownChosen \<in> shell_offers ?menu"
    using ms(3) by (simp_all add: shell_offers_def at_rest_def power_menu_def)
  have "shell_run (ms @ [SidePowerOpened, RestartChosen]) s = Some ?s1"
    "shell_run (ms @ [SidePowerOpened, ShutdownChosen]) s = Some ?s2"
    using menu choices by (simp_all add: run_append ms(2))
  moreover have "dg_restart (sh_dialogs ?s1)" "\<not> dg_shutdown (sh_dialogs ?s1)"
    "dg_shutdown (sh_dialogs ?s2)" "\<not> dg_restart (sh_dialogs ?s2)"
    using ms(3) by (simp_all add: at_rest_def power_menu_closed_def reducer_simps)
  moreover from this have "RestartConfirmed \<in> shell_offers ?s1 \<longleftrightarrow> sh_isConnected s"
    "ShutdownConfirmed \<in> shell_offers ?s2 \<longleftrightarrow> sh_isConnected s"
    using ms(5) by (simp_all add: shell_offers_def PowerDialogs_restart PowerDialogs_shutdown power_menu_closed_def)
  moreover have "LinkFollowed (toPath (getAuthenticationUrl @ getSignOutUrl)) \<in> shell_offers s'"
    using ms(4) sidebar_content_sign_out by blast
  ultimately show ?thesis using ms(1,2) by blast
qed

text \<open>On a phone on the start page, with the menu closed and the board connected.\<close>

definition shell_on_phone :: shell where
  "shell_on_phone =
     \<lparr>sh_navigation = navigation_initial, sh_dialogs = dialogs_initial, sh_notifications = False, sh_powerTop = False,
      sh_powerSide = False, sh_color = ''light'', sh_path = getHomeUrl, sh_isDesktop = False, sh_isPhone = True,
      sh_isConnected = True, sh_isAuthenticated = True, sh_updates = updates_initial, sh_mode = connectionMode_initial\<rparr>"

lemma power_in_reach_witness:
  "\<not> nv_sidebar_open (sh_navigation shell_on_phone) \<and>
   (\<exists>ms s1. length ms \<le> 1 \<and> shell_run (ms @ [SidePowerOpened, RestartChosen]) shell_on_phone = Some s1 \<and>
      RestartConfirmed \<in> shell_offers s1)"
proof -
  have "at_rest shell_on_phone" "sh_isConnected shell_on_phone"
    by (simp_all add: at_rest_def shell_on_phone_def navigation_initial_def dialogs_initial_def)
  moreover have "\<not> nv_sidebar_open (sh_navigation shell_on_phone)"
    by (simp add: shell_on_phone_def navigation_initial_def dialogs_initial_def)
  ultimately show ?thesis using power_in_reach [of shell_on_phone] by blast
qed

end
