(* ===== verification/SignInView.thy ===== *)
theory SignInView
  imports GeneralView ShellView
begin

text \<open>
  The pages outside the shell (main/authentication, main/loadingWall): signing in, as a machine over
  the user's messages, the connection mode as it arrives and the end of its request; signing out; the
  frame around them, the wall. The method and its switching are in Pages.
\<close>

section \<open>Signing in\<close>

(* src: main/authentication/signIn/signIn.tsx 25-35: what SignIn reads and its state *)
record sign_in_page =
  sp_choice :: sign_in
  sp_mode :: connection_mode_state
  sp_secret :: string
  sp_loading :: bool
  sp_show :: bool
  sp_isConnected :: bool
  sp_dialogs :: dialogs_state

(* src: main/authentication/signIn/signIn.tsx 29-35: the state of SignIn *)
definition sign_in_opened :: "connection_mode_state \<Rightarrow> bool \<Rightarrow> dialogs_state \<Rightarrow> sign_in_page" where
  "sign_in_opened cm isConnected dialogs =
     \<lparr>sp_choice = sign_in_initial, sp_mode = cm, sp_secret = [], sp_loading = False, sp_show = False,
      sp_isConnected = isConnected, sp_dialogs = dialogs\<rparr>"

text \<open>Errors of before go, the notice of a sign-out stays.\<close>

(* src: main/authentication/signIn/signIn.tsx 38-43: the first effect of SignIn *)
definition sign_in_mount :: "bool \<Rightarrow> action list" where
  "sign_in_mount signedOut = (if \<not> signedOut then [SnackbarsA removeAllSnackbars] else [])"

abbreviation shown_method :: "sign_in_page \<Rightarrow> LoginMethod" where
  "shown_method p \<equiv> login_method (sp_mode p) (sp_choice p)"

datatype sign_in_msg =
    SecretTyped string | SecretShown | SignInSubmitted | MethodSwitched
  | ResetAsked | ResetAnswered "unit thunk"

fun sign_in_update :: "sign_in_msg \<Rightarrow> sign_in_page \<Rightarrow> sign_in_page" where
  "sign_in_update (SecretTyped s) p = p\<lparr>sp_secret := s\<rparr>"
| "sign_in_update SecretShown p = p\<lparr>sp_show := \<not> sp_show p\<rparr>"
| "sign_in_update SignInSubmitted p = p\<lparr>sp_loading := True\<rparr>"
| "sign_in_update MethodSwitched p = p\<lparr>sp_choice := handleToggleMethod (sp_choice p), sp_secret := []\<rparr>"
| "sign_in_update ResetAsked p = p\<lparr>sp_dialogs := dialogsReducer (sp_dialogs p) openGeneralFactoryResetDialog\<rparr>"
| "sign_in_update (ResetAnswered t) p = p\<lparr>sp_dialogs := dialogsReducer (sp_dialogs p) closeGeneralFactoryResetDialog\<rparr>"

definition sign_in_sends :: "sign_in_page \<Rightarrow> sign_in_msg \<Rightarrow> LoginCredentials option" where
  "sign_in_sends p m = (if m = SignInSubmitted then Some (sign_in_credentials (shown_method p) (sp_secret p)) else None)"

(* src: main/authentication/signIn/signIn.tsx 55-64: handleSubmit *)
definition sign_in_settled :: "bool \<Rightarrow> sign_in_page \<Rightarrow> sign_in_page" where
  "sign_in_settled rejected p = (if rejected then p\<lparr>sp_secret := []\<rparr> else p)\<lparr>sp_loading := False\<rparr>"

text \<open>The store's connection mode is another; the page renders and its effect runs.\<close>

definition mode_arrived :: "connection_mode_state \<Rightarrow> sign_in_page \<Rightarrow> sign_in_page" where
  "mode_arrived cm p =
     p\<lparr>sp_mode := cm, sp_choice := offline_effect (cm_loaded cm) (cm_internet cm) (sp_choice p)\<rparr>"

definition method_label :: "LoginMethod \<Rightarrow> string" where
  "method_label m = (if m = OtpMethod then ''Einmal-Code'' else ''Passwort'')"

(* src: main/authentication/signIn/signIn.tsx 103-116: what the page says of the method *)
definition sign_in_hints :: "sign_in_page \<Rightarrow> 'e node list" where
  "sign_in_hints p =
     [Text (if shown_method p = OtpMethod
        then ''Melde dich mit einem Einmal-Code an. Du erh'' @ s_ae @ ''ltst ihn auf shareframe.de unter '' @ quoted ''Bilderrahmen'' @
          '' '' @ s_ue @ ''ber '' @ quoted ''Einmal-Code anzeigen'' @ ''.''
        else ''Melde dich mit dem Ger'' @ s_ae @ ''te-Passwort an.'')] @
     (if onHotspot (sp_mode p)
      then [Alert ''info''
        (''Der Bilderrahmen ist mit keinem WLAN verbunden und stellt den Hotspot '' @
         quoted (js_string (js_or (cm_ap_ssid (sp_mode p)) (JStr ''shareframe-board''))) @
         '' bereit. Melde dich mit dem Ger'' @ s_ae @ ''te-Passwort an und f'' @ s_ue @ ''ge unter '' @ quoted ''Netzwerk'' @
         '' dein WLAN hinzu.'')]
      else showIf (cm_loaded (sp_mode p) \<and> \<not> cm_internet (sp_mode p))
        [Alert ''info'' (''Keine Internetverbindung. Die Anmeldung mit Einmal-Code ist gerade nicht m'' @ s_oe @ ''glich.'')])"

text \<open>The field is required and the form is sent by its button or with Enter, which a disabled button
  prevents. While a request is running the button is disabled.\<close>

(* src: main/authentication/signIn/signIn.tsx 118-173: the form of SignIn *)
definition sign_in_form :: "sign_in_page \<Rightarrow> sign_in_msg node" where
  "sign_in_form p =
     Group ''form''
       [Input (method_label (shown_method p)) (secret (sp_show p) (sp_secret p)) False SecretTyped,
        Button (method_label (shown_method p) @ '' '' @ (if sp_show p then ''verbergen'' else ''anzeigen'')) False SecretShown,
        Button ''Anmelden'' (sp_loading p \<or> sp_secret p = [] \<or> \<not> sp_isConnected p) SignInSubmitted,
        if onHotspot (sp_mode p)
        then Button (''Passwort vergessen? Auf Werkseinstellungen zur'' @ s_ue @ ''cksetzen'') False ResetAsked
        else Button (if shown_method p = OtpMethod then ''Mit Passwort anmelden'' else ''Mit Einmal-Code anmelden'')
          False MethodSwitched]"

(* src: main/authentication/signIn/signIn.tsx 87-175: SignIn *)
definition SignIn :: "unit cat \<Rightarrow> nat \<Rightarrow> sign_in_page \<Rightarrow> sign_in_msg node list" where
  "SignIn cat fuel p =
     [Text ''Willkommen bei deinem Bilderrahmen''] @ sign_in_hints p @ [sign_in_form p] @
     showIf (onHotspot (sp_mode p))
       (map (map_node ResetAnswered) (FactoryResetDialog cat fuel (sp_dialogs p) (sp_isConnected p)))"

section \<open>One login at a time\<close>

text \<open>The page with the logins that have not settled.\<close>

inductive sign_in_reaches :: "sign_in_page \<times> LoginCredentials list \<Rightarrow> bool" where
  opened: "sign_in_reaches (mode_arrived cm (sign_in_opened cm online dialogs), [])"
| user: "sign_in_reaches (p, cs) \<Longrightarrow> m \<in> emits (SignIn cat fuel p) \<Longrightarrow>
    sign_in_reaches (sign_in_update m p, cs @ (case sign_in_sends p m of None \<Rightarrow> [] | Some c \<Rightarrow> [c]))"
| settled: "sign_in_reaches (p, c # cs) \<Longrightarrow> sign_in_reaches (sign_in_settled rejected p, cs)"
| mode: "sign_in_reaches (p, cs) \<Longrightarrow> sign_in_reaches (mode_arrived cm p, cs)"
| connection: "sign_in_reaches (p, cs) \<Longrightarrow> sign_in_reaches (p\<lparr>sp_isConnected := b\<rparr>, cs)"

lemma node_emits_map_node: "node_emits (map_node f n) = f ` node_emits n"
  by (induction n) (auto simp: emits_def)

lemma hints_emit_nothing: "emits (sign_in_hints p) = {}"
  by (simp add: sign_in_hints_def)

lemma sign_in_submit:
  "SignInSubmitted \<in> emits (SignIn cat fuel p) \<longleftrightarrow> \<not> sp_loading p \<and> sp_secret p \<noteq> [] \<and> sp_isConnected p"
  by (auto simp: SignIn_def sign_in_form_def hints_emit_nothing emits_map node_emits_map_node)

lemma sign_in_one_login:
  "sign_in_reaches x \<Longrightarrow> (case x of (p, cs) \<Rightarrow> length cs = (if sp_loading p then 1 else 0))"
proof (induction rule: sign_in_reaches.induct)
  case (user p cs m cat fuel)
  then show ?case
    by (cases m) (auto simp: sign_in_sends_def sign_in_submit)
qed (auto simp: sign_in_opened_def sign_in_settled_def mode_arrived_def split: if_splits)

section \<open>Signing out\<close>

(* src: main/authentication/signOut/signOut.tsx 18-22: handleSignOut *)
definition handleSignOut :: "bool cat \<Rightarrow> unit thunk" where
  "handleSignOut cat =
     bindP (logoutThunk cat) (\<lambda>_. Browser (NavigateTo (getAuthenticationUrl @ getSignInUrl)) (Return ()))"

datatype navigation = GoTo string | GoBack

(* src: main/authentication/signOut/signOut.tsx 25-28: handleCancel *)
definition handleCancel :: "string \<Rightarrow> navigation" where
  "handleCancel location_key = (if location_key = ''default'' then GoTo getHomeUrl else GoBack)"

datatype sign_out_msg = SignOutConfirmed | SignOutCancelled

(* src: main/authentication/signOut/signOut.tsx 30-81: SignOut *)
definition SignOut :: "bool \<Rightarrow> sign_out_msg node list" where
  "SignOut busy =
     [Text ''Abmelden'', Text (''M'' @ s_oe @ ''chtest du dich abmelden?''),
      Button ''Abmelden'' busy SignOutConfirmed, Button Abbrechen busy SignOutCancelled]"

lemma SignOut_once: "emits (SignOut busy) = {} \<longleftrightarrow> busy"
  by (simp add: SignOut_def)

section \<open>Around the pages\<close>

(* src: main/authentication/layout.tsx 10-28: Copyright *)
definition Copyright :: "int \<Rightarrow> 'e node list" where
  "Copyright year = [Text (''Copyright '' @ [CHR 0xC2, CHR 0xA9] @ '' shareframe.de '' @ int_str year @ ''.'')]"

(* src: common/components/logo.tsx 18-64: Logo *)
definition Logo :: "bool \<Rightarrow> string \<Rightarrow> string \<Rightarrow> bool \<Rightarrow> string \<Rightarrow> string \<Rightarrow> string node list" where
  "Logo dark darkLogoSrc lightLogoSrc clickable homeUrl alt =
     Picture (if dark then darkLogoSrc else lightLogoSrc) alt # showIf clickable [Button alt False homeUrl]"

definition full_logo :: "bool \<Rightarrow> string node list" where
  "full_logo dark = Logo dark ''/logo-dark-full-shareframe.svg'' ''/logo-light-full-shareframe.svg'' False ''/'' ''ShareFrame''"

(* src: main/authentication/layout.tsx 30-76: AuthenticationLayout *)
definition AuthenticationLayout :: "bool \<Rightarrow> int \<Rightarrow> string node list \<Rightarrow> string node list" where
  "AuthenticationLayout dark year outlet = full_logo dark @ outlet @ Copyright year"

(* src: main/loadingWall/loadingWall.tsx 6-33: LoadingWall *)
definition LoadingWall :: "bool \<Rightarrow> loading_wall_state \<Rightarrow> string node list" where
  "LoadingWall dark st = full_logo dark @ [Text (lw_message st)]"

lemma LoadingWall_closed: "emits (LoadingWall dark st) = {}"
  by (simp add: LoadingWall_def full_logo_def Logo_def)

(* src: common/components/hiddenPageTitle.tsx 5-7: HiddenPageTitle *)
definition HiddenPageTitle :: "string \<Rightarrow> 'e node" where
  "HiddenPageTitle children = Text children"

(* src: common/components/loadingFallback.tsx 3-7: LoadingFallback *)
definition LoadingFallback :: "'e node" where
  "LoadingFallback = Group ''progress'' [Text (''Seite l'' @ s_ae @ ''dt'')]"

section \<open>Properties\<close>



text \<open>C31: Signing out sends one request and always leads to the sign-in page. If any answer came, an error
  too, the session counts as ended; if none came it goes on, and the sign-in page leads back to the
  start page or, on the hotspot, to the network page.\<close>

lemma sign_out_result:
  assumes "rtk_lifecycle cat"
    and "reply_at w (cf_steps c + 1) (post_req getLogoutUrl) default_timeout = answer"
  shows "\<exists>c'. runR w (handleSignOut cat) c = (Returned (), c') \<and>
    requests_of (cf_trace c') = requests_of (cf_trace c) @ [post_req getLogoutUrl] \<and>
    last (cf_trace c') = Called (NavigateTo (getAuthenticationUrl @ getSignInUrl)) \<and>
    au_isAuthenticated (rs_auth (cf_store c')) =
      (case answer of Inl _ \<Rightarrow> au_isAuthenticated (rs_auth (cf_store c)) | Inr _ \<Rightarrow> JBool False) \<and>
    sign_in_target (truthy (au_isAuthenticated (rs_auth (cf_store c')))) cm =
      (case answer of
         Inl _ \<Rightarrow> if truthy (au_isAuthenticated (rs_auth (cf_store c)))
           then Some (if onHotspot cm then getHomeUrl @ getNetworkUrl else getHomeUrl) else None
       | Inr _ \<Rightarrow> None)"
proof -
  have "\<exists>c'. runR w (handleSignOut cat) c = (Returned (), c') \<and>
    requests_of (cf_trace c') = requests_of (cf_trace c) @ [post_req getLogoutUrl] \<and>
    last (cf_trace c') = Called (NavigateTo (getAuthenticationUrl @ getSignInUrl)) \<and>
    au_isAuthenticated (rs_auth (cf_store c')) =
      (case answer of Inl _ \<Rightarrow> au_isAuthenticated (rs_auth (cf_store c)) | Inr _ \<Rightarrow> JBool False)"
    using assms(2)
    by (cases answer) (simp_all add: handleSignOut_def run_bindP logoutThunk_def logout_creator_def
        rtk_lifecycle_run [OF assms(1)] settled_action_def reply_at_def)
  then obtain c' where c': "runR w (handleSignOut cat) c = (Returned (), c')"
    "requests_of (cf_trace c') = requests_of (cf_trace c) @ [post_req getLogoutUrl]"
    "last (cf_trace c') = Called (NavigateTo (getAuthenticationUrl @ getSignInUrl))"
    "au_isAuthenticated (rs_auth (cf_store c')) =
      (case answer of Inl _ \<Rightarrow> au_isAuthenticated (rs_auth (cf_store c)) | Inr _ \<Rightarrow> JBool False)" by blast
  have "sign_in_target (truthy (au_isAuthenticated (rs_auth (cf_store c')))) cm =
      (case answer of
         Inl _ \<Rightarrow> if truthy (au_isAuthenticated (rs_auth (cf_store c)))
           then Some (if onHotspot cm then getHomeUrl @ getNetworkUrl else getHomeUrl) else None
       | Inr _ \<Rightarrow> None)"
    by (cases answer) (simp_all add: sign_in_target_def c'(4))
  with c' show ?thesis by blast
qed

text \<open>The board does not answer; who was signed in is back on the start page.\<close>

definition signed_in_cfg :: root_cfg where
  "signed_in_cfg = fresh_cfg\<lparr>cf_store := (root_initial 0)\<lparr>rs_auth := auth_initial\<lparr>au_isAuthenticated := JBool True\<rparr>\<rparr>\<rparr>"

definition unplugged_world :: world where
  "unplugged_world = silent_world\<lparr>w_net := \<lambda>_ _. \<lparr>ne_latency = 5, ne_answer = Inl (ErrorObj ''Failed to fetch'')\<rparr>\<rparr>"

lemma sign_out_result_witness:
  "\<exists>c'. runR unplugged_world (handleSignOut standard_async_thunk) signed_in_cfg = (Returned (), c') \<and>
     sign_in_target (truthy (au_isAuthenticated (rs_auth (cf_store c')))) connectionMode_initial = Some getHomeUrl"
proof -
  have "reply_at unplugged_world (cf_steps signed_in_cfg + 1) (post_req getLogoutUrl) default_timeout = Inl (ErrorObj ''Failed to fetch'')"
    by (simp add: reply_at_def unplugged_world_def fetch_settles_def default_timeout_def)
  from sign_out_result [OF rtk_lifecycle_standard this, of connectionMode_initial] show ?thesis
    by (auto simp: signed_in_cfg_def onHotspot_def connectionMode_initial_def)
qed

end
