(* ===== verification/ImageLoader.thy ===== *)
theory ImageLoader
  imports View Api
begin

text \<open>
  The picture that is fetched with the session's cookie and shown from memory
  (common/components/authenticatedImage.tsx). Each run of its effect fetches the image and makes an
  object URL of it, which has to be revoked or the image stays in memory. The component is a
  machine over what the browser and the network do; \<open>il_live\<close> are the object URLs that were created
  and not revoked yet.
\<close>

section \<open>State\<close>

text \<open>A run of the effect: what it closes over (\<open>isMounted\<close>, \<open>objectUrl\<close>), and which await it is in.\<close>

datatype load_phase = Fetching | ReadingBlob | Settled

record load_run =
  lr_url :: string
  lr_isMounted :: bool
  lr_objectUrl :: string
  lr_phase :: load_phase

record image_loader =
  il_url :: string
  il_imageSrc :: string
  il_isLoading :: bool
  il_isVisible :: bool
  il_mounted :: bool
  il_runs :: "load_run list"
  il_live :: "string list"
  il_errors :: "thrown list"

(* src: common/components/authenticatedImage.tsx 25-28: the state of AuthenticatedImage *)
definition loader_mount :: "string \<Rightarrow> image_loader" where
  "loader_mount url = \<lparr>il_url = url, il_imageSrc = [], il_isLoading = True, il_isVisible = False, il_mounted = True,
     il_runs = [], il_live = [], il_errors = []\<rparr>"

section \<open>The effect\<close>

definition revokeObjectURL :: "string \<Rightarrow> image_loader \<Rightarrow> image_loader" where
  "revokeObjectURL u st = st\<lparr>il_live := filter (\<lambda>x. x \<noteq> u) (il_live st)\<rparr>"

text \<open>The effect up to its first await: a new run, the last of the list.\<close>

(* src: common/components/authenticatedImage.tsx 56-65: the start of the effect *)
definition load_start :: "image_loader \<Rightarrow> image_loader" where
  "load_start st =
     (if \<not> il_isVisible st then st
      else st\<lparr>il_isLoading := True,
              il_runs := il_runs st @ [\<lparr>lr_url = il_url st, lr_isMounted = True, lr_objectUrl = [], lr_phase = Fetching\<rparr>]\<rparr>)"

text \<open>The cleanup that the last effect returned; one that returned early has none.\<close>

(* src: common/components/authenticatedImage.tsx 90-95: the cleanup of the effect *)
definition load_cleanup :: "image_loader \<Rightarrow> image_loader" where
  "load_cleanup st =
     (if il_runs st = [] then st
      else
        let r = last (il_runs st);
            st' = st\<lparr>il_runs := butlast (il_runs st) @ [r\<lparr>lr_isMounted := False\<rparr>]\<rparr>
        in if lr_objectUrl r \<noteq> [] then revokeObjectURL (lr_objectUrl r) st' else st')"

(* src: common/components/authenticatedImage.tsx 77-85: the catch of loadImage *)
definition load_failed :: "nat \<Rightarrow> thrown \<Rightarrow> image_loader \<Rightarrow> image_loader" where
  "load_failed i error st =
     (let st' = st\<lparr>il_runs := (il_runs st)[i := (il_runs st ! i)\<lparr>lr_phase := Settled\<rparr>]\<rparr>
      in if \<not> lr_isMounted (il_runs st ! i) then st'
         else st'\<lparr>il_isLoading := False,
                  il_errors := il_errors st @ [case error of ErrorObj m \<Rightarrow> error | _ \<Rightarrow> ErrorObj ''Failed to load image'']\<rparr>)"

text \<open>The request settles: the body is read next, unless the answer is no success.\<close>

(* src: common/components/authenticatedImage.tsx 65-69: the answer in loadImage *)
definition load_answered :: "nat \<Rightarrow> net_event \<Rightarrow> image_loader \<Rightarrow> image_loader" where
  "load_answered i ev st =
     (case fetch_settles default_timeout ev of
        Inl e \<Rightarrow> load_failed i e st
      | Inr response \<Rightarrow>
          if \<not> rs_ok response
          then load_failed i (ErrorObj (''Failed to load image ('' @ nat_str (rs_status response) @ '')'')) st
          else st\<lparr>il_runs := (il_runs st)[i := (il_runs st ! i)\<lparr>lr_phase := ReadingBlob\<rparr>]\<rparr>)"

text \<open>The body is there; the browser makes the object URL \<open>u\<close> of it.\<close>

(* src: common/components/authenticatedImage.tsx 69-76: the image of loadImage *)
definition load_image :: "nat \<Rightarrow> string \<Rightarrow> image_loader \<Rightarrow> image_loader" where
  "load_image i u st =
     (let st' = st\<lparr>il_live := u # il_live st,
                   il_runs := (il_runs st)[i := (il_runs st ! i)\<lparr>lr_phase := Settled, lr_objectUrl := u\<rparr>]\<rparr>
      in if lr_isMounted (il_runs st ! i) then st'\<lparr>il_imageSrc := u, il_isLoading := False\<rparr>
         else revokeObjectURL u st')"

section \<open>The component\<close>

text \<open>React runs the cleanup and the effect again when a dependency has changed: the URL, the
  visibility, or the handler of errors.\<close>

definition load_again :: "image_loader \<Rightarrow> image_loader" where
  "load_again st = load_start (load_cleanup st)"

text \<open>Once it has been near the viewport the component stays visible.\<close>

(* src: common/components/authenticatedImage.tsx 33-37: the callback of the IntersectionObserver *)
definition intersects :: "bool \<Rightarrow> image_loader \<Rightarrow> image_loader" where
  "intersects isIntersecting st =
     (if isIntersecting \<and> \<not> il_isVisible st then load_start (st\<lparr>il_isVisible := True\<rparr>) else st)"

text \<open>What is shown: the skeleton while the minimum loading time says so, else the image, if there
  is one.\<close>

(* src: common/components/authenticatedImage.tsx 98-142: what AuthenticatedImage shows *)
definition AuthenticatedImage :: "bool \<Rightarrow> string \<Rightarrow> image_loader \<Rightarrow> 'e node list" where
  "AuthenticatedImage showSkeleton alt st =
     (if showSkeleton then [Group ''skeleton'' []]
      else showIf (il_imageSrc st \<noteq> []) [Picture (il_imageSrc st) alt])"

text \<open>An object URL is new: the browser never makes one twice.\<close>

inductive loader_reaches :: "string \<Rightarrow> image_loader \<Rightarrow> bool" for url0 where
  mounted: "loader_reaches url0 (loader_mount url0)"
| seen: "loader_reaches url0 st \<Longrightarrow> il_mounted st \<Longrightarrow> loader_reaches url0 (intersects b st)"
| changed: "loader_reaches url0 st \<Longrightarrow> il_mounted st \<Longrightarrow>
    loader_reaches url0 (load_again (st\<lparr>il_url := url\<rparr>))"
| unmounted: "loader_reaches url0 st \<Longrightarrow> il_mounted st \<Longrightarrow>
    loader_reaches url0 (load_cleanup (st\<lparr>il_mounted := False\<rparr>))"
| answered: "loader_reaches url0 st \<Longrightarrow> i < length (il_runs st) \<Longrightarrow> lr_phase (il_runs st ! i) = Fetching \<Longrightarrow>
    loader_reaches url0 (load_answered i ev st)"
| image: "loader_reaches url0 st \<Longrightarrow> i < length (il_runs st) \<Longrightarrow> lr_phase (il_runs st ! i) = ReadingBlob \<Longrightarrow>
    u \<noteq> [] \<Longrightarrow> u \<notin> lr_objectUrl ` set (il_runs st) \<Longrightarrow> loader_reaches url0 (load_image i u st)"
| broken: "loader_reaches url0 st \<Longrightarrow> i < length (il_runs st) \<Longrightarrow> lr_phase (il_runs st ! i) = ReadingBlob \<Longrightarrow>
    loader_reaches url0 (load_failed i e st)"

section \<open>Object URLs\<close>

text \<open>Only the last run can be mounted, and only its object URL, if it has one, is live.\<close>

definition loader_inv :: "image_loader \<Rightarrow> bool" where
  "loader_inv st \<longleftrightarrow>
     (\<forall>r \<in> set (il_runs st). lr_objectUrl r \<noteq> [] \<longrightarrow> lr_phase r = Settled) \<and>
     (\<forall>r \<in> set (butlast (il_runs st)). \<not> lr_isMounted r) \<and>
     (il_runs st = [] \<longrightarrow> \<not> il_isVisible st \<and> il_live st = [] \<and> il_imageSrc st = [] \<and> il_isLoading st) \<and>
     (il_runs st \<noteq> [] \<longrightarrow>
        il_isVisible st \<and> lr_isMounted (last (il_runs st)) = il_mounted st \<and>
        il_live st = (if il_mounted st \<and> lr_objectUrl (last (il_runs st)) \<noteq> [] then [lr_objectUrl (last (il_runs st))]
                      else []) \<and>
        (il_mounted st \<longrightarrow>
           (il_isLoading st \<longleftrightarrow> lr_phase (last (il_runs st)) \<noteq> Settled) \<and>
           (lr_objectUrl (last (il_runs st)) \<noteq> [] \<longrightarrow> il_imageSrc st = lr_objectUrl (last (il_runs st)))))"

lemma set_update_ball: "(\<forall>r \<in> set xs. P r) \<Longrightarrow> P x \<Longrightarrow> (\<forall>r \<in> set (xs[i := x]). P r)"
  using set_update_subset_insert [of xs i x] by blast

text \<open>A run is the last one or one that is no longer mounted.\<close>

lemma run_cases [consumes 2, case_names last older]:
  assumes "loader_inv st" "i < length (il_runs st)"
  obtains rs r where "il_runs st = rs @ [r]" "i = length rs" "il_runs st ! i = r"
  | rs r where "il_runs st = rs @ [r]" "i < length rs" "il_runs st ! i = rs ! i" "\<not> lr_isMounted (rs ! i)"
proof (cases "il_runs st" rule: rev_cases)
  case Nil
  with assms(2) show ?thesis by simp
next
  case (snoc rs r)
  with assms that show ?thesis
    by (cases "i = length rs") (auto simp: loader_inv_def nth_append)
qed

lemma load_start_inv:
  assumes "\<forall>r \<in> set (il_runs st). \<not> lr_isMounted r" and "\<forall>r \<in> set (il_runs st). lr_objectUrl r \<noteq> [] \<longrightarrow> lr_phase r = Settled"
    and "il_live st = []" "il_isVisible st" "il_mounted st"
  shows "loader_inv (load_start st)"
  using assms by (auto simp: loader_inv_def load_start_def)

lemma load_cleanup_inv:
  assumes "loader_inv st" and "il_mounted st"
  shows "\<forall>r \<in> set (il_runs (load_cleanup st)). \<not> lr_isMounted r"
    and "\<forall>r \<in> set (il_runs (load_cleanup st)). lr_objectUrl r \<noteq> [] \<longrightarrow> lr_phase r = Settled"
    and "il_live (load_cleanup st) = []"
    and "il_isVisible (load_cleanup st) = il_isVisible st" "il_mounted (load_cleanup st) = il_mounted st"
    and "il_runs st = [] \<Longrightarrow> load_cleanup st = st" "il_runs st \<noteq> [] \<Longrightarrow> il_runs (load_cleanup st) \<noteq> []"
  using assms by (cases "il_runs st" rule: rev_cases;
      auto simp: loader_inv_def load_cleanup_def revokeObjectURL_def Let_def)+

lemma load_failed_inv:
  assumes "loader_inv st" "i < length (il_runs st)" "lr_phase (il_runs st ! i) \<noteq> Settled"
  shows "loader_inv (load_failed i e st)"
  using assms(1,2)
proof (cases rule: run_cases)
  case (last rs r)
  with assms show ?thesis
    by (auto simp: loader_inv_def load_failed_def Let_def list_update_append)
next
  case (older rs r)
  with assms show ?thesis
    by (auto simp: loader_inv_def load_failed_def Let_def list_update_append nth_append
        dest!: set_update_subset_insert [THEN subsetD] split: if_splits)
qed

lemma load_image_inv:
  assumes "loader_inv st" "i < length (il_runs st)" "lr_phase (il_runs st ! i) \<noteq> Settled"
    and "u \<noteq> []" "u \<notin> lr_objectUrl ` set (il_runs st)"
  shows "loader_inv (load_image i u st)"
  using assms(1,2)
proof (cases rule: run_cases)
  case (last rs r)
  with assms show ?thesis
    by (auto simp: loader_inv_def load_image_def revokeObjectURL_def Let_def list_update_append)
next
  case (older rs r)
  with assms have "u \<notin> set (il_live st)" by (auto simp: loader_inv_def split: if_splits)
  with assms older show ?thesis
    by (auto simp: loader_inv_def load_image_def revokeObjectURL_def Let_def list_update_append nth_append
        dest!: set_update_subset_insert [THEN subsetD] split: if_splits)
qed

lemma load_answered_inv:
  assumes "loader_inv st" "i < length (il_runs st)" "lr_phase (il_runs st ! i) = Fetching"
  shows "loader_inv (load_answered i ev st)"
proof -
  have failed: "loader_inv (load_failed i e st)" for e
    using load_failed_inv [OF assms(1,2)] assms(3) by simp
  have "loader_inv (st\<lparr>il_runs := (il_runs st)[i := (il_runs st ! i)\<lparr>lr_phase := ReadingBlob\<rparr>]\<rparr>)"
    using assms(1,2)
  proof (cases rule: run_cases)
    case (last rs r)
    with assms show ?thesis by (auto simp: loader_inv_def list_update_append)
  next
    case (older rs r)
    with assms show ?thesis
      by (auto simp: loader_inv_def list_update_append nth_append
          dest!: set_update_subset_insert [THEN subsetD] split: if_splits)
  qed
  with failed show ?thesis by (simp add: load_answered_def split: sum.split)
qed

lemma load_again_inv:
  assumes "loader_inv st" "il_mounted st"
  shows "loader_inv (load_again (st\<lparr>il_url := url\<rparr>))"
proof -
  let ?st = "st\<lparr>il_url := url\<rparr>"
  have inv: "loader_inv ?st" "il_mounted ?st" using assms by (simp_all add: loader_inv_def)
  show ?thesis
  proof (cases "il_isVisible st")
    case True
    then show ?thesis
      unfolding load_again_def using load_cleanup_inv [OF inv] inv(2) by (intro load_start_inv) simp_all
  next
    case False
    with inv have "load_again ?st = ?st"
      by (auto simp: load_again_def load_start_def load_cleanup_def loader_inv_def)
    with inv show ?thesis by simp
  qed
qed

lemma load_unmount_inv:
  assumes "loader_inv st" "il_mounted st"
  shows "loader_inv (load_cleanup (st\<lparr>il_mounted := False\<rparr>))"
  using assms by (cases "il_runs st" rule: rev_cases)
    (auto simp: loader_inv_def load_cleanup_def revokeObjectURL_def Let_def)

lemma intersects_inv:
  assumes "loader_inv st" "il_mounted st"
  shows "loader_inv (intersects b st)"
  using assms by (auto simp: intersects_def intro!: load_start_inv) (auto simp: loader_inv_def)

lemma loader_reaches_inv: "loader_reaches url0 st \<Longrightarrow> loader_inv st"
proof (induction rule: loader_reaches.induct)
  case mounted
  then show ?case by (simp add: loader_inv_def loader_mount_def)
qed (simp_all add: intersects_inv load_again_inv load_unmount_inv load_answered_inv load_image_inv load_failed_inv)

section \<open>Property\<close>

text \<open>C20: The picture never leaks its memory: whatever the page, the user and the network do, and in
  whatever order old fetches come back, at most one object URL is live, none once the component is
  gone, and while no load is running the image it shows is that one, unless the last load failed.\<close>

lemma image_urls_never_leak:
  assumes "loader_reaches url0 st"
  shows "length (il_live st) \<le> 1 \<and> (\<not> il_mounted st \<longrightarrow> il_live st = []) \<and>
    (il_mounted st \<and> \<not> il_isLoading st \<longrightarrow>
       il_live st = [il_imageSrc st] \<or> il_live st = [] \<and> lr_objectUrl (last (il_runs st)) = [])"
  using loader_reaches_inv [OF assms] by (auto simp: loader_inv_def split: if_splits)

text \<open>The exception is real: the image of \<open>/a\<close> has loaded, the component is given \<open>/b\<close>, and the
  board answers that with an error. What is then shown is the object URL of \<open>/a\<close>, which is revoked.\<close>

definition status_event :: "nat \<Rightarrow> net_event" where
  "status_event n = \<lparr>ne_latency = 5, ne_answer = Inr \<lparr>rs_status = n, rs_body = Inr JNull\<rparr>\<rparr>"

definition reload_failed :: image_loader where
  "reload_failed =
     load_answered 1 (status_event 500)
       (load_again ((load_image 0 ''blob:1'' (load_answered 0 (status_event 200) (intersects True (loader_mount ''/a''))))
         \<lparr>il_url := ''/b''\<rparr>))"

lemmas loader_defs = loader_mount_def intersects_def load_start_def load_answered_def load_image_def load_again_def
  load_cleanup_def revokeObjectURL_def load_failed_def status_event_def fetch_settles_def default_timeout_def rs_ok_def

lemma reload_failed_reached: "loader_reaches ''/a'' reload_failed"
proof -
  let ?st1 = "intersects True (loader_mount ''/a'')"
  have "loader_reaches ''/a'' ?st1"
    by (rule loader_reaches.seen [OF loader_reaches.mounted]) (simp add: loader_mount_def)
  then have "loader_reaches ''/a'' (load_answered 0 (status_event 200) ?st1)" (is "loader_reaches _ ?st2")
    by (rule loader_reaches.answered) (simp_all add: loader_defs)
  then have "loader_reaches ''/a'' (load_image 0 ''blob:1'' ?st2)" (is "loader_reaches _ ?st3")
    by (rule loader_reaches.image) (simp_all add: loader_defs)
  then have "loader_reaches ''/a'' (load_again (?st3\<lparr>il_url := ''/b''\<rparr>))" (is "loader_reaches _ ?st4")
    by (rule loader_reaches.changed) (simp add: loader_defs)
  then show ?thesis
    unfolding reload_failed_def by (rule loader_reaches.answered) (simp_all add: loader_defs Let_def)
qed

lemma image_urls_never_leak_witness:
  "il_live reload_failed = [] \<and> AuthenticatedImage False ''Foto'' reload_failed = [Picture ''blob:1'' ''Foto'']"
proof -
  have shown: "il_imageSrc reload_failed = ''blob:1'' \<and> \<not> il_isLoading reload_failed \<and> il_mounted reload_failed \<and>
      lr_objectUrl (last (il_runs reload_failed)) = []"
    by (simp add: reload_failed_def loader_defs Let_def)
  moreover have "length (il_live reload_failed) \<le> 1 \<and>
      (il_live reload_failed = [''blob:1''] \<or> il_live reload_failed = [])"
    using image_urls_never_leak [OF reload_failed_reached] shown by simp
  moreover have "''blob:1'' \<notin> set (il_live reload_failed)"
    by (simp add: reload_failed_def loader_defs Let_def)
  ultimately show ?thesis by (auto simp: AuthenticatedImage_def)
qed

end
