(* ===== verification/Footprint.thy ===== *)
theory Footprint
  imports TypedLoop Page
begin

text \<open>
  What the thunks have in common: besides the lifecycle actions of their own, which \<open>createAsyncThunk\<close>
  dispatches for them, they touch only the slices all of them share, the snackbars, the timers, the
  loading wall and the operations. A check of one such thunk is then one of its lifecycle actions.
\<close>

definition shared_action :: "action \<Rightarrow> bool" where
  "shared_action a \<longleftrightarrow>
     (case a of SnackbarsA _ \<Rightarrow> True | TimersA _ \<Rightarrow> True | LoadingWallA _ \<Rightarrow> True | OperationA _ \<Rightarrow> True | _ \<Rightarrow> False)"

lemma shared_action_simps [simp]:
  "shared_action (SnackbarsA a)" "shared_action (TimersA b)" "shared_action (LoadingWallA c)" "shared_action (OperationA d)"
  by (simp_all add: shared_action_def)

abbreviation shared :: "'r thunk \<Rightarrow> bool" where
  "shared \<equiv> typed (\<lambda>_ _. True) (\<lambda>_. True) shared_action (\<lambda>_. True) (\<lambda>_. True)"

lemma shared_getP [simp]:
  "typed net g act E R (getP v k f) \<longleftrightarrow> (if nullish v then E (type_error v k) else typed net g act E R (f (own_prop v k)))"
  by (simp add: getP_def js_get_def)

lemma shared_creators_1:
  "shared (changePassword_creator pw pw')"
  "shared logout_creator"
  "shared fetchConnectionMode_creator"
  "shared fetchNetworkData_creator"
  "shared (addNetwork_creator nc)"
  "shared (forgetNetwork_creator ssid)"
  "shared (changeApPassword_creator pw)"
  "shared connectToSavedNetworks_creator"
  by (auto simp: prog_simps boardAlertP_def fetchWithTimeout_def jsonP_def split: sum.splits)

lemma shared_creators_2:
  "shared fetchFrameInfos_creator"
  "shared fetchDisplayStats_creator"
  "shared (fetchFrameLogs_creator params)"
  "shared fetchLatestRelease_creator"
  "shared performUpdate_creator"
  "shared fetchUpdateStatus_creator"
  "shared fetchUpdateHistory_creator"
  "shared fetchServices_creator"
  "shared (restartService_creator i)"
  "shared fetchDisplayCustomization_creator"
  "shared (updateShowSender_creator b)"
  by (auto simp: prog_simps boardAlertP_def jsonP_def split: sum.splits option.splits)

lemma shared_creators_3:
  "shared fetchSlideshowImages_creator"
  "shared checkSlideshowStatus_creator"
  "shared (updatePlaybackOrder_creator mode ids)"
  by (auto simp: prog_simps boardAlertP_def jsonP_def split: sum.splits)

lemma shared_operations:
  "shared fetchDisplayImagesLoopInterval"
  "shared (updateDisplayImagesLoopInterval mins)"
  "shared fetchNightMode"
  "shared (updateNightMode en sh eh im sty)"
  "shared skipImageThunk"
  "shared (showImageThunk i)"
  "shared clearDisplayThunk"
  by (auto simp: prog_simps jsonP_def Let_def split: sum.splits)

lemma shared_monitor: "shared (monitorOperation fuel wasActive actionId startTime)"
proof (induction fuel wasActive actionId startTime rule: monitorOperation.induct)
  case (2 fuel wasActive actionId startTime)
  have "shared (monitor_round wasActive actionId)"
    by (auto simp: monitor_round_def jsonP_def Let_def split: sum.splits)
  with 2 show ?case by (auto intro!: typed_bindP)
qed simp

lemma shared_toggle: "shared (toggleSlideshowThunk fuel)"
  by (auto simp: toggleSlideshowThunk_def jsonP_def Let_def intro!: typed_tryP [OF shared_monitor] split: sum.splits)

lemma shared_power:
  "shared (restartPi_creator fuel)"
  "shared (shutdownPi_creator fuel)"
  "shared (factoryResetPi_creator fuel)"
proof -
  have send: "shared (sendPowerCommand url)" for url
    by (auto simp: sendPowerCommand_def jsonP_def split: sum.splits)
  have reach: "shared (isReachable t)" for t
    by (auto simp: isReachable_def jsonP_def split: sum.splits)
  have "shared (poll_loop fuel goal opts start streak)" for fuel goal opts start streak
    by (induction fuel goal opts start streak rule: poll_loop.induct) (auto simp: Let_def intro!: typed_bindP [OF reach])
  then have poll: "shared (pollHealth fuel goal opts)" for fuel goal opts
    by (simp add: pollHealth_def)
  show "shared (restartPi_creator fuel)" "shared (shutdownPi_creator fuel)" "shared (factoryResetPi_creator fuel)"
    by (auto simp: prog_simps power_pushes bindP_assoc intro!: typed_bindP [OF send] typed_bindP [OF poll] split: sum.splits)
qed

lemma shared_timers:
  "shared syncTimers_creator"
  "shared (syncSpecificTimer_creator t)"
proof -
  have "shared (sync_each n ts (Return x))" for n ts and x :: "'x"
    by (induction ts) (auto simp: set_remainingP_def)
  then show "shared syncTimers_creator" "shared (syncSpecificTimer_creator t)"
    by (auto simp: syncTimers_creator_def syncSpecificTimer_creator_def set_remainingP_def Let_def split: option.splits)
qed

lemma shared_session:
  "shared checkAuthStatus_creator"
  "shared (login_creator cr)"
  by (auto simp: prog_simps boardAlertP_def fetchWithTimeout_def jsonP_def split: sum.splits)

lemmas shared_creators =
  shared_session shared_creators_1 shared_creators_2 shared_creators_3 shared_power shared_timers

text \<open>An async thunk of such a creator is fine when its lifecycle actions are.\<close>

lemma shared_any:
  assumes "shared p" and "\<And>a. shared_action a \<Longrightarrow> act a"
  shows "typed net good act (\<lambda>_. True) (\<lambda>_. True) p"
  by (rule typed_weaken [OF assms(1)]) (simp_all add: assms(2))

lemma shared_standard:
  assumes "shared p" and "\<And>a. shared_action a \<Longrightarrow> act a"
    and "act pend" and "\<And>v. act (ful v)" and "\<And>x m. act (rej x m)"
  shows "typed net good act (\<lambda>_. True) (\<lambda>_. True) (standard_async_thunk pend ful rej p)"
proof -
  have "typed net good act (\<lambda>_. True) (\<lambda>_. True) p" using assms(1,2) by (rule shared_any)
  then have "typed net good act (\<lambda>e. act (rej JUndefined (thrown_text e)))
      (\<lambda>r. case r of Value v \<Rightarrow> act (ful v) | RejectWithValue x \<Rightarrow> act (rej x ''Rejected'')) p"
    by (rule typed_mono) (auto simp: assms(4,5) split: creator_result.split)
  from typed_mono [OF typed_standard [OF this assms(3)]] show ?thesis by simp
qed

lemmas operations_shared = shared_operations shared_toggle

end
