(* ===== verification/Session.thy ===== *)
theory Session
  imports TypedThunks Footprint
begin

text \<open>
  A board that confirms no session. Against it no thunk of the store dispatches an action that makes
  the page count as signed in (\<open>store_thunks_harmless\<close>), and the session check signs the page out on
  every path to its end (\<open>sessionCheck_lands\<close>). Both are checks on the program trees that hold on
  every interleaving.
\<close>

abbreviation sessionCheck :: "unit thunk" where
  "sessionCheck \<equiv> checkAuthStatusThunk standard_async_thunk"

abbreviation answered_by :: "(request \<Rightarrow> net_event \<Rightarrow> bool) \<Rightarrow> net_event \<Rightarrow> unit thunk \<Rightarrow> bool" where
  "answered_by net ev p \<equiv> (case p of Await rq k \<Rightarrow> net rq ev | _ \<Rightarrow> True)"

section \<open>A board that knows no session\<close>

text \<open>
  A board that confirms no session: no answer to the session check says that there is one, and no
  login succeeds. Against it no thunk dispatches an action that makes the page count as signed in.
\<close>

definition refuses :: "request \<Rightarrow> net_event \<Rightarrow> bool" where
  "refuses rq ev \<longleftrightarrow> (\<forall>r v. ne_answer ev = Inr r \<longrightarrow> rs_body r = Inr v \<longrightarrow>
     (rq_url rq = getAuthStatusUrl \<longrightarrow> \<not> truthy (js_opt_get (js_opt_get v ''data'') ''authenticated'')) \<and>
     (rq_url rq = getLoginUrl \<longrightarrow> \<not> truthy (js_opt_get v ''success'')))"

definition unconfirmed :: "action \<Rightarrow> bool" where
  "unconfirmed a \<longleftrightarrow> (case a of
     AuthA (CheckStatusFulfilled v) \<Rightarrow> \<not> truthy v
   | AuthA (LoginFulfilled b) \<Rightarrow> False
   | _ \<Rightarrow> True)"

definition signed_out :: "root_state \<Rightarrow> bool" where
  "signed_out s \<longleftrightarrow> \<not> truthy (au_isAuthenticated (rs_auth s))"

definition signs_out :: "action \<Rightarrow> bool" where
  "signs_out a \<longleftrightarrow> (case a of
     AuthA (CheckStatusFulfilled v) \<Rightarrow> \<not> truthy v
   | AuthA (CheckStatusRejected p m) \<Rightarrow> True
   | _ \<Rightarrow> False)"

lemma signed_out_wall [simp]: "signed_out (s\<lparr>rs_loadingWall := w\<rparr>) = signed_out s"
  by (simp add: signed_out_def)

lemma signed_out_keep: "signed_out s \<Longrightarrow> unconfirmed a \<Longrightarrow> signed_out (root_reducer now s a)"
  by (cases a; simp add: signed_out_def; case_tac "x7"; simp add: unconfirmed_def)

lemma signed_out_by: "signs_out a \<Longrightarrow> signed_out (root_reducer now s a)"
  by (auto simp: signs_out_def signed_out_def split: action.splits auth_action.splits)

abbreviation harmless :: "'r thunk \<Rightarrow> bool" where
  "harmless \<equiv> typed refuses (\<lambda>_. True) unconfirmed (\<lambda>_. True) (\<lambda>_. True)"

text \<open>The actions of the other slices, and those of this one that say nothing of a session.\<close>

lemma unconfirmed_other [simp]:
  "unconfirmed (SnackbarsA a1)" "unconfirmed (OperationA a2)" "unconfirmed (StatusA a3)" "unconfirmed (TimersA a4)"
  "unconfirmed (NetworkA a5)" "unconfirmed (ConnectionModeA a6)" "unconfirmed (FrameInfoA a7)"
  "unconfirmed (DisplayStatsA a8)" "unconfirmed (UpdatesA a9)" "unconfirmed (LoadingWallA a10)"
  "unconfirmed (FrameLogsA a11)" "unconfirmed (NavigationA a12)" "unconfirmed (DialogsA a13)"
  "unconfirmed (ServicesA a14)" "unconfirmed (ImagesA a15)" "unconfirmed (CustomizationA a16)"
  "unconfirmed (UnhandledA a17)" "unconfirmed (AuthA CheckStatusPending)" "unconfirmed (AuthA (CheckStatusRejected p m))"
  "unconfirmed (AuthA LoginPending)" "unconfirmed (AuthA (LoginRejected p m))" "unconfirmed (AuthA LogoutPending)"
  "unconfirmed (AuthA (LogoutFulfilled b))" "unconfirmed (AuthA (LogoutRejected p m))"
  "unconfirmed (AuthA ChangePasswordPending)" "unconfirmed (AuthA (ChangePasswordFulfilled b))"
  "unconfirmed (AuthA (ChangePasswordRejected p m))" "unconfirmed (AuthA ResetAuthState)"
  by (simp_all add: unconfirmed_def)

text \<open>The two that ask for a session, and the operations, the power commands and the timers.\<close>

lemma refuses_answer:
  assumes "refuses rq ev" and "fetch_settles t ev = Inr r" and "rs_body r = Inr v"
  shows "rq_url rq = getAuthStatusUrl \<Longrightarrow> \<not> truthy (js_opt_get (js_opt_get v ''data'') ''authenticated'')"
    and "rq_url rq = getLoginUrl \<Longrightarrow> \<not> nullish v \<Longrightarrow> \<not> truthy (own_prop v ''success'')"
  using assms by (auto simp: refuses_def fetch_settles_def js_opt_get_def split: if_splits)

lemma refuses_login:
  "refuses (post_json getLoginUrl b) ev \<Longrightarrow> fetch_settles t ev = Inr r \<Longrightarrow> rs_body r = Inr v \<Longrightarrow>
     \<not> nullish v \<Longrightarrow> \<not> truthy (own_prop v ''success'')"
  using refuses_answer(2) [of "post_json getLoginUrl b" ev t r v]
  by (simp add: post_json_def post_empty_json_def post_req_def)

lemma checkAuthStatus_fits:
  "typed refuses (\<lambda>_. True) unconfirmed (\<lambda>_. True)
     (\<lambda>r. case r of Value v \<Rightarrow> \<not> truthy v | RejectWithValue x \<Rightarrow> True) checkAuthStatus_creator"
  by (auto simp: checkAuthStatus_creator_def fetchWithTimeout_def jsonP_def js_coalesce_def get_req_def
      dest: refuses_answer(1) split: sum.splits)

lemma login_fits:
  "typed refuses (\<lambda>_. True) unconfirmed (\<lambda>_. True)
     (\<lambda>r. case r of Value b \<Rightarrow> False | RejectWithValue x \<Rightarrow> True) (login_creator cr)"
  by (auto simp: login_creator_def boardAlertP_def dest: refuses_login split: sum.splits)

lemma harmless_standard:
  assumes "typed refuses (\<lambda>_. True) unconfirmed (\<lambda>_. True)
      (\<lambda>r. case r of Value v \<Rightarrow> unconfirmed (ful v) | RejectWithValue x \<Rightarrow> True) p"
    and "unconfirmed pend" and "\<And>x m. unconfirmed (rej x m)"
  shows "harmless (standard_async_thunk pend ful rej p)"
  by (rule typed_mono [OF typed_standard [OF typed_mono [OF assms(1)] assms(2)]])
    (auto simp: assms(3) split: creator_result.splits)

lemma shared_unconfirmed: "shared_action a \<Longrightarrow> unconfirmed a"
  by (cases a) (simp_all add: shared_action_def)

lemma harmless_shared: "shared p \<Longrightarrow> harmless p"
  by (erule shared_any) (rule shared_unconfirmed)

lemmas harmless_operations = operations_shared [THEN harmless_shared]

lemma harmless_lifecycle:
  assumes "shared p" and "unconfirmed pend" and "\<And>v. unconfirmed (ful v)" and "\<And>x m. unconfirmed (rej x m)"
  shows "harmless (standard_async_thunk pend ful rej p)"
  using assms by (intro shared_standard) (auto intro: shared_unconfirmed)

lemma harmless_session:
  "harmless sessionCheck"
  "harmless (loginThunk standard_async_thunk cr)"
proof -
  show "harmless sessionCheck"
    unfolding checkAuthStatusThunk_def
    by (rule harmless_standard [OF typed_mono [OF checkAuthStatus_fits]])
      (auto simp: unconfirmed_def split: creator_result.splits)
  show "harmless (loginThunk standard_async_thunk cr)"
    unfolding loginThunk_def
    by (rule harmless_standard [OF typed_mono [OF login_fits]]) (auto split: creator_result.splits)
qed

lemma store_thunks_harmless:
  assumes "p \<in> store_thunks"
  shows "harmless p"
  using assms
  unfolding store_thunks_def read_thunks_def write_thunks_def
  by (auto simp: harmless_session harmless_operations changePasswordThunk_def logoutThunk_def network_thunk_defs board_data_thunk_defs
      slideshow_thunk_defs power_thunk_defs timer_thunk_defs
      intro!: harmless_lifecycle shared_creators split: prod.split)

section \<open>The first check decides\<close>

text \<open>On every path to its end the program dispatches an action that signs the page out.\<close>

primrec lands :: "'r thunk \<Rightarrow> bool" where
  "lands (Return x) \<longleftrightarrow> False"
| "lands (Throw e) \<longleftrightarrow> False"
| "lands (Dispatch a p) \<longleftrightarrow> signs_out a \<or> lands p"
| "lands (GetState k) \<longleftrightarrow> (\<forall>s. lands (k s))"
| "lands (DateNow k) \<longleftrightarrow> (\<forall>t. lands (k t))"
| "lands (Uuid k) \<longleftrightarrow> (\<forall>i. lands (k i))"
| "lands (OnLine k) \<longleftrightarrow> (\<forall>b. lands (k b))"
| "lands (Await rq k) \<longleftrightarrow> (\<forall>ev. refuses rq ev \<longrightarrow> lands (k ev))"
| "lands (Yield p) \<longleftrightarrow> lands p"
| "lands (Sleep d p) \<longleftrightarrow> lands p"
| "lands (Spawn t p) \<longleftrightarrow> lands p"
| "lands (Browser b p) \<longleftrightarrow> lands p"
| "lands OutOfFuel \<longleftrightarrow> True"

interpretation refused: typed_store root_reducer signed_out unconfirmed
  by unfold_locales (rule signed_out_keep)

interpretation untold: typed_store root_reducer "\<lambda>_. True" unconfirmed
  by unfold_locales simp

lemma typed_any_state: "typed net (\<lambda>_. True) act E R p \<Longrightarrow> typed net good act E R p"
  by (induction p) auto

lemma harmless_seg:
  assumes "harmless p" and "seg root_reducer e p n s = (s', q)"
  shows "harmless q" and "signed_out s \<Longrightarrow> signed_out s'"
  using untold.typed_seg [OF assms(1) _ assms(2)] refused.typed_seg [OF typed_any_state [OF assms(1)] _ assms(2)]
  by simp_all

lemma lands_seg:
  assumes "lands p" and "harmless p" and "seg root_reducer e p n s = (s', q)"
  shows "lands q \<or> signed_out s'"
  using assms
proof (induction p arbitrary: n s)
  case (Dispatch a p)
  let ?s = "root_reducer (en_now e n) s a"
  show ?case
  proof (cases "signs_out a")
    case True
    then have "signed_out ?s" by (rule signed_out_by)
    with harmless_seg(2) [of p e "Suc n" ?s] Dispatch.prems show ?thesis by simp
  next
    case False
    with Dispatch.IH [of "Suc n" ?s] Dispatch.prems show ?thesis by simp
  qed
next
  case (GetState k)
  then show ?case using GetState.IH [OF rangeI, of s n s] by simp
next
  case (DateNow k)
  then show ?case using DateNow.IH [OF rangeI, of "en_now e n" "Suc n" s] by simp
next
  case (Uuid k)
  then show ?case using Uuid.IH [OF rangeI, of "en_ids e n" "Suc n" s] by simp
next
  case (OnLine k)
  then show ?case using OnLine.IH [OF rangeI, of "en_online e n" "Suc n" s] by simp
qed auto

lemma lands_resume: "lands p \<Longrightarrow> resume p ev = Some p' \<Longrightarrow> answered_by refuses ev p \<Longrightarrow> lands p'"
  by (cases p) auto

lemma sessionCheck_lands: "lands sessionCheck"
proof -
  have "signs_out (AuthA (CheckStatusFulfilled (js_coalesce (js_opt_get (js_opt_get v ''data'') ''authenticated'') (JBool False))))"
    if "refuses (get_req getAuthStatusUrl) ev" "fetch_settles t ev = Inr r" "rs_body r = Inr v" for ev t r v
    using refuses_answer(1) [OF that] by (simp add: signs_out_def js_coalesce_def get_req_def)
  then show ?thesis
    by (auto simp: checkAuthStatusThunk_def checkAuthStatus_creator_def standard_async_thunk_def fetchWithTimeout_def
        jsonP_def signs_out_def split: sum.splits)
qed

lemma firstWait_lands: "lands (snd (seg root_reducer e sessionCheck n s))"
proof -
  obtain rq k where "sessionCheck = Dispatch (AuthA CheckStatusPending) (Await rq k)"
    by (simp add: checkAuthStatusThunk_def checkAuthStatus_creator_def standard_async_thunk_def fetchWithTimeout_def)
  with sessionCheck_lands show ?thesis by (simp add: signs_out_def)
qed

end
