(* ===== verification/Application.thy ===== *)
theory Application
  imports Session Shell
begin

text \<open>
  The application (App.tsx) as a machine over the store, the thunks in flight and time: the session
  check of the first mount, the logo until it has settled, the wall with its deadline, the checks
  every five minutes and on focus, and what is rendered. A render is a step of its own (\<open>commit\<close>): it
  runs the effects whose dependencies changed since the last one, in the order of the code, with the
  values of that render. Which routes match a path is react-router's business and an argument.
\<close>

section \<open>State and effects\<close>

text \<open>What a render of App reads; the effects compare it with the last render.\<close>

record app_props =
  pr_wall :: loading_wall_state
  pr_connected :: bool
  pr_authCheckComplete :: bool
  pr_initialLoad :: bool

text \<open>
  \<open>ap_boot\<close> is the first effect's \<open>checkAuth\<close> while it runs. The timers are the times at which they
  may fire; that of the first load has what its callback will do to \<open>initialLoad\<close>.
\<close>

(* src: App.tsx 15-20: the state of App *)
record app_state =
  ap_store :: root_state
  ap_flight :: "unit thunk multiset"
  ap_boot :: "unit thunk option"
  ap_connected :: bool
  ap_initialLoad :: bool
  ap_authCheckComplete :: bool
  ap_prevConnected :: bool
  ap_rendered :: app_props
  ap_wallTimer :: "int option"
  ap_loadTimer :: "(int \<times> bool) option"
  ap_checkInterval :: "int option"
  ap_focusListener :: bool

definition props_of :: "app_state \<Rightarrow> app_props" where
  "props_of st = \<lparr>pr_wall = rs_loadingWall (ap_store st), pr_connected = ap_connected st,
     pr_authCheckComplete = ap_authCheckComplete st, pr_initialLoad = ap_initialLoad st\<rparr>"

definition check_interval :: int where
  "check_interval = 5 * 60 * 1000"

text \<open>The effects, by what changed; \<open>first\<close> is the mount, where all of them run.\<close>

definition run_reconnect_effect :: "bool \<Rightarrow> int \<Rightarrow> app_props \<Rightarrow> app_props \<Rightarrow> app_state \<Rightarrow> app_state" where
  "run_reconnect_effect first now old new st =
     (if first \<or> pr_connected old \<noteq> pr_connected new \<or>
         lw_isLoadingWallVisible (pr_wall old) \<noteq> lw_isLoadingWallVisible (pr_wall new)
      then
        (case reconnect_effect (lw_isLoadingWallVisible (pr_wall new)) (pr_connected new) (ap_prevConnected st) of
           (a, prev) \<Rightarrow> st\<lparr>ap_store := (case a of None \<Rightarrow> ap_store st
                              | Some act \<Rightarrow> root_reducer now (ap_store st) (LoadingWallA act)),
                           ap_prevConnected := prev\<rparr>)
      else st)"

definition run_deadline_effect :: "bool \<Rightarrow> int \<Rightarrow> app_props \<Rightarrow> app_props \<Rightarrow> app_state \<Rightarrow> app_state" where
  "run_deadline_effect first now old new st =
     (if first \<or> lw_isLoadingWallVisible (pr_wall old) \<noteq> lw_isLoadingWallVisible (pr_wall new) \<or>
         lw_hideAfter (pr_wall old) \<noteq> lw_hideAfter (pr_wall new)
      then st\<lparr>ap_wallTimer := deadline_effect now (pr_wall new)\<rparr> else st)"

definition run_first_load_effect :: "bool \<Rightarrow> int \<Rightarrow> app_props \<Rightarrow> app_props \<Rightarrow> app_state \<Rightarrow> app_state" where
  "run_first_load_effect first now old new st =
     (if first \<or> pr_authCheckComplete old \<noteq> pr_authCheckComplete new
      then st\<lparr>ap_loadTimer := Some (first_load_effect now (pr_authCheckComplete new) True)\<rparr> else st)"

(* src: App.tsx 62-70: the interval effect of App *)
definition run_interval_effect :: "bool \<Rightarrow> int \<Rightarrow> app_props \<Rightarrow> app_props \<Rightarrow> app_state \<Rightarrow> app_state" where
  "run_interval_effect first now old new st =
     (if first \<or> pr_initialLoad old \<noteq> pr_initialLoad new
      then st\<lparr>ap_checkInterval := (if \<not> pr_initialLoad new then Some (now + check_interval) else None)\<rparr> else st)"

(* src: App.tsx 72-85: the focus effect of App *)
definition run_focus_effect :: "bool \<Rightarrow> int \<Rightarrow> app_props \<Rightarrow> app_props \<Rightarrow> app_state \<Rightarrow> app_state" where
  "run_focus_effect first now old new st =
     (if first \<or> pr_initialLoad old \<noteq> pr_initialLoad new
      then st\<lparr>ap_focusListener := (\<not> pr_initialLoad new)\<rparr> else st)"

definition app_commit :: "bool \<Rightarrow> int \<Rightarrow> app_state \<Rightarrow> app_state" where
  "app_commit first now st =
     (let old = ap_rendered st; new = props_of st
      in run_focus_effect first now old new
          (run_interval_effect first now old new
            (run_first_load_effect first now old new
              (run_deadline_effect first now old new
                (run_reconnect_effect first now old new (st\<lparr>ap_rendered := new\<rparr>))))))"

text \<open>The mount: the first effect starts the session check, the others follow.\<close>

(* src: App.tsx 22-29: the mount effect of App *)
definition app_mount :: "env \<Rightarrow> int \<Rightarrow> root_state \<Rightarrow> app_state" where
  "app_mount e now s =
     (let (s', q) = seg root_reducer e sessionCheck 0 s
      in app_commit True now
           \<lparr>ap_store = s', ap_flight = {#}, ap_boot = Some q, ap_connected = False, ap_initialLoad = True,
            ap_authCheckComplete = False, ap_prevConnected = False,
            ap_rendered = \<lparr>pr_wall = rs_loadingWall s, pr_connected = False, pr_authCheckComplete = False, pr_initialLoad = True\<rparr>,
            ap_wallTimer = None, ap_loadTimer = None, ap_checkInterval = None, ap_focusListener = False\<rparr>)"

section \<open>Runs\<close>

text \<open>
  \<open>app_runs net startable foreign s0 t0 c t st\<close>: mounted over the store \<open>s0\<close> at \<open>t0\<close>, the application
  can be in \<open>st\<close> at time \<open>t\<close>, its first session check having ended at \<open>c\<close>, if it has. Requests get
  answers that satisfy \<open>net\<close>. The pages start thunks and dispatch actions; the connection context says
  what it likes. redux-persist puts back what it stored before the first answer of the board is in.
\<close>

inductive app_runs ::
  "(request \<Rightarrow> net_event \<Rightarrow> bool) \<Rightarrow> (unit thunk \<Rightarrow> bool) \<Rightarrow> (action \<Rightarrow> bool) \<Rightarrow> root_state \<Rightarrow> int
    \<Rightarrow> int option \<Rightarrow> int \<Rightarrow> app_state \<Rightarrow> bool"
  for net startable foreign s0 t0 where
  mount: "app_runs net startable foreign s0 t0 None t0 (app_mount e t0 s0)"
| rehydrate: "app_runs net startable foreign s0 t0 c t st \<Longrightarrow> t \<le> t' \<Longrightarrow> ap_boot st = Some (snd (seg root_reducer e sessionCheck 0 s)) \<Longrightarrow>
    app_runs net startable foreign s0 t0 c t' (st\<lparr>ap_store := s'\<rparr>)"
| boot: "app_runs net startable foreign s0 t0 c t st \<Longrightarrow> t \<le> t' \<Longrightarrow> ap_boot st = Some p \<Longrightarrow> answered_by net ev p \<Longrightarrow>
    resume p ev = Some p' \<Longrightarrow> seg root_reducer e p' 0 (ap_store st) = (s', q) \<Longrightarrow>
    app_runs net startable foreign s0 t0 c t' (st\<lparr>ap_store := s', ap_boot := Some q\<rparr>)"
| booted: "app_runs net startable foreign s0 t0 c t st \<Longrightarrow> t \<le> t' \<Longrightarrow> ap_boot st = Some (Return ()) \<Longrightarrow>
    app_runs net startable foreign s0 t0 (Some t') t' (st\<lparr>ap_boot := None, ap_authCheckComplete := True\<rparr>)"
| commit: "app_runs net startable foreign s0 t0 c t st \<Longrightarrow> t \<le> t' \<Longrightarrow>
    app_runs net startable foreign s0 t0 c t' (app_commit False t' st)"
| loaded: "app_runs net startable foreign s0 t0 c t st \<Longrightarrow> t \<le> t' \<Longrightarrow> ap_loadTimer st = Some (d, still) \<Longrightarrow> d \<le> t' \<Longrightarrow>
    app_runs net startable foreign s0 t0 c t'
      (st\<lparr>ap_loadTimer := None, ap_initialLoad := (if still then ap_initialLoad st else False)\<rparr>)"
| wall: "app_runs net startable foreign s0 t0 c t st \<Longrightarrow> t \<le> t' \<Longrightarrow> ap_wallTimer st = Some d \<Longrightarrow> d \<le> t' \<Longrightarrow>
    app_runs net startable foreign s0 t0 c t'
      (st\<lparr>ap_wallTimer := None, ap_store := root_reducer t' (ap_store st) (LoadingWallA hideLoadingWall)\<rparr>)"
| tick: "app_runs net startable foreign s0 t0 c t st \<Longrightarrow> t \<le> t' \<Longrightarrow> ap_checkInterval st = Some d \<Longrightarrow> d \<le> t' \<Longrightarrow>
    seg root_reducer e sessionCheck 0 (ap_store st) = (s', q) \<Longrightarrow>
    app_runs net startable foreign s0 t0 c t'
      (st\<lparr>ap_checkInterval := Some (d + check_interval), ap_store := s', ap_flight := add_mset q (ap_flight st)\<rparr>)"
| focus: "app_runs net startable foreign s0 t0 c t st \<Longrightarrow> t \<le> t' \<Longrightarrow> ap_focusListener st \<Longrightarrow>
    seg root_reducer e sessionCheck 0 (ap_store st) = (s', q) \<Longrightarrow>
    app_runs net startable foreign s0 t0 c t' (st\<lparr>ap_store := s', ap_flight := add_mset q (ap_flight st)\<rparr>)"
| connection: "app_runs net startable foreign s0 t0 c t st \<Longrightarrow> t \<le> t' \<Longrightarrow>
    app_runs net startable foreign s0 t0 c t' (st\<lparr>ap_connected := b\<rparr>)"
| start: "app_runs net startable foreign s0 t0 c t st \<Longrightarrow> t \<le> t' \<Longrightarrow> startable p \<Longrightarrow>
    seg root_reducer e p 0 (ap_store st) = (s', q) \<Longrightarrow>
    app_runs net startable foreign s0 t0 c t' (st\<lparr>ap_store := s', ap_flight := add_mset q (ap_flight st)\<rparr>)"
| resume: "app_runs net startable foreign s0 t0 c t st \<Longrightarrow> t \<le> t' \<Longrightarrow> ap_flight st = add_mset p ps \<Longrightarrow>
    answered_by net ev p \<Longrightarrow> resume p ev = Some p' \<Longrightarrow> seg root_reducer e p' 0 (ap_store st) = (s', q) \<Longrightarrow>
    app_runs net startable foreign s0 t0 c t' (st\<lparr>ap_store := s', ap_flight := add_mset q ps\<rparr>)"
| foreign: "app_runs net startable foreign s0 t0 c t st \<Longrightarrow> t \<le> t' \<Longrightarrow> foreign a \<Longrightarrow>
    app_runs net startable foreign s0 t0 c t' (st\<lparr>ap_store := root_reducer now (ap_store st) a\<rparr>)"

text \<open>What is on screen is what the last render says; under the router, a page whose guard lets it be.\<close>

definition on_screen :: "app_state \<Rightarrow> app_view" where
  "on_screen st = app_view (pr_wall (ap_rendered st)) (pr_initialLoad (ap_rendered st))"

definition page_allowed :: "app_state \<Rightarrow> guard list \<times> string \<times> string option \<times> page \<Rightarrow> bool" where
  "page_allowed st l \<longleftrightarrow> on_screen st = RouterView \<and>
     (ProtectedRouteG \<in> set (fst l) \<longrightarrow> ProtectedRoute (rs_auth (ap_store st)) = None)"

section \<open>The first load\<close>

lemmas effect_defs =
  run_reconnect_effect_def run_deadline_effect_def run_first_load_effect_def run_interval_effect_def
  run_focus_effect_def

lemma app_commit_simps [simp]:
  "ap_flight (app_commit first now st) = ap_flight st"
  "ap_boot (app_commit first now st) = ap_boot st"
  "ap_connected (app_commit first now st) = ap_connected st"
  "ap_initialLoad (app_commit first now st) = ap_initialLoad st"
  "ap_authCheckComplete (app_commit first now st) = ap_authCheckComplete st"
  "ap_rendered (app_commit first now st) = props_of st"
  by (simp_all add: app_commit_def Let_def effect_defs split: prod.splits)

lemma effect_stores [simp]:
  "ap_store (run_deadline_effect first now old new st) = ap_store st"
  "ap_store (run_first_load_effect first now old new st) = ap_store st"
  "ap_store (run_interval_effect first now old new st) = ap_store st"
  "ap_store (run_focus_effect first now old new st) = ap_store st"
  by (simp_all add: effect_defs)

lemma app_commit_store:
  "ap_store (app_commit first now st) = ap_store st \<or>
   ap_store (app_commit first now st) = root_reducer now (ap_store st) (LoadingWallA hideLoadingWall)"
  by (simp add: app_commit_def Let_def run_reconnect_effect_def reconnect_effect_def)

lemma app_commit_loadTimer:
  "ap_loadTimer (app_commit first now st) =
     (if first \<or> pr_authCheckComplete (ap_rendered st) \<noteq> ap_authCheckComplete st
      then Some (now + 3000, \<not> ap_authCheckComplete st) else ap_loadTimer st)"
  by (simp add: app_commit_def Let_def effect_defs first_load_effect_def props_of_def split: prod.splits)

text \<open>
  The flag \<open>initialLoad\<close> falls only through the timer that the completed check has started: three
  seconds after it.
\<close>

definition load_inv :: "int option \<Rightarrow> int \<Rightarrow> app_state \<Rightarrow> bool" where
  "load_inv c t st \<longleftrightarrow>
     (ap_authCheckComplete st \<longleftrightarrow> c \<noteq> None) \<and> (ap_boot st = None \<longleftrightarrow> c \<noteq> None) \<and> (\<forall>x. c = Some x \<longrightarrow> x \<le> t) \<and>
     (pr_authCheckComplete (ap_rendered st) \<longrightarrow> ap_authCheckComplete st) \<and>
     (\<forall>d. ap_loadTimer st = Some (d, False) \<longrightarrow> (\<exists>x. c = Some x \<and> x + 3000 \<le> d)) \<and>
     (\<not> ap_initialLoad st \<or> \<not> pr_initialLoad (ap_rendered st) \<longrightarrow> (\<exists>x. c = Some x \<and> x + 3000 \<le> t))"

lemma app_mount_simps:
  "ap_authCheckComplete (app_mount e now s) = False" "ap_initialLoad (app_mount e now s) = True"
  "ap_flight (app_mount e now s) = {#}"
  "ap_boot (app_mount e now s) = Some (snd (seg root_reducer e sessionCheck 0 s))"
  "ap_loadTimer (app_mount e now s) = Some (now + 3000, True)"
  "pr_initialLoad (ap_rendered (app_mount e now s)) = True"
  "pr_authCheckComplete (ap_rendered (app_mount e now s)) = False"
  by (simp_all add: app_mount_def app_commit_loadTimer props_of_def split: prod.splits)

lemma load_inv_runs: "app_runs net startable foreign s0 t0 c t st \<Longrightarrow> load_inv c t st"
proof (induction rule: app_runs.induct)
  case (mount e)
  then show ?case by (simp add: load_inv_def app_mount_simps)
next
  case (booted c t st t')
  then show ?case by (auto simp: load_inv_def)
next
  case (commit c t st t')
  then show ?case by (auto simp: load_inv_def app_commit_loadTimer props_of_def)
next
  case (loaded c t st t' d still)
  then show ?case by (force simp: load_inv_def)
qed (force simp: load_inv_def)+

section \<open>Signed out from the first check on\<close>

definition session_inv :: "app_state \<Rightarrow> bool" where
  "session_inv st \<longleftrightarrow> (\<forall>p \<in># ap_flight st. harmless p) \<and>
     (case ap_boot st of
        None \<Rightarrow> signed_out (ap_store st)
      | Some p \<Rightarrow> harmless p \<and> (lands p \<or> signed_out (ap_store st)))"

lemma session_inv_runs:
  assumes "app_runs refuses (\<lambda>p. p \<in> store_thunks) unconfirmed s0 t0 c t st"
  shows "session_inv st"
  using assms
proof (induction rule: app_runs.induct)
  case (mount e)
  have "harmless (snd (seg root_reducer e sessionCheck 0 s0))"
    using harmless_seg(1) [OF harmless_session(1)] by (metis prod.collapse)
  then show ?case by (simp add: session_inv_def app_mount_simps firstWait_lands)
next
  case (rehydrate c t st t' e s s')
  then show ?case by (simp add: session_inv_def firstWait_lands)
next
  case (boot c t st t' p ev p' e s' q)
  then have p: "harmless p'" "lands p \<or> signed_out (ap_store st)"
    by (auto simp: session_inv_def intro: typed_resume)
  have "lands q \<or> signed_out s'"
    using p boot harmless_seg(2) [OF p(1)] by (auto dest: lands_resume lands_seg)
  with boot harmless_seg(1) [OF p(1)] show ?case by (auto simp: session_inv_def)
next
  case (booted c t st t')
  then show ?case by (simp add: session_inv_def)
next
  case (commit c t st t')
  have "signed_out (ap_store st) \<Longrightarrow> signed_out (ap_store (app_commit False t' st))"
    using app_commit_store [of False t' st] by (auto simp: signed_out_def)
  with commit show ?case by (auto simp: session_inv_def split: option.splits)
next
  case (loaded c t st t' d still)
  then show ?case by (cases still) (auto simp: session_inv_def split: option.splits)
next
  case (wall c t st t' d)
  then show ?case by (auto simp: session_inv_def signed_out_keep split: option.splits)
next
  case (tick c t st t' d e s' q)
  then show ?case using harmless_seg [OF harmless_session(1)]
    by (auto simp: session_inv_def split: option.splits)
next
  case (focus c t st t' e s' q)
  then show ?case using harmless_seg [OF harmless_session(1)]
    by (auto simp: session_inv_def split: option.splits)
next
  case (connection c t st t' b)
  then show ?case by (auto simp: session_inv_def split: option.splits)
next
  case (start c t st t' p e s' q)
  then show ?case using harmless_seg [OF store_thunks_harmless]
    by (auto simp: session_inv_def split: option.splits)
next
  case (resume c t st t' p ps ev p' e s' q)
  then have "harmless p'" by (auto simp: session_inv_def intro: typed_resume)
  with resume harmless_seg [of p' e 0 "ap_store st" s' q] show ?case by (auto simp: session_inv_def split: option.splits)
next
  case (foreign c t st t' a now)
  then show ?case by (auto simp: session_inv_def signed_out_keep split: option.splits)
qed

text \<open>A page that was left signed in is loaded again, and the board does not answer.\<close>

definition left_signed_in :: root_state where
  "left_signed_in = (root_initial 0)\<lparr>rs_auth := auth_initial\<lparr>au_isAuthenticated := JBool True\<rparr>\<rparr>"

definition no_answer :: net_event where
  "no_answer = \<lparr>ne_latency = 5, ne_answer = Inl (ErrorObj ''Failed to fetch'')\<rparr>"

definition wall_up :: "root_state \<Rightarrow> bool" where
  "wall_up s \<longleftrightarrow> lw_isLoadingWallVisible (rs_loadingWall s)"

lemma wall_down_commit: "\<not> wall_up (ap_store st) \<Longrightarrow> \<not> wall_up (ap_store (app_commit first now st))"
  using app_commit_store [of first now st] by (auto simp: wall_up_def hideLoadingWall_def)

lemma wall_up_auth [simp]: "wall_up (s\<lparr>rs_auth := a\<rparr>) = wall_up s"
  by (simp add: wall_up_def)

lemma wall_down_mount: "\<not> wall_up (ap_store (app_mount still_env 0 left_signed_in))"
proof -
  obtain s' q where seg: "seg root_reducer still_env sessionCheck 0 left_signed_in = (s', q)" by fastforce
  then have "\<not> wall_up s'"
    by (auto simp: checkAuthStatusThunk_def checkAuthStatus_creator_def standard_async_thunk_def
        fetchWithTimeout_def wall_up_def left_signed_in_def root_initial_def loadingWall_initial_def)
  then show ?thesis by (simp add: app_mount_def seg wall_down_commit)
qed

lemma refused_run:
  assumes "\<And>rq. net rq no_answer"
  shows "\<exists>st. app_runs net startable foreign left_signed_in 0 (Some 10) 3010 st \<and> on_screen st = RouterView"
proof -
  let ?runs = "app_runs net startable foreign left_signed_in 0" and ?m = "app_mount still_env 0 left_signed_in"
  obtain p where p: "ap_boot ?m = Some p" by (simp add: app_mount_simps)
  then have "\<exists>p'. resume p no_answer = Some p' \<and> seg root_reducer still_env p' 0 (ap_store ?m) =
      (root_reducer 1 (ap_store ?m) (AuthA (CheckStatusRejected JUndefined ''Failed to fetch'')), Return ())"
    by (auto simp: app_mount_simps checkAuthStatusThunk_def checkAuthStatus_creator_def standard_async_thunk_def
        fetchWithTimeout_def fetch_settles_def no_answer_def default_timeout_def still_env_def)
  then obtain p' s1 where p': "resume p no_answer = Some p'" "seg root_reducer still_env p' 0 (ap_store ?m) = (s1, Return ())"
    and s1: "s1 = root_reducer 1 (ap_store ?m) (AuthA (CheckStatusRejected JUndefined ''Failed to fetch''))" by blast
  have answered: "answered_by net no_answer p" using assms by (simp split: prog.split)
  have mount: "?runs None 0 ?m" by (rule app_runs.mount)
  have "?runs None 10 (?m\<lparr>ap_store := s1, ap_boot := Some (Return ())\<rparr>)"
    using app_runs.boot [OF mount _ p answered p', of 10] by simp
  from app_runs.booted [OF this, of 10]
  have "?runs (Some 10) 10 (?m\<lparr>ap_store := s1, ap_boot := None, ap_authCheckComplete := True\<rparr>)" by simp
  from app_runs.commit [OF this, of 10] obtain st where st: "?runs (Some 10) 10 st"
    and eq: "st = app_commit False 10 (?m\<lparr>ap_store := s1, ap_boot := None, ap_authCheckComplete := True\<rparr>)" by simp
  from eq have timer: "ap_loadTimer st = Some (3010, False)"
    by (simp add: app_commit_loadTimer app_mount_simps)
  have "\<not> wall_up (ap_store st)" unfolding eq by (rule wall_down_commit) (simp add: s1 wall_down_mount)
  then have wall: "\<not> lw_isLoadingWallVisible (rs_loadingWall (ap_store st))" by (simp add: wall_up_def)
  from app_runs.loaded [OF st _ timer, of 3010]
  have "?runs (Some 10) 3010 (st\<lparr>ap_loadTimer := None, ap_initialLoad := False\<rparr>)" by simp
  from app_runs.commit [OF this, of 3010]
  have "?runs (Some 10) 3010 (app_commit False 3010 (st\<lparr>ap_loadTimer := None, ap_initialLoad := False\<rparr>))" by simp
  moreover have "on_screen (app_commit False 3010 (st\<lparr>ap_loadTimer := None, ap_initialLoad := False\<rparr>)) = RouterView"
    using wall by (simp add: on_screen_def app_view_def props_of_def)
  ultimately show ?thesis by blast
qed

section \<open>Properties\<close>

text \<open>C29: The router is on screen only after the first session check has ended, and for three
  seconds after it the logo still is: whatever the board answers and whatever else runs.\<close>

lemma router_after_first_check:
  assumes "app_runs net startable foreign s0 t0 c t st" and "on_screen st = RouterView"
  shows "\<exists>x. c = Some x \<and> x + 3000 \<le> t"
proof -
  have "load_inv c t st" using load_inv_runs [OF assms(1)] .
  moreover have "\<not> pr_initialLoad (ap_rendered st)"
    using assms(2) by (auto simp: on_screen_def app_view_def split: if_splits)
  ultimately show ?thesis by (auto simp: load_inv_def)
qed

lemma router_after_first_check_witness:
  "\<exists>st. app_runs refuses (\<lambda>p. p \<in> store_thunks) unconfirmed left_signed_in 0 (Some 10) 3010 st \<and>
     on_screen st = RouterView \<and> (10::int) + 3000 \<le> 3010"
proof -
  from refused_run [of refuses "\<lambda>p. p \<in> store_thunks" unconfirmed] obtain st where
    "app_runs refuses (\<lambda>p. p \<in> store_thunks) unconfirmed left_signed_in 0 (Some 10) 3010 st" "on_screen st = RouterView"
    by (auto simp: refuses_def no_answer_def)
  with router_after_first_check [OF this] show ?thesis by auto
qed

text \<open>C1: Against a board that confirms no session, no protected page is ever shown: whatever the
  store held when the page was loaded or redux-persist puts back (also a flag that says signed
  in), whatever thunks run and however their requests end, the only pages are those for signing
  in and out and the one for an unknown address.\<close>

lemma no_page_without_session:
  assumes "app_runs refuses (\<lambda>p. p \<in> store_thunks) unconfirmed s0 t0 c t st"
    and "l \<in> set all_leaves" and "page_allowed st l"
  shows "snd (snd (snd l)) \<in> {NotFoundPage, SignInPage, SignOutPage}"
proof -
  have "load_inv c t st" using load_inv_runs [OF assms(1)] .
  moreover have "\<not> pr_initialLoad (ap_rendered st)"
    using assms(3) by (auto simp: page_allowed_def on_screen_def app_view_def split: if_splits)
  ultimately have "ap_boot st = None" by (auto simp: load_inv_def)
  with session_inv_runs [OF assms(1)] have "signed_out (ap_store st)" by (simp add: session_inv_def)
  with assms(3) have "ProtectedRouteG \<notin> set (fst l)"
    by (auto simp: page_allowed_def ProtectedRoute_def signed_out_def)
  with assms(2) show ?thesis by (auto simp: all_leaves_def routes_def)
qed

lemma no_page_without_session_witness:
  "\<exists>st l. app_runs refuses (\<lambda>p. p \<in> store_thunks) unconfirmed left_signed_in 0 (Some 10) 3010 st \<and>
     l \<in> set all_leaves \<and> page_allowed st l \<and> snd (snd (snd l)) \<in> {NotFoundPage, SignInPage, SignOutPage}"
proof -
  from refused_run [of refuses "\<lambda>p. p \<in> store_thunks" unconfirmed] obtain st where
    run: "app_runs refuses (\<lambda>p. p \<in> store_thunks) unconfirmed left_signed_in 0 (Some 10) 3010 st" "on_screen st = RouterView"
    by (auto simp: refuses_def no_answer_def)
  let ?l = "([RouterContextG, SnackbarsG, AuthenticationLayoutG], getAuthenticationUrl @ getSignInUrl, Some ''Anmelden'', SignInPage)"
  have l: "?l \<in> set all_leaves" by (simp add: all_leaves_def routes_def)
  have "page_allowed st ?l" by (simp add: page_allowed_def run(2))
  with no_page_without_session [OF run(1) l this] run l show ?thesis by blast
qed

end
