(* ===== verification/Persistence.thy ===== *)
theory Persistence
  imports Footprint TypedThunks LogsView
begin

text \<open>
  Page loads (store/index.ts, store/migrations.ts). redux-persist writes the slices that are not
  blacklisted one after the other while the page is used, so what it has stored when the page is loaded
  again can have each slice from another moment; it then merges that into the initial store. Its
  reconciliation is the argument \<open>reconcile\<close>, of which \<open>merges_level2\<close> states what autoMergeLevel2
  documents, for the blacklist and the transform the repository configures. A \<open>life\<close> is any number of
  page loads with any actions in between.
\<close>

section \<open>What a load puts back\<close>

definition kept :: "string \<Rightarrow> 'x \<Rightarrow> 'x \<Rightarrow> 'x" where
  "kept k stored fresh = (if k \<in> set persisted_slices then stored else fresh)"

text \<open>The merged store: a persisted slice is the stored one, the navigation after its transform.\<close>

definition merged :: "bool \<Rightarrow> root_state \<Rightarrow> root_state \<Rightarrow> root_state" where
  "merged wide st fresh =
    \<lparr>rs_snackbars = kept ''snackbars'' (rs_snackbars st) (rs_snackbars fresh),
     rs_slideshowOperation = kept ''slideshowOperation'' (rs_slideshowOperation st) (rs_slideshowOperation fresh),
     rs_slideshowStatus = kept ''slideshowStatus'' (rs_slideshowStatus st) (rs_slideshowStatus fresh),
     rs_timers = kept ''timers'' (rs_timers st) (rs_timers fresh),
     rs_network = kept ''network'' (rs_network st) (rs_network fresh),
     rs_connectionMode = kept ''connectionMode'' (rs_connectionMode st) (rs_connectionMode fresh),
     rs_auth = kept ''auth'' (rs_auth st) (rs_auth fresh),
     rs_frameInfo = kept ''frameInfo'' (rs_frameInfo st) (rs_frameInfo fresh),
     rs_displayStats = kept ''displayStats'' (rs_displayStats st) (rs_displayStats fresh),
     rs_updates = kept ''updates'' (rs_updates st) (rs_updates fresh),
     rs_loadingWall = kept ''loadingWall'' (rs_loadingWall st) (rs_loadingWall fresh),
     rs_piPower = kept ''piPower'' (rs_piPower st) (rs_piPower fresh),
     rs_frameLogs = kept ''frameLogs'' (rs_frameLogs st) (rs_frameLogs fresh),
     rs_navigation = kept ''navigation'' (closePhoneMenu wide (rs_navigation st)) (rs_navigation fresh),
     rs_dialogs = kept ''dialogs'' (rs_dialogs st) (rs_dialogs fresh),
     rs_services = kept ''services'' (rs_services st) (rs_services fresh),
     rs_slideshowImages = kept ''slideshowImages'' (rs_slideshowImages st) (rs_slideshowImages fresh),
     rs_displayCustomization =
       kept ''displayCustomization'' (rs_displayCustomization st) (rs_displayCustomization fresh)\<rparr>"

definition merges_level2 :: "(bool \<Rightarrow> root_state \<Rightarrow> root_state \<Rightarrow> root_state) \<Rightarrow> bool" where
  "merges_level2 reconcile \<longleftrightarrow> (\<forall>wide st fresh. reconcile wide st fresh = merged wide st fresh)"

text \<open>What is stored has each slice from one of the states the store has been in.\<close>

definition mixed_data :: "root_state set \<Rightarrow> root_state \<Rightarrow> bool" where
  "mixed_data S st \<longleftrightarrow>
     rs_snackbars st \<in> rs_snackbars ` S \<and> rs_slideshowOperation st \<in> rs_slideshowOperation ` S \<and>
     rs_slideshowStatus st \<in> rs_slideshowStatus ` S \<and> rs_timers st \<in> rs_timers ` S \<and>
     rs_network st \<in> rs_network ` S \<and> rs_connectionMode st \<in> rs_connectionMode ` S \<and>
     rs_auth st \<in> rs_auth ` S \<and> rs_frameInfo st \<in> rs_frameInfo ` S \<and>
     rs_displayStats st \<in> rs_displayStats ` S \<and> rs_updates st \<in> rs_updates ` S \<and>
     rs_loadingWall st \<in> rs_loadingWall ` S \<and> rs_frameLogs st \<in> rs_frameLogs ` S \<and>
     rs_dialogs st \<in> rs_dialogs ` S \<and>
     rs_services st \<in> rs_services ` S \<and> rs_slideshowImages st \<in> rs_slideshowImages ` S \<and>
     rs_displayCustomization st \<in> rs_displayCustomization ` S"

definition mixed_from :: "root_state set \<Rightarrow> root_state \<Rightarrow> bool" where
  "mixed_from S st \<longleftrightarrow> mixed_data S st \<and> rs_navigation st \<in> rs_navigation ` S"

inductive life :: "(bool \<Rightarrow> root_state \<Rightarrow> root_state \<Rightarrow> root_state) \<Rightarrow> root_state set \<Rightarrow> root_state \<Rightarrow> bool"
  for reconcile where
  first: "life reconcile {root_initial now} (root_initial now)"
| action: "life reconcile S s \<Longrightarrow> root_action_ok s a \<Longrightarrow> action_typed a \<Longrightarrow> s' = root_reducer now s a \<Longrightarrow>
    life reconcile (insert s' S) s'"
| load: "life reconcile S s \<Longrightarrow> mixed_from S st \<Longrightarrow> s' = reconcile wide st (root_initial now) \<Longrightarrow>
    life reconcile (insert s' S) s'"

section \<open>The invariants over page loads\<close>

lemma kept_in [simp]: "a \<in> f ` S \<Longrightarrow> kept k a (f fresh) \<in> f ` insert fresh S"
  by (auto simp: kept_def)

lemma merged_mixed: "mixed_data S st \<Longrightarrow> mixed_data (insert fresh S) (merged wide st fresh)"
  unfolding mixed_data_def merged_def root_state.simps by (elim conjE, intro conjI) (rule kept_in, assumption)+

lemma mixed_wf: "mixed_data S st \<Longrightarrow> \<forall>s \<in> S. root_wf s \<Longrightarrow> root_wf st"
  unfolding mixed_data_def root_wf_def by (elim conjE imageE) simp

lemma mixed_typed: "mixed_data S st \<Longrightarrow> \<forall>s \<in> S. root_typed s \<Longrightarrow> root_typed st"
  unfolding mixed_data_def root_typed_def by (elim conjE imageE) simp

lemma life_sound:
  assumes "life reconcile S s" and "merges_level2 reconcile"
  shows "s \<in> S \<and> (\<forall>x \<in> S. root_wf x \<and> root_typed x)"
  using assms(1)
proof (induction rule: life.induct)
  case (first now)
  then show ?case by (simp add: root_wf_initial root_typed_initial)
next
  case (action S s a s' now)
  then show ?case by (simp add: root_wf_step root_keep)
next
  case (load S s st s' wide now)
  have "mixed_data (insert (root_initial now) S) s'"
    using load.hyps assms(2) by (simp add: merges_level2_def mixed_from_def merged_mixed)
  then have "root_wf s'" "root_typed s'"
    using load.IH by (auto intro: mixed_wf mixed_typed simp: root_wf_initial root_typed_initial)
  with load.IH show ?case by simp
qed

text \<open>Right after a load no dialog is open, no picture list is known, and the phone menu is closed.\<close>

lemma load_closed:
  "rs_dialogs (merged wide st fresh) = rs_dialogs fresh"
  "rs_slideshowImages (merged wide st fresh) = rs_slideshowImages fresh"
  "rs_displayCustomization (merged wide st fresh) = rs_displayCustomization fresh"
  "nv_sidebar_open (rs_navigation (merged wide st fresh)) \<longleftrightarrow> nv_sidebar_open (rs_navigation st) \<and> wide"
  by (simp_all add: merged_def kept_def persisted_slices_def slice_names_def persist_blacklist_def closePhoneMenu_def)

lemma load_keeps:
  "rs_timers (merged wide st fresh) = rs_timers st"
  "rs_services (merged wide st fresh) = rs_services st"
  "rs_loadingWall (merged wide st fresh) = rs_loadingWall st"
  by (simp_all add: merged_def kept_def persisted_slices_def slice_names_def persist_blacklist_def)

section \<open>A restart that the page no longer watches\<close>

definition no_restart :: "action \<Rightarrow> bool" where
  "no_restart a \<longleftrightarrow> (case a of
     ServicesA (RestartServicePending i) \<Rightarrow> False
   | ServicesA (RestartServiceFulfilled i) \<Rightarrow> False
   | ServicesA (RestartServiceRejected p m) \<Rightarrow> False
   | _ \<Rightarrow> True)"

lemma no_restart_keeps:
  "no_restart a \<Longrightarrow> sv_restarting (rs_services (root_reducer now s a)) = sv_restarting (rs_services s)"
  by (auto simp: no_restart_def split: action.splits services_action.splits)

interpretation restarting: typed_store root_reducer "\<lambda>s. sv_restarting (rs_services s) = Some i" no_restart for i
  by unfold_locales (simp add: no_restart_keeps)

lemma no_restart_other [simp]:
  "\<nexists>x. a = ServicesA x \<Longrightarrow> no_restart a" "no_restart (ServicesA FetchServicesPending)"
  "no_restart (ServicesA (FetchServicesFulfilled v))" "no_restart (ServicesA (FetchServicesRejected p m))"
  by (auto simp: no_restart_def split: action.splits)

lemma shared_no_restart: "shared_action a \<Longrightarrow> no_restart a"
  by (rule no_restart_other) (auto simp: shared_action_def)

definition other_thunks :: "unit thunk set" where
  "other_thunks = store_thunks - range (restartService standard_async_thunk)"

lemma unwatched_lifecycle:
  assumes "shared p" and "no_restart pend" and "\<And>v. no_restart (ful v)" and "\<And>x m. no_restart (rej x m)"
  shows "typed (\<lambda>_ _. True) good no_restart (\<lambda>_. True) (\<lambda>_. True) (standard_async_thunk pend ful rej p)"
  using assms by (intro shared_standard) (auto intro: shared_no_restart)

lemma unwatched_operations:
  assumes "shared p"
  shows "typed (\<lambda>_ _. True) good no_restart (\<lambda>_. True) (\<lambda>_. True) p"
  using assms by (rule shared_any) (rule shared_no_restart)

lemma other_thunks_unwatched:
  assumes "p \<in> other_thunks"
  shows "typed (\<lambda>_ _. True) good no_restart (\<lambda>_. True) (\<lambda>_. True) p"
  using assms
  unfolding other_thunks_def store_thunks_def read_thunks_def write_thunks_def
  by (auto simp: operations_shared [THEN unwatched_operations]
      auth_thunk_defs network_thunk_defs board_data_thunk_defs slideshow_thunk_defs power_thunk_defs timer_thunk_defs
      intro!: unwatched_lifecycle shared_creators split: prod.split)

text \<open>A first visit, a dialog opened, a restart begun, and the page loaded again.\<close>

definition restart_begun :: root_state where
  "restart_begun = root_reducer 2 (root_reducer 1 (root_initial 0) (DialogsA GeneralFactoryResetDialogOpened))
     (ServicesA (RestartServicePending ''dashboard''))"

lemma merged_level2: "merges_level2 merged"
  by (simp add: merges_level2_def)

lemma restart_life: "\<exists>S. life merged S (merged False restart_begun (root_initial 9))"
proof -
  let ?a1 = "DialogsA GeneralFactoryResetDialogOpened" and ?a2 = "ServicesA (RestartServicePending ''dashboard'')"
  have a1: "root_action_ok s ?a1" "action_typed ?a1" and a2: "root_action_ok s ?a2" "action_typed ?a2" for s
    by simp_all
  note first = life.action [OF life.first [of merged 0] a1 refl, of 1]
  from life.action [OF first a2 refl, of 2]
  obtain S where S: "life merged S restart_begun" unfolding restart_begun_def by blast
  then have "mixed_from S restart_begun"
    using life_sound [OF S merged_level2] by (simp add: mixed_from_def mixed_data_def)
  from life.load [OF S this refl] show ?thesis by blast
qed

section \<open>Properties\<close>



text \<open>C10: The slice of the services is kept over a load. A page that is loaded again while a service is
  being restarted keeps that service's restart button disabled for good: nothing but another restart
  clears the mark, whatever else is started or dispatched, and the button offers nothing.\<close>

lemma restart_button_stays_disabled:
  assumes "merges_level2 reconcile" and "sv_restarting (rs_services st) = Some i"
    and "reachable_with (\<lambda>_ _. True) root_reducer (\<lambda>p. p \<in> other_thunks) no_restart (reconcile wide st fresh, {#}) (s, ps)"
  shows "emits (RestartButton (sv_restarting (rs_services s)) i False) = {}"
proof -
  have "sv_restarting (rs_services (reconcile wide st fresh)) = Some i"
    using assms(1,2) by (simp add: merges_level2_def load_keeps)
  then have "sv_restarting (rs_services (fst (s, ps))) = Some i \<and> (\<forall>p \<in># snd (s, ps).
      typed (\<lambda>_ _. True) (\<lambda>s. sv_restarting (rs_services s) = Some i) no_restart (\<lambda>_. True) (\<lambda>_. True) p)"
    by (intro restarting.reachable_typed [OF assms(3) other_thunks_unwatched]) simp_all
  then show ?thesis by (simp add: RestartButton_def ConfirmDialog_def)
qed

lemma restart_button_stays_disabled_witness:
  "emits (RestartButton (sv_restarting (rs_services (merged False restart_begun (root_initial 9)))) ''dashboard'' False) = {}"
  by (rule restart_button_stays_disabled [OF merged_level2 _ reachable_with.init, of restart_begun])
    (simp add: restart_begun_def)

end
