(* ===== verification/Countdown.thy ===== *)
theory Countdown
  imports TimerThunks
begin

text \<open>
  The timers against an ideal countdown, which shows at a time what is left of the duration since the
  start, in whole seconds. The sync that the hook of the pages uses (\<open>syncSpecificTimer\<close>) agrees with
  it, however often and when it runs. Pausing a timer and the sync of all timers at once do not.
\<close>

definition countdown :: "int \<Rightarrow> int \<Rightarrow> int \<Rightarrow> int" where
  "countdown duration start now = max 0 (duration - (now - start) div 1000)"

lemma countdown_antimono: "now \<le> now' \<Longrightarrow> countdown d s now' \<le> countdown d s now"
  by (auto simp: countdown_def intro!: diff_left_mono zdiv_mono1)

text \<open>A timer that shows the ideal countdown, and runs exactly as long as something is left.\<close>

definition on_clock :: "int \<Rightarrow> int \<Rightarrow> int \<Rightarrow> timer \<Rightarrow> bool" where
  "on_clock duration start now t \<longleftrightarrow>
     tm_remaining t = countdown duration start now \<and>
     (if 0 < countdown duration start now then started_at t = Some start \<and> tm_duration t = duration
      else started_at t = None)"

lemma synced_on_clock:
  assumes "started_at t = Some s"
  shows "on_clock (tm_duration t) s now (synced now t)"
proof -
  have "tm_startTimestamp t = Some s" "tm_isActive t" "s \<noteq> 0"
    using assms by (auto simp: started_at_def split: option.splits if_splits)
  then show ?thesis
    by (auto simp: on_clock_def synced_def assms remaining_set_def remaining_at_def countdown_def halted_def
        started_at_def Let_def)
qed

lemma on_clock_synced:
  assumes "on_clock d s now t" and "now \<le> now'"
  shows "on_clock d s now' (synced now' t)"
proof (cases "0 < countdown d s now")
  case True
  with assms(1) have "started_at t = Some s" "tm_duration t = d" by (simp_all add: on_clock_def)
  with synced_on_clock [of t s now'] show ?thesis by simp
next
  case False
  moreover have "0 \<le> countdown d s now'" by (simp add: countdown_def)
  ultimately have "countdown d s now' = 0" "countdown d s now = 0"
    using countdown_antimono [OF assms(2), of d s] by (simp_all add: countdown_def)
  with assms(1) show ?thesis by (simp add: on_clock_def synced_def)
qed

section \<open>Over any number of ticks\<close>

lemma run_sync_time:
  assumes "rtk_lifecycle cat" and "\<And>n. 0 \<le> w_lag w n" and "runR w (syncSpecificTimer cat i) c = (r, c')"
  shows "cf_time c + w_lag w (cf_steps c) \<le> cf_time c'"
  using assms(3)
  by (auto simp: syncSpecificTimer_def syncSpecificTimer_creator_def set_remainingP_def
      rtk_lifecycle_run [OF assms(1)] settled_action_def assms(2) Let_def split: option.splits if_splits)

lemma run_ticks:
  assumes "rtk_lifecycle cat" and "\<And>n. 0 \<le> w_lag w n"
    and "selectTimer (rs_timers (cf_store c)) i = Some t"
    and "\<And>now. cf_time c \<le> now \<Longrightarrow> on_clock d s now (synced now t)"
  shows "\<exists>c' t' now. runR w (sync_ticks cat i (Suc n)) c = (Returned (), c') \<and>
    selectTimer (rs_timers (cf_store c')) i = Some t' \<and> cf_time c + 1000 * int (Suc n) \<le> now \<and>
    now \<le> cf_time c' \<and> on_clock d s now t'"
  using assms(3,4)
proof (induction n arbitrary: c t)
  case 0
  let ?c = "tick w (c\<lparr>cf_time := cf_time c + 1000\<rparr>)"
  let ?now = "cf_time ?c + w_lag w (cf_steps ?c)"
  obtain c' where c': "runR w (syncSpecificTimer cat i) ?c = (Returned (), c')"
    "selectTimer (rs_timers (cf_store c')) i = Some (synced ?now t)"
    using run_syncSpecific [OF assms(1), of w i ?c] 0(1) by auto
  have "cf_time c + 1000 \<le> ?now" using assms(2) [of "cf_steps c"] assms(2) [of "cf_steps ?c"] by simp
  moreover have "?now \<le> cf_time c'" using run_sync_time [OF assms(1,2) c'(1)] .
  moreover have "on_clock d s ?now (synced ?now t)"
    using 0(2) [of ?now] assms(2) [of "cf_steps c"] assms(2) [of "cf_steps ?c"] by simp
  ultimately show ?case using c'
    by (intro exI [of _ c'] exI [of _ "synced ?now t"] exI [of _ ?now]) (auto simp: run_bindP)
next
  case (Suc n)
  let ?c = "tick w (c\<lparr>cf_time := cf_time c + 1000\<rparr>)"
  let ?now = "cf_time ?c + w_lag w (cf_steps ?c)"
  obtain c1 where c1: "runR w (syncSpecificTimer cat i) ?c = (Returned (), c1)"
    "selectTimer (rs_timers (cf_store c1)) i = Some (synced ?now t)"
    using run_syncSpecific [OF assms(1), of w i ?c] Suc.prems(1) by auto
  have later: "cf_time c + 1000 \<le> ?now" using assms(2) [of "cf_steps c"] assms(2) [of "cf_steps ?c"] by simp
  have after: "?now \<le> cf_time c1" using run_sync_time [OF assms(1,2) c1(1)] .
  have "on_clock d s now (synced now (synced ?now t))" if "cf_time c1 \<le> now" for now
  proof (rule on_clock_synced)
    show "on_clock d s ?now (synced ?now t)" using Suc.prems(2) later by simp
    show "?now \<le> now" using after that by simp
  qed
  from Suc.IH [OF c1(2) this] obtain c' t' now where
    "runR w (sync_ticks cat i (Suc n)) c1 = (Returned (), c')" "selectTimer (rs_timers (cf_store c')) i = Some t'"
    "cf_time c1 + 1000 * int (Suc n) \<le> now" "now \<le> cf_time c'" "on_clock d s now t'" by blast
  with c1(1) later after show ?case by (intro exI [of _ c'] exI [of _ t'] exI [of _ now]) (auto simp: run_bindP)
qed

section \<open>What does not agree\<close>

text \<open>
  A timer that was stopped with something left and is started again begins anew: the next sync counts
  from the new start down from the whole duration, and what the pause had kept is gone.
\<close>

lemma pause_is_forgotten:
  assumes "selectTimer st i = Some t" and "tm_isActive t" and "start \<noteq> 0"
  shows "\<exists>t'. selectTimer (timersReducer start (timersReducer now st (StopTimer i)) (StartTimer i)) i = Some t' \<and>
    tm_remaining t' = tm_remaining t \<and> tm_remaining (synced later t') = countdown (tm_duration t) start later"
  using assms
  by (auto simp: selectTimer_def map_of_modify_timer halted_def synced_def started_at_def remaining_set_def
      remaining_at_def countdown_def Let_def split: option.splits)

text \<open>
  The sync of all timers takes the whole seconds since the last such sync from what remains and moves
  that time to now: asked for more than once a second it takes nothing, for ever.
\<close>

lemma sync_all_takes_nothing:
  assumes "\<forall>(k, t) \<in> set ts. 0 < tm_remaining t" and "0 \<le> elapsed" and "elapsed < 1000"
  shows "sync_each elapsed ts k =
    foldr (\<lambda>(i, t) p. if started_at t \<noteq> None then Dispatch (TimersA (UpdateTimer i (Some (tm_remaining t)))) p else p) ts k"
proof -
  have [simp]: "elapsed div 1000 = 0" using assms(2,3) by simp
  show ?thesis using assms(1) by (induction ts) (auto simp: set_remainingP_def)
qed

section \<open>Property\<close>

text \<open>C24: A running timer that a page shows agrees with the ideal countdown after any number of ticks,
  however late they come: what remains is its duration less the whole seconds since its start, never
  below zero, at the time of the last sync, and it still runs exactly if something remains.\<close>

lemma ticks_follow_clock:
  assumes "rtk_lifecycle cat" and "\<And>n. 0 \<le> w_lag w n"
    and "selectTimer (rs_timers (cf_store c)) i = Some t" and "started_at t = Some s"
  shows "\<exists>c' t' now. runR w (sync_ticks cat i (Suc n)) c = (Returned (), c') \<and>
    selectTimer (rs_timers (cf_store c')) i = Some t' \<and> cf_time c + 1000 * int (Suc n) \<le> now \<and>
    now \<le> cf_time c' \<and> tm_remaining t' = countdown (tm_duration t) s now \<and>
    (started_at t' \<noteq> None \<longleftrightarrow> 0 < countdown (tm_duration t) s now)"
proof -
  have "\<And>now. cf_time c \<le> now \<Longrightarrow> on_clock (tm_duration t) s now (synced now t)"
    using synced_on_clock [OF assms(4)] by blast
  from run_ticks [OF assms(1-3) this] show ?thesis by (fastforce simp: on_clock_def split: if_splits)
qed

lemma ticks_follow_clock_witness:
  "\<exists>c' t' now. runR (silent_world\<lparr>w_lag := \<lambda>_. 7\<rparr>) (sync_ticks standard_async_thunk ''t'' 3) timed_cfg = (Returned (), c') \<and>
    selectTimer (rs_timers (cf_store c')) ''t'' = Some t' \<and> 63500 \<le> now \<and> tm_remaining t' = countdown 180 1000 now"
proof -
  have "selectTimer (rs_timers (cf_store timed_cfg)) ''t'' = Some \<lparr>tm_id = ''t'', tm_duration = 180, tm_remaining = 180,
      tm_isActive = True, tm_startTimestamp = Some 1000\<rparr>" by (simp add: timed_cfg_def selectTimer_def)
  from ticks_follow_clock [OF rtk_lifecycle_standard _ this, of "silent_world\<lparr>w_lag := \<lambda>_. 7\<rparr>" 1000 2]
  show ?thesis by (fastforce simp: started_at_def timed_cfg_def eval_nat_numeral)
qed

end
