(* ===== verification/TimerLock.thy ===== *)
theory TimerLock
  imports Countdown FrameView ShellView
begin

text \<open>
  The two timers of the frame page (main/frame/frameActions.tsx): that of the first load, which the
  layout starts, and that of the last operation, which the operations start. While one of them runs
  the buttons of the page are disabled. The page asks for both, and keeps them in step with the clock
  by an effect of its own.
\<close>

section \<open>The effect of the page\<close>

text \<open>Two syncs are started one after the other; what the second finds in the store does not depend on
  whether the first has settled, as settling changes nothing.\<close>

(* src: main/frame/frameActions.tsx 135-136: the syncs of the timers' effect *)
definition sync_page_timers :: "(string \<times> int option) cat \<Rightarrow> unit thunk" where
  "sync_page_timers cat = bindP (syncSpecificTimer cat initial_load_timer) (\<lambda>_. syncSpecificTimer cat actions_timer)"

text \<open>\<open>running\<close> is what the render saw to which the effect belongs: with another value it is cleaned up
  and runs anew.\<close>

(* src: main/frame/frameActions.tsx 138-143: the interval of the timers' effect *)
fun page_ticks :: "(string \<times> int option) cat \<Rightarrow> bool \<Rightarrow> nat \<Rightarrow> unit thunk" where
  "page_ticks cat running 0 = Return ()"
| "page_ticks cat running (Suc n) = Sleep 1000
     (if running then bindP (sync_page_timers cat) (\<lambda>_. page_ticks cat running n) else page_ticks cat running n)"

(* src: main/frame/frameActions.tsx 134-148: the timers' effect *)
definition page_timers_effect :: "(string \<times> int option) cat \<Rightarrow> bool \<Rightarrow> bool \<Rightarrow> nat \<Rightarrow> unit thunk" where
  "page_timers_effect cat initialActive actionsActive ticks =
     bindP (sync_page_timers cat) (\<lambda>_. page_ticks cat (initialActive \<or> actionsActive) ticks)"

text \<open>What the page reads of the two timers.\<close>

(* src: main/frame/frameActions.tsx 121-132: the timers of the page *)
definition with_timers :: "timers_state \<Rightarrow> frame_page \<Rightarrow> frame_page" where
  "with_timers ts p =
     (let initial = useTimer_view (selectTimer ts initial_load_timer);
          actions = useTimer_view (selectTimer ts actions_timer)
      in p\<lparr>fp_view := (fp_view p)\<lparr>fv_initialTimer := tv_isActive initial, fv_actionsTimer := tv_isActive actions\<rparr>,
           fp_actionsTimerTime := tv_formattedTime actions\<rparr>)"

section \<open>What the effect does to a timer\<close>

text \<open>A timer that either stands still or was started at \<open>s\<close> for \<open>d\<close> seconds, and stands still if these
  were over at \<open>now\<close>.\<close>

definition bounded_by :: "int \<Rightarrow> int \<Rightarrow> int \<Rightarrow> timer option \<Rightarrow> bool" where
  "bounded_by s d now to \<longleftrightarrow>
     (\<forall>t. to = Some t \<and> tm_isActive t \<longrightarrow> started_at t = Some s \<and> tm_duration t = d \<and> now < s + 1000 * d)"

lemma bounded_by_weaken: "bounded_by s d now to \<Longrightarrow> now' \<le> now \<Longrightarrow> bounded_by s d now' to"
  by (fastforce simp: bounded_by_def)

lemma synced_still: "\<not> tm_isActive t \<Longrightarrow> synced now t = t"
  by (simp add: synced_def started_at_def split: option.splits)

lemma synced_bounded:
  assumes "bounded_by s d old to" and "0 \<le> d"
  shows "bounded_by s d now (map_option (synced now) to)"
proof (cases to)
  case (Some t)
  show ?thesis
  proof (cases "tm_isActive t")
    case False
    with Some show ?thesis by (simp add: bounded_by_def synced_still)
  next
    case True
    with assms Some have t: "started_at t = Some s" "tm_duration t = d" by (simp_all add: bounded_by_def)
    with synced_over(2) [of t s now] assms(2) have "tm_isActive (synced now t) \<Longrightarrow> now < s + 1000 * d" by fastforce
    moreover have "started_at (synced now t) = Some s \<and> tm_duration (synced now t) = d" if "tm_isActive (synced now t)"
      using that t by (auto simp: synced_def remaining_set_def halted_def started_at_def Let_def split: option.splits if_splits)
    ultimately show ?thesis using Some by (simp add: bounded_by_def)
  qed
qed (simp add: bounded_by_def)

lemma timer_names: "initial_load_timer \<noteq> actions_timer"
  by (simp add: initial_load_timer_def actions_timer_def)

text \<open>Both timers, each with its own start and duration.\<close>

definition both_locked :: "int \<times> int \<Rightarrow> int \<times> int \<Rightarrow> int \<Rightarrow> timers_state \<Rightarrow> bool" where
  "both_locked a b now ts \<longleftrightarrow>
     bounded_by (fst a) (snd a) now (selectTimer ts initial_load_timer) \<and> 0 \<le> snd a \<and>
     bounded_by (fst b) (snd b) now (selectTimer ts actions_timer) \<and> 0 \<le> snd b"

lemma run_sync_page_timers:
  assumes "rtk_lifecycle cat" and "\<And>n. 0 \<le> w_lag w n" and "both_locked a b old (rs_timers (cf_store c))"
  shows "\<exists>c'. runR w (sync_page_timers cat) c = (Returned (), c') \<and> cf_time c \<le> cf_time c' \<and>
    both_locked a b (cf_time c) (rs_timers (cf_store c'))"
proof -
  let ?sel = "\<lambda>c. selectTimer (rs_timers (cf_store c))"
  let ?now = "\<lambda>c. cf_time c + w_lag w (cf_steps c)"
  obtain c1 where c1: "runR w (syncSpecificTimer cat initial_load_timer) c = (Returned (), c1)"
    "?sel c1 initial_load_timer = map_option (synced (?now c)) (?sel c initial_load_timer)"
    using run_syncSpecific [OF assms(1)] by blast
  obtain c2 where c2: "runR w (syncSpecificTimer cat actions_timer) c1 = (Returned (), c2)"
    "?sel c2 actions_timer = map_option (synced (?now c1)) (?sel c1 actions_timer)"
    using run_syncSpecific [OF assms(1)] by blast
  have others: "?sel c1 actions_timer = ?sel c actions_timer" "?sel c2 initial_load_timer = ?sel c1 initial_load_timer"
    using run_syncSpecific_others [OF assms(1) _ c1(1)] run_syncSpecific_others [OF assms(1) _ c2(1)] timer_names by auto
  have "?now c \<le> cf_time c1" "?now c1 \<le> cf_time c2"
    using run_sync_time [OF assms(1,2) c1(1)] run_sync_time [OF assms(1,2) c2(1)] .
  with assms(2) [of "cf_steps c"] assms(2) [of "cf_steps c1"]
  have later: "cf_time c \<le> ?now c" "cf_time c \<le> ?now c1" "cf_time c \<le> cf_time c2" by auto
  have "both_locked a b (cf_time c) (rs_timers (cf_store c2))"
    using assms(3) synced_bounded [THEN bounded_by_weaken] later
    by (auto simp: both_locked_def c1(2) c2(2) others)
  with c1(1) c2(1) later(3) show ?thesis by (auto simp: sync_page_timers_def run_bindP)
qed

lemma run_page_ticks:
  assumes "rtk_lifecycle cat" and "\<And>n. 0 \<le> w_lag w n"
    and "both_locked a b now (rs_timers (cf_store c))" and "now \<le> cf_time c"
  shows "\<exists>c'. runR w (page_ticks cat True n) c = (Returned (), c') \<and>
    both_locked a b (now + 1000 * int n) (rs_timers (cf_store c'))"
  using assms(3,4)
proof (induction n arbitrary: c now)
  case (Suc n)
  let ?c = "tick w (c\<lparr>cf_time := cf_time c + 1000\<rparr>)"
  have time: "now + 1000 \<le> cf_time ?c" using Suc.prems(2) assms(2) [of "cf_steps c"] by simp
  obtain c1 where c1: "runR w (sync_page_timers cat) ?c = (Returned (), c1)" "cf_time ?c \<le> cf_time c1"
    "both_locked a b (cf_time ?c) (rs_timers (cf_store c1))"
    using run_sync_page_timers [OF assms(1,2), of a b now ?c] Suc.prems(1) by auto
  have "both_locked a b (now + 1000) (rs_timers (cf_store c1))"
    using c1(3) time by (auto simp: both_locked_def intro: bounded_by_weaken)
  from Suc.IH [OF this] c1(2) time obtain c' where "runR w (page_ticks cat True n) c1 = (Returned (), c')"
    "both_locked a b (now + 1000 + 1000 * int n) (rs_timers (cf_store c'))" by auto
  with c1(1) show ?case by (intro exI [of _ c']) (simp add: run_bindP algebra_simps)
qed simp

lemma run_idle_ticks:
  "\<exists>c'. runR w (page_ticks cat False n) c = (Returned (), c') \<and> cf_store c' = cf_store c"
  by (induction n arbitrary: c) fastforce+

text \<open>The timers that the page reads as running, and that nothing runs once both are over.\<close>

lemma view_timers:
  "fv_initialTimer (fp_view (with_timers ts p)) \<longleftrightarrow> (\<exists>t. selectTimer ts initial_load_timer = Some t \<and> tm_isActive t)"
  "fv_actionsTimer (fp_view (with_timers ts p)) \<longleftrightarrow> (\<exists>t. selectTimer ts actions_timer = Some t \<and> tm_isActive t)"
  by (simp_all add: with_timers_def useTimer_view_def Let_def split: option.splits)

lemma locked_over:
  assumes "both_locked a b now ts" and "fst a + 1000 * snd a \<le> now" and "fst b + 1000 * snd b \<le> now"
  shows "\<not> isTimerRunning (fp_view (with_timers ts p))"
  using assms by (fastforce simp: isTimerRunning_def view_timers both_locked_def bounded_by_def)

lemma bounded_start:
  assumes "\<And>t. to = Some t \<Longrightarrow> tm_isActive t \<Longrightarrow>
    \<exists>s. started_at t = Some s \<and> s \<le> now \<and> 0 \<le> tm_duration t \<and> tm_duration t \<le> int ticks"
  shows "\<exists>a. fst a \<le> now \<and> 0 \<le> snd a \<and> snd a \<le> int ticks \<and> bounded_by (fst a) (snd a) (fst a - 1) to \<and>
    (\<not> (\<exists>t. to = Some t \<and> tm_isActive t) \<longrightarrow> snd a = 0)"
proof (cases "\<exists>t. to = Some t \<and> tm_isActive t")
  case True
  then obtain t where t: "to = Some t" "tm_isActive t" by blast
  with assms obtain s where "started_at t = Some s" "s \<le> now" "0 \<le> tm_duration t" "tm_duration t \<le> int ticks" by blast
  with t show ?thesis by (intro exI [of _ "(s, tm_duration t)"]) (simp add: bounded_by_def)
next
  case False
  then show ?thesis by (intro exI [of _ "(now, 0)"]) (auto simp: bounded_by_def)
qed

text \<open>The layout's mount (its \<open>useTimer\<close> with twenty seconds, then \<open>restartInitialLoadTimer\<close>) starts the
  timer of the first load, if there is none yet.\<close>

lemma layout_starts_timer:
  assumes "start \<noteq> 0" and "prevPath \<noteq> getAuthenticationUrl @ getSignOutUrl"
    and "selectTimer (rs_timers st) initial_load_timer = None"
  shows "\<exists>t. selectTimer (rs_timers (fold (\<lambda>a st. root_reducer start st a)
      (TimersA (AddTimer initial_load_timer (Some 20)) # restartInitialLoadTimer prevPath) st)) initial_load_timer = Some t \<and>
    started_at t = Some start \<and> tm_duration t = 20"
  using assms
  by (simp add: restartInitialLoadTimer_def selectTimer_def started_at_def halted_def rewound_def map_of_modify_timer update_conv')

section \<open>Property\<close>

text \<open>C25: The timers do not keep the buttons of the frame page disabled: once the effect of the page has
  run for as many ticks as the longer of the two timers that run has seconds, however late the ticks
  come, neither of them runs any more.\<close>

lemma timer_lock_ends:
  assumes "rtk_lifecycle cat" and "\<And>n. 0 \<le> w_lag w n"
    and "\<And>i t. i \<in> {initial_load_timer, actions_timer} \<Longrightarrow> selectTimer (rs_timers (cf_store c)) i = Some t \<Longrightarrow>
      tm_isActive t \<Longrightarrow> \<exists>s. started_at t = Some s \<and> s \<le> cf_time c \<and> 0 \<le> tm_duration t \<and> tm_duration t \<le> int ticks"
    and "v = fp_view (with_timers (rs_timers (cf_store c)) p)"
  shows "\<exists>c'. runR w (page_timers_effect cat (fv_initialTimer v) (fv_actionsTimer v) ticks) c = (Returned (), c') \<and>
    \<not> isTimerRunning (fp_view (with_timers (rs_timers (cf_store c')) p))"
proof -
  let ?sel = "\<lambda>c. selectTimer (rs_timers (cf_store c))"
  from assms(3) obtain a where a: "fst a \<le> cf_time c" "0 \<le> snd a" "snd a \<le> int ticks"
    "bounded_by (fst a) (snd a) (fst a - 1) (?sel c initial_load_timer)" "\<not> fv_initialTimer v \<longrightarrow> snd a = 0"
    using bounded_start [of "?sel c initial_load_timer" "cf_time c" ticks] unfolding assms(4) view_timers by blast
  from assms(3) obtain b where b: "fst b \<le> cf_time c" "0 \<le> snd b" "snd b \<le> int ticks"
    "bounded_by (fst b) (snd b) (fst b - 1) (?sel c actions_timer)" "\<not> fv_actionsTimer v \<longrightarrow> snd b = 0"
    using bounded_start [of "?sel c actions_timer" "cf_time c" ticks] unfolding assms(4) view_timers by blast
  have "both_locked a b (min (fst a) (fst b) - 1) (rs_timers (cf_store c))"
    using a b by (auto simp: both_locked_def intro: bounded_by_weaken)
  then obtain c1 where c1: "runR w (sync_page_timers cat) c = (Returned (), c1)" "cf_time c \<le> cf_time c1"
    "both_locked a b (cf_time c) (rs_timers (cf_store c1))"
    using run_sync_page_timers [OF assms(1,2)] by blast
  show ?thesis
  proof (cases "fv_initialTimer v \<or> fv_actionsTimer v")
    case True
    with run_page_ticks [OF assms(1,2) c1(3,2)] obtain c' where
      "runR w (page_ticks cat True ticks) c1 = (Returned (), c')"
      "both_locked a b (cf_time c + 1000 * int ticks) (rs_timers (cf_store c'))" by blast
    moreover from this(2) have "\<not> isTimerRunning (fp_view (with_timers (rs_timers (cf_store c')) p))"
      by (rule locked_over) (use a(1,3) b(1,3) in simp_all)
    ultimately show ?thesis using True c1(1) by (auto simp: page_timers_effect_def run_bindP)
  next
    case False
    obtain c' where "runR w (page_ticks cat False ticks) c1 = (Returned (), c')" "cf_store c' = cf_store c1"
      using run_idle_ticks by blast
    moreover from c1(3) have "\<not> isTimerRunning (fp_view (with_timers (rs_timers (cf_store c1)) p))"
      by (rule locked_over) (use False a(1,5) b(1,5) in simp_all)
    ultimately show ?thesis using False c1(1) by (auto simp: page_timers_effect_def run_bindP)
  qed
qed

text \<open>The first load: the layout's timer of twenty seconds, a second in, and ticks that come late.\<close>

definition locked_cfg :: root_cfg where
  "locked_cfg = fresh_cfg\<lparr>cf_time := 2000, cf_store := (root_initial 0)\<lparr>rs_timers :=
     \<lparr>ts_timers = [(initial_load_timer, \<lparr>tm_id = initial_load_timer, tm_duration = 20, tm_remaining = 20, tm_isActive = True,
        tm_startTimestamp = Some 1000\<rparr>)], ts_lastSyncTime = 1000\<rparr>\<rparr>\<rparr>"

lemma timer_lock_ends_witness:
  "isTimerRunning (fp_view (with_timers (rs_timers (cf_store locked_cfg)) open_page)) \<and>
   (\<exists>c'. runR (silent_world\<lparr>w_lag := \<lambda>_. 7\<rparr>) (page_timers_effect standard_async_thunk True False 20) locked_cfg =
     (Returned (), c') \<and> \<not> isTimerRunning (fp_view (with_timers (rs_timers (cf_store c')) open_page)))"
proof -
  let ?v = "fp_view (with_timers (rs_timers (cf_store locked_cfg)) open_page)"
  have sel: "selectTimer (rs_timers (cf_store locked_cfg)) i = Some t \<longleftrightarrow> i = initial_load_timer \<and>
      t = \<lparr>tm_id = initial_load_timer, tm_duration = 20, tm_remaining = 20, tm_isActive = True, tm_startTimestamp = Some 1000\<rparr>"
    for i t by (auto simp: locked_cfg_def selectTimer_def)
  have v: "fv_initialTimer ?v" "\<not> fv_actionsTimer ?v"
    using timer_names by (auto simp: view_timers sel)
  have "\<exists>c'. runR (silent_world\<lparr>w_lag := \<lambda>_. 7\<rparr>)
      (page_timers_effect standard_async_thunk (fv_initialTimer ?v) (fv_actionsTimer ?v) 20) locked_cfg = (Returned (), c') \<and>
    \<not> isTimerRunning (fp_view (with_timers (rs_timers (cf_store c')) open_page))"
    by (rule timer_lock_ends [OF rtk_lifecycle_standard])
      (auto simp: sel started_at_def, simp add: locked_cfg_def)
  with v show ?thesis by (simp add: isTimerRunning_def)
qed

end
