(* ===== verification/LayoutView.thy ===== *)
theory LayoutView
  imports SignInView SlideshowView
begin

text \<open>
  What is around every page (common/components/layout/layout.tsx): the link past the menus, the
  progress of a navigation, the bar, the banner of the connection, the menu, the power dialogs and the
  page; the notices under it (snackbars.tsx); and the polls of the pages that are open. The messages of
  the frame and of the page inside stay apart.
\<close>

section \<open>The parts\<close>

text \<open>\<open>state\<close> is what \<open>useNavigation\<close> says of the router.\<close>

(* src: common/components/layout/layout.tsx 21-30: NavigationProgress *)
definition NavigationProgress :: "string \<Rightarrow> 'e node list" where
  "NavigationProgress state = (if state \<noteq> ''loading'' then [] else [Group ''progress'' [Text (''Seite l'' @ s_ae @ ''dt'')]])"

(* src: common/components/networkStatusBanner.tsx 49-81: the box of NetworkStatusBanner *)
definition status_banner :: "connection_mode_state \<Rightarrow> 'e node list" where
  "status_banner cm =
     (case NetworkStatusBanner cm of
        None \<Rightarrow> []
      | Some (bgcolor, title, detail) \<Rightarrow> [Group ''status'' [Text title, Text detail]])"

(* src: common/components/layout/topLayout/topAppBar.tsx 73-191: TopAppBar *)
definition TopAppBar :: "shell \<Rightarrow> shell_msg node list" where
  "TopAppBar s = Group ''bar'' (top_bar s) # notifications_menu s"

(* src: common/components/layout/sidebar/sidebarWidth.ts 1-1: SIDEBAR_WIDTH *)
definition SIDEBAR_WIDTH :: nat where
  "SIDEBAR_WIDTH = 240"

(* src: common/components/layout/sidebar/sidebarWidth.ts 2-2: SIDEBAR_ICON_WIDTH *)
definition SIDEBAR_ICON_WIDTH :: nat where
  "SIDEBAR_ICON_WIDTH = 75"

(* src: common/components/layout/sidebar/sidebar.tsx 41-41: currentWidth *)
definition currentWidth :: "shell \<Rightarrow> nat" where
  "currentWidth s = (if shouldShowIconsOnly s then SIDEBAR_ICON_WIDTH else SIDEBAR_WIDTH)"

text \<open>The room that the page leaves for the menu, in pixels.\<close>

(* src: common/components/layout/layout.tsx 115-115: the padding of the page *)
definition content_inset :: "shell \<Rightarrow> nat" where
  "content_inset s =
     (if sh_isDesktop s then if nv_sidebar_open (sh_navigation s) then SIDEBAR_WIDTH else SIDEBAR_ICON_WIDTH else 0)"

section \<open>The layout\<close>

datatype 'e layout_msg = SkippedToContent | ShellMsg shell_msg | PageMsg 'e

text \<open>\<open>pageTitle\<close> is empty for none.\<close>

(* src: common/components/layout/layout.tsx 87-143: MainLayout *)
definition MainLayout :: "shell \<Rightarrow> string \<Rightarrow> string \<Rightarrow> 'e node list \<Rightarrow> 'e layout_msg node list" where
  "MainLayout s navigation pageTitle outlet =
     [Button ''Zum Inhalt springen'' False SkippedToContent] @ NavigationProgress navigation @
     map (map_node ShellMsg) (TopAppBar s) @ status_banner (sh_mode s) @
     map (map_node ShellMsg) (Sidebar s) @ map (map_node ShellMsg) (PowerDialogs (sh_dialogs s) (sh_isConnected s)) @
     [Group ''main'' (showIf (pageTitle \<noteq> []) [HiddenPageTitle pageTitle] @ map (map_node PageMsg) outlet)]"

text \<open>The notices are under the page; closing one is all they offer.\<close>

datatype 'e screen_msg = NoticeMsg snackbars_action | InsideMsg 'e

(* src: common/components/snackbars/snackbars.tsx 38-72: Snackbars *)
definition with_snackbars ::
  "(string \<Rightarrow> string \<Rightarrow> bool) \<Rightarrow> (string \<Rightarrow> bool) \<Rightarrow> snackbars_state \<Rightarrow> 'e node list \<Rightarrow> 'e screen_msg node list" where
  "with_snackbars le late st outlet =
     map (map_node InsideMsg) outlet @ [Group ''notices'' (map (map_node NoticeMsg) (Snackbars le late st))]"

section \<open>Polls\<close>

(* src: main/slideshowImages/slideshowImages.tsx 17-17: POLL_MS *)
definition IMAGES_POLL_MS :: int where
  "IMAGES_POLL_MS = 15000"

text \<open>While the order is being edited the images are not fetched.\<close>

(* src: main/slideshowImages/slideshowImages.tsx 28-33: the poll of the images *)
definition images_polls :: "images_payload cat \<Rightarrow> images_page \<Rightarrow> int \<Rightarrow> int \<Rightarrow> (int \<times> unit thunk) list" where
  "images_polls cat p mounted unmounted =
     (if isEditing p then []
      else map (\<lambda>t. (t, fetchSlideshowImages cat)) (poll_starts IMAGES_POLL_MS mounted unmounted))"

text \<open>\<open>since\<close> and \<open>until\<close> bound the run of the effect: it starts anew when \<open>updateActive\<close> changes.\<close>

(* src: main/updates/updates.tsx 63-67: the poll of the update's state *)
definition update_status_polls :: "jsval cat \<Rightarrow> updates_state \<Rightarrow> int \<Rightarrow> int \<Rightarrow> (int \<times> unit thunk) list" where
  "update_status_polls cat st since until =
     map (\<lambda>t. (t, fetchUpdateStatus cat)) (poll_starts (status_poll_ms st) since until)"

text \<open>Run at the mount, and whenever the connection has changed.\<close>

(* src: main/network/network.tsx 57-59: the effect of Network *)
definition network_effect :: "(jsval \<times> jsval) cat \<Rightarrow> unit thunk" where
  "network_effect cat = fetchNetworkData cat"

section \<open>Facts\<close>

lemma emits_map_node: "emits (map (map_node f) ns) = f ` emits ns"
  by (auto simp: emits_map node_emits_map_node emits_def)

text \<open>The layout adds to the page the link past the menus and what the frame offers, and takes nothing
  from it: a control of the page is there whatever the frame shows.\<close>

lemma MainLayout_emits:
  "emits (MainLayout s navigation pageTitle outlet) =
     {SkippedToContent} \<union>
     ShellMsg ` (emits (top_bar s) \<union> emits (notifications_menu s) \<union> emits (Sidebar s) \<union>
       emits (PowerDialogs (sh_dialogs s) (sh_isConnected s))) \<union>
     PageMsg ` emits outlet"
  by (auto simp: MainLayout_def NavigationProgress_def status_banner_def TopAppBar_def HiddenPageTitle_def
      emits_map_node node_emits_map_node split: option.splits)

lemma with_snackbars_emits:
  "emits (with_snackbars le late st outlet) = InsideMsg ` emits outlet \<union> NoticeMsg ` emits (Snackbars le late st)"
  by (auto simp: with_snackbars_def emits_map_node)

text \<open>On a desktop the page leaves exactly the width of the menu.\<close>

lemma inset_is_sidebar_width: "sh_isDesktop s \<Longrightarrow> content_inset s = currentWidth s"
  by (simp add: content_inset_def currentWidth_def shouldShowIconsOnly_def)

text \<open>While the order is edited nothing replaces the images under the user's hands.\<close>

lemma no_poll_while_editing: "isEditing p \<Longrightarrow> images_polls cat p mounted unmounted = []"
  by (simp add: images_polls_def)

end
