(* ===== verification/ErrorBoundary.thy ===== *)
theory ErrorBoundary
  imports SignInView
begin

text \<open>
  The boundary around the whole application (common/components/error/errorBoundary): what it does with
  an error that a render below it throws, and the page over its loads. Of the browser's
  \<open>localStorage\<close> it uses two keys: the log of errors, kept here as the list it is the JSON text of, and
  the saved store, of which only the presence counts. The two screens the boundary shows itself,
  without state, are taken not to throw.
\<close>

section \<open>The log\<close>

record local_storage =
  ls_errorLog :: "int list option"
  ls_savedStore :: bool

definition errorLog :: "local_storage \<Rightarrow> int list" where
  "errorLog ls = (case ls_errorLog ls of None \<Rightarrow> [] | Some entries \<Rightarrow> entries)"

(* src: common/components/error/errorBoundary/errorBoundary.tsx 27-35: logError *)
definition logError :: "int \<Rightarrow> local_storage \<Rightarrow> local_storage" where
  "logError now ls = ls\<lparr>ls_errorLog := Some (last_n 5 (errorLog ls @ [now]))\<rparr>"

(* src: common/components/error/errorBoundary/errorBoundary.tsx 38-41: getErrorCount *)
definition getErrorCount :: "local_storage \<Rightarrow> nat" where
  "getErrorCount ls = length (errorLog ls)"

(* src: common/components/error/errorBoundary/errorBoundary.tsx 44-46: clearErrorLogs *)
definition clearErrorLogs :: "local_storage \<Rightarrow> local_storage" where
  "clearErrorLogs ls = ls\<lparr>ls_errorLog := None\<rparr>"

section \<open>The component\<close>

(* src: common/components/error/errorBoundary/errorBoundary.tsx 10-13: ErrorBoundaryState *)
record boundary_state =
  eb_hasError :: bool
  eb_showContactPage :: bool

(* src: common/components/error/errorBoundary/errorBoundary.tsx 18-24: constructor *)
definition boundary_initial :: boundary_state where
  "boundary_initial = \<lparr>eb_hasError = False, eb_showContactPage = False\<rparr>"

text \<open>The last component of the result: when the page is to be loaded again, if it is.\<close>

(* src: common/components/error/errorBoundary/errorBoundary.tsx 49-76: componentDidCatch *)
definition componentDidCatch ::
  "int \<Rightarrow> boundary_state \<Rightarrow> local_storage \<Rightarrow> boundary_state \<times> local_storage \<times> int option" where
  "componentDidCatch now st ls =
     (let st' = st\<lparr>eb_hasError := True\<rparr>; errorCount = getErrorCount ls; ls' = logError now ls
      in if errorCount < 1 then (st', ls', Some (now + 2000))
         else (st'\<lparr>eb_hasError := True, eb_showContactPage := True\<rparr>, ls', None))"

text \<open>Rendering the contact page empties the log.\<close>

(* src: common/components/error/errorBoundary/errorBoundary.tsx 78-93: render *)
definition boundary_render ::
  "page_event node list \<Rightarrow> boundary_state \<Rightarrow> local_storage \<Rightarrow> page_event node list \<times> local_storage" where
  "boundary_render children st ls =
     (if eb_showContactPage st then (FinalError, clearErrorLogs ls)
      else if eb_hasError st \<and> \<not> eb_showContactPage st then ([LoadingFallback], ls)
      else (children, ls))"

section \<open>Loads of the page\<close>

record boundary_page =
  bp_boundary :: boundary_state
  bp_local :: local_storage
  bp_reload :: "int option"

text \<open>
  While its children are shown they may throw; the boundary catches that and is rendered again. The
  timeout forgets the saved store and loads the page again. Any other load, by the user or at a later
  visit, leaves the store. The contact page can clear everything the browser keeps, and loads the page
  again too.
\<close>

datatype boundary_event = Thrown int | TimeoutFired | LoadedAgain | StorageCleared

definition loaded :: "local_storage \<Rightarrow> boundary_page" where
  "loaded ls = \<lparr>bp_boundary = boundary_initial, bp_local = ls, bp_reload = None\<rparr>"

definition caught :: "int \<Rightarrow> boundary_page \<Rightarrow> boundary_page" where
  "caught now p =
     (case componentDidCatch now (bp_boundary p) (bp_local p) of
        (st, ls, due) \<Rightarrow>
          \<lparr>bp_boundary = st, bp_local = snd (boundary_render [] st ls),
           bp_reload = (case due of None \<Rightarrow> bp_reload p | Some t \<Rightarrow> Some t)\<rparr>)"

definition boundary_screen :: "page_event node list \<Rightarrow> boundary_page \<Rightarrow> page_event node list" where
  "boundary_screen children p = fst (boundary_render children (bp_boundary p) (bp_local p))"

fun boundary_step :: "boundary_event \<Rightarrow> boundary_page \<Rightarrow> boundary_page option" where
  "boundary_step (Thrown now) p = (if eb_hasError (bp_boundary p) then None else Some (caught now p))"
| "boundary_step TimeoutFired p =
     (if bp_reload p = None then None else Some (loaded ((bp_local p)\<lparr>ls_savedStore := False\<rparr>)))"
| "boundary_step LoadedAgain p = Some (loaded (bp_local p))"
| "boundary_step StorageCleared p =
     (if ClearLocalData \<in> emits (boundary_screen [] p)
      then Some (loaded \<lparr>ls_errorLog = None, ls_savedStore = False\<rparr>) else None)"

fun boundary_run :: "boundary_event list \<Rightarrow> boundary_page \<Rightarrow> boundary_page option" where
  "boundary_run [] p = Some p"
| "boundary_run (e # es) p = (case boundary_step e p of None \<Rightarrow> None | Some p' \<Rightarrow> boundary_run es p')"

fun thrown :: "boundary_event list \<Rightarrow> nat" where
  "thrown [] = 0"
| "thrown (Thrown now # es) = Suc (thrown es)"
| "thrown (e # es) = thrown es"

section \<open>Facts\<close>

text \<open>The log never holds more than one error: it is read before it is written, and the second error
  shows the contact page, which empties it. What it says is whether the errors so far are odd in number.\<close>

definition boundary_inv :: "bool \<Rightarrow> boundary_page \<Rightarrow> bool" where
  "boundary_inv odd_errors p \<longleftrightarrow>
     getErrorCount (bp_local p) = of_bool odd_errors \<and>
     (if eb_hasError (bp_boundary p)
      then eb_showContactPage (bp_boundary p) = (\<not> odd_errors) \<and> (bp_reload p \<noteq> None) = odd_errors
      else \<not> eb_showContactPage (bp_boundary p) \<and> bp_reload p = None)"

lemmas boundary_simps = boundary_inv_def caught_def componentDidCatch_def boundary_render_def getErrorCount_def
  errorLog_def logError_def clearErrorLogs_def last_n_def boundary_screen_def Let_def

lemma caught_inv:
  assumes "boundary_inv b p" and "\<not> eb_hasError (bp_boundary p)"
  shows "boundary_inv (\<not> b) (caught now p)"
    and "eb_hasError (bp_boundary (caught now p))"
    and "bp_reload (caught now p) = (if b then None else Some (now + 2000))"
    and "boundary_screen children (caught now p) = (if b then FinalError else [LoadingFallback])"
  using assms by (auto simp: boundary_simps split: option.splits if_splits)

lemma loaded_inv: "boundary_inv b p \<Longrightarrow> boundary_inv b (loaded (bp_local p))"
  by (simp add: boundary_simps loaded_def boundary_initial_def)

lemma boundary_step_inv:
  assumes "boundary_inv b p" and "boundary_step e p = Some p'"
  shows "boundary_inv (b \<noteq> (\<exists>now. e = Thrown now)) p'"
proof (cases e)
  case (Thrown now)
  with assms show ?thesis by (auto simp: caught_inv(1) split: if_splits)
next
  case TimeoutFired
  with assms show ?thesis by (auto simp: boundary_simps loaded_def boundary_initial_def split: if_splits)
next
  case LoadedAgain
  with assms show ?thesis by (auto simp: loaded_inv)
next
  case StorageCleared
  with assms have "eb_showContactPage (bp_boundary p)"
    by (auto simp: boundary_screen_def boundary_render_def LoadingFallback_def split: if_splits)
  with assms StorageCleared show ?thesis by (auto simp: boundary_simps loaded_def boundary_initial_def split: if_splits)
qed

lemma boundary_run_inv:
  "boundary_inv b p \<Longrightarrow> boundary_run es p = Some p' \<Longrightarrow> boundary_inv (b \<noteq> odd (thrown es)) p'"
proof (induction es arbitrary: b p)
  case (Cons e es)
  then obtain q where q: "boundary_step e p = Some q" "boundary_run es q = Some p'" by (auto split: option.splits)
  from Cons.IH [OF boundary_step_inv [OF Cons.prems(1) q(1)] q(2)] show ?case by (cases e) simp_all
qed simp

section \<open>Property\<close>

text \<open>C28: However often the page is loaded, and however long ago the errors were: the first, third and
  every odd error has the page loaded again after two seconds, the second and every even one shows the
  contact page and starts no load, so that a page that always fails is loaded again only once before
  the user is asked. What was logged is empty afterwards.\<close>

lemma every_second_error_asks:
  assumes "boundary_run es (loaded ls) = Some p" and "getErrorCount ls = 0"
    and "boundary_step (Thrown now) p = Some p'"
  shows "if even (thrown es)
    then bp_reload p' = Some (now + 2000) \<and> boundary_screen children p' = [LoadingFallback]
    else bp_reload p' = None \<and> boundary_screen children p' = FinalError \<and> getErrorCount (bp_local p') = 0"
proof -
  have "boundary_inv False (loaded ls)"
    using assms(2) by (simp add: boundary_inv_def loaded_def boundary_initial_def)
  with boundary_run_inv [of False "loaded ls" es p] assms(1) have inv: "boundary_inv (odd (thrown es)) p" by simp
  from assms(3) have "\<not> eb_hasError (bp_boundary p)" and p': "p' = caught now p" by (auto split: if_splits)
  from caught_inv [OF inv this(1)] show ?thesis by (auto simp: p' boundary_inv_def)
qed

lemma every_second_error_asks_witness:
  "\<exists>p p'. boundary_run [Thrown 0, TimeoutFired, LoadedAgain] (loaded \<lparr>ls_errorLog = None, ls_savedStore = True\<rparr>) = Some p \<and>
     boundary_step (Thrown 10000000000) p = Some p' \<and> boundary_screen [] p' = FinalError \<and> \<not> ls_savedStore (bp_local p')"
proof -
  let ?ls = "\<lparr>ls_errorLog = None, ls_savedStore = True\<rparr>"
  let ?p = "loaded \<lparr>ls_errorLog = Some [0], ls_savedStore = False\<rparr>"
  have run: "boundary_run [Thrown 0, TimeoutFired, LoadedAgain] (loaded ?ls) = Some ?p"
    by (simp add: boundary_simps loaded_def boundary_initial_def)
  moreover have step: "boundary_step (Thrown 10000000000) ?p = Some (caught 10000000000 ?p)"
    by (simp add: loaded_def boundary_initial_def)
  moreover have "\<not> ls_savedStore (bp_local (caught 10000000000 ?p))" by (simp add: boundary_simps loaded_def boundary_initial_def)
  ultimately show ?thesis using every_second_error_asks [OF run _ step, of "[]"] by (auto simp: getErrorCount_def errorLog_def)
qed

end
