(* ===== verification/NetworkRace.thy ===== *)
theory NetworkRace
  imports Page
begin

text \<open>
  The loading flag of the saved networks under two thunks at once: forgetting a network starts a fetch
  of the networks and does not await it, and the end of the one lowers the flag of the other.
\<close>

section \<open>A run\<close>

definition quiet_env :: env where
  "quiet_env = \<lparr>en_now = \<lambda>_. 0, en_ids = \<lambda>_. ''id'', en_online = \<lambda>_. True\<rparr>"

definition accepted :: net_event where
  "accepted = \<lparr>ne_latency = 0, ne_answer = Inr \<lparr>rs_status = 200, rs_body = Inr (JObj [(''success'', JBool True)])\<rparr>\<rparr>"

abbreviation net_seg :: "unit thunk \<Rightarrow> root_state \<Rightarrow> root_state \<times> unit thunk" where
  "net_seg p s \<equiv> seg root_reducer quiet_env p 0 s"

abbreviation net_resumed :: "unit thunk \<Rightarrow> root_state \<Rightarrow> root_state \<times> unit thunk" where
  "net_resumed p s \<equiv> net_seg (the (resume p accepted)) s"

text \<open>The segments of the thunk that forgets: up to the request, its answer, the fetch that it starts, its
  end; and that fetch up to its first request.\<close>

definition forget_sent :: "root_state \<times> unit thunk" where
  "forget_sent = net_seg (forgetNetwork standard_async_thunk ''home'') (root_initial 0)"

definition forget_answered :: "root_state \<times> unit thunk" where
  "forget_answered = net_resumed (snd forget_sent) (fst forget_sent)"

definition forget_refreshes :: "root_state \<times> unit thunk" where
  "forget_refreshes = net_resumed (snd forget_answered) (fst forget_answered)"

definition refresh_sent :: "root_state \<times> unit thunk" where
  "refresh_sent = net_seg (fetchNetworkData standard_async_thunk) (fst forget_refreshes)"

definition forget_ended :: "root_state \<times> unit thunk" where
  "forget_ended = net_resumed (snd forget_refreshes) (fst refresh_sent)"

lemmas forget_run_defs = forget_ended_def refresh_sent_def forget_refreshes_def forget_answered_def forget_sent_def

abbreviation net_reaches :: "(root_state, action, thunk_call, unit) loop_state \<Rightarrow> bool" where
  "net_reaches \<equiv> reachable_from root_reducer (\<lambda>p. p \<in> store_thunks) quiet_action (root_initial 0, {#})"

lemma net_start: "net_reaches (s, ps) \<Longrightarrow> p \<in> store_thunks \<Longrightarrow>
    net_reaches (fst (net_seg p s), add_mset (snd (net_seg p s)) ps)"
  by (rule reachable_from.step, assumption, rule loop_step.start) auto

lemma net_resume: "net_reaches (s, add_mset p ps) \<Longrightarrow> resume p accepted \<noteq> None \<Longrightarrow>
    net_reaches (fst (net_resumed p s), add_mset (snd (net_resumed p s)) ps)"
  by (rule reachable_from.step, assumption, rule loop_step.resume) auto

lemmas forget_run_simps = forget_run_defs forgetNetwork_def forgetNetwork_creator_def fetchNetworkData_def
  fetchNetworkData_creator_def standard_async_thunk_def fetchWithTimeout_def fetch_settles_def quiet_env_def accepted_def
  getP_def js_get_def default_timeout_def prog_simps

lemma forget_sent_waits: "resume (snd forget_sent) accepted \<noteq> None"
  by (simp add: forget_run_simps)

lemma forget_answered_waits: "resume (snd forget_answered) accepted \<noteq> None"
  by (simp add: forget_run_simps jsonP_def)

lemma forget_refreshes_waits: "resume (snd forget_refreshes) accepted \<noteq> None"
  by (simp add: forget_run_simps jsonP_def)

lemma refresh_in_flight: "\<exists>k. snd refresh_sent = Await (get_req getConnectionStatusUrl) k"
  by (simp add: refresh_sent_def fetchNetworkData_def fetchNetworkData_creator_def standard_async_thunk_def fetchWithTimeout_def)

lemma forget_over: "snd forget_ended = Return ()" "\<not> nw_loading (rs_network (fst forget_ended))"
  by (simp_all add: forget_run_simps jsonP_def)

text \<open>So the page may be told that nothing is loading while the networks are being fetched.\<close>

lemma forget_lowers_flag_of_fetch:
  "\<exists>s k. net_reaches (s, {#Await (get_req getConnectionStatusUrl) k, Return ()#}) \<and> \<not> nw_loading (rs_network s)"
proof -
  have "forgetNetwork standard_async_thunk ''home'' \<in> store_thunks" "fetchNetworkData standard_async_thunk \<in> store_thunks"
    by (simp_all add: store_thunks_def read_thunks_def write_thunks_def)
  note started = net_start [OF _ this(1)] net_start [OF _ this(2)]
  have "net_reaches (fst forget_sent, {#snd forget_sent#})"
    using started(1) [OF reachable_from.init] by (simp add: forget_sent_def)
  from net_resume [OF this forget_sent_waits] have "net_reaches (fst forget_answered, {#snd forget_answered#})"
    by (simp add: forget_answered_def)
  from net_resume [OF this forget_answered_waits] have "net_reaches (fst forget_refreshes, {#snd forget_refreshes#})"
    by (simp add: forget_refreshes_def)
  from started(2) [OF this] have "net_reaches (fst refresh_sent, {#snd forget_refreshes, snd refresh_sent#})"
    by (simp add: refresh_sent_def add_mset_commute)
  from net_resume [OF this forget_refreshes_waits] have "net_reaches (fst forget_ended, {#snd forget_ended, snd refresh_sent#})"
    by (simp add: forget_ended_def)
  moreover obtain k where "snd refresh_sent = Await (get_req getConnectionStatusUrl) k" using refresh_in_flight by blast
  ultimately have "net_reaches (fst forget_ended, {#Await (get_req getConnectionStatusUrl) k, Return ()#})"
    by (simp only: forget_over(1) add_mset_commute)
  with forget_over(2) show ?thesis by blast
qed

end
