(* ===== verification/BackButton.thy ===== *)
theory BackButton
  imports ShellView Hooks
begin

text \<open>
  The back button of a phone: the overlays of hooks/navigation/useBackToClose.ts (Hooks) under the
  frame of the pages (ShellView). The menu below desktop (common/components/layout/sidebar/
  sidebar.tsx) and the dialogs of the power menu (common/components/appDialog.tsx, through
  confirmDialog.tsx) are the overlays; the router adds an entry to the history when a link leads to
  another page, and follows the history when the user goes back. A link to the current page replaces
  the current entry, which changes nothing here. The dialogs of the pages are in the theories of
  their pages.
\<close>

section \<open>The overlays of the frame\<close>

datatype overlay = DrawerOverlay | RestartOverlay | ShutdownOverlay

(* src: common/components/layout/sidebar/sidebar.tsx 52-52: when the drawer is an overlay *)
fun overlay_open :: "overlay \<Rightarrow> shell \<Rightarrow> bool" where
  "overlay_open DrawerOverlay s \<longleftrightarrow> \<not> sh_isDesktop s \<and> nv_sidebar_open (sh_navigation s)"
| "overlay_open RestartOverlay s \<longleftrightarrow> dg_restart (sh_dialogs s)"
| "overlay_open ShutdownOverlay s \<longleftrightarrow> dg_shutdown (sh_dialogs s)"

(* src: common/components/appDialog.tsx 6-9: AppDialog *)
fun overlay_onClose :: "overlay \<Rightarrow> shell \<Rightarrow> shell" where
  "overlay_onClose DrawerOverlay = shell_update DrawerClosed"
| "overlay_onClose RestartOverlay = shell_update RestartCancelled"
| "overlay_onClose ShutdownOverlay = shell_update ShutdownCancelled"

section \<open>State\<close>

text \<open>
  The frame, the history with the path of each entry, and the overlays whose effect is in force with
  their markers, the newest first.
\<close>

record phone =
  ph_shell :: shell
  ph_history :: back_state
  ph_paths :: "string list"
  ph_overlays :: "(overlay \<times> string) list"

text \<open>An overlay whose listener was called and let go runs its \<open>onClose\<close>, the oldest first.\<close>

(* src: hooks/navigation/useBackToClose.ts 28-31: what onPopState calls *)
definition popped :: "phone \<Rightarrow> phone" where
  "popped st =
     (let heard = filter (\<lambda>(k, i). i \<notin> set (bk_open (ph_history st))) (ph_overlays st)
      in st\<lparr>ph_shell := fold (\<lambda>(k, i). overlay_onClose k) (rev heard) (ph_shell st),
            ph_overlays := filter (\<lambda>(k, i). i \<in> set (bk_open (ph_history st))) (ph_overlays st)\<rparr>)"

definition push_overlay :: "(overlay \<Rightarrow> string) \<Rightarrow> overlay \<Rightarrow> phone \<Rightarrow> phone" where
  "push_overlay fresh k st =
     st\<lparr>ph_history := open_overlay (fresh k) (ph_history st),
        ph_paths := hd (ph_paths st) # ph_paths st,
        ph_overlays := (k, fresh k) # ph_overlays st\<rparr>"

definition release_overlay :: "overlay \<times> string \<Rightarrow> phone \<Rightarrow> phone" where
  "release_overlay ki st =
     (case ki of (k, i) \<Rightarrow>
        popped (st\<lparr>ph_overlays := filter (\<lambda>kj. kj \<noteq> ki) (ph_overlays st),
                   ph_history := close_overlay i (ph_history st),
                   ph_paths := (if bk_current (ph_history st) = Some i then tl (ph_paths st) else ph_paths st)\<rparr>))"

definition overlay_kinds :: "overlay list" where
  "overlay_kinds = [DrawerOverlay, RestartOverlay, ShutdownOverlay]"

text \<open>After a render the cleanups of the overlays that are no longer open run, then the effects of
  those that are newly open; the effect of one that the back button did not close runs again.\<close>

(* src: hooks/navigation/useBackToClose.ts 18-39: the effect over the renders *)
definition overlay_effects :: "(overlay \<Rightarrow> string) \<Rightarrow> phone \<Rightarrow> phone" where
  "overlay_effects fresh st =
     (let gone = filter (\<lambda>(k, i). \<not> overlay_open k (ph_shell st)) (ph_overlays st);
          st' = fold release_overlay gone st;
          come = filter (\<lambda>k. overlay_open k (ph_shell st') \<and> k \<notin> fst ` set (ph_overlays st')) overlay_kinds
      in fold (push_overlay fresh) come st')"

text \<open>The router's entry for another page comes first, then the render for its path.\<close>

definition phone_press :: "(overlay \<Rightarrow> string) \<Rightarrow> shell_msg \<Rightarrow> phone \<Rightarrow> phone" where
  "phone_press fresh m st =
     (let s = shell_update m (ph_shell st);
          st' = (if sh_path s = sh_path (ph_shell st) then st
                 else st\<lparr>ph_history := (ph_history st)\<lparr>bk_entries := None # bk_entries (ph_history st)\<rparr>,
                         ph_paths := sh_path s # ph_paths st\<rparr>)
      in overlay_effects fresh (st'\<lparr>ph_shell := s\<rparr>))"

definition phone_back :: "(overlay \<Rightarrow> string) \<Rightarrow> phone \<Rightarrow> phone" where
  "phone_back fresh st =
     (let st' = popped (st\<lparr>ph_history := go_back (ph_history st), ph_paths := tl (ph_paths st)\<rparr>);
          path = hd (ph_paths st')
      in overlay_effects fresh
           (if path = sh_path (ph_shell st') then st'
            else st'\<lparr>ph_shell := path_changed path (ph_shell st')\<rparr>))"

text \<open>
  The page is loaded with nothing open on it (Persistence: a phone never loads with its menu open),
  in a tab with any history. A marker is a time and a random number: a new one is in no entry.
\<close>

definition phone_loaded :: "phone \<Rightarrow> bool" where
  "phone_loaded st \<longleftrightarrow> \<not> sh_isDesktop (ph_shell st) \<and> \<not> nv_sidebar_open (sh_navigation (ph_shell st)) \<and>
     at_rest (ph_shell st) \<and> ph_overlays st = [] \<and> bk_open (ph_history st) = [] \<and> ph_paths st \<noteq> [] \<and>
     length (bk_entries (ph_history st)) = length (ph_paths st) \<and> hd (ph_paths st) = sh_path (ph_shell st)"

definition new_markers :: "(overlay \<Rightarrow> string) \<Rightarrow> phone \<Rightarrow> bool" where
  "new_markers fresh st \<longleftrightarrow> (\<forall>k. Some (fresh k) \<notin> set (bk_entries (ph_history st)))"

inductive phone_runs :: "phone \<Rightarrow> bool" where
  loaded: "phone_loaded st \<Longrightarrow> phone_runs st"
| press: "phone_runs st \<Longrightarrow> m \<in> shell_offers (ph_shell st) \<Longrightarrow> new_markers fresh st \<Longrightarrow>
    phone_runs (phone_press fresh m st)"
| went_back: "phone_runs st \<Longrightarrow> 2 \<le> length (ph_paths st) \<Longrightarrow> new_markers fresh st \<Longrightarrow>
    phone_runs (phone_back fresh st)"

section \<open>The invariant\<close>

text \<open>The overlays a frame shows, the newest first: a dialog lies over the menu.\<close>

definition showing :: "shell \<Rightarrow> overlay list" where
  "showing s =
     filter (\<lambda>k. overlay_open k s) [RestartOverlay, ShutdownOverlay, DrawerOverlay]"

text \<open>The overlays in force are those shown, under their markers, and every marker is an entry for
  the page itself.\<close>

definition stacked :: "string \<Rightarrow> phone \<Rightarrow> bool" where
  "stacked path st \<longleftrightarrow> bk_open (ph_history st) = map snd (ph_overlays st) \<and> nested (ph_history st) \<and>
     length (bk_entries (ph_history st)) = length (ph_paths st) \<and>
     (\<exists>rest. ph_paths st = replicate (Suc (length (ph_overlays st))) path @ rest)"

definition phone_ok :: "phone \<Rightarrow> bool" where
  "phone_ok st \<longleftrightarrow> \<not> sh_isDesktop (ph_shell st) \<and>
     \<not> (dg_restart (sh_dialogs (ph_shell st)) \<and> dg_shutdown (sh_dialogs (ph_shell st))) \<and>
     map fst (ph_overlays st) = showing (ph_shell st) \<and> stacked (sh_path (ph_shell st)) st"

lemma showing_short:
  "\<not> (dg_restart (sh_dialogs s) \<and> dg_shutdown (sh_dialogs s)) \<Longrightarrow> length (showing s) \<le> 2"
  by (simp add: showing_def)

lemma phone_ok_overlays:
  assumes "phone_ok st"
  shows "length (ph_overlays st) \<le> 2"
proof -
  have "length (ph_overlays st) = length (showing (ph_shell st))"
    using assms unfolding phone_ok_def by (metis length_map)
  then show ?thesis using assms showing_short unfolding phone_ok_def by simp
qed

lemma overlay_open_showing: "overlay_open k s \<longleftrightarrow> k \<in> set (showing s)"
  by (cases k) (simp_all add: showing_def)

lemma distinct_showing: "distinct (showing s)"
  by (simp add: showing_def)

lemma fst_in: "(a, b) \<in> S \<Longrightarrow> a \<in> fst ` S"
  by force

lemma snd_in: "(a, b) \<in> S \<Longrightarrow> b \<in> snd ` S"
  by force

text \<open>The effects have nothing to do while the overlays in force are those shown.\<close>

lemma effects_idle:
  assumes "map fst (ph_overlays st) = showing (ph_shell st)"
  shows "overlay_effects fresh st = st"
proof -
  have "overlay_open k (ph_shell st) \<longleftrightarrow> k \<in> fst ` set (ph_overlays st)" for k
    using arg_cong [OF assms, of set] overlay_open_showing [of k "ph_shell st"] by simp
  then have "filter (\<lambda>(k, i). \<not> overlay_open k (ph_shell st)) (ph_overlays st) = []"
    and "filter (\<lambda>k. overlay_open k (ph_shell st) \<and> k \<notin> fst ` set (ph_overlays st)) ks = []" for ks
    by (auto simp: filter_empty_conv dest: fst_in)
  then show ?thesis by (simp add: overlay_effects_def Let_def)
qed

lemma effects_push:
  assumes "showing (ph_shell st) = k # map fst (ph_overlays st)"
  shows "overlay_effects fresh st = push_overlay fresh k st"
proof -
  have "overlay_open k' (ph_shell st) \<longleftrightarrow> k' = k \<or> k' \<in> fst ` set (ph_overlays st)" for k'
    using arg_cong [OF assms, of set] overlay_open_showing [of k' "ph_shell st"] by simp
  moreover have "k \<notin> fst ` set (ph_overlays st)"
    using distinct_showing [of "ph_shell st"] assms by simp
  ultimately have "filter (\<lambda>(k, i). \<not> overlay_open k (ph_shell st)) (ph_overlays st) = []"
    and "(\<lambda>k. overlay_open k (ph_shell st) \<and> k \<notin> fst ` set (ph_overlays st)) = (\<lambda>k'. k' = k)"
    by (auto simp: filter_empty_conv dest: fst_in)
  moreover have "filter (\<lambda>k'. k' = k) overlay_kinds = [k]"
    by (cases k) (simp_all add: overlay_kinds_def)
  ultimately show ?thesis by (simp add: overlay_effects_def Let_def)
qed

lemma effects_release:
  assumes "ph_overlays st = (k, i) # below" and "showing (ph_shell st) = map fst below"
    and "distinct (map fst (ph_overlays st))"
    and "ph_overlays (release_overlay (k, i) st) = below" and "ph_shell (release_overlay (k, i) st) = ph_shell st"
  shows "overlay_effects fresh st = release_overlay (k, i) st"
proof -
  have in_force: "overlay_open k' (ph_shell st) \<longleftrightarrow> k' \<in> fst ` set below" for k'
    using overlay_open_showing [of k' "ph_shell st"] assms(2) by simp
  moreover have "k \<notin> fst ` set below" using assms(1,3) by simp
  ultimately have "filter (\<lambda>(k, i). \<not> overlay_open k (ph_shell st)) (ph_overlays st) = [(k, i)]"
    unfolding assms(1) by (auto simp: filter_empty_conv dest: fst_in)
  moreover have "filter (\<lambda>k. overlay_open k (ph_shell st) \<and> k \<notin> fst ` set below) ks = []" for ks
    using in_force by (auto simp: filter_empty_conv)
  ultimately show ?thesis by (simp add: overlay_effects_def Let_def assms(4,5))
qed

lemma popped_idle:
  "set (map snd (ph_overlays st)) \<subseteq> set (bk_open (ph_history st)) \<Longrightarrow> popped st = st"
proof -
  assume sub: "set (map snd (ph_overlays st)) \<subseteq> set (bk_open (ph_history st))"
  then have "filter (\<lambda>(k, i). i \<notin> set (bk_open (ph_history st))) (ph_overlays st) = []"
    and "filter (\<lambda>(k, i). i \<in> set (bk_open (ph_history st))) (ph_overlays st) = ph_overlays st"
    by (auto simp: filter_empty_conv filter_id_conv)
  then show "popped st = st" by (simp add: popped_def Let_def)
qed

lemma stacked_distinct: "stacked path st \<Longrightarrow> distinct (map snd (ph_overlays st))"
  unfolding stacked_def nested_def by metis

text \<open>Closed in another way than by the back button, the top overlay takes its entry along.\<close>

lemma release_top:
  assumes st: "stacked path st" and ov: "ph_overlays st = (k, i) # below" "length below \<le> 1"
  shows "release_overlay (k, i) st =
      st\<lparr>ph_overlays := below, ph_history := close_overlay i (ph_history st), ph_paths := tl (ph_paths st)\<rparr>"
    and "stacked path (release_overlay (k, i) st)"
proof -
  have opened: "bk_open (ph_history st) = i # map snd below" and nest: "nested (ph_history st)"
    using st ov(1) by (simp_all add: stacked_def)
  then have current: "bk_current (ph_history st) = Some i" and
    entries: "bk_entries (close_overlay i (ph_history st)) = tl (bk_entries (ph_history st))"
    by (auto simp: nested_def back_defs Let_def)
  have closed: "bk_open (close_overlay i (ph_history st)) = map snd below" "nested (close_overlay i (ph_history st))"
    using close_overlay_top [OF nest opened] ov(2) by simp_all
  have rest: "filter (\<lambda>kj. kj \<noteq> (k, i)) (ph_overlays st) = below"
    using stacked_distinct [OF st] ov(1) by (force simp: filter_id_conv)
  show released: "release_overlay (k, i) st =
      st\<lparr>ph_overlays := below, ph_history := close_overlay i (ph_history st), ph_paths := tl (ph_paths st)\<rparr>"
    by (simp add: release_overlay_def current rest popped_idle closed)
  show "stacked path (release_overlay (k, i) st)"
    using st ov(1) closed entries unfolding released by (auto simp: stacked_def)
qed

lemma push_stacked:
  assumes "stacked path st" and "new_markers fresh st"
  shows "stacked path (push_overlay fresh k st)"
  using assms nested_open [of "ph_history st" "fresh k"]
  by (auto simp: stacked_def push_overlay_def new_markers_def open_overlay_def)

section \<open>A press\<close>

text \<open>What a press on a control the frame offers does to the overlays shown: one more on top, the top
  one less, or, on a link to another page, nothing left.\<close>

definition one_dialog :: "shell \<Rightarrow> bool" where
  "one_dialog s \<longleftrightarrow> \<not> sh_isDesktop s \<and> \<not> (dg_restart (sh_dialogs s) \<and> dg_shutdown (sh_dialogs s))"

lemmas frame_simps =
  showing_def one_dialog_def closeSidebar_def openSidedbar_def toggleAdvancedMode_def handleSidebarButtonClick_def
  power_menu_closed_def reducer_simps

lemma follow_link_shows:
  assumes "one_dialog s" and "\<not> dg_restart (sh_dialogs s)" "\<not> dg_shutdown (sh_dialogs s)"
  shows "one_dialog (follow_link path s) \<and> showing (follow_link path s) = [] \<and> sh_path (follow_link path s) = path"
  using assms
  by (auto simp: follow_link_def handleItemClick_def path_changed_def route_left_def Let_def frame_simps
      dialogs_initial_def)

lemma path_changed_shows:
  assumes "one_dialog s"
  shows "one_dialog (path_changed path s) \<and> showing (path_changed path s) = [] \<and> sh_path (path_changed path s) = path"
  using assms by (auto simp: path_changed_def route_left_def Let_def frame_simps dialogs_initial_def)

lemma press_without_dialog:
  assumes "one_dialog s" and "\<not> dg_restart (sh_dialogs s)" "\<not> dg_shutdown (sh_dialogs s)"
  shows "one_dialog (shell_update m s) \<and>
    (sh_path (shell_update m s) = sh_path s \<and> (showing (shell_update m s) = showing s \<or>
        (\<exists>k. showing (shell_update m s) = k # showing s \<or> showing s = k # showing (shell_update m s))) \<or>
     showing (shell_update m s) = [])"
proof (cases m)
  case (LinkFollowed path)
  with follow_link_shows [OF assms] show ?thesis by simp
qed (use assms in \<open>auto simp: frame_simps\<close>)

lemma press_in_dialog:
  assumes "one_dialog s" and "dg_restart (sh_dialogs s) \<or> dg_shutdown (sh_dialogs s)" and "m \<in> shell_offers s"
  shows "one_dialog (shell_update m s) \<and> sh_path (shell_update m s) = sh_path s \<and>
    (\<exists>k. showing s = k # showing (shell_update m s))"
proof -
  have "m \<in> {RestartConfirmed, RestartCancelled} \<and> dg_restart (sh_dialogs s) \<or>
      m \<in> {ShutdownConfirmed, ShutdownCancelled} \<and> dg_shutdown (sh_dialogs s)"
    using assms by (auto simp: shell_offers_def one_dialog_def PowerDialogs_restart PowerDialogs_shutdown split: if_splits)
  with assms(1) show ?thesis by (auto simp: frame_simps)
qed

text \<open>The effects after a render that changes the overlays shown by at most the top one.\<close>

lemma effects_keep_ok:
  assumes ok: "phone_ok st" and s: "one_dialog s" "sh_path s = sh_path (ph_shell st)"
    and shown: "showing s = showing (ph_shell st) \<or>
      (\<exists>k. showing s = k # showing (ph_shell st) \<or> showing (ph_shell st) = k # showing s)"
    and new: "new_markers fresh st"
  shows "phone_ok (overlay_effects fresh (st\<lparr>ph_shell := s\<rparr>)) \<and>
    ph_shell (overlay_effects fresh (st\<lparr>ph_shell := s\<rparr>)) = s"
proof -
  let ?st = "st\<lparr>ph_shell := s\<rparr>"
  have stack: "stacked (sh_path s) ?st" and kinds: "map fst (ph_overlays st) = showing (ph_shell st)"
    using ok s(2) by (simp_all add: phone_ok_def stacked_def)
  from shown show ?thesis
  proof (elim disjE exE)
    assume "showing s = showing (ph_shell st)"
    with kinds effects_idle [of ?st] stack s show ?thesis by (simp add: phone_ok_def one_dialog_def)
  next
    fix k
    assume "showing s = k # showing (ph_shell st)"
    with kinds have up: "showing s = k # map fst (ph_overlays st)" by simp
    with effects_push [of ?st k] have "overlay_effects fresh ?st = push_overlay fresh k ?st" by simp
    moreover have "stacked (sh_path s) (push_overlay fresh k ?st)"
      using push_stacked [OF stack] new by (simp add: new_markers_def)
    ultimately show ?thesis using up s by (simp add: phone_ok_def one_dialog_def push_overlay_def)
  next
    fix k
    assume down: "showing (ph_shell st) = k # showing s"
    with kinds obtain i below where ov: "ph_overlays st = (k, i) # below" "map fst below = showing s"
      by (cases "ph_overlays st") auto
    have short: "length below \<le> 1" using phone_ok_overlays [OF ok] ov(1) by simp
    note released = release_top [OF stack, of k i below]
    have "overlay_effects fresh ?st = release_overlay (k, i) ?st"
      by (rule effects_release)
        (use released(1) ov kinds short distinct_showing [of "ph_shell st"] in simp_all)
    with released ov short s show ?thesis by (simp add: phone_ok_def one_dialog_def)
  qed
qed

text \<open>A link to another page: the new entry is above the drawer's, so the cleanup leaves that one.\<close>

lemma effects_other_page:
  assumes ok: "phone_ok st" and dialogs: "\<not> dg_restart (sh_dialogs (ph_shell st))" "\<not> dg_shutdown (sh_dialogs (ph_shell st))"
    and s: "one_dialog s" "showing s = []"
  defines "h \<equiv> ph_history st"
  shows "overlay_effects fresh
      (st\<lparr>ph_history := h\<lparr>bk_entries := None # bk_entries h\<rparr>, ph_paths := sh_path s # ph_paths st, ph_shell := s\<rparr>) =
    st\<lparr>ph_history := h\<lparr>bk_entries := None # bk_entries h, bk_open := []\<rparr>, ph_paths := sh_path s # ph_paths st,
      ph_shell := s, ph_overlays := []\<rparr>"
proof -
  let ?st = "st\<lparr>ph_history := h\<lparr>bk_entries := None # bk_entries h\<rparr>, ph_paths := sh_path s # ph_paths st, ph_shell := s\<rparr>"
  have kinds: "map fst (ph_overlays st) = showing (ph_shell st)" and opened: "bk_open h = map snd (ph_overlays st)"
    using ok by (simp_all add: phone_ok_def stacked_def h_def)
  show ?thesis
  proof (cases "ph_overlays st")
    case Nil
    with effects_idle [of ?st] s opened show ?thesis by simp
  next
    case (Cons ki below)
    with kinds dialogs obtain i where ov: "ph_overlays st = [(DrawerOverlay, i)]"
      by (cases ki) (auto simp: showing_def split: if_splits)
    then have gone: "release_overlay (DrawerOverlay, i) ?st =
        ?st\<lparr>ph_overlays := [], ph_history := h\<lparr>bk_entries := None # bk_entries h, bk_open := []\<rparr>\<rparr>"
      using opened by (simp add: release_overlay_def back_defs popped_def Let_def)
    have "overlay_effects fresh ?st = release_overlay (DrawerOverlay, i) ?st"
      by (rule effects_release [of _ _ _ "[]"]) (use ov s gone in simp_all)
    then show ?thesis using gone by simp
  qed
qed

lemma press_keeps_ok:
  assumes ok: "phone_ok st" and m: "m \<in> shell_offers (ph_shell st)" and new: "new_markers fresh st"
  shows "phone_ok (phone_press fresh m st) \<and> ph_shell (phone_press fresh m st) = shell_update m (ph_shell st)"
proof -
  let ?s = "ph_shell st" and ?s' = "shell_update m (ph_shell st)"
  have one: "one_dialog ?s" using ok by (simp add: phone_ok_def one_dialog_def)
  show ?thesis
  proof (cases "sh_path ?s' = sh_path ?s \<and> (showing ?s' = showing ?s \<or>
      (\<exists>k. showing ?s' = k # showing ?s \<or> showing ?s = k # showing ?s'))")
    case True
    have "one_dialog ?s'"
      using press_in_dialog [OF one _ m] press_without_dialog [OF one, of m] by blast
    with effects_keep_ok [OF ok _ _ _ new, of ?s'] True show ?thesis by (simp add: phone_press_def Let_def)
  next
    case False
    then have calm: "\<not> dg_restart (sh_dialogs ?s)" "\<not> dg_shutdown (sh_dialogs ?s)"
      using press_in_dialog [OF one _ m] by blast+
    with False press_without_dialog [OF one, of m] have s': "one_dialog ?s'" "showing ?s' = []" by blast+
    show ?thesis
    proof (cases "sh_path ?s' = sh_path ?s")
      case True
      have "length (showing ?s) \<le> 1" using calm by (simp add: showing_def)
      with False True s'(2) show ?thesis by (cases "showing ?s") auto
    next
      case other: False
      have "length (bk_entries (ph_history st)) = length (ph_paths st)"
        using ok by (simp add: phone_ok_def stacked_def)
      with s' effects_other_page [OF ok calm s', of fresh] other show ?thesis
        by (simp add: phone_press_def Let_def phone_ok_def one_dialog_def stacked_def nested_def)
    qed
  qed
qed

section \<open>The back button\<close>

text \<open>With an overlay on the page, the back button closes the top one and nothing else.\<close>

lemma back_closes_overlay:
  assumes ok: "phone_ok st" and ov: "ph_overlays st = (k, i) # below"
  shows "phone_ok (phone_back fresh st) \<and> ph_overlays (phone_back fresh st) = below \<and>
    ph_shell (phone_back fresh st) = overlay_onClose k (ph_shell st) \<and>
    ph_paths (phone_back fresh st) = tl (ph_paths st)"
proof -
  let ?s = "overlay_onClose k (ph_shell st)"
  have stack: "stacked (sh_path (ph_shell st)) st" and kinds: "map fst (ph_overlays st) = showing (ph_shell st)"
    and one: "one_dialog (ph_shell st)"
    using ok by (simp_all add: phone_ok_def one_dialog_def)
  have short: "length below \<le> 1" using phone_ok_overlays [OF ok] ov by simp
  have opened: "bk_open (ph_history st) = i # map snd below" and nest: "nested (ph_history st)"
    using stack ov by (simp_all add: stacked_def)
  have gone: "bk_open (go_back (ph_history st)) = map snd below" "nested (go_back (ph_history st))"
    using opened nest short go_back_one [OF nest] go_back_two [OF nest] by (cases below; auto)+
  have entries: "bk_entries (go_back (ph_history st)) = tl (bk_entries (ph_history st))"
    by (simp add: back_defs)
  have apart: "i \<notin> snd ` set below" using stacked_distinct [OF stack] ov by simp
  have s: "one_dialog ?s" "sh_path ?s = sh_path (ph_shell st)" "showing ?s = map fst below"
    using one kinds ov by (cases k; auto simp: frame_simps split: if_splits)+
  let ?st = "st\<lparr>ph_history := go_back (ph_history st), ph_paths := tl (ph_paths st), ph_shell := ?s, ph_overlays := below\<rparr>"
  have heard: "filter (\<lambda>(k, i). i \<notin> snd ` set below) (ph_overlays st) = [(k, i)]"
    "filter (\<lambda>(k, i). i \<in> snd ` set below) (ph_overlays st) = below"
    using ov apart by (auto simp: filter_empty_conv filter_id_conv dest: snd_in)
  then have pop: "popped (st\<lparr>ph_history := go_back (ph_history st), ph_paths := tl (ph_paths st)\<rparr>) = ?st"
    by (simp add: popped_def Let_def gone)
  obtain rest where paths: "ph_paths st = replicate (Suc (length (ph_overlays st))) (sh_path (ph_shell st)) @ rest"
    using stack by (auto simp: stacked_def)
  have "phone_back fresh st = ?st"
  proof -
    have "hd (tl (ph_paths st)) = sh_path ?s" using paths ov s(2) by simp
    then show ?thesis using s(3) effects_idle [of ?st] unfolding phone_back_def pop Let_def by simp
  qed
  moreover have "stacked (sh_path ?s) ?st"
    using stack gone entries s(2) paths ov by (simp add: stacked_def)
  ultimately show ?thesis using s by (simp add: phone_ok_def one_dialog_def)
qed

lemma back_leaves_page:
  assumes ok: "phone_ok st" and ov: "ph_overlays st = []" and more: "ph_paths st = p # q # rest"
  shows "phone_ok (phone_back fresh st) \<and> ph_overlays (phone_back fresh st) = [] \<and>
    sh_path (ph_shell (phone_back fresh st)) = q \<and> ph_paths (phone_back fresh st) = q # rest \<and>
    bk_entries (ph_history (phone_back fresh st)) = tl (bk_entries (ph_history st))"
proof -
  let ?s = "if q = sh_path (ph_shell st) then ph_shell st else path_changed q (ph_shell st)"
  let ?st = "st\<lparr>ph_history := go_back (ph_history st), ph_paths := q # rest, ph_shell := ?s\<rparr>"
  have kinds: "showing (ph_shell st) = []" and one: "one_dialog (ph_shell st)"
    and opened: "bk_open (ph_history st) = []"
    and len: "length (bk_entries (ph_history st)) = length (ph_paths st)"
    using ok ov by (simp_all add: phone_ok_def one_dialog_def stacked_def)
  have s: "one_dialog ?s" "showing ?s = []" "sh_path ?s = q"
    using path_changed_shows [OF one] kinds one by auto
  have history: "bk_open (go_back (ph_history st)) = []"
    "bk_entries (go_back (ph_history st)) = tl (bk_entries (ph_history st))"
    using opened by (simp_all add: back_defs)
  have "popped (st\<lparr>ph_history := go_back (ph_history st), ph_paths := tl (ph_paths st)\<rparr>) =
      st\<lparr>ph_history := go_back (ph_history st), ph_paths := q # rest\<rparr>"
    using more ov by (simp add: popped_def Let_def)
  then have "phone_back fresh st = overlay_effects fresh ?st"
    by (auto simp: phone_back_def Let_def)
  also have "\<dots> = ?st" using s ov by (intro effects_idle) simp
  finally have one_back: "phone_back fresh st = ?st" .
  have "nested (go_back (ph_history st))"
    using history len more by (cases "bk_entries (ph_history st)"; cases "tl (bk_entries (ph_history st))")
      (auto simp: nested_def)
  then have "stacked q ?st" using history len more ov by (simp add: stacked_def)
  with one_back s ov history show ?thesis by (simp add: phone_ok_def one_dialog_def)
qed

lemma phone_loaded_ok: "phone_loaded st \<Longrightarrow> phone_ok st"
proof -
  assume st: "phone_loaded st"
  then obtain p rest where "ph_paths st = p # rest" by (auto simp: phone_loaded_def neq_Nil_conv)
  moreover from st this obtain e es where "bk_entries (ph_history st) = e # es"
    by (cases "bk_entries (ph_history st)") (auto simp: phone_loaded_def)
  ultimately show "phone_ok st" using st
    by (auto simp: phone_loaded_def phone_ok_def stacked_def showing_def at_rest_def nested_def)
qed

lemma phone_runs_ok: "phone_runs st \<Longrightarrow> phone_ok st"
proof (induction rule: phone_runs.induct)
  case (loaded st)
  then show ?case by (rule phone_loaded_ok)
next
  case (press st m fresh)
  with press_keeps_ok show ?case by blast
next
  case (went_back st fresh)
  show ?case
  proof (cases "ph_overlays st")
    case Nil
    from went_back.hyps(2) obtain p q rest where "ph_paths st = p # q # rest"
      by (cases "ph_paths st"; cases "tl (ph_paths st)") auto
    with back_leaves_page [OF went_back.IH Nil] show ?thesis by blast
  next
    case (Cons ki below)
    with back_closes_overlay [OF went_back.IH] show ?thesis by (cases ki) blast
  qed
qed

text \<open>
  An overlay that refuses to close gets a new marker, so that the next step back finds it again. The
  form of the password refuses while its change is sent: the user stays on the page and in the dialog.
\<close>

lemma refusing_form_keeps_page:
  assumes "nested h" and "bk_open h = [i]" and "Some j \<notin> set (bk_entries h)" and "pw_submitting p"
  shows "password_update PasswordClosed p = p \<and>
    bk_closed (go_back h) = bk_closed h @ [i] \<and> bk_open (open_overlay j (go_back h)) = [j] \<and>
    nested (open_overlay j (go_back h)) \<and> tl (bk_entries (open_overlay j (go_back h))) = tl (bk_entries h)"
proof -
  have "Some j \<notin> set (bk_entries (go_back h))"
    using assms(3) by (cases "bk_entries h") (auto simp: back_defs)
  with go_back_one [OF assms(1,2)] nested_open [of "go_back h" j] assms(4) show ?thesis
    by (simp add: open_overlay_def password_handleClose_def) (simp add: back_defs)
qed

section \<open>Properties\<close>


text \<open>The tab that showed the page of the network before the start page.\<close>

definition phone_at_start :: phone where
  "phone_at_start =
     \<lparr>ph_shell = shell_on_phone, ph_history = \<lparr>bk_entries = [None, None], bk_open = [], bk_closed = []\<rparr>,
      ph_paths = [getHomeUrl, getNetworkUrl], ph_overlays = []\<rparr>"

definition marked :: "string \<Rightarrow> overlay \<Rightarrow> string" where
  "marked p k =
     p @ (case k of DrawerOverlay \<Rightarrow> ''drawer'' | RestartOverlay \<Rightarrow> ''restart'' | ShutdownOverlay \<Rightarrow> ''shutdown'')"

lemma phone_at_start_loaded: "phone_loaded phone_at_start"
  by (simp add: phone_loaded_def phone_at_start_def shell_on_phone_def at_rest_def navigation_initial_def
      dialogs_initial_def)

text \<open>The menu opened there.\<close>

definition phone_menu_open :: phone where
  "phone_menu_open = phone_press (marked ''1-'') SidebarToggled phone_at_start"

lemma phone_menu_open_runs: "phone_runs phone_menu_open"
proof -
  have "SidebarToggled \<in> shell_offers (ph_shell phone_at_start)"
    by (simp add: shell_offers_def phone_at_start_def shell_on_phone_def dialogs_initial_def top_bar_def Let_def)
  moreover have "new_markers (marked ''1-'') phone_at_start"
    by (simp add: new_markers_def phone_at_start_def)
  ultimately show ?thesis
    unfolding phone_menu_open_def by (intro phone_runs.press phone_runs.loaded phone_at_start_loaded)
qed

lemma phone_menu_open_overlays:
  "ph_overlays phone_menu_open = [(DrawerOverlay, ''1-drawer'')]"
  by (simp add: phone_menu_open_def phone_press_def phone_at_start_def shell_on_phone_def navigation_initial_def
      dialogs_initial_def handleSidebarButtonClick_def openSidedbar_def overlay_effects_def overlay_kinds_def
      push_overlay_def marked_def Let_def)




end
