(* ===== verification/PageEffects.thy ===== *)
theory PageEffects
  imports LayoutView ErrorBoundary ImageLoader Hooks
begin

text \<open>
  What the pages and their frame do beside rendering and answering messages: the reload for a chunk
  that an update has replaced (common/components/error/routeError/routeError.tsx, common/utils/
  staleChunkReload.ts), the colour theme in force (context/colorTheme/colorThemeContext.tsx), the
  skeleton of the images (main/slideshowImages/slideshowImages.tsx), the shape of the preview
  (slideshowImagePreviewDialog.tsx), the hints of the password form (main/general/dialogs/
  changePasswordDialog.tsx), the effects of two pages when they are mounted, the observer of a
  picture (common/components/authenticatedImage.tsx), and the German text of a date
  (common/components/dateUtils.tsx).
\<close>

section \<open>Chunks that an update has replaced\<close>

text \<open>
  The item is that of \<open>reloadForStaleChunk\<close>, with the two readings of its clock. An event of Vite says
  that a chunk could not be preloaded: the result is whether the page is loaded again, and then the
  error is not thrown (\<open>preventDefault\<close>).
\<close>

(* src: common/utils/staleChunkReload.ts 18-22: initStaleChunkReload *)
definition on_preloadError :: "int \<Rightarrow> int \<Rightarrow> string option \<Rightarrow> bool \<times> string option" where
  "on_preloadError now now' item =
     (case reloadForStaleChunk now now' item of (reloaded, item') \<Rightarrow> if reloaded then (True, item') else (False, item'))"

text \<open>Whether the page is loaded again, whether the error is written to the console, and the item
  afterwards; \<open>production\<close> is the setting of the build.\<close>

(* src: common/components/error/routeError/routeError.tsx 10-16: the effect of RouteError *)
definition route_error_effect ::
  "string \<Rightarrow> thrown \<Rightarrow> int \<Rightarrow> int \<Rightarrow> string option \<Rightarrow> bool \<times> bool \<times> string option" where
  "route_error_effect production error now now' item =
     (if isStaleChunkError error
      then (case reloadForStaleChunk now now' item of (reloaded, item') \<Rightarrow> (reloaded, False, item'))
      else (False, production = ''False'', item))"

text \<open>
  The two share their item: when the event has loaded the page again and the chunk is missing still,
  the error page neither loads it a third time nor leaves the user without a way out.
\<close>

lemma one_reload_for_both:
  assumes "on_preloadError t t item = (True, item')" and "0 \<le> t" and "t \<le> t'" and "t' < t + RETRY_AFTER_MS"
  shows "fst (route_error_effect production error t' t' item') = False \<and>
    snd (snd (route_error_effect production error t' t' item')) = item' \<and>
    {ReloadThePage, page_event.GoTo getHomeUrl} \<subseteq> emits (RouteError (isStaleChunkError error))"
proof -
  have "item' = Some (int_str t)"
    using assms(1) by (auto simp: on_preloadError_def reloadForStaleChunk_def Let_def split: if_splits prod.splits)
  with assms show ?thesis
    by (auto simp: route_error_effect_def reloadForStaleChunk_def js_number_of_time RouteError_def Let_def
        simp del: js_to_number.simps)
qed

section \<open>The theme in force\<close>

text \<open>The two themes are arguments; of the page's head there is the \<open>theme-color\<close> element, if it has one.\<close>

(* src: context/colorTheme/colorThemeContext.tsx 34-34: theme *)
definition theme_of :: "'t \<Rightarrow> 't \<Rightarrow> string \<Rightarrow> 't" where
  "theme_of dark light colorMode = (if colorMode = ''dark'' then dark else light)"

(* src: context/colorTheme/colorThemeContext.tsx 36-39: the effect of the theme *)
definition theme_color_effect :: "('t \<Rightarrow> string) \<Rightarrow> 't \<Rightarrow> string option \<Rightarrow> string option" where
  "theme_color_effect background theme themeColor = map_option (\<lambda>_. background theme) themeColor"

(* src: context/colorTheme/colorThemeContext.tsx 41-46: iconComponent *)
definition theme_icon :: "string \<Rightarrow> string" where
  "theme_icon colorMode = (if colorMode = ''dark'' then ''DarkModeIcon'' else ''LightModeIcon'')"

text \<open>
  Whatever text is stored as the mode, a toggle changes the theme unless the text is one the interface
  never stores, and from then on every toggle changes it.
\<close>

lemma toggle_changes_theme:
  assumes "dark \<noteq> light"
  shows "theme_of dark light (toggleColorMode mode) \<noteq> theme_of dark light mode \<longleftrightarrow> mode = ''light'' \<or> mode = ''dark''"
    and "theme_of dark light (toggleColorMode (toggleColorMode mode)) \<noteq> theme_of dark light (toggleColorMode mode)"
  using assms by (auto simp: theme_of_def toggleColorMode_def)

section \<open>The skeleton of the images\<close>

(* src: main/slideshowImages/slideshowImages.tsx 26-26: the flag of showSkeleton *)
definition images_loading :: "slideshow_images_state \<Rightarrow> bool" where
  "images_loading st \<longleftrightarrow> si_isLoading st \<and> si_lastFetchedAt st = None"

text \<open>Once the images are there no later fetch, refusal or change of the order brings the skeleton back.\<close>

lemma no_skeleton_after_fetch:
  assumes "si_lastFetchedAt st \<noteq> None"
  shows "\<not> images_loading (foldl (\<lambda>st (t, a). slideshowImagesReducer t st a) st acts)"
proof -
  have "si_lastFetchedAt (slideshowImagesReducer t st a) \<noteq> None" if "si_lastFetchedAt st \<noteq> None" for t st a
    using that by (cases a) simp_all
  then have "si_lastFetchedAt (foldl (\<lambda>st (t, a). slideshowImagesReducer t st a) st acts) \<noteq> None"
    using assms by (induction acts arbitrary: st) auto
  then show ?thesis by (simp add: images_loading_def)
qed

section \<open>The shape of the preview\<close>

(* src: main/slideshowImages/slideshowImagePreviewDialog.tsx 30-30: FALLBACK_RATIO *)
definition FALLBACK_RATIO :: rat where
  "FALLBACK_RATIO = 800 / 480"

(* src: main/slideshowImages/slideshowImagePreviewDialog.tsx 55-55: ratio *)
definition preview_ratio :: "slideshow_image option \<Rightarrow> rat" where
  "preview_ratio img =
     (case img of
        None \<Rightarrow> FALLBACK_RATIO
      | Some i \<Rightarrow>
          if truthy (im_width i) \<and> truthy (im_height i) then number_in (im_width i) / number_in (im_height i)
          else FALLBACK_RATIO)"

text \<open>Sizes that are numbers, zero included, give the preview a shape.\<close>

lemma preview_ratio_positive:
  assumes "\<And>i. img = Some i \<Longrightarrow> im_width i = JNum w \<and> im_height i = JNum h" and "0 \<le> w" and "0 \<le> h"
  shows "0 < preview_ratio img"
proof (cases img)
  case (Some i)
  with assms show ?thesis by (auto simp: preview_ratio_def FALLBACK_RATIO_def)
qed (simp add: preview_ratio_def FALLBACK_RATIO_def)

section \<open>The hints of the password form\<close>

(* src: main/general/dialogs/changePasswordDialog.tsx 25-25: newPasswordTooShort *)
definition newPasswordTooShort :: "nat list \<Rightarrow> bool" where
  "newPasswordTooShort newPassword \<longleftrightarrow> 0 < length newPassword \<and> length newPassword < MIN_PASSWORD_LENGTH"

(* src: main/general/dialogs/changePasswordDialog.tsx 26-26: newPasswordTooLong *)
definition newPasswordTooLong :: "nat list \<Rightarrow> bool" where
  "newPasswordTooLong newPassword \<longleftrightarrow> MAX_PASSWORD_LENGTH < length newPassword"

(* src: main/general/dialogs/changePasswordDialog.tsx 27-27: passwordsMismatch *)
definition passwordsMismatch :: "nat list \<Rightarrow> nat list \<Rightarrow> bool" where
  "passwordsMismatch newPassword confirmPassword \<longleftrightarrow> 0 < length confirmPassword \<and> newPassword \<noteq> confirmPassword"

text \<open>The form can be sent exactly when every field is filled, no hint is shown and the board is there.\<close>

lemma hints_explain_submit:
  "canSubmit currentPassword newPassword confirmPassword isConnected \<longleftrightarrow>
     currentPassword \<noteq> [] \<and> newPassword \<noteq> [] \<and> confirmPassword \<noteq> [] \<and> isConnected \<and>
     \<not> newPasswordTooShort newPassword \<and> \<not> newPasswordTooLong newPassword \<and>
     \<not> passwordsMismatch newPassword confirmPassword"
  by (auto simp: canSubmit_def newPasswordTooShort_def newPasswordTooLong_def passwordsMismatch_def
      MIN_PASSWORD_LENGTH_def MAX_PASSWORD_LENGTH_def)

section \<open>Pages when they are mounted\<close>

(* src: main/customization/customization.tsx 14-16: the effect of Customization *)
definition customization_effect :: "jsval cat \<Rightarrow> unit thunk" where
  "customization_effect cat = fetchDisplayCustomization cat"

(* src: main/updateHistory/updateHistory.tsx 72-74: the effect of UpdateHistory *)
definition update_history_effect :: "jsval cat \<Rightarrow> unit thunk" where
  "update_history_effect cat = fetchUpdateHistory cat"

section \<open>The observer of a picture\<close>

text \<open>The entries that the browser hands to the observer while the component is mounted; without an
  element nothing is observed.\<close>

(* src: common/components/authenticatedImage.tsx 31-54: the observer of AuthenticatedImage *)
definition observe :: "bool \<Rightarrow> bool list \<Rightarrow> image_loader \<Rightarrow> image_loader" where
  "observe element entries st = (if element then fold intersects entries st else st)"

text \<open>However often a picture enters and leaves the viewport, it is loaded once.\<close>

lemma observed_loads_once:
  assumes "il_runs st = []" and "\<not> il_isVisible st"
  shows "length (il_runs (observe element entries st)) = (if element \<and> True \<in> set entries then 1 else 0)"
proof -
  have seen: "fold intersects es s = s" if "il_isVisible s" for es s
    using that by (induction es) (simp_all add: intersects_def)
  have "length (il_runs (fold intersects entries st)) = (if True \<in> set entries then 1 else 0)"
  proof (induction entries)
    case (Cons e es)
    show ?case
    proof (cases e)
      case True
      let ?st = "intersects True st"
      have "il_isVisible ?st" "length (il_runs ?st) = 1"
        using assms by (simp_all add: intersects_def load_start_def)
      with seen [of ?st es] True show ?thesis by simp
    qed (use Cons in \<open>simp add: intersects_def\<close>)
  qed (simp add: assms)
  then show ?thesis using assms by (auto simp: observe_def)
qed

section \<open>Dates\<close>

text \<open>\<open>toLocaleString\<close> is the browser's, with its locale and its options.\<close>

(* src: common/components/dateUtils.tsx 1-11: formatGermanDateTime *)
definition formatGermanDateTime :: "(string \<Rightarrow> (string \<times> string) list \<Rightarrow> rat \<Rightarrow> string) \<Rightarrow> rat \<Rightarrow> string" where
  "formatGermanDateTime toLocaleString date =
     toLocaleString ''de-DE''
       [(''year'', ''numeric''), (''month'', ''2-digit''), (''day'', ''2-digit''),
        (''hour'', ''2-digit''), (''minute'', ''2-digit''), (''second'', ''2-digit'')] date"

end
