(* ===== verification/Spec2Isabelle.thy ===== *)
theory Spec2Isabelle
  imports Page TypedThunks Hooks Shell OperationRefinement PowerProofs FrameView SlideshowView LogsView SignInView ImageLoader Application Persistence Countdown TimerLock LayoutView ErrorBoundary NetworkRace BackButton PageEffects
begin

text \<open>
  The dashboard of the Shareframe picture frame (dashboard-frontend/frontend/src of the
  repository): its store, its thunks, its hooks, and its pages with what they show and offer.

  \<^bold>\<open>The program.\<close> The dashboard is a single page that the board itself serves. Its data are in
  a Redux store (store/): eighteen slices, each a state with a reducer, and some forty thunks,
  async functions that send requests to the board, read the state and dispatch actions. Thunks
  of all slices meet in three of them: the alerts and loading notices of the snackbars, the timers,
  and the flags of slideshowOperation that keep two operations of the frame from running at a time.
  React components (main/, common/components) show the state, keep state of their own (forms, open
  menus, drafts) and dispatch actions and thunks; hooks and effects run when they are mounted, when
  what they depend on changes, and in intervals.

  \<^bold>\<open>How the store is modelled.\<close>
  \<^item> Prelude: shared lemmas on lists and maps. JsValue: the values the code computes on (undefined,
    null, objects with own properties, truthiness, strict equality, property reads that throw on
    null and undefined), errors as values.
  \<^item> Prog: a thunk is a \<open>prog\<close>, a tree of its effects in the order of the code (dispatch, read the
    state, await a request, sleep, start another thunk, call the browser) with \<open>return\<close> and \<open>throw\<close>
    as leaves; \<open>tryP\<close>, \<open>finallyP\<close>, \<open>bindP\<close> are the code's try/catch, finally and await. \<open>run\<close> runs
    one thunk against a \<open>world\<close> (the network's answers and latencies, uuids, the time that passes).
  \<^item> EventLoop: any number of thunks. A step runs one segment of one of them, up to its next await,
    or starts a new one, or dispatches an action of a page; \<open>reachable_from\<close> is every interleaving. A
    thunk that another one dispatches without awaiting it is started by a step of its own; a segment
    ends there too, so that the order of the browser (the started one first) is among the runs.
  \<^item> One theory for the state and reducer of each slice or group of slices (Snackbars, Timers,
    Interface, Auth, Connection, BoardData, Slideshow), composed in RootStore as rootReducer.tsx
    composes them; TsTypes says when a value has a declared TypeScript type.
  \<^item> One theory for the thunks of each: AuthThunks, NetworkThunks, BoardDataThunks,
    SlideshowThunks, OperationThunks, PowerThunks, TimerThunks, over Api (fetch with a timeout,
    error texts), Effects (alerts, notices) and Endpoints (URLs); Formats has query strings and
    dates; Utils has the pure helpers of common/utils, Formatting those of the pages.

  \<^bold>\<open>How the pages are modelled.\<close>
  \<^item> Hooks: hooks/, as machines over renders, timeouts and history entries. Shell: the effects of
    App.tsx and of the contexts, the routes and their guard, the menu's entries. FramePage, Pages:
    what the pages decide (enabled buttons, what a form sends, phases of an update).
  \<^item> View: what a component renders is a list of \<open>node\<close>s, its texts and controls in the order of the
    JSX; \<open>emits\<close> is everything the user can do with them, the handlers of controls that are not
    disabled. The shared components of common/components are functions on nodes.
  \<^item> FrameView, SlideshowView, NetworkView, SystemView (updates), GeneralView (general, display
    health, customization), LogsView (logs, services), SignInView (sign-in, sign-out, wall),
    ShellView (top bar, side menu, power menu, notices): each component as a view and a machine over
    its messages. LayoutView: the layout around every page, with the banner of the connection and the
    notices. ErrorBoundary: the boundary around the application, with its log, over the loads of the
    page. ImageLoader: the effect that loads a picture, under every order of its answers. BackButton: the
    menu and the dialogs of the frame on a phone, the history of the browser and its back button.
    PageEffects: reloads for replaced chunks, the theme in force, the skeleton and the small effects of
    the pages.

  Every definition that translates code has a comment with its file (below
  dashboard-frontend/frontend/src), lines and symbol.

  \<^bold>\<open>What the lemmas show.\<close>
  \<^item> Tracking: \<open>tracked\<close>, a check on the tree of a program that follows what it holds (a notice, a
    flag) on every path, including the throwing ones; the locale \<open>resource\<close> turns it into statements on
    runs and, in EventLoop, on all interleavings. Interpretations: loading notices (\<open>notice_resource\<close>)
    and the eight flags (\<open>flag_resource\<close>) in Effects.
  \<^item> EventLoop's locale \<open>flag_lock\<close>: programs that test a set of flags and set one in the same segment
    exclude each other; OperationLoop interprets it on the operations of the frame and adds what
    goes wrong: a reload, and the monitor of a toggle that outlives it. OperationRefinement: the flags
    refine an abstract mutex.
  \<^item> OperationProofs' locale \<open>guarded_operation\<close>: what each of the five operations does alone.
  \<^item> RootStore's locale \<open>combined_slice\<close>: a law of one slice is a law of the store; the store's invariant.
  \<^item> TypedLoop: \<open>typed\<close>, a check of a program tree against what its requests may be answered; the locale
    \<open>typed_store\<close> makes it a law of every interleaving. TypedStore has the types of the board's answers
    and of the store and interprets it on the root reducer; TypedThunks checks every thunk: the store
    stays typed. Footprint: what all thunks share. Session: a board that confirms no session.
  \<^item> Application: App.tsx with its timers over the event loop; no protected page without a session, and
    none before the first check. Persistence: the invariants over any number of page loads, and what a
    load leaves behind. Countdown: the timers of the pages agree with an ideal clock. TimerLock: the
    two timers that disable the buttons of the frame page let go of them. ErrorBoundary: a page that
    always fails is not loaded again and again. NetworkRace: the end of one thunk lowers the loading flag
    of another. BackButton: over any run on a phone the back button closes the top overlay and nothing
    else, from Hooks' machine and ShellView's; and the entry that a link in the menu leaves behind.
  \<^item> Page's locale \<open>loading_flag\<close>: the lifecycle of a fetch ends with the flag off; what is left on
    screen when all thunks are done.
  \<^item> PowerThunks, PowerProofs: the poll of the board's health reports what it saw, and ends.
  \<^item> View's locale \<open>form_dialog\<close>, the contract of a form in a dialog (it cannot be closed while it is
    being sent, and what was typed is gone once it is closed), interpreted on the two forms of the
    network page and on that of the password; the view theories: what the user can do in every
    reachable state of a page, by rule induction.

  \<^bold>\<open>Bounds.\<close> Two loops of the code depend on the outside and take fuel; running out is a value of
  its own, never a result. The monitor of a toggle sleeps two seconds a round and gives up after ten
  minutes by the clock: \<open>monitor_rounds\<close>, 301, is enough (\<open>toggle_terminates\<close>). A poll of the health
  ends within \<open>poll_rounds\<close> of its options (\<open>poll_terminates\<close>): 61 rounds for a restart, 41 for the
  others (\<open>power_actions_end\<close>).

  \<^bold>\<open>Parameters.\<close> \<open>createAsyncThunk\<close> of Redux Toolkit is an argument of the thunks that use it; the
  hypothesis \<open>rtk_lifecycle\<close> states its documented behaviour and \<open>standard_async_thunk\<close> satisfies it.
  redux-persist's reconciliation is an argument of the statements on page loads (\<open>merges_level2\<close>,
  \<open>restores_operation\<close>). What the board answers is restricted only where a statement says so
  (\<open>api_answer\<close>, \<open>refuses\<close>). The browser's locale
  (dates, numbers, collation), its time zone and the drag-and-drop library's \<open>arrayMove\<close> are
  arguments of what uses them.

  \<^bold>\<open>Not modelled.\<close> Styling, layout, icons, animations and the contents of the themes; of the JSX only
  the nodes above; imports and the interfaces of props; the build (vite.config.ts);
  redux-persist's storage and the store's middleware; lazy loading of the pages; the board's
  firmware (C++), which is the world the requests go to.
\<close>

end
